(* ===== verification/Prelude.thy ===== *)
theory Prelude
  imports Main "HOL-Library.Sublist"
begin

text \<open>
  What every component shares: the outcomes of a Go call, the texts the code builds with
  \<^verbatim>\<open>fmt\<close>, Go maps, and a memory of structs reached through pointers, with the
  interface \<open>memory\<close> that states what a load sees after an allocation or a store.

  \<^item> A Go call that returns \<^verbatim>\<open>(value, error)\<close> and uses only one of the two has an
    outcome \<open>Ok v\<close> or \<open>Err e\<close>; a run-time panic and a call that never
    returns are outcomes of their own.
  \<^item> A text is a list of fragments. \<open>Lit s\<close> is the bytes of \<open>s\<close>;
    \<open>Quoted s\<close> is what the \<^verbatim>\<open>%q\<close> verb (and \<^verbatim>\<open>strconv.Quote\<close>) makes of
    \<open>s\<close>, kept with its argument. An \<^verbatim>\<open>error\<close> is the text its \<^verbatim>\<open>Error()\<close> returns.
  \<^item> A Go map is \<open>None\<close> (the nil map) or its entries.
\<close>

named_theorems gomap_simps \<open>lookup, length and emptiness of Go maps\<close>

section \<open>Outcomes and texts\<close>

datatype frag = Lit string | Quoted string

type_synonym bytes = string
type_synonym gotext = "frag list"

datatype 'a outcome = Ok 'a | Err gotext | Panic | Diverge

fun and_then :: "'a outcome \<Rightarrow> ('a \<Rightarrow> 'b outcome) \<Rightarrow> 'b outcome" where
  "and_then (Ok a) f = f a"
| "and_then (Err e) f = Err e"
| "and_then Panic f = Panic"
| "and_then Diverge f = Diverge"

fun render :: "(string \<Rightarrow> string) \<Rightarrow> gotext \<Rightarrow> string" where
  "render quote [] = []"
| "render quote (Lit s # fs) = s @ render quote fs"
| "render quote (Quoted s # fs) = quote s @ render quote fs"

section \<open>Go maps\<close>

type_synonym ('k, 'v) gomap = "('k \<times> 'v) list option"

definition gomap_entries :: "('k, 'v) gomap \<Rightarrow> ('k \<times> 'v) list" where
  "gomap_entries m = (case m of None \<Rightarrow> [] | Some es \<Rightarrow> es)"

text \<open>\<^verbatim>\<open>v, ok := m[k]\<close>, the one-value form \<^verbatim>\<open>m[k]\<close> of a string map, and \<^verbatim>\<open>len(m)\<close>.\<close>

definition gomap_get :: "('k, 'v) gomap \<Rightarrow> 'k \<Rightarrow> 'v option" where
  "gomap_get m k = map_of (gomap_entries m) k"

definition gomap_index :: "('k, string) gomap \<Rightarrow> 'k \<Rightarrow> string" where
  "gomap_index m k = (case gomap_get m k of None \<Rightarrow> '''' | Some v \<Rightarrow> v)"

definition gomap_len :: "('k, 'v) gomap \<Rightarrow> nat" where
  "gomap_len m = length (gomap_entries m)"

text \<open>A key occurs once.\<close>

definition gomap_ok :: "('k, 'v) gomap \<Rightarrow> bool" where
  "gomap_ok m = distinct (map fst (gomap_entries m))"

section \<open>Memory\<close>

type_synonym ptr = nat
type_synonym 'a mem = "'a list"

definition mem_load :: "'a mem \<Rightarrow> ptr \<Rightarrow> 'a option" where
  "mem_load m p = (if p < length m then Some (m ! p) else None)"

definition mem_store :: "'a mem \<Rightarrow> ptr \<Rightarrow> 'a \<Rightarrow> 'a mem" where
  "mem_store m p v = m[p := v]"

definition mem_new :: "'a mem \<Rightarrow> 'a \<Rightarrow> ptr \<times> 'a mem" where
  "mem_new m v = (length m, m @ [v])"

text \<open>\<open>m'\<close> holds everything \<open>m\<close> held, unchanged.\<close>

definition mem_extends :: "'a mem \<Rightarrow> 'a mem \<Rightarrow> bool" where
  "mem_extends m m' = (\<forall>r v. mem_load m r = Some v \<longrightarrow> mem_load m' r = Some v)"

section \<open>Lemmas\<close>

lemma and_then_Ok_iff: "and_then x f = Ok b \<longleftrightarrow> (\<exists>a. x = Ok a \<and> f a = Ok b)"
  by (cases x) auto

lemma and_then_Err_iff: "and_then x f = Err e \<longleftrightarrow> x = Err e \<or> (\<exists>a. x = Ok a \<and> f a = Err e)"
  by (cases x) auto

lemma and_then_Diverge_iff:
  "and_then x f = Diverge \<longleftrightarrow> x = Diverge \<or> (\<exists>a. x = Ok a \<and> f a = Diverge)"
  by (cases x) auto

lemma render_append: "render quote (t @ u) = render quote t @ render quote u"
  by (induction quote t rule: render.induct) auto

lemma gomap_get_None [gomap_simps]: "gomap_get None k = None"
  by (simp add: gomap_get_def gomap_entries_def)

lemma gomap_get_Some [gomap_simps]: "gomap_get (Some es) k = map_of es k"
  by (simp add: gomap_get_def gomap_entries_def)

lemma gomap_index_eq_empty [gomap_simps]:
  "gomap_index m k = '''' \<longleftrightarrow> gomap_get m k = None \<or> gomap_get m k = Some ''''"
  by (auto simp: gomap_index_def split: option.splits)

lemma gomap_len_0_get: "gomap_len m = 0 \<Longrightarrow> gomap_get m k = None"
  by (simp add: gomap_len_def gomap_get_def)

lemma gomap_get_len: "gomap_get m k = Some v \<Longrightarrow> 0 < gomap_len m"
  using gomap_len_0_get [of m k] by auto

lemma mem_extends_refl [simp]: "mem_extends m m"
  by (simp add: mem_extends_def)

lemma mem_extends_trans [trans]:
  "mem_extends m m' \<Longrightarrow> mem_extends m' m'' \<Longrightarrow> mem_extends m m''"
  by (simp add: mem_extends_def)

lemma mem_extendsD: "mem_extends m m' \<Longrightarrow> mem_load m r = Some v \<Longrightarrow> mem_load m' r = Some v"
  by (simp add: mem_extends_def)

section \<open>The interface of memory\<close>

locale memory =
  fixes load :: "'m \<Rightarrow> 'p \<Rightarrow> 'v option"
    and store :: "'m \<Rightarrow> 'p \<Rightarrow> 'v \<Rightarrow> 'm"
    and new :: "'m \<Rightarrow> 'v \<Rightarrow> 'p \<times> 'm"
  assumes new_fresh: "load m (fst (new m v)) = None"
    and load_new: "load (snd (new m v)) q = (if q = fst (new m v) then Some v else load m q)"
    and load_store: "load m p = Some u \<Longrightarrow>
      load (store m p v) q = (if q = p then Some v else load m q)"
begin

lemma new_keeps: "load m r = Some w \<Longrightarrow> load (snd (new m v)) r = Some w"
  using new_fresh [of m v] by (auto simp: load_new)

text \<open>
  Copy a struct and write through the copy: the copy holds what was written and every
  struct that was there before is as it was.
\<close>

lemma update_copy:
  assumes "new m v = (q, m1)"
  shows "load (store m1 q w) q = Some w"
    and "load m r = Some u \<Longrightarrow> load (store m1 q w) r = Some u"
proof -
  have q: "load m1 q = Some v" using load_new [of m v q] assms by simp
  show "load (store m1 q w) q = Some w" using load_store [OF q] by simp
  assume r: "load m r = Some u"
  with new_fresh [of m v] assms have "r \<noteq> q" by auto
  with r assms show "load (store m1 q w) r = Some u"
    using load_store [OF q] load_new [of m v r] by simp
qed

end

interpretation gomem: memory mem_load mem_store mem_new
  by unfold_locales (auto simp: mem_load_def mem_store_def mem_new_def nth_append split: if_splits)

lemmas mem_simps = gomem.load_new gomem.load_store

lemma mem_update_copy_extends: "mem_new m v = (q, m1) \<Longrightarrow> mem_extends m (mem_store m1 q w)"
  by (simp add: mem_extends_def gomem.update_copy)

lemma mem_new_extends: "mem_new m v = (q, m1) \<Longrightarrow> mem_extends m m1"
  using gomem.new_keeps [of m _ _ v] by (auto simp: mem_extends_def)

end
