(* ===== verification/Go_Strings.thy ===== *)
theory Go_Strings
  imports Prelude "HOL-Library.Word"
begin

text \<open>
  The string functions of Go's standard library that the code calls:
  \<^verbatim>\<open>strings.Contains\<close>, \<^verbatim>\<open>strconv.Atoi\<close> (an \<^verbatim>\<open>int\<close> has 64 bits) and
  \<^verbatim>\<open>fmt.Sprint\<close> of an \<^verbatim>\<open>int\<close>, with the facts the components use: \<open>str_contains\<close>
  is the sublist relation, the texts \<open>atoi\<close> accepts are an optional sign and decimal digits
  in the range of an \<^verbatim>\<open>int64\<close>, and \<open>atoi\<close> reads back what \<open>itoa\<close> prints.
\<close>

section \<open>Definitions\<close>

fun str_contains :: "string \<Rightarrow> string \<Rightarrow> bool" where
  "str_contains [] sub = (sub = [])"
| "str_contains (c # cs) sub = (prefix sub (c # cs) \<or> str_contains cs sub)"

type_synonym int64 = "64 word"

definition is_digit :: "char \<Rightarrow> bool" where
  "is_digit c = (48 \<le> (of_char c :: nat) \<and> (of_char c :: nat) \<le> 57)"

definition digit_val :: "char \<Rightarrow> nat" where
  "digit_val c = of_char c - 48"

datatype num_error = ErrSyntax | ErrRange

text \<open>
  \<^verbatim>\<open>ParseUint(s, 10, 64)\<close> from the value read so far: characters are read until one is not
  a digit (\<open>ErrSyntax\<close>) or the value no longer fits (\<open>ErrRange\<close>), whichever comes first.
\<close>

fun parse_uint :: "nat \<Rightarrow> string \<Rightarrow> num_error + nat" where
  "parse_uint n [] = Inr n"
| "parse_uint n (c # cs) =
     (if \<not> is_digit c then Inl ErrSyntax
      else if 2 ^ 64 \<le> 10 * n + digit_val c then Inl ErrRange
      else parse_uint (10 * n + digit_val c) cs)"

text \<open>\<^verbatim>\<open>strconv.Atoi\<close>: an optional sign, at least one digit, and the range of an \<^verbatim>\<open>int64\<close>.\<close>

definition atoi_sign :: "string \<Rightarrow> bool \<times> string" where
  "atoi_sign s = (case s of [] \<Rightarrow> (False, [])
     | c # cs \<Rightarrow> if c = CHR ''-'' then (True, cs) else if c = CHR ''+'' then (False, cs)
                else (False, s))"

definition atoi :: "string \<Rightarrow> num_error + int64" where
  "atoi s = (case atoi_sign s of (neg, ds) \<Rightarrow>
     if ds = [] then Inl ErrSyntax
     else (case parse_uint 0 ds of
         Inl e \<Rightarrow> Inl e
       | Inr un \<Rightarrow>
           if \<not> neg \<and> 2 ^ 63 \<le> un then Inl ErrRange
           else if neg \<and> 2 ^ 63 < un then Inl ErrRange
           else Inr (if neg then - of_nat un else of_nat un)))"

text \<open>The text of the \<^verbatim>\<open>*NumError\<close> that \<^verbatim>\<open>Atoi\<close> returns for \<open>s\<close>.\<close>

definition num_error_text :: "string \<Rightarrow> num_error \<Rightarrow> gotext" where
  "num_error_text s e =
     [Lit ''strconv.Atoi: parsing '', Quoted s, Lit '': '',
      Lit (case e of ErrSyntax \<Rightarrow> ''invalid syntax'' | ErrRange \<Rightarrow> ''value out of range'')]"

text \<open>\<^verbatim>\<open>fmt.Sprint\<close> of an integer.\<close>

fun nat_digits :: "nat \<Rightarrow> string" where
  "nat_digits n = (if n < 10 then [char_of (48 + n)] else nat_digits (n div 10) @ [char_of (48 + n mod 10)])"

declare nat_digits.simps [simp del]

definition itoa :: "int64 \<Rightarrow> string" where
  "itoa i = (if sint i < 0 then CHR ''-'' # nat_digits (nat (- sint i)) else nat_digits (nat (sint i)))"

section \<open>Containment\<close>

lemma str_contains_sublist: "str_contains s sub \<longleftrightarrow> sublist sub s"
proof (induction s)
  case Nil
  then show ?case by auto
next
  case (Cons c cs)
  then show ?case by (auto simp: sublist_Cons_right)
qed

lemma str_contains_iff: "str_contains s sub \<longleftrightarrow> (\<exists>pre post. s = pre @ sub @ post)"
  by (simp add: str_contains_sublist sublist_def)

section \<open>Decimal numbers\<close>

fun digits_value :: "nat \<Rightarrow> string \<Rightarrow> nat" where
  "digits_value n [] = n"
| "digits_value n (c # cs) = digits_value (10 * n + digit_val c) cs"

lemma digits_value_ge: "n \<le> digits_value n cs"
proof (induction cs arbitrary: n)
  case (Cons c cs)
  have "n \<le> 10 * n + digit_val c" by simp
  also have "\<dots> \<le> digits_value (10 * n + digit_val c) cs" by (rule Cons.IH)
  finally show ?case by simp
qed simp

lemma digits_value_append:
  "digits_value n (cs @ [c]) = 10 * digits_value n cs + digit_val c"
  by (induction cs arbitrary: n) auto

lemma parse_uint_Inr_iff:
  "n < 2 ^ 64 \<Longrightarrow> parse_uint n cs = Inr un \<longleftrightarrow>
     list_all is_digit cs \<and> digits_value n cs = un \<and> un < 2 ^ 64"
proof (induction cs arbitrary: n)
  case Nil
  then show ?case by auto
next
  case (Cons c cs)
  show ?case
  proof (cases "10 * n + digit_val c < 2 ^ 64")
    case True
    then show ?thesis using Cons.IH [OF True] by simp
  next
    case False
    moreover have "10 * n + digit_val c \<le> digits_value (10 * n + digit_val c) cs"
      by (rule digits_value_ge)
    ultimately show ?thesis by auto
  qed
qed

lemma is_digit_char_of: "(d::nat) < 10 \<Longrightarrow> is_digit (char_of (48 + d))"
  by (simp add: is_digit_def)

lemma digit_val_char_of: "(d::nat) < 10 \<Longrightarrow> digit_val (char_of (48 + d)) = d"
  by (simp add: digit_val_def)

lemma nat_digits_nonempty: "nat_digits n \<noteq> []"
  by (subst nat_digits.simps) simp

lemma nat_digits_digits: "list_all is_digit (nat_digits n)"
proof (induction n rule: nat_digits.induct)
  case (1 n)
  then show ?case
    by (subst nat_digits.simps) (auto simp: is_digit_char_of)
qed

lemma nat_digits_value: "digits_value 0 (nat_digits n) = n"
proof (induction n rule: nat_digits.induct)
  case (1 n)
  show ?case
  proof (cases "n < 10")
    case True
    then show ?thesis by (subst nat_digits.simps) (simp add: digit_val_char_of)
  next
    case False
    with 1 have "digits_value 0 (nat_digits (n div 10)) = n div 10" by simp
    with False show ?thesis
      by (subst nat_digits.simps) (simp add: digits_value_append digit_val_char_of)
  qed
qed

lemma nat_digits_hd: "\<exists>c cs. nat_digits n = c # cs \<and> c \<noteq> CHR ''-'' \<and> c \<noteq> CHR ''+''"
proof (cases "nat_digits n")
  case Nil
  then show ?thesis by (simp add: nat_digits_nonempty)
next
  case (Cons c cs)
  with nat_digits_digits [of n] have "is_digit c" by simp
  then show ?thesis using Cons by (auto simp: is_digit_def)
qed

lemma atoi_nat_digits: "n < 2 ^ 63 \<Longrightarrow> atoi (nat_digits n) = Inr (of_nat n)"
proof -
  assume n: "n < 2 ^ 63"
  obtain c cs where c: "nat_digits n = c # cs" "c \<noteq> CHR ''-''" "c \<noteq> CHR ''+''"
    using nat_digits_hd by blast
  then have sign: "atoi_sign (nat_digits n) = (False, nat_digits n)"
    by (simp add: atoi_sign_def)
  have "parse_uint 0 (nat_digits n) = Inr n"
    using n by (simp add: parse_uint_Inr_iff nat_digits_digits nat_digits_value)
  with sign n show ?thesis by (simp add: atoi_def nat_digits_nonempty)
qed

lemma atoi_neg_nat_digits: "n \<le> 2 ^ 63 \<Longrightarrow> atoi (CHR ''-'' # nat_digits n) = Inr (- of_nat n)"
proof -
  assume n: "n \<le> 2 ^ 63"
  have sign: "atoi_sign (CHR ''-'' # nat_digits n) = (True, nat_digits n)"
    by (simp add: atoi_sign_def)
  have "parse_uint 0 (nat_digits n) = Inr n"
    using n by (simp add: parse_uint_Inr_iff nat_digits_digits nat_digits_value)
  with sign n show ?thesis by (simp add: atoi_def nat_digits_nonempty)
qed

lemma sint64_bounds: "- (2 ^ 63) \<le> sint (i :: int64)" "sint (i :: int64) < 2 ^ 63"
  using sint_ge [of i] sint_lt [of i] by simp_all

lemma atoi_itoa: "atoi (itoa i) = Inr i"
proof (cases "sint i < 0")
  case True
  have "nat (- sint i) \<le> 2 ^ 63" using sint64_bounds(1) [of i] by simp
  moreover have "(- of_nat (nat (- sint i)) :: int64) = i" using True by simp
  ultimately show ?thesis using True by (simp add: itoa_def atoi_neg_nat_digits)
next
  case False
  have "nat (sint i) < 2 ^ 63" using sint64_bounds(2) [of i] by (simp add: nat_less_iff)
  moreover have "(of_nat (nat (sint i)) :: int64) = i" using False by simp
  ultimately show ?thesis using False by (simp add: itoa_def atoi_nat_digits)
qed

lemma itoa_inj: "itoa i = itoa j \<longleftrightarrow> i = j"
  by (metis Inr_inject atoi_itoa)

end
