(* ===== verification/Kube_Types.thy ===== *)
theory Kube_Types
  imports Go_Strings
begin

text \<open>
  The Kubernetes API objects the programs handle. Each record has the fields the code reads
  or writes, under the names of the Go structs; everything else an object carries is one
  value of the type parameter \<open>'x\<close>, with \<open>None\<close> for the zero value that a composite
  literal leaves in the fields it does not name. Strings that the API declares as enumerations
  (\<^verbatim>\<open>TolerationOperator\<close>, \<^verbatim>\<open>TaintEffect\<close>) are strings, as they are in Go. Slices whose nil and
  empty values the code cannot tell apart are lists.
\<close>

record 'x object_meta =
  meta_Name :: string
  meta_GenerateName :: string
  meta_Namespace :: string
  meta_Labels :: "(string, string) gomap"
  meta_rest :: "'x option"

record 'x env_var =
  env_Name :: string
  env_Value :: string
  env_ValueFrom :: "'x option"

record container_port =
  port_Name :: string
  port_ContainerPort :: "32 word"

record 'x container =
  con_Name :: string
  con_Image :: string
  con_Ports :: "container_port list"
  con_Env :: "'x env_var list"
  con_rest :: "'x option"

record toleration =
  tol_Key :: string
  tol_Operator :: string
  tol_Value :: string
  tol_Effect :: string
  tol_TolerationSeconds :: "int64 option"

record 'x pod_spec =
  spec_InitContainers :: "'x container list"
  spec_Containers :: "'x container list"
  spec_Tolerations :: "toleration list"
  spec_rest :: "'x option"

record 'x pod =
  pod_Meta :: "'x object_meta"
  pod_Spec :: "'x pod_spec"
  pod_rest :: "'x option"

definition TolerationOpExists :: string where "TolerationOpExists = ''Exists''"
definition TolerationOpEqual :: string where "TolerationOpEqual = ''Equal''"
definition TaintEffectNoSchedule :: string where "TaintEffectNoSchedule = ''NoSchedule''"

text \<open>The pod's name and labels, which Go reads as promoted fields.\<close>

abbreviation pod_Name :: "'x pod \<Rightarrow> string" where
  "pod_Name pod \<equiv> meta_Name (pod_Meta pod)"

abbreviation pod_Labels :: "'x pod \<Rightarrow> (string, string) gomap" where
  "pod_Labels pod \<equiv> meta_Labels (pod_Meta pod)"

abbreviation with_Tolerations :: "'x pod \<Rightarrow> toleration list \<Rightarrow> 'x pod" where
  "with_Tolerations pod ts \<equiv> pod\<lparr>pod_Spec := (pod_Spec pod)\<lparr>spec_Tolerations := ts\<rparr>\<rparr>"

text \<open>Small objects that the witnesses of the components use.\<close>

definition sample_meta :: "string \<Rightarrow> (string \<times> string) list \<Rightarrow> nat object_meta" where
  "sample_meta name labels = \<lparr>meta_Name = name, meta_GenerateName = '''', meta_Namespace = ''apps'',
     meta_Labels = Some labels, meta_rest = None\<rparr>"

definition sample_container :: "string \<Rightarrow> nat env_var list \<Rightarrow> nat container" where
  "sample_container name env = \<lparr>con_Name = name, con_Image = ''busybox'', con_Ports = [],
     con_Env = env, con_rest = Some 1\<rparr>"

definition sample_pod :: "string \<Rightarrow> (string \<times> string) list \<Rightarrow> nat pod" where
  "sample_pod name labels = \<lparr>pod_Meta = sample_meta name labels,
     pod_Spec = \<lparr>spec_InitContainers = [], spec_Containers = [sample_container ''main'' []],
       spec_Tolerations = [], spec_rest = None\<rparr>,
     pod_rest = None\<rparr>"

lemmas sample_defs = sample_meta_def sample_container_def sample_pod_def

end
