(* ===== verification/Validation.thy ===== *)
theory Validation
  imports Kube_Types
begin

text \<open>
  \<^verbatim>\<open>kubewebhook/pkg/validation\<close>: the validators of a pod and \<^verbatim>\<open>ValidatePod\<close>, which runs them in
  order and stops at the first that rejects. The Go interface \<^verbatim>\<open>podValidator\<close> is the locale
  \<open>pod_validator_family\<close>; the loop's facts are proved in it once and reach the two
  validators of the package by interpretation. What is logged is in \<open>Webhook_Log\<close>.
\<close>

section \<open>Definitions\<close>

record validation =
  Valid :: bool
  Reason :: gotext

definition nameValidator_Validate :: "'x pod \<Rightarrow> validation \<times> gotext option" where
  "nameValidator_Validate pod =
     (let badString = ''offensive'' in
      if str_contains (pod_Name pod) badString
      then (\<lparr>Valid = False, Reason = [Lit ''pod name contains '', Quoted badString]\<rparr>, None)
      else (\<lparr>Valid = True, Reason = [Lit ''valid name'']\<rparr>, None))"

definition labelsValidator_Validate :: "'x pod \<Rightarrow> validation \<times> gotext option" where
  "labelsValidator_Validate pod =
     (let validateLabel = ''managedby''; validateLabelValue = ''steve'' in
      case gomap_get (pod_Labels pod) validateLabel of
        None \<Rightarrow> (\<lparr>Valid = False, Reason = [Lit ''pod labels does not contain managedby label'']\<rparr>, None)
      | Some val \<Rightarrow>
          if val \<noteq> validateLabelValue
          then (\<lparr>Valid = False,
                 Reason = [Lit ''pod managedby label's value is not equal to steve'']\<rparr>, None)
          else (\<lparr>Valid = True, Reason = [Lit ''valid lables'']\<rparr>, None))"

datatype pod_validator = nameValidator | labelsValidator

fun validator_Validate :: "pod_validator \<Rightarrow> 'x pod \<Rightarrow> validation \<times> gotext option" where
  "validator_Validate nameValidator pod = nameValidator_Validate pod"
| "validator_Validate labelsValidator pod = labelsValidator_Validate pod"

text \<open>The loop of \<^verbatim>\<open>ValidatePod\<close> over validators called through the interface.\<close>

fun run_validations ::
  "('v \<Rightarrow> 'x pod \<Rightarrow> validation \<times> gotext option) \<Rightarrow> 'v list \<Rightarrow> 'x pod \<Rightarrow> validation \<times> gotext option"
where
  "run_validations validate [] pod = (\<lparr>Valid = True, Reason = [Lit ''valid pod'']\<rparr>, None)"
| "run_validations validate (v # vs) pod =
     (case validate v pod of (vp, err) \<Rightarrow>
       (case err of
          Some e \<Rightarrow> (\<lparr>Valid = False, Reason = e\<rparr>, Some e)
        | None \<Rightarrow>
            if \<not> Valid vp then (\<lparr>Valid = False, Reason = Reason vp\<rparr>, None)
            else run_validations validate vs pod))"

definition ValidatePod :: "'x pod \<Rightarrow> validation \<times> gotext option" where
  "ValidatePod pod =
     (if gomap_len (pod_Labels pod) = 0
      then (\<lparr>Valid = False, Reason = [Lit ''invalid pod, no labels'']\<rparr>, None)
      else run_validations validator_Validate [nameValidator, labelsValidator] pod)"


section \<open>What a family of validators promises\<close>

text \<open>
  A validator never returns an error and gives its verdict by \<open>accepts\<close>. Then the loop
  never errors, accepts the pods every validator accepts, and otherwise gives the reason of the
  first validator that rejects.
\<close>

locale pod_validator_family =
  fixes validate :: "'v \<Rightarrow> 'x pod \<Rightarrow> validation \<times> gotext option"
    and accepts :: "'v \<Rightarrow> 'x pod \<Rightarrow> bool"
  assumes no_error: "snd (validate v pod) = None"
    and verdict: "Valid (fst (validate v pod)) \<longleftrightarrow> accepts v pod"
begin

lemma step_accept: "accepts v pod \<Longrightarrow>
    run_validations validate (v # vs) pod = run_validations validate vs pod"
  using no_error [of v pod] verdict [of v pod] by (simp add: split_def)

lemma step_reject: "\<not> accepts v pod \<Longrightarrow>
    run_validations validate (v # vs) pod = (\<lparr>Valid = False, Reason = Reason (fst (validate v pod))\<rparr>, None)"
  using no_error [of v pod] verdict [of v pod] by (simp add: split_def)

lemma run_no_error: "snd (run_validations validate vs pod) = None"
proof (induction vs)
  case (Cons v vs)
  then show ?case by (cases "accepts v pod") (simp_all add: step_accept step_reject del: run_validations.simps(2))
qed simp

lemma run_verdict: "Valid (fst (run_validations validate vs pod)) \<longleftrightarrow> (\<forall>v \<in> set vs. accepts v pod)"
proof (induction vs)
  case (Cons v vs)
  then show ?case
    by (cases "accepts v pod") (auto simp: step_accept step_reject simp del: run_validations.simps(2))
qed simp

lemma run_first_reject:
  assumes "\<forall>v \<in> set us. accepts v pod" and "\<not> accepts w pod"
  shows "run_validations validate (us @ w # vs) pod =
    (\<lparr>Valid = False, Reason = Reason (fst (validate w pod))\<rparr>, None)"
  using assms
proof (induction us)
  case Nil
  then show ?case by (simp add: step_reject del: run_validations.simps(2))
next
  case (Cons u us)
  then have "accepts u pod" and "\<forall>v \<in> set us. accepts v pod" by simp_all
  then show ?case using Cons by (simp add: step_accept del: run_validations.simps(2))
qed

end

section \<open>The validators of the package\<close>

fun validator_accepts :: "pod_validator \<Rightarrow> 'x pod \<Rightarrow> bool" where
  "validator_accepts nameValidator pod = (\<not> str_contains (pod_Name pod) ''offensive'')"
| "validator_accepts labelsValidator pod = (gomap_get (pod_Labels pod) ''managedby'' = Some ''steve'')"

lemmas validator_defs = nameValidator_Validate_def labelsValidator_Validate_def

interpretation validators: pod_validator_family validator_Validate validator_accepts
proof unfold_locales
  fix v :: pod_validator and pod :: "'x pod"
  show "snd (validator_Validate v pod) = None"
    by (cases v) (simp_all add: validator_defs Let_def split: option.split)
  show "Valid (fst (validator_Validate v pod)) \<longleftrightarrow> validator_accepts v pod"
    by (cases v) (simp_all add: validator_defs Let_def split: option.split)
qed

text \<open>The pods the webhook promises to let in.\<close>

definition pod_admissible :: "'x pod \<Rightarrow> bool" where
  "pod_admissible pod \<longleftrightarrow>
     \<not> sublist ''offensive'' (pod_Name pod) \<and> gomap_get (pod_Labels pod) ''managedby'' = Some ''steve''"

lemma ValidatePod_labels:
  "gomap_len (pod_Labels pod) \<noteq> 0 \<Longrightarrow>
     ValidatePod pod = run_validations validator_Validate [nameValidator, labelsValidator] pod"
  by (simp add: ValidatePod_def)

lemma ValidatePod_err: "snd (ValidatePod pod) = None"
  by (simp add: ValidatePod_def validators.run_no_error del: run_validations.simps)

lemma ValidatePod_admissible: "Valid (fst (ValidatePod pod)) \<longleftrightarrow> pod_admissible pod"
proof (cases "gomap_len (pod_Labels pod) = 0")
  case True
  then show ?thesis by (simp add: ValidatePod_def pod_admissible_def gomap_len_0_get)
next
  case False
  then show ?thesis
    by (simp add: ValidatePod_labels validators.run_verdict pod_admissible_def str_contains_sublist
        del: run_validations.simps)
qed

text \<open>
  Which condition failed, in the order the code tests them; the reason names it.
\<close>

definition verdict_reason :: "'x pod \<Rightarrow> gotext" where
  "verdict_reason pod =
     (if gomap_len (pod_Labels pod) = 0 then [Lit ''invalid pod, no labels'']
      else if sublist ''offensive'' (pod_Name pod)
      then [Lit ''pod name contains '', Quoted ''offensive'']
      else (case gomap_get (pod_Labels pod) ''managedby'' of
          None \<Rightarrow> [Lit ''pod labels does not contain managedby label'']
        | Some val \<Rightarrow>
            if val = ''steve'' then [Lit ''valid pod'']
            else [Lit ''pod managedby label's value is not equal to steve'']))"

lemma ValidatePod_reason: "Reason (fst (ValidatePod pod)) = verdict_reason pod"
  by (auto simp: ValidatePod_def verdict_reason_def validator_defs str_contains_sublist Let_def
      split: option.split)

section \<open>Properties\<close>

text \<open>
  C9: \<^verbatim>\<open>ValidatePod\<close> never returns an error, and finds a pod valid exactly if its name does not
  contain \<^verbatim>\<open>offensive\<close> anywhere and its label \<^verbatim>\<open>managedby\<close> is set to \<^verbatim>\<open>steve\<close>.
\<close>

theorem ValidatePod_correct:
  "snd (ValidatePod pod) = None \<and>
   (Valid (fst (ValidatePod pod)) \<longleftrightarrow>
      (\<nexists>pre post. meta_Name (pod_Meta pod) = pre @ ''offensive'' @ post) \<and>
      gomap_get (meta_Labels (pod_Meta pod)) ''managedby'' = Some ''steve'')"
  by (simp add: ValidatePod_err ValidatePod_admissible pod_admissible_def sublist_def)

text \<open>
  The reason \<^verbatim>\<open>ValidatePod\<close> gives is that of the first check that failed, and tells which one it
  was: no labels at all, then the name, then a missing label \<^verbatim>\<open>managedby\<close>, then another value of it.
\<close>

theorem ValidatePod_reasons:
  "let reason = Reason (fst (ValidatePod pod));
       no_labels = (gomap_len (pod_Labels pod) = 0);
       bad_name = sublist ''offensive'' (pod_Name pod);
       manager = gomap_get (pod_Labels pod) ''managedby''
   in (reason = [Lit ''invalid pod, no labels''] \<longleftrightarrow> no_labels) \<and>
     (reason = [Lit ''pod name contains '', Quoted ''offensive''] \<longleftrightarrow> \<not> no_labels \<and> bad_name) \<and>
     (reason = [Lit ''pod labels does not contain managedby label''] \<longleftrightarrow>
        \<not> no_labels \<and> \<not> bad_name \<and> manager = None) \<and>
     (reason = [Lit ''pod managedby label's value is not equal to steve''] \<longleftrightarrow>
        \<not> no_labels \<and> \<not> bad_name \<and> (\<exists>v. manager = Some v \<and> v \<noteq> ''steve'')) \<and>
     (reason = [Lit ''valid pod''] \<longleftrightarrow> \<not> no_labels \<and> \<not> bad_name \<and> manager = Some ''steve'')"
  by (auto simp: Let_def ValidatePod_reason verdict_reason_def split: option.split)

end
