(* ===== verification/Mutation.thy ===== *)
theory Mutation
  imports Kube_Types
begin

text \<open>
  \<^verbatim>\<open>kubewebhook/pkg/mutation\<close>: the two mutators of a pod (\<^verbatim>\<open>minimum_lifespan.go\<close>,
  \<^verbatim>\<open>inject_env.go\<close>) and \<^verbatim>\<open>MutatePodPatch\<close>, which runs them one after the other and
  compares the result with the pod it was given. Pods are reached through pointers into a memory,
  so that a mutator that wrote through the pointer it was given would change the original: the
  memory is where \<^verbatim>\<open>DeepCopy\<close> matters. The Go interface \<^verbatim>\<open>podMutator\<close> is the locale
  \<open>pod_mutator_family\<close>.

  \<^verbatim>\<open>DeepCopy\<close> of a pod, \<^verbatim>\<open>jsondiff.Compare\<close> and the marshalling of its patch belong to other
  packages: they are the fields of \<open>mutation_pkgs\<close>, an argument of the definitions that call
  them. What is logged is in \<open>Webhook_Log\<close>.
\<close>

section \<open>Definitions\<close>

record ('x, 'd) mutation_pkgs =
  DeepCopy :: "'x pod \<Rightarrow> 'x pod"
  Compare :: "'x pod \<Rightarrow> 'x pod \<Rightarrow> gotext + 'd"
  MarshalPatch :: "'d \<Rightarrow> gotext + bytes"

subsection \<open>Minimum lifespan\<close>

definition lifespanLabel :: string where "lifespanLabel = ''acme.com/lifespan-requested''"
definition taintKey :: string where "taintKey = ''acme.com/lifespan-remaining''"
definition taintMaxAge :: int64 where "taintMaxAge = 14"

definition default_toleration :: toleration where
  "default_toleration = \<lparr>tol_Key = taintKey, tol_Operator = TolerationOpExists, tol_Value = '''',
     tol_Effect = TaintEffectNoSchedule, tol_TolerationSeconds = None\<rparr>"

definition lifespan_toleration :: "int64 \<Rightarrow> toleration" where
  "lifespan_toleration i = \<lparr>tol_Key = taintKey, tol_Operator = TolerationOpEqual, tol_Value = itoa i,
     tol_Effect = TaintEffectNoSchedule, tol_TolerationSeconds = None\<rparr>"

text \<open>
  \<^verbatim>\<open>for i := taintMaxAge; i >= minAge; i--\<close> on a 64-bit \<^verbatim>\<open>int\<close>: \<open>None\<close> is a loop that does not end.
\<close>

partial_function (option) lifespan_loop ::
  "int64 \<Rightarrow> int64 \<Rightarrow> toleration list \<Rightarrow> toleration list option" where
  "lifespan_loop minAge i t =
     (if word_sle minAge i then lifespan_loop minAge (i - 1) (t @ [lifespan_toleration i]) else Some t)"

text \<open>The loops of \<^verbatim>\<open>appendTolerations\<close>: the inner one sets \<^verbatim>\<open>found\<close>, the outer one collects.\<close>

fun find_toleration :: "toleration \<Rightarrow> toleration list \<Rightarrow> bool \<Rightarrow> bool" where
  "find_toleration n [] found = found"
| "find_toleration n (e # es) found = find_toleration n es (if n = e then True else found)"

fun collect_tolerations :: "toleration list \<Rightarrow> toleration list \<Rightarrow> toleration list \<Rightarrow> toleration list" where
  "collect_tolerations [] existing toAppend = toAppend"
| "collect_tolerations (n # ns) existing toAppend =
     collect_tolerations ns existing
       (if \<not> find_toleration n existing False then toAppend @ [n] else toAppend)"

definition appendTolerations :: "toleration list \<Rightarrow> toleration list \<Rightarrow> toleration list" where
  "appendTolerations new existing = existing @ collect_tolerations new existing []"

definition lifespan_error :: "string \<Rightarrow> num_error \<Rightarrow> gotext" where
  "lifespan_error ts e =
     [Lit ''pod lifespan label '', Quoted ts, Lit '' is not an integer: ''] @ num_error_text ts e"

definition minLifespan_Mutate ::
  "('x, 'd, 'z) mutation_pkgs_scheme \<Rightarrow> 'x pod mem \<Rightarrow> ptr \<Rightarrow> (ptr \<times> 'x pod mem) outcome" where
  "minLifespan_Mutate pkgs m p =
     (case mem_load m p of None \<Rightarrow> Panic | Some pod \<Rightarrow>
       (case mem_new m (DeepCopy pkgs pod) of (mp, m1) \<Rightarrow>
         (case mem_load m1 mp of None \<Rightarrow> Panic | Some mpod \<Rightarrow>
           if pod_Labels pod = None \<or> gomap_index (pod_Labels pod) lifespanLabel = ''''
           then Ok (mp, mem_store m1 mp (with_Tolerations mpod
                  (appendTolerations [default_toleration] (spec_Tolerations (pod_Spec mpod)))))
           else
             (let ts = gomap_index (pod_Labels pod) lifespanLabel in
              case atoi ts of
                Inl e \<Rightarrow> Err (lifespan_error ts e)
              | Inr minAge \<Rightarrow>
                  (case lifespan_loop minAge taintMaxAge [] of
                     None \<Rightarrow> Diverge
                   | Some t \<Rightarrow> Ok (mp, mem_store m1 mp (with_Tolerations mpod
                       (appendTolerations t (spec_Tolerations (pod_Spec mpod))))))))))"

subsection \<open>Environment injection\<close>

fun has_env_loop :: "'x env_var list \<Rightarrow> 'x env_var \<Rightarrow> bool" where
  "has_env_loop [] checkEnvVar = False"
| "has_env_loop (envVar # evs) checkEnvVar =
     (if env_Name envVar = env_Name checkEnvVar then True else has_env_loop evs checkEnvVar)"

definition HasEnvVar :: "'x container \<Rightarrow> 'x env_var \<Rightarrow> bool" where
  "HasEnvVar container checkEnvVar = has_env_loop (con_Env container) checkEnvVar"

text \<open>
  \<^verbatim>\<open>for i, container := range cs\<close>: the first list is what is left of the range, the second the
  slice whose element \<open>i\<close> is written.
\<close>

fun inject_loop ::
  "'x env_var \<Rightarrow> nat \<Rightarrow> 'x container list \<Rightarrow> 'x container list \<Rightarrow> 'x container list" where
  "inject_loop envVar i [] cs = cs"
| "inject_loop envVar i (container # rest) cs =
     inject_loop envVar (Suc i) rest
       (if \<not> HasEnvVar container envVar
        then cs[i := (cs ! i)\<lparr>con_Env := con_Env container @ [envVar]\<rparr>] else cs)"

definition injectEnvVar :: "'x pod mem \<Rightarrow> ptr \<Rightarrow> 'x env_var \<Rightarrow> 'x pod mem outcome" where
  "injectEnvVar m p envVar =
     (case mem_load m p of None \<Rightarrow> Panic | Some pod \<Rightarrow>
       (let spec = pod_Spec pod;
            spec1 = spec\<lparr>spec_Containers :=
              inject_loop envVar 0 (spec_Containers spec) (spec_Containers spec)\<rparr>;
            spec2 = spec1\<lparr>spec_InitContainers :=
              inject_loop envVar 0 (spec_InitContainers spec1) (spec_InitContainers spec1)\<rparr>
        in Ok (mem_store m p (pod\<lparr>pod_Spec := spec2\<rparr>))))"

fun inject_all :: "'x pod mem \<Rightarrow> ptr \<Rightarrow> 'x env_var list \<Rightarrow> 'x pod mem outcome" where
  "inject_all m p [] = Ok m"
| "inject_all m p (envVar # evs) = and_then (injectEnvVar m p envVar) (\<lambda>m'. inject_all m' p evs)"

definition kube_env :: "'x env_var" where
  "kube_env = \<lparr>env_Name = ''KUBE'', env_Value = ''true'', env_ValueFrom = None\<rparr>"

definition injectEnv_Mutate ::
  "('x, 'd, 'z) mutation_pkgs_scheme \<Rightarrow> 'x pod mem \<Rightarrow> ptr \<Rightarrow> (ptr \<times> 'x pod mem) outcome" where
  "injectEnv_Mutate pkgs m p =
     (case mem_load m p of None \<Rightarrow> Panic | Some pod \<Rightarrow>
       (case mem_new m (DeepCopy pkgs pod) of (mp, m1) \<Rightarrow>
          and_then (inject_all m1 mp [kube_env]) (\<lambda>m2. Ok (mp, m2))))"

subsection \<open>Mutator\<close>

datatype pod_mutator = minLifespanTolerations | injectEnv

fun mutator_Mutate ::
  "('x, 'd, 'z) mutation_pkgs_scheme \<Rightarrow> pod_mutator \<Rightarrow> 'x pod mem \<Rightarrow> ptr \<Rightarrow> (ptr \<times> 'x pod mem) outcome"
where
  "mutator_Mutate pkgs minLifespanTolerations m p = minLifespan_Mutate pkgs m p"
| "mutator_Mutate pkgs injectEnv m p = injectEnv_Mutate pkgs m p"

fun apply_mutations ::
  "('m \<Rightarrow> 'x pod mem \<Rightarrow> ptr \<Rightarrow> (ptr \<times> 'x pod mem) outcome) \<Rightarrow> 'm list \<Rightarrow> 'x pod mem \<Rightarrow> ptr \<Rightarrow>
   (ptr \<times> 'x pod mem) outcome" where
  "apply_mutations mutate [] m mp = Ok (mp, m)"
| "apply_mutations mutate (mu # mus) m mp =
     and_then (mutate mu m mp) (\<lambda>(mp', m'). apply_mutations mutate mus m' mp')"

definition MutatePodPatch ::
  "('x, 'd, 'z) mutation_pkgs_scheme \<Rightarrow> 'x pod mem \<Rightarrow> ptr \<Rightarrow> (bytes \<times> 'x pod mem) outcome" where
  "MutatePodPatch pkgs m p =
     (case mem_load m p of None \<Rightarrow> Panic | Some pod0 \<Rightarrow>
       (case mem_new m (DeepCopy pkgs pod0) of (mp0, m0) \<Rightarrow>
          and_then (apply_mutations (mutator_Mutate pkgs) [minLifespanTolerations, injectEnv] m0 mp0)
            (\<lambda>(mp, m1).
              case mem_load m1 p of None \<Rightarrow> Panic | Some pod \<Rightarrow>
                (case mem_load m1 mp of None \<Rightarrow> Panic | Some mpod \<Rightarrow>
                  (case Compare pkgs pod mpod of
                     Inl e \<Rightarrow> Err e
                   | Inr patch \<Rightarrow>
                       (case MarshalPatch pkgs patch of
                          Inl e \<Rightarrow> Err e
                        | Inr patchb \<Rightarrow> Ok (patchb, m1)))))))"


section \<open>The lifespan loop\<close>

lemma sint_pred: "- (2 ^ 63) < sint i \<Longrightarrow> sint (i - 1) = sint (i :: int64) - 1"
proof -
  assume i: "- (2 ^ 63) < sint i"
  have "sint (i - 1) = signed_take_bit 63 (sint i - 1)"
    by (simp add: sint_word_ariths)
  also have "\<dots> = sint i - 1"
    using i sint64_bounds [of i] by (intro signed_take_bit_int_eq_self) simp_all
  finally show ?thesis .
qed

definition lifespan_tolerations :: "int64 \<Rightarrow> toleration list" where
  "lifespan_tolerations minAge =
     map (\<lambda>k. lifespan_toleration (word_of_int k)) (rev [sint minAge..14])"

lemma lifespan_loop_from:
  assumes "- (2 ^ 63) < sint minAge"
  shows "lifespan_loop minAge i t =
    Some (t @ map (\<lambda>k. lifespan_toleration (word_of_int k)) (rev [sint minAge..sint i]))"
proof (induction "nat (sint i - sint minAge + 1)" arbitrary: i t)
  case 0
  then have "\<not> word_sle minAge i" by (simp add: word_sle_eq)
  with 0 show ?case by (simp add: lifespan_loop.simps)
next
  case (Suc n)
  then have le: "word_sle minAge i" by (simp add: word_sle_eq)
  from Suc(2) assms have pred: "sint (i - 1) = sint i - 1" by (intro sint_pred) linarith
  with Suc(2) have "n = nat (sint (i - 1) - sint minAge + 1)" by linarith
  from Suc(1) [OF this, of "t @ [lifespan_toleration i]"] le pred show ?case
    by (simp add: lifespan_loop.simps [of minAge i] upto_rec2 [of "sint minAge" "sint i"] word_sle_eq)
qed

lemma lifespan_loop_ends: "- (2 ^ 63) < sint minAge \<Longrightarrow>
    lifespan_loop minAge taintMaxAge [] = Some (lifespan_tolerations minAge)"
  using lifespan_loop_from [of minAge taintMaxAge "[]"]
  by (simp add: lifespan_tolerations_def taintMaxAge_def)

lemma lifespan_loop_Some: "lifespan_loop minAge i t = Some r \<Longrightarrow> - (2 ^ 63) < sint minAge"
proof -
  assume ret: "lifespan_loop minAge i t = Some r"
  show ?thesis
  proof (rule lifespan_loop.raw_induct [where P = "\<lambda>minAge i t r. - (2 ^ 63) < sint minAge", OF _ ret])
    fix f and minAge i :: int64 and t r
    assume IH: "\<And>minAge i t r. f minAge i t = Some r \<Longrightarrow> - (2 ^ 63) < sint (minAge :: int64)"
      and eq: "(if word_sle minAge i then f minAge (i - 1) (t @ [lifespan_toleration i]) else Some t) = Some r"
    show "- (2 ^ 63) < sint minAge"
    proof (cases "word_sle minAge i")
      case True
      with eq IH show ?thesis by simp
    next
      case False
      with sint64_bounds(1) [of i] show ?thesis by (simp add: word_sle_eq)
    qed
  qed
qed

lemma lifespan_loop_None_iff:
  "lifespan_loop minAge taintMaxAge [] = None \<longleftrightarrow> sint minAge = - (2 ^ 63)"
proof
  assume "lifespan_loop minAge taintMaxAge [] = None"
  then show "sint minAge = - (2 ^ 63)"
    using lifespan_loop_ends [of minAge] sint64_bounds(1) [of minAge] by fastforce
next
  assume min: "sint minAge = - (2 ^ 63)"
  show "lifespan_loop minAge taintMaxAge [] = None"
    using min lifespan_loop_Some [of minAge taintMaxAge "[]"] by (cases "lifespan_loop minAge taintMaxAge []") auto
qed

lemma set_lifespan_tolerations:
  "set (lifespan_tolerations minAge) = (\<lambda>k. lifespan_toleration (word_of_int k)) ` {sint minAge..14}"
  by (simp add: lifespan_tolerations_def)

lemma length_lifespan_tolerations: "length (lifespan_tolerations minAge) = nat (15 - sint minAge)"
  by (simp add: lifespan_tolerations_def)

lemma lifespan_toleration_inj: "lifespan_toleration i = lifespan_toleration j \<longleftrightarrow> i = j"
  by (simp add: lifespan_toleration_def itoa_inj)

lemma sint_of_int64: "- (2 ^ 63) \<le> k \<Longrightarrow> k < 2 ^ 63 \<Longrightarrow> sint (word_of_int k :: int64) = k"
  by (simp add: sint_sbintrunc' signed_take_bit_int_eq_self)

lemma distinct_lifespan_tolerations: "distinct (lifespan_tolerations minAge)"
proof -
  have "inj_on (\<lambda>k. lifespan_toleration (word_of_int k)) {sint minAge..14}"
  proof (rule inj_onI)
    fix j k
    assume j: "j \<in> {sint minAge..14}" and k: "k \<in> {sint minAge..14}"
      and eq: "lifespan_toleration (word_of_int j) = lifespan_toleration (word_of_int k)"
    from eq have "sint (word_of_int j :: int64) = sint (word_of_int k :: int64)"
      by (simp add: lifespan_toleration_inj)
    with j k sint64_bounds(1) [of minAge] show "j = k"
      using sint_of_int64 [of j] sint_of_int64 [of k] by simp
  qed
  then show ?thesis by (simp add: lifespan_tolerations_def distinct_map)
qed

section \<open>Appending tolerations and variables\<close>

lemma find_toleration_iff: "find_toleration n es found \<longleftrightarrow> found \<or> n \<in> set es"
  by (induction es arbitrary: found) auto

lemma collect_tolerations_eq:
  "collect_tolerations new existing acc = acc @ filter (\<lambda>n. n \<notin> set existing) new"
  by (induction new arbitrary: acc) (simp_all add: find_toleration_iff)

lemma appendTolerations_eq:
  "appendTolerations new existing = existing @ filter (\<lambda>n. n \<notin> set existing) new"
  by (simp add: appendTolerations_def collect_tolerations_eq)

lemma set_appendTolerations: "set (appendTolerations new existing) = set existing \<union> set new"
  by (auto simp: appendTolerations_eq)

lemma appendTolerations_again:
  "appendTolerations new (appendTolerations new existing) = appendTolerations new existing"
  by (auto simp: appendTolerations_eq filter_empty_conv)

lemma HasEnvVar_iff: "HasEnvVar c v \<longleftrightarrow> env_Name v \<in> env_Name ` set (con_Env c)"
proof -
  have "has_env_loop evs v \<longleftrightarrow> env_Name v \<in> env_Name ` set evs" for evs
    by (induction evs) auto
  then show ?thesis by (simp add: HasEnvVar_def)
qed

text \<open>What the loop does to one container.\<close>

definition inject_container :: "'x env_var \<Rightarrow> 'x container \<Rightarrow> 'x container" where
  "inject_container v c = (if HasEnvVar c v then c else c\<lparr>con_Env := con_Env c @ [v]\<rparr>)"

lemma inject_loop_from:
  "i + length rest = length cs \<Longrightarrow> rest = drop i cs \<Longrightarrow>
     inject_loop v i rest cs = take i cs @ map (inject_container v) rest"
proof (induction rest arbitrary: i cs)
  case Nil
  then show ?case by simp
next
  case (Cons c rest)
  from Cons.prems(2) have i: "i < length cs" by (metis drop_all linorder_not_le list.distinct(1))
  with Cons.prems(2) have ci: "cs ! i = c" and rest: "rest = drop (Suc i) cs"
    by (metis Cons_nth_drop_Suc list.inject)+
  define cs' where "cs' = (if \<not> HasEnvVar c v then cs[i := (cs ! i)\<lparr>con_Env := con_Env c @ [v]\<rparr>] else cs)"
  have cs': "cs' = cs[i := inject_container v c]"
    using ci by (auto simp: cs'_def inject_container_def)
  have "inject_loop v (Suc i) rest cs' = take (Suc i) cs' @ map (inject_container v) rest"
    using Cons.prems(1) rest i by (intro Cons.IH) (simp_all add: cs')
  with i show ?case by (simp add: cs'_def [symmetric] cs' take_Suc_conv_app_nth)
qed

lemma inject_loop_map: "inject_loop v 0 cs cs = map (inject_container v) cs"
  by (simp add: inject_loop_from)

lemma inject_container_again: "inject_container v (inject_container v c) = inject_container v c"
  by (auto simp: inject_container_def HasEnvVar_iff)

lemma inject_container_has: "HasEnvVar (inject_container v c) v"
  by (simp add: inject_container_def HasEnvVar_iff)

section \<open>What a family of mutators promises\<close>

text \<open>
  \<open>effect\<close> is what a mutator does to the value of a pod. The mutator leaves every struct of the
  memory as it is and returns one that holds the effect; it fails as the effect does. The loop
  of \<^verbatim>\<open>MutatePodPatch\<close> then keeps every struct too, and composes the effects.
\<close>

fun compose_effects :: "('m \<Rightarrow> 'v \<Rightarrow> 'v outcome) \<Rightarrow> 'm list \<Rightarrow> 'v \<Rightarrow> 'v outcome" where
  "compose_effects effect [] v = Ok v"
| "compose_effects effect (mu # mus) v = and_then (effect mu v) (compose_effects effect mus)"

locale pod_mutator_family =
  fixes mutate :: "'m \<Rightarrow> 'x pod mem \<Rightarrow> ptr \<Rightarrow> (ptr \<times> 'x pod mem) outcome"
    and effect :: "'m \<Rightarrow> 'x pod \<Rightarrow> 'x pod outcome"
  assumes mutate_Ok: "mem_load m p = Some pod \<Longrightarrow> effect mu pod = Ok pod' \<Longrightarrow>
      \<exists>q m'. mutate mu m p = Ok (q, m') \<and> mem_load m' q = Some pod' \<and> mem_extends m m'"
    and mutate_Err: "mem_load m p = Some pod \<Longrightarrow> effect mu pod = Err e \<Longrightarrow> mutate mu m p = Err e"
    and mutate_Panic: "mem_load m p = Some pod \<Longrightarrow> effect mu pod = Panic \<Longrightarrow> mutate mu m p = Panic"
    and mutate_Diverge: "mem_load m p = Some pod \<Longrightarrow> effect mu pod = Diverge \<Longrightarrow> mutate mu m p = Diverge"
begin

lemma apply_Ok:
  assumes "mem_load m p = Some pod" and "compose_effects effect mus pod = Ok pod'"
  shows "\<exists>q m'. apply_mutations mutate mus m p = Ok (q, m') \<and> mem_load m' q = Some pod' \<and> mem_extends m m'"
  using assms
proof (induction mus arbitrary: m p pod)
  case Nil
  then show ?case by auto
next
  case (Cons mu mus)
  from Cons.prems(2) obtain pod1 where e: "effect mu pod = Ok pod1"
    and es: "compose_effects effect mus pod1 = Ok pod'" by (auto simp: and_then_Ok_iff)
  from mutate_Ok [OF Cons.prems(1) e] obtain q m1 where m1: "mutate mu m p = Ok (q, m1)"
    "mem_load m1 q = Some pod1" "mem_extends m m1" by blast
  from Cons.IH [OF m1(2) es] m1 show ?case by (auto intro: mem_extends_trans)
qed

lemma apply_fails:
  assumes "mem_load m p = Some pod"
  shows "(compose_effects effect mus pod = Err e \<longrightarrow> apply_mutations mutate mus m p = Err e) \<and>
    (compose_effects effect mus pod = Panic \<longrightarrow> apply_mutations mutate mus m p = Panic) \<and>
    (compose_effects effect mus pod = Diverge \<longrightarrow> apply_mutations mutate mus m p = Diverge)"
  using assms
proof (induction mus arbitrary: m p pod)
  case Nil
  then show ?case by simp
next
  case (Cons mu mus)
  show ?case
  proof (cases "effect mu pod")
    case (Ok pod1)
    from mutate_Ok [OF Cons.prems Ok] obtain q m1 where m1: "mutate mu m p = Ok (q, m1)"
      "mem_load m1 q = Some pod1" by blast
    from Cons.IH [OF m1(2)] m1(1) Ok show ?thesis by simp
  qed (use mutate_Err mutate_Panic mutate_Diverge Cons.prems in auto)
qed

end

section \<open>The mutators of the package\<close>

text \<open>The tolerations the labels of a pod ask for.\<close>

definition wanted_tolerations :: "'x pod \<Rightarrow> toleration list outcome" where
  "wanted_tolerations pod =
     (let ts = gomap_index (pod_Labels pod) lifespanLabel in
      if ts = '''' then Ok [default_toleration]
      else (case atoi ts of
          Inl e \<Rightarrow> Err (lifespan_error ts e)
        | Inr minAge \<Rightarrow> if sint minAge = - (2 ^ 63) then Diverge else Ok (lifespan_tolerations minAge)))"

definition add_tolerations :: "toleration list \<Rightarrow> 'x pod \<Rightarrow> 'x pod" where
  "add_tolerations ts pod = with_Tolerations pod (appendTolerations ts (spec_Tolerations (pod_Spec pod)))"

definition add_env :: "'x env_var \<Rightarrow> 'x pod \<Rightarrow> 'x pod" where
  "add_env v pod = pod\<lparr>pod_Spec := (pod_Spec pod)
     \<lparr>spec_Containers := map (inject_container v) (spec_Containers (pod_Spec pod)),
      spec_InitContainers := map (inject_container v) (spec_InitContainers (pod_Spec pod))\<rparr>\<rparr>"

fun mutator_effect :: "('x, 'd, 'z) mutation_pkgs_scheme \<Rightarrow> pod_mutator \<Rightarrow> 'x pod \<Rightarrow> 'x pod outcome" where
  "mutator_effect pkgs minLifespanTolerations pod =
     and_then (wanted_tolerations pod) (\<lambda>ts. Ok (add_tolerations ts (DeepCopy pkgs pod)))"
| "mutator_effect pkgs injectEnv pod = Ok (add_env kube_env (DeepCopy pkgs pod))"

lemma unset_label: "pod_Labels pod = None \<or> gomap_index (pod_Labels pod) k = '''' \<longleftrightarrow>
    gomap_index (pod_Labels pod) k = ''''"
  by (auto simp: gomap_simps)

lemma lifespan_loop_cases: "lifespan_loop minAge taintMaxAge [] =
    (if sint minAge = - (2 ^ 63) then None else Some (lifespan_tolerations minAge))"
  using lifespan_loop_None_iff [of minAge] lifespan_loop_ends [of minAge] sint64_bounds(1) [of minAge]
  by (auto simp: order_le_less)

lemma minLifespan_Mutate_eq:
  assumes "mem_load m p = Some pod"
  shows "minLifespan_Mutate pkgs m p = and_then (wanted_tolerations pod)
    (\<lambda>ts. case mem_new m (DeepCopy pkgs pod) of (q, m1) \<Rightarrow>
       Ok (q, mem_store m1 q (add_tolerations ts (DeepCopy pkgs pod))))"
proof -
  obtain q m1 where new: "mem_new m (DeepCopy pkgs pod) = (q, m1)" by fastforce
  have q: "mem_load m1 q = Some (DeepCopy pkgs pod)"
    using gomem.load_new [of m "DeepCopy pkgs pod" q] new by simp
  show ?thesis
    using assms new q
    by (auto simp: minLifespan_Mutate_def unset_label wanted_tolerations_def add_tolerations_def Let_def
        lifespan_loop_cases split: sum.split)
qed

lemma injectEnv_Mutate_eq:
  assumes "mem_load m p = Some pod"
  shows "injectEnv_Mutate pkgs m p = (case mem_new m (DeepCopy pkgs pod) of (q, m1) \<Rightarrow>
       Ok (q, mem_store m1 q (add_env kube_env (DeepCopy pkgs pod))))"
proof -
  obtain q m1 where new: "mem_new m (DeepCopy pkgs pod) = (q, m1)" by fastforce
  have "mem_load m1 q = Some (DeepCopy pkgs pod)"
    using gomem.load_new [of m "DeepCopy pkgs pod" q] new by simp
  with assms new show ?thesis
    by (simp add: injectEnv_Mutate_def injectEnvVar_def add_env_def inject_loop_map Let_def)
qed

lemma mutator_Mutate_eq:
  assumes "mem_load m p = Some pod"
  shows "mutator_Mutate pkgs mu m p = and_then (mutator_effect pkgs mu pod)
    (\<lambda>pod'. case mem_new m (DeepCopy pkgs pod) of (q, m1) \<Rightarrow> Ok (q, mem_store m1 q pod'))"
  using assms
  by (cases mu; cases "wanted_tolerations pod") (auto simp: minLifespan_Mutate_eq injectEnv_Mutate_eq)

interpretation mutators: pod_mutator_family "mutator_Mutate pkgs" "mutator_effect pkgs"
  for pkgs :: "('x, 'd, 'z) mutation_pkgs_scheme"
proof unfold_locales
  fix m p mu and pod pod' :: "'x pod"
  assume p: "mem_load m p = Some pod" and e: "mutator_effect pkgs mu pod = Ok pod'"
  obtain q m1 where new: "mem_new m (DeepCopy pkgs pod) = (q, m1)" by fastforce
  from p e new gomem.update_copy(1) [OF new] mem_update_copy_extends [OF new]
  show "\<exists>q m'. mutator_Mutate pkgs mu m p = Ok (q, m') \<and> mem_load m' q = Some pod' \<and> mem_extends m m'"
    by (simp add: mutator_Mutate_eq)
qed (simp_all add: mutator_Mutate_eq)

section \<open>The patch\<close>

text \<open>What is documented of \<^verbatim>\<open>DeepCopy\<close>: the copy has the value of the original.\<close>

definition copies :: "('x, 'd, 'z) mutation_pkgs_scheme \<Rightarrow> bool" where
  "copies pkgs \<longleftrightarrow> (\<forall>pod. DeepCopy pkgs pod = pod)"

definition mutated_pod :: "toleration list \<Rightarrow> 'x pod \<Rightarrow> 'x pod" where
  "mutated_pod ts pod = add_env kube_env (add_tolerations ts pod)"

text \<open>From the two values \<^verbatim>\<open>MutatePodPatch\<close> compares to the bytes it returns.\<close>

definition patch_of :: "('x, 'd, 'z) mutation_pkgs_scheme \<Rightarrow> 'x pod \<Rightarrow> 'x pod \<Rightarrow> bytes outcome" where
  "patch_of pkgs pod mpod =
     (case Compare pkgs pod mpod of Inl e \<Rightarrow> Err e
      | Inr d \<Rightarrow> (case MarshalPatch pkgs d of Inl e \<Rightarrow> Err e | Inr b \<Rightarrow> Ok b))"

lemma mutators_compose:
  assumes "copies pkgs"
  shows "compose_effects (mutator_effect pkgs) [minLifespanTolerations, injectEnv] pod =
    and_then (wanted_tolerations pod) (\<lambda>ts. Ok (mutated_pod ts pod))"
  using assms by (cases "wanted_tolerations pod") (simp_all add: copies_def mutated_pod_def)

lemma MutatePodPatch_value:
  assumes "copies pkgs" and p: "mem_load m p = Some pod"
  shows "\<exists>m'. mem_extends m m' \<and> MutatePodPatch pkgs m p =
    and_then (wanted_tolerations pod) (\<lambda>ts. and_then (patch_of pkgs pod (mutated_pod ts pod)) (\<lambda>b. Ok (b, m')))"
proof -
  obtain p0 m0 where new: "mem_new m (DeepCopy pkgs pod) = (p0, m0)" by fastforce
  have m0: "mem_extends m m0" using new by (rule mem_new_extends)
  have p0: "mem_load m0 p0 = Some pod"
    using gomem.load_new [of m "DeepCopy pkgs pod" p0] new \<open>copies pkgs\<close> by (simp add: copies_def)
  let ?mus = "[minLifespanTolerations, injectEnv]"
  have eff: "compose_effects (mutator_effect pkgs) ?mus pod =
      and_then (wanted_tolerations pod) (\<lambda>ts. Ok (mutated_pod ts pod))"
    using \<open>copies pkgs\<close> by (rule mutators_compose)
  show ?thesis
  proof (cases "wanted_tolerations pod")
    case (Ok ts)
    with eff obtain q m1 where a: "apply_mutations (mutator_Mutate pkgs) ?mus m0 p0 = Ok (q, m1)"
      and q: "mem_load m1 q = Some (mutated_pod ts pod)" and m1: "mem_extends m0 m1"
      using mutators.apply_Ok [OF p0, of pkgs ?mus "mutated_pod ts pod"] by auto
    from m0 m1 have ext: "mem_extends m m1" by (rule mem_extends_trans)
    then have "mem_load m1 p = Some pod" using p by (rule mem_extendsD)
    then have "MutatePodPatch pkgs m p = and_then (patch_of pkgs pod (mutated_pod ts pod)) (\<lambda>b. Ok (b, m1))"
      using p new a q
      by (simp add: MutatePodPatch_def patch_of_def split: sum.split del: apply_mutations.simps)
    with Ok ext show ?thesis by auto
  qed (use mutators.apply_fails [OF p0, of pkgs ?mus] eff p new in
       \<open>auto simp: MutatePodPatch_def simp del: apply_mutations.simps intro!: exI [of _ m]\<close>)
qed

text \<open>A second round finds nothing to do.\<close>

lemma labels_mutated_pod [simp]: "pod_Labels (mutated_pod ts pod) = pod_Labels pod"
  by (simp add: mutated_pod_def add_env_def add_tolerations_def)

lemma wanted_mutated_pod: "wanted_tolerations (mutated_pod ts pod) = wanted_tolerations pod"
  by (simp add: wanted_tolerations_def)

lemma add_env_again: "add_env v (add_env v pod) = add_env v pod"
  by (simp add: add_env_def inject_container_again)

lemma add_tolerations_env: "add_tolerations ts (add_env v pod) = add_env v (add_tolerations ts pod)"
  by (simp add: add_tolerations_def add_env_def)

lemma add_tolerations_again: "add_tolerations ts (add_tolerations ts pod) = add_tolerations ts pod"
  by (simp add: add_tolerations_def appendTolerations_again)

lemma mutated_pod_again: "mutated_pod ts (mutated_pod ts pod) = mutated_pod ts pod"
  by (simp add: mutated_pod_def add_tolerations_env add_env_again add_tolerations_again)

section \<open>Properties\<close>

text \<open>Packages and labels for the witnesses.\<close>

definition sample_pkgs :: "(nat, nat pod \<times> nat pod) mutation_pkgs" where
  "sample_pkgs = \<lparr>DeepCopy = (\<lambda>pod. pod), Compare = (\<lambda>a b. Inr (a, b)),
     MarshalPatch = (\<lambda>(a, b). Inr (if a = b then ''[]'' else ''[add]''))\<rparr>"

definition lifespan_pod :: "string \<Rightarrow> nat pod" where
  "lifespan_pod age = sample_pod ''web'' [(''managedby'', ''steve''), (lifespanLabel, age)]"

lemma copies_sample: "copies sample_pkgs"
  by (simp add: copies_def sample_pkgs_def)

lemma lifespan_pod_label: "gomap_index (pod_Labels (lifespan_pod age)) lifespanLabel = age"
  by (simp add: lifespan_pod_def sample_defs gomap_index_def gomap_simps lifespanLabel_def)

lemma lifespan_pod_loaded: "mem_load [lifespan_pod age] 0 = Some (lifespan_pod age)"
  by (simp add: mem_load_def)

lemma lifespan_pod_tolerations: "spec_Tolerations (pod_Spec (lifespan_pod age)) = []"
  by (simp add: lifespan_pod_def sample_defs)

lemma atoi_examples: "atoi ''12'' = Inr 12" "atoi ''ten'' = Inl ErrSyntax"
    "atoi ''-9223372036854775808'' = Inr (- 9223372036854775808)"
  by (simp_all add: atoi_def atoi_sign_def is_digit_def digit_val_def)

lemma wanted_lifespan_pod_12:
  "wanted_tolerations (lifespan_pod ''12'') = Ok (lifespan_tolerations 12)"
  by (simp add: wanted_tolerations_def lifespan_pod_label atoi_examples)

text \<open>
  C3: \<^verbatim>\<open>MutatePodPatch\<close> implements its specification: for a pod whose labels ask for the
  tolerations \<open>ts\<close>, the bytes it returns are the marshalled difference between the pod it was
  given and that pod with \<open>ts\<close> and the variable \<^verbatim>\<open>KUBE\<close> added, errors of the two packages are
  passed on, and every pod that was in memory, the original first of all, is unchanged.
\<close>

theorem MutatePodPatch_refines:
  assumes "copies pkgs" and "mem_load m p = Some pod" and "wanted_tolerations pod = Ok ts"
  shows "\<exists>m'. mem_extends m m' \<and>
    MutatePodPatch pkgs m p = and_then (patch_of pkgs pod (mutated_pod ts pod)) (\<lambda>b. Ok (b, m'))"
  using MutatePodPatch_value [OF assms(1,2)] assms(3) by simp

theorem MutatePodPatch_refines_witness:
  "\<exists>m'. mem_extends [lifespan_pod ''12''] m' \<and>
    MutatePodPatch sample_pkgs [lifespan_pod ''12''] 0 = Ok (''[add]'', m')"
proof -
  have "patch_of sample_pkgs (lifespan_pod ''12'') (mutated_pod (lifespan_tolerations 12) (lifespan_pod ''12'')) =
      Ok ''[add]''"
    by (simp add: patch_of_def sample_pkgs_def mutated_pod_def add_env_def add_tolerations_def
        lifespan_pod_def sample_defs inject_container_def HasEnvVar_iff)
  then show ?thesis
    using MutatePodPatch_refines [OF copies_sample, of "[lifespan_pod ''12'']" 0, OF _ wanted_lifespan_pod_12]
    by (simp add: mem_load_def)
qed

text \<open>
  A lifespan label that is set and is not a decimal integer of 64 bits makes \<^verbatim>\<open>MutatePodPatch\<close>
  fail, with the text of the label in the error; no patch is produced.
\<close>

theorem MutatePodPatch_bad_label:
  assumes "copies pkgs" and "mem_load m p = Some pod"
    and "gomap_index (pod_Labels pod) lifespanLabel = ts" and "ts \<noteq> ''''" and "atoi ts = Inl e"
  shows "MutatePodPatch pkgs m p = Err (lifespan_error ts e)"
  using MutatePodPatch_value [OF assms(1,2)] assms(3-5) by (auto simp: wanted_tolerations_def)

theorem MutatePodPatch_bad_label_witness:
  "MutatePodPatch sample_pkgs [lifespan_pod ''ten''] 0 = Err (lifespan_error ''ten'' ErrSyntax)"
  using MutatePodPatch_bad_label [OF copies_sample, of "[lifespan_pod ''ten'']" 0 "lifespan_pod ''ten''" "''ten''" ErrSyntax]
  by (simp add: mem_load_def lifespan_pod_label atoi_examples)

text \<open>
  C12: \<^verbatim>\<open>MutatePodPatch\<close> returns on every pod except those whose lifespan label reads as the
  smallest 64-bit integer: there \<^verbatim>\<open>i >= minAge\<close> holds for every \<^verbatim>\<open>i\<close> and the loop never ends.
\<close>

theorem MutatePodPatch_diverges_iff:
  assumes "copies pkgs" and "mem_load m p = Some pod"
  shows "MutatePodPatch pkgs m p = Diverge \<longleftrightarrow>
    (\<exists>a. atoi (gomap_index (pod_Labels pod) lifespanLabel) = Inr a \<and> sint a = - (2 ^ 63))"
proof -
  have empty: "atoi '''' = Inl ErrSyntax" by (simp add: atoi_def atoi_sign_def)
  have patch: "patch_of pkgs pod q \<noteq> Diverge" for q
    by (simp add: patch_of_def split: sum.split)
  obtain m' where v: "MutatePodPatch pkgs m p = and_then (wanted_tolerations pod)
      (\<lambda>ts. and_then (patch_of pkgs pod (mutated_pod ts pod)) (\<lambda>b. Ok (b, m')))"
    using MutatePodPatch_value [OF assms] by blast
  have "MutatePodPatch pkgs m p = Diverge \<longleftrightarrow> wanted_tolerations pod = Diverge"
    by (simp add: v and_then_Diverge_iff patch)
  then show ?thesis by (simp add: wanted_tolerations_def Let_def empty split: sum.split)
qed

theorem MutatePodPatch_diverges_iff_witness:
  "MutatePodPatch sample_pkgs [lifespan_pod ''-9223372036854775808''] 0 = Diverge \<and>
   MutatePodPatch sample_pkgs [lifespan_pod ''12''] 0 \<noteq> Diverge"
  using MutatePodPatch_diverges_iff [OF copies_sample, of "[lifespan_pod ''-9223372036854775808'']" 0]
    MutatePodPatch_diverges_iff [OF copies_sample, of "[lifespan_pod ''12'']" 0]
  by (simp add: mem_load_def lifespan_pod_label atoi_examples)

text \<open>
  C21: mutation is idempotent. If comparing a pod with itself gives the empty patch, then for a pod
  that already went through the mutators \<^verbatim>\<open>MutatePodPatch\<close> returns the empty patch.
\<close>

theorem MutatePodPatch_idempotent:
  assumes "copies pkgs" and "wanted_tolerations pod = Ok ts"
    and "mem_load m p = Some (mutated_pod ts pod)"
    and "\<And>x. Compare pkgs x x = Inr none" and "MarshalPatch pkgs none = Inr b"
  shows "\<exists>m'. mem_extends m m' \<and> MutatePodPatch pkgs m p = Ok (b, m')"
  using MutatePodPatch_value [OF assms(1,3)] assms(2,4,5)
  by (simp add: wanted_mutated_pod mutated_pod_again patch_of_def)

definition empty_patch_pkgs :: "(nat, bool) mutation_pkgs" where
  "empty_patch_pkgs = \<lparr>DeepCopy = (\<lambda>pod. pod), Compare = (\<lambda>a b. Inr (a = b)),
     MarshalPatch = (\<lambda>same. Inr (if same then ''[]'' else ''[add]''))\<rparr>"

theorem MutatePodPatch_idempotent_witness:
  "\<exists>m'. mem_extends [mutated_pod (lifespan_tolerations 12) (lifespan_pod ''12'')] m' \<and>
    MutatePodPatch empty_patch_pkgs [mutated_pod (lifespan_tolerations 12) (lifespan_pod ''12'')] 0 = Ok (''[]'', m')"
  by (rule MutatePodPatch_idempotent [OF _ wanted_lifespan_pod_12, where none = True])
    (simp_all add: copies_def empty_patch_pkgs_def mem_load_def)

text \<open>
  C16: for a lifespan label that reads as \<open>minAge\<close>, the pod \<^verbatim>\<open>minLifespanTolerations.Mutate\<close> returns
  keeps its tolerations, in order; after them come tolerations of the remaining lifespans 14, 13, down
  to \<open>minAge\<close>, one per day in this order, without those that the pod had; nothing else of the pod
  changes, and so no toleration occurs twice unless it did before. The smallest \<^verbatim>\<open>int\<close> is left out, for which it does not return.
\<close>

theorem minLifespan_Mutate_tolerations:
  assumes "copies pkgs" and "mem_load m p = Some pod"
    and "atoi (gomap_index (pod_Labels pod) lifespanLabel) = Inr minAge" and "- (2 ^ 63) < sint minAge"
  shows "\<exists>q m' pod'. minLifespan_Mutate pkgs m p = Ok (q, m') \<and> mem_load m' q = Some pod' \<and>
    spec_Tolerations (pod_Spec pod') = spec_Tolerations (pod_Spec pod) @
      filter (\<lambda>t. t \<notin> set (spec_Tolerations (pod_Spec pod)))
        (map (\<lambda>k. \<lparr>tol_Key = ''acme.com/lifespan-remaining'', tol_Operator = TolerationOpEqual, tol_Value = itoa (word_of_int k),
           tol_Effect = TaintEffectNoSchedule, tol_TolerationSeconds = None\<rparr>) (rev [sint minAge..14])) \<and>
    pod' = with_Tolerations pod (spec_Tolerations (pod_Spec pod')) \<and>
    (distinct (spec_Tolerations (pod_Spec pod)) \<longrightarrow> distinct (spec_Tolerations (pod_Spec pod')))"
proof -
  let ?ts = "lifespan_tolerations minAge"
  have "gomap_index (pod_Labels pod) lifespanLabel \<noteq> []"
    using assms(3) by (auto simp: atoi_def atoi_sign_def)
  with assms(3,4) have wanted: "wanted_tolerations pod = Ok ?ts"
    by (simp add: wanted_tolerations_def Let_def)
  obtain q m1 where new: "mem_new m (DeepCopy pkgs pod) = (q, m1)" by fastforce
  let ?pod = "add_tolerations ?ts pod"
  have "minLifespan_Mutate pkgs m p = Ok (q, mem_store m1 q ?pod)" "mem_load (mem_store m1 q ?pod) q = Some ?pod"
    using assms(1,2) wanted new gomem.update_copy(1) [OF new] by (simp_all add: minLifespan_Mutate_eq copies_def)
  moreover have "spec_Tolerations (pod_Spec ?pod) = spec_Tolerations (pod_Spec pod) @
      filter (\<lambda>t. t \<notin> set (spec_Tolerations (pod_Spec pod))) ?ts"
    and "?pod = with_Tolerations pod (spec_Tolerations (pod_Spec ?pod))"
    by (simp_all add: add_tolerations_def appendTolerations_eq)
  ultimately show ?thesis
    using distinct_lifespan_tolerations [of minAge]
    by (intro exI [of _ q] exI [of _ "mem_store m1 q ?pod"] exI [of _ ?pod])
      (auto simp: lifespan_tolerations_def lifespan_toleration_def taintKey_def)
qed

theorem minLifespan_Mutate_tolerations_witness:
  "\<exists>q m' pod'. minLifespan_Mutate sample_pkgs [lifespan_pod ''12''] 0 = Ok (q, m') \<and> mem_load m' q = Some pod' \<and>
    map tol_Value (spec_Tolerations (pod_Spec pod')) = map itoa [14, 13, 12]"
proof -
  have "atoi (gomap_index (pod_Labels (lifespan_pod ''12'')) lifespanLabel) = Inr 12" "- (2 ^ 63) < sint (12 :: int64)"
    by (simp_all add: lifespan_pod_label atoi_examples)
  from minLifespan_Mutate_tolerations [OF copies_sample lifespan_pod_loaded this]
  obtain q m' pod' where r: "minLifespan_Mutate sample_pkgs [lifespan_pod ''12''] 0 = Ok (q, m')" "mem_load m' q = Some pod'"
    "spec_Tolerations (pod_Spec pod') = spec_Tolerations (pod_Spec (lifespan_pod ''12'')) @
      filter (\<lambda>t. t \<notin> set (spec_Tolerations (pod_Spec (lifespan_pod ''12''))))
        (map (\<lambda>k. \<lparr>tol_Key = ''acme.com/lifespan-remaining'', tol_Operator = TolerationOpEqual, tol_Value = itoa (word_of_int k),
           tol_Effect = TaintEffectNoSchedule, tol_TolerationSeconds = None\<rparr>) (rev [sint (12 :: int64)..14]))" by blast
  have "[12..14] = [12, 13, 14 :: int]" by code_simp
  with r show ?thesis by (simp add: lifespan_pod_tolerations)
qed

text \<open>
  The loop of \<^verbatim>\<open>Mutate\<close> ends unless \<open>minAge\<close> is the smallest \<^verbatim>\<open>int\<close>, and then it has made one
  toleration for each age from 14 down to \<open>minAge\<close>, whose \<^verbatim>\<open>Value\<close> reads back (\<^verbatim>\<open>strconv.Atoi\<close>) as
  that age: \<open>15 - minAge\<close> of them, none if \<open>minAge\<close> is above 14.
\<close>

theorem lifespan_loop_total:
  "lifespan_loop minAge taintMaxAge [] =
    (if sint minAge = - (2 ^ 63) then None else Some (lifespan_tolerations minAge)) \<and>
   length (lifespan_tolerations minAge) = nat (15 - sint minAge) \<and>
   map (\<lambda>t. atoi (tol_Value t)) (lifespan_tolerations minAge) =
     map (\<lambda>k. Inr (word_of_int k)) (rev [sint minAge..14])"
  by (simp add: lifespan_loop_cases length_lifespan_tolerations)
    (simp add: lifespan_tolerations_def lifespan_toleration_def atoi_itoa)

definition kube_injected :: "'x container \<Rightarrow> 'x container \<Rightarrow> bool" where
  "kube_injected c c' \<longleftrightarrow>
     (if ''KUBE'' \<in> env_Name ` set (con_Env c) then c' = c
      else c' = c\<lparr>con_Env := con_Env c @ [\<lparr>env_Name = ''KUBE'', env_Value = ''true'', env_ValueFrom = None\<rparr>]\<rparr>)"

lemma list_all2_kube_injected: "list_all2 kube_injected cs (map (inject_container kube_env) cs)"
  by (simp add: list_all2_conv_all_nth kube_injected_def inject_container_def HasEnvVar_iff kube_env_def)

text \<open>
  C25: after \<^verbatim>\<open>injectEnv.Mutate\<close> every container and init container of the new pod has a variable
  \<^verbatim>\<open>KUBE\<close>. A container that had one is as it was, the others get \<^verbatim>\<open>KUBE=true\<close> after the variables
  they had, and nothing else of the pod changes; the pod that was given is as it was.
\<close>

theorem injectEnv_Mutate_env:
  assumes "copies pkgs" and "mem_load m p = Some pod"
  shows "\<exists>q m' pod'. injectEnv_Mutate pkgs m p = Ok (q, m') \<and> mem_load m' q = Some pod' \<and>
    mem_load m' p = Some pod \<and>
    (\<forall>c \<in> set (spec_Containers (pod_Spec pod')) \<union> set (spec_InitContainers (pod_Spec pod')).
       ''KUBE'' \<in> env_Name ` set (con_Env c)) \<and>
    list_all2 kube_injected
      (spec_Containers (pod_Spec pod) @ spec_InitContainers (pod_Spec pod))
      (spec_Containers (pod_Spec pod') @ spec_InitContainers (pod_Spec pod')) \<and>
    pod' = pod\<lparr>pod_Spec := (pod_Spec pod)\<lparr>spec_Containers := spec_Containers (pod_Spec pod'),
      spec_InitContainers := spec_InitContainers (pod_Spec pod')\<rparr>\<rparr>"
proof -
  let ?pod' = "add_env kube_env pod"
  obtain q m1 where new: "mem_new m (DeepCopy pkgs pod) = (q, m1)" by fastforce
  have m: "injectEnv_Mutate pkgs m p = Ok (q, mem_store m1 q ?pod')"
    using assms new by (simp add: injectEnv_Mutate_eq copies_def)
  have has: "''KUBE'' \<in> env_Name ` set (con_Env (inject_container kube_env c))" for c :: "'a container"
    using inject_container_has [of kube_env c] by (simp add: HasEnvVar_iff kube_env_def)
  show ?thesis
    using m gomem.update_copy [OF new] assms(2) has list_all2_kube_injected
    by (auto simp: add_env_def intro!: exI [of _ ?pod'] list_all2_appendI)
qed

theorem injectEnv_Mutate_env_witness:
  "\<exists>q m' pod'. injectEnv_Mutate sample_pkgs [lifespan_pod ''12''] 0 = Ok (q, m') \<and> mem_load m' q = Some pod' \<and>
    mem_load m' 0 = Some (lifespan_pod ''12'') \<and>
    (\<forall>c \<in> set (spec_Containers (pod_Spec pod')). ''KUBE'' \<in> env_Name ` set (con_Env c))"
  using injectEnv_Mutate_env [OF copies_sample lifespan_pod_loaded, of "''12''"] by auto

section \<open>Any order, and how much is added\<close>

text \<open>What a set of mutators makes of a pod, in whatever order and however often they run.\<close>

definition set_effect :: "pod_mutator set \<Rightarrow> 'x pod \<Rightarrow> 'x pod outcome" where
  "set_effect M pod =
     (let pod1 = (if injectEnv \<in> M then add_env kube_env pod else pod) in
      if minLifespanTolerations \<in> M
      then and_then (wanted_tolerations pod) (\<lambda>ts. Ok (add_tolerations ts pod1))
      else Ok pod1)"

lemma wanted_added [simp]:
  "wanted_tolerations (add_env v pod) = wanted_tolerations pod"
  "wanted_tolerations (add_tolerations ts pod) = wanted_tolerations pod"
  by (simp_all add: wanted_tolerations_def add_env_def add_tolerations_def)

lemma compose_effects_set:
  "copies pkgs \<Longrightarrow> compose_effects (mutator_effect pkgs) mus pod = set_effect (set mus) pod"
proof (induction mus arbitrary: pod)
  case (Cons mu mus)
  then show ?case
    by (cases mu; cases "wanted_tolerations pod")
      (simp_all add: copies_def set_effect_def Let_def add_env_again add_tolerations_again add_tolerations_env)
qed (simp add: set_effect_def)

text \<open>The pod a run of the mutators ends with, without the address it is at.\<close>

definition pod_outcome :: "(ptr \<times> 'x pod mem) outcome \<Rightarrow> 'x pod option outcome" where
  "pod_outcome r = and_then r (\<lambda>(q, m). Ok (mem_load m q))"

lemma pod_outcome_apply:
  assumes "copies pkgs" and "mem_load m p = Some pod"
  shows "pod_outcome (apply_mutations (mutator_Mutate pkgs) mus m p) =
    and_then (set_effect (set mus) pod) (\<lambda>pod'. Ok (Some pod'))"
proof (cases "set_effect (set mus) pod")
  case (Ok pod')
  with mutators.apply_Ok [OF assms(2), of pkgs mus pod'] compose_effects_set [OF assms(1), of mus pod]
  show ?thesis by (auto simp: pod_outcome_def)
qed (use mutators.apply_fails [OF assms(2), of pkgs mus] compose_effects_set [OF assms(1), of mus pod] in
     \<open>auto simp: pod_outcome_def\<close>)

text \<open>
  C19: the order of the mutators does not matter. Two runs of the loop of \<^verbatim>\<open>MutatePodPatch\<close> over the same mutators, in
  any order and with any of them repeated, end with equal pods, or fail with the same error or loop alike.
\<close>

theorem mutators_any_order:
  assumes "copies pkgs" and "mem_load m p = Some pod" and "set mus = set mus'"
  shows "pod_outcome (apply_mutations (mutator_Mutate pkgs) mus m p) =
    pod_outcome (apply_mutations (mutator_Mutate pkgs) mus' m p)"
  by (simp add: pod_outcome_apply [OF assms(1,2)] assms(3))

theorem mutators_any_order_witness:
  "pod_outcome (apply_mutations (mutator_Mutate sample_pkgs) [injectEnv, minLifespanTolerations, injectEnv] [lifespan_pod ''12''] 0) =
   pod_outcome (apply_mutations (mutator_Mutate sample_pkgs) [minLifespanTolerations, injectEnv] [lifespan_pod ''12''] 0)"
  by (rule mutators_any_order [OF copies_sample lifespan_pod_loaded]) auto

text \<open>The number of tolerations a pod asks for: one if it asks for none in particular.\<close>

definition requested_days :: "'x pod \<Rightarrow> nat" where
  "requested_days pod = (case atoi (gomap_index (pod_Labels pod) lifespanLabel) of Inl _ \<Rightarrow> 1 | Inr a \<Rightarrow> nat (15 - sint a))"

lemma length_wanted: "wanted_tolerations pod = Ok ts \<Longrightarrow> length ts = requested_days pod"
  by (auto simp: wanted_tolerations_def requested_days_def Let_def length_lifespan_tolerations atoi_def atoi_sign_def
      split: if_splits sum.splits)

lemma wanted_keys: "wanted_tolerations pod = Ok ts \<Longrightarrow> t \<in> set ts \<Longrightarrow> tol_Key t = taintKey"
  by (auto simp: wanted_tolerations_def Let_def set_lifespan_tolerations lifespan_toleration_def default_toleration_def
      split: if_splits sum.splits)

lemma wanted_values: "wanted_tolerations pod = Ok ts \<Longrightarrow> t \<in> set ts \<Longrightarrow>
    t = default_toleration \<or> (\<exists>i. atoi (tol_Value t) = Inr i \<and> sint i \<le> 14)"
proof -
  assume w: "wanted_tolerations pod = Ok ts" "t \<in> set ts"
  then consider "t = default_toleration"
    | a k where "t = lifespan_toleration (word_of_int k)" "sint (a :: int64) \<le> k" "k \<le> 14"
    by (auto simp: wanted_tolerations_def Let_def set_lifespan_tolerations split: if_splits sum.splits)
  then show ?thesis
  proof cases
    case 2
    with sint64_bounds(1) [of a] have "sint (word_of_int k :: int64) \<le> 14" by (subst sint_of_int64) simp_all
    with 2 show ?thesis by (simp add: lifespan_toleration_def atoi_itoa)
  qed simp
qed

text \<open>
  C20: how much the lifespan mutator adds. When it returns a pod, that pod has at least the tolerations there were and
  at most \<open>15 - minAge\<close> more (one without a label), never more than 15 for an age that is not negative and
  exactly that many if none had the taint's key; but an age far below zero adds up to \<open>2 ^ 63 + 14\<close>. The
  values added are ages of at most 14.
\<close>

theorem minLifespan_Mutate_bounds:
  assumes "copies pkgs" and "mem_load m p = Some pod" and "minLifespan_Mutate pkgs m p = Ok (q, m')"
  shows "\<exists>pod'. mem_load m' q = Some pod' \<and>
    (let before = spec_Tolerations (pod_Spec pod); after = spec_Tolerations (pod_Spec pod') in
     length before \<le> length after \<and> length after \<le> length before + requested_days pod \<and>
     requested_days pod \<le> 2 ^ 63 + 14 \<and>
     (\<forall>a. atoi (gomap_index (pod_Labels pod) lifespanLabel) = Inr a \<and> 0 \<le> sint a \<longrightarrow> requested_days pod \<le> 15) \<and>
     (taintKey \<notin> tol_Key ` set before \<longrightarrow> length after = length before + requested_days pod) \<and>
     (\<forall>t \<in> set (drop (length before) after).
        t = default_toleration \<or> (\<exists>i. atoi (tol_Value t) = Inr i \<and> sint i \<le> 14)))"
proof -
  obtain q1 m1 where new: "mem_new m (DeepCopy pkgs pod) = (q1, m1)" by fastforce
  from assms new obtain ts where w: "wanted_tolerations pod = Ok ts"
    and r: "q = q1" "m' = mem_store m1 q1 (add_tolerations ts pod)"
    by (auto simp: minLifespan_Mutate_eq copies_def and_then_Ok_iff)
  have small: "requested_days pod \<le> 2 ^ 63 + 14"
  proof (cases "atoi (gomap_index (pod_Labels pod) lifespanLabel)")
    case (Inr a)
    with w have "sint a \<noteq> - (2 ^ 63)"
      by (auto simp: wanted_tolerations_def Let_def atoi_def atoi_sign_def split: if_splits)
    with Inr sint64_bounds(1) [of a] show ?thesis by (simp add: requested_days_def)
  qed (simp add: requested_days_def)
  have few: "requested_days pod \<le> 15" if "atoi (gomap_index (pod_Labels pod) lifespanLabel) = Inr a" "0 \<le> sint a" for a
    using that by (simp add: requested_days_def)
  have kept: "length (filter (\<lambda>n. n \<notin> set old) ts) \<le> requested_days pod" for old
    using length_filter_le [of _ ts] by (simp add: length_wanted [OF w])
  have all: "length (filter (\<lambda>n. n \<notin> set old) ts) = requested_days pod" if "taintKey \<notin> tol_Key ` set old" for old
  proof -
    have "filter (\<lambda>n. n \<notin> set old) ts = ts" using that wanted_keys [OF w] by (force simp: filter_id_conv)
    then show ?thesis by (simp add: length_wanted [OF w])
  qed
  show ?thesis
    using gomem.update_copy(1) [OF new] wanted_values [OF w] small few kept all
    by (auto simp: r add_tolerations_def appendTolerations_eq Let_def)
qed

theorem minLifespan_Mutate_bounds_witness:
  "\<exists>q m' pod'. minLifespan_Mutate sample_pkgs [lifespan_pod ''12''] 0 = Ok (q, m') \<and> mem_load m' q = Some pod' \<and>
    length (spec_Tolerations (pod_Spec pod')) = 3"
proof -
  obtain q m' where r: "minLifespan_Mutate sample_pkgs [lifespan_pod ''12''] 0 = Ok (q, m')"
    by (simp add: minLifespan_Mutate_eq [OF lifespan_pod_loaded] wanted_lifespan_pod_12 case_prod_unfold)
  have "requested_days (lifespan_pod ''12'') = 3"
    by (simp add: requested_days_def lifespan_pod_label atoi_examples)
  with minLifespan_Mutate_bounds [OF copies_sample lifespan_pod_loaded r] r show ?thesis
    by (auto simp: lifespan_pod_tolerations Let_def)
qed

end
