(* ===== verification/Go_Http.thy ===== *)
theory Go_Http
  imports Go_Strings
begin

text \<open>
  What the servers use of Go's \<^verbatim>\<open>net/http\<close>: requests, the response a handler writes, the
  status constants, \<^verbatim>\<open>http.Error\<close>, and \<^verbatim>\<open>ServeMux\<close>, which cleans the path of a request and
  picks the handler of the longest pattern. A response is sent with status 200 at the first write
  that no status was set for. The form of a request is what \<^verbatim>\<open>ParseForm\<close> leaves in \<^verbatim>\<open>req.Form\<close>,
  and its body the bytes that reading it gives.
\<close>

section \<open>Definitions\<close>

definition StatusOK :: "32 word" where "StatusOK = 200"
definition StatusAccepted :: "32 word" where "StatusAccepted = 202"
definition StatusMovedPermanently :: "32 word" where "StatusMovedPermanently = 301"
definition StatusBadRequest :: "32 word" where "StatusBadRequest = 400"
definition StatusForbidden :: "32 word" where "StatusForbidden = 403"
definition StatusNotFound :: "32 word" where "StatusNotFound = 404"
definition StatusInternalServerError :: "32 word" where "StatusInternalServerError = 500"

type_synonym http_header = "(string \<times> string list) list"

record http_request =
  hr_Method :: string
  hr_Path :: string
  hr_Header :: http_header
  hr_Form :: "(string, string list) gomap"
  hr_Body :: bytes

record http_response =
  hw_Status :: "32 word option"
  hw_Header :: http_header
  hw_Body :: gotext

definition hw_new :: http_response where
  "hw_new = \<lparr>hw_Status = None, hw_Header = [], hw_Body = []\<rparr>"

definition header_get :: "http_header \<Rightarrow> string \<Rightarrow> string" where
  "header_get h k = (case map_of h k of Some (v # vs) \<Rightarrow> v | _ \<Rightarrow> '''')"

definition header_set :: "http_header \<Rightarrow> string \<Rightarrow> string \<Rightarrow> http_header" where
  "header_set h k v = (k, [v]) # filter (\<lambda>(k', _). k' \<noteq> k) h"

definition hw_set_header :: "string \<Rightarrow> string \<Rightarrow> http_response \<Rightarrow> http_response" where
  "hw_set_header k v w = w\<lparr>hw_Header := header_set (hw_Header w) k v\<rparr>"

definition hw_write_header :: "32 word \<Rightarrow> http_response \<Rightarrow> http_response" where
  "hw_write_header code w =
     (case hw_Status w of None \<Rightarrow> w\<lparr>hw_Status := Some code\<rparr> | Some _ \<Rightarrow> w)"

definition hw_write :: "gotext \<Rightarrow> http_response \<Rightarrow> http_response" where
  "hw_write t w = (let w' = hw_write_header StatusOK w in w'\<lparr>hw_Body := hw_Body w' @ t\<rparr>)"

definition newline :: frag where "newline = Lit [CHR 0x0A]"

definition http_Error :: "gotext \<Rightarrow> 32 word \<Rightarrow> http_response \<Rightarrow> http_response" where
  "http_Error e code w =
     hw_write (e @ [newline])
       (hw_write_header code
         (hw_set_header ''X-Content-Type-Options'' ''nosniff''
           (hw_set_header ''Content-Type'' ''text/plain; charset=utf-8'' w)))"

text \<open>
  \<^verbatim>\<open>fmt.Fprintf(w, s)\<close> with no operands: a text without \<^verbatim>\<open>%\<close> is written as it is; what a text
  with \<^verbatim>\<open>%\<close> becomes is left to the argument \<open>directives\<close>.
\<close>

definition Fprintf :: "(string \<Rightarrow> string) \<Rightarrow> string \<Rightarrow> http_response \<Rightarrow> http_response" where
  "Fprintf directives s w = hw_write [Lit (if CHR ''%'' \<in> set s then directives s else s)] w"

subsection \<open>ServeMux\<close>

fun split_slash :: "string \<Rightarrow> string list" where
  "split_slash [] = [[]]"
| "split_slash (c # cs) =
     (if c = CHR ''/'' then [] # split_slash cs
      else (case split_slash cs of [] \<Rightarrow> [[c]] | s # ss \<Rightarrow> (c # s) # ss))"

text \<open>The segments of \<^verbatim>\<open>path.Clean\<close> of a rooted path, last segment first.\<close>

fun clean_segments :: "string list \<Rightarrow> string list \<Rightarrow> string list" where
  "clean_segments acc [] = acc"
| "clean_segments acc (s # ss) =
     (if s = '''' \<or> s = ''.'' then clean_segments acc ss
      else if s = ''..'' then clean_segments (tl acc) ss
      else clean_segments (s # acc) ss)"

fun join_slash :: "string list \<Rightarrow> string" where
  "join_slash [] = ''/''"
| "join_slash [s] = CHR ''/'' # s"
| "join_slash (s # ss) = CHR ''/'' # s @ join_slash ss"

definition cleanPath :: "string \<Rightarrow> string" where
  "cleanPath p =
     (if p = '''' then ''/''
      else (let p = (if hd p = CHR ''/'' then p else CHR ''/'' # p);
                np = join_slash (rev (clean_segments [] (split_slash p)))
            in if last p = CHR ''/'' \<and> np \<noteq> ''/'' then np @ ''/'' else np))"

definition longer :: "(string \<times> 'h) option \<Rightarrow> string \<times> 'h \<Rightarrow> (string \<times> 'h) option" where
  "longer best r = (case best of None \<Rightarrow> Some r
     | Some b \<Rightarrow> if length (fst b) < length (fst r) then Some r else Some b)"

definition mux_match :: "(string \<times> 'h) list \<Rightarrow> string \<Rightarrow> 'h option" where
  "mux_match routes path =
     (case map_of routes path of Some h \<Rightarrow> Some h
      | None \<Rightarrow> map_option snd
          (foldl longer None (filter (\<lambda>(p, h). p \<noteq> '''' \<and> last p = CHR ''/'' \<and> prefix p path) routes)))"

datatype 'h mux_result = MuxHandler 'h | MuxRedirect string | MuxNotFound

definition mux_Handler :: "(string \<times> 'h) list \<Rightarrow> http_request \<Rightarrow> 'h mux_result" where
  "mux_Handler routes r =
     (let path = (if hr_Method r = ''CONNECT'' then hr_Path r else cleanPath (hr_Path r)) in
      if map_of routes path = None \<and> map_of routes (path @ ''/'') \<noteq> None
      then MuxRedirect (path @ ''/'')
      else if path \<noteq> hr_Path r then MuxRedirect path
      else (case mux_match routes path of Some h \<Rightarrow> MuxHandler h | None \<Rightarrow> MuxNotFound))"

definition NotFound :: "http_response \<Rightarrow> http_response" where
  "NotFound w = http_Error [Lit ''404 page not found''] StatusNotFound w"

text \<open>The short page that \<^verbatim>\<open>http.Redirect\<close> adds for a browser is left out.\<close>

definition Redirect :: "string \<Rightarrow> http_response \<Rightarrow> http_response" where
  "Redirect url w = hw_write_header StatusMovedPermanently (hw_set_header ''Location'' url w)"

section \<open>Lemmas\<close>

named_theorems http_simps \<open>what a response holds after each call on it\<close>

lemma header_get_set [http_simps]: "header_get (header_set h k v) k' = (if k' = k then v else header_get h k')"
proof -
  have "map_of (filter (\<lambda>(k'', _). k'' \<noteq> k) h) k' = map_of h k'" if "k' \<noteq> k"
    using that by (induction h) auto
  then show ?thesis by (simp add: header_get_def header_set_def)
qed

lemma hw_set_header_simps [http_simps]:
  "hw_Status (hw_set_header k v w) = hw_Status w"
  "hw_Body (hw_set_header k v w) = hw_Body w"
  "header_get (hw_Header (hw_set_header k v w)) k' = (if k' = k then v else header_get (hw_Header w) k')"
  by (simp_all add: hw_set_header_def header_get_set)

lemma hw_write_header_simps [http_simps]:
  "hw_Status (hw_write_header code w) = Some (case hw_Status w of None \<Rightarrow> code | Some s \<Rightarrow> s)"
  "hw_Body (hw_write_header code w) = hw_Body w"
  "hw_Header (hw_write_header code w) = hw_Header w"
  by (simp_all add: hw_write_header_def split: option.split)

lemma hw_write_simps [http_simps]:
  "hw_Status (hw_write t w) = Some (case hw_Status w of None \<Rightarrow> StatusOK | Some s \<Rightarrow> s)"
  "hw_Body (hw_write t w) = hw_Body w @ t"
  "hw_Header (hw_write t w) = hw_Header w"
  by (simp_all add: hw_write_def http_simps Let_def)

lemma http_Error_simps [http_simps]:
  "hw_Status (http_Error e code w) = Some (case hw_Status w of None \<Rightarrow> code | Some s \<Rightarrow> s)"
  "hw_Body (http_Error e code w) = hw_Body w @ e @ [newline]"
  "header_get (hw_Header (http_Error e code w)) ''Content-Type'' = ''text/plain; charset=utf-8''"
  by (simp_all add: http_Error_def http_simps)

lemma hw_new_simps [http_simps]:
  "hw_Status hw_new = None" "hw_Body hw_new = []" "hw_Header hw_new = []"
  by (simp_all add: hw_new_def)

lemma Fprintf_plain [http_simps]: "CHR ''%'' \<notin> set s \<Longrightarrow> Fprintf directives s w = hw_write [Lit s] w"
  by (simp add: Fprintf_def)

text \<open>A mux whose patterns do not end in a slash matches whole paths only.\<close>

lemma mux_match_exact:
  assumes "\<forall>(p, h) \<in> set routes. p = '''' \<or> last p \<noteq> CHR ''/''"
  shows "mux_match routes path = map_of routes path"
proof -
  have none: "filter (\<lambda>(p, h). p \<noteq> '''' \<and> last p = CHR ''/'' \<and> prefix p path) routes = []"
    using assms by (auto simp: filter_empty_conv)
  show ?thesis
    by (simp only: mux_match_def none foldl_Nil option.map) (simp split: option.split)
qed

end
