(* ===== verification/Admission.thy ===== *)
theory Admission
  imports Validation Mutation Go_Http
begin

text \<open>
  \<^verbatim>\<open>kubewebhook/pkg/admission\<close>: an \<^verbatim>\<open>Admitter\<close> takes the pod out of an admission request and
  answers with an admission review, either the verdict of the validators or the patch of the
  mutators. The types of \<^verbatim>\<open>k8s.io/api/admission/v1\<close> are records with the fields the code uses;
  decoding a pod from JSON is a function of the imported packages.
\<close>

section \<open>Definitions\<close>

record group_version_kind =
  gvk_Group :: string
  gvk_Version :: string
  gvk_Kind :: string

record 'x admission_request =
  req_UID :: string
  req_Kind :: group_version_kind
  req_ObjectRaw :: bytes
  req_rest :: "'x option"

record status =
  status_Code :: "32 word"
  status_Message :: gotext

record admission_response =
  resp_UID :: string
  resp_Allowed :: bool
  resp_Result :: "status option"
  resp_PatchType :: "string option"
  resp_Patch :: "bytes option"

record 'x admission_review =
  rev_Kind :: string
  rev_APIVersion :: string
  rev_Request :: "'x admission_request option"
  rev_Response :: "admission_response option"

record ('x, 'd) admission_pkgs = "('x, 'd) mutation_pkgs" +
  UnmarshalPod :: "bytes \<Rightarrow> gotext + 'x pod"

definition PatchTypeJSONPatch :: string where "PatchTypeJSONPatch = ''JSONPatch''"

definition reviewResponse :: "string \<Rightarrow> bool \<Rightarrow> 32 word \<Rightarrow> gotext \<Rightarrow> 'x admission_review" where
  "reviewResponse uid allowed httpCode reason =
     \<lparr>rev_Kind = ''AdmissionReview'', rev_APIVersion = ''admission.k8s.io/v1'', rev_Request = None,
      rev_Response = Some \<lparr>resp_UID = uid, resp_Allowed = allowed,
        resp_Result = Some \<lparr>status_Code = httpCode, status_Message = reason\<rparr>,
        resp_PatchType = None, resp_Patch = None\<rparr>\<rparr>"

definition patchReviewResponse :: "string \<Rightarrow> bytes \<Rightarrow> 'x admission_review \<times> gotext option" where
  "patchReviewResponse uid patch =
     (\<lparr>rev_Kind = ''AdmissionReview'', rev_APIVersion = ''admission.k8s.io/v1'', rev_Request = None,
       rev_Response = Some \<lparr>resp_UID = uid, resp_Allowed = True, resp_Result = None,
         resp_PatchType = Some PatchTypeJSONPatch, resp_Patch = Some patch\<rparr>\<rparr>, None)"

definition Admitter_Pod ::
  "('x, 'd, 'z) admission_pkgs_scheme \<Rightarrow> 'x admission_request \<Rightarrow> gotext + 'x pod" where
  "Admitter_Pod pkgs request =
     (if gvk_Kind (req_Kind request) \<noteq> ''Pod'' then Inl [Lit ''only pods are supported here'']
      else UnmarshalPod pkgs (req_ObjectRaw request))"

definition ValidatePodReview ::
  "('x, 'd, 'z) admission_pkgs_scheme \<Rightarrow> 'x admission_request \<Rightarrow> 'x admission_review \<times> gotext option" where
  "ValidatePodReview pkgs request =
     (case Admitter_Pod pkgs request of
        Inl err \<Rightarrow>
          (reviewResponse (req_UID request) False StatusBadRequest
             (Lit ''could not parse pod in admission review request: '' # err), Some err)
      | Inr pod \<Rightarrow>
          (case ValidatePod pod of (val, err) \<Rightarrow>
            (case err of
               Some e \<Rightarrow>
                 (reviewResponse (req_UID request) False StatusBadRequest
                    (Lit ''could not validate pod: '' # e), Some e)
             | None \<Rightarrow>
                 if \<not> Valid val
                 then (reviewResponse (req_UID request) False StatusForbidden (Reason val), None)
                 else (reviewResponse (req_UID request) True StatusAccepted [Lit ''valid pod''], None))))"

text \<open>
  \<^verbatim>\<open>MutatePodReview\<close> works in a memory \<open>m\<close> that holds the structs of the other requests; the pod it
  decodes is a new struct. A panic, or a call that does not return, is the outcome of the whole call.
\<close>

definition MutatePodReview ::
  "('x, 'd, 'z) admission_pkgs_scheme \<Rightarrow> 'x pod mem \<Rightarrow> 'x admission_request \<Rightarrow>
   ('x admission_review \<times> gotext option) outcome" where
  "MutatePodReview pkgs m request =
     (case Admitter_Pod pkgs request of
        Inl err \<Rightarrow>
          Ok (reviewResponse (req_UID request) False StatusBadRequest
                (Lit ''could not parse pod in admission review request: '' # err), Some err)
      | Inr p \<Rightarrow>
          (case mem_new m p of (pod, m1) \<Rightarrow>
            (case MutatePodPatch pkgs m1 pod of
               Err e \<Rightarrow>
                 Ok (reviewResponse (req_UID request) False StatusBadRequest
                       (Lit ''could not mutate pod: '' # e), Some e)
             | Ok (patch, m2) \<Rightarrow> Ok (patchReviewResponse (req_UID request) patch)
             | Panic \<Rightarrow> Panic
             | Diverge \<Rightarrow> Diverge)))"

section \<open>Lemmas\<close>

lemmas review_defs = reviewResponse_def patchReviewResponse_def

text \<open>The response of a review.\<close>

lemma rev_Response_simps [simp]:
  "rev_Response (reviewResponse uid allowed code reason) =
     Some \<lparr>resp_UID = uid, resp_Allowed = allowed, resp_Result = Some \<lparr>status_Code = code, status_Message = reason\<rparr>,
       resp_PatchType = None, resp_Patch = None\<rparr>"
  "rev_Response (fst (patchReviewResponse uid patch)) =
     Some \<lparr>resp_UID = uid, resp_Allowed = True, resp_Result = None,
       resp_PatchType = Some PatchTypeJSONPatch, resp_Patch = Some patch\<rparr>"
  "snd (patchReviewResponse uid patch) = None"
  by (simp_all add: review_defs)

lemma Admitter_Pod_Inr: "Admitter_Pod pkgs request = Inr pod \<longleftrightarrow>
    gvk_Kind (req_Kind request) = ''Pod'' \<and> UnmarshalPod pkgs (req_ObjectRaw request) = Inr pod"
  by (simp add: Admitter_Pod_def)

text \<open>The verdict on a decoded pod, by cases.\<close>

lemma ValidatePodReview_pod:
  assumes "Admitter_Pod pkgs request = Inr pod"
  shows "ValidatePodReview pkgs request =
    (if pod_admissible pod
     then (reviewResponse (req_UID request) True StatusAccepted [Lit ''valid pod''], None)
     else (reviewResponse (req_UID request) False StatusForbidden (verdict_reason pod), None))"
  using assms ValidatePod_err [of pod] ValidatePod_admissible [of pod] ValidatePod_reason [of pod]
  by (cases "ValidatePod pod") (auto simp: ValidatePodReview_def)

lemma ValidatePodReview_err: "snd (ValidatePodReview pkgs request) =
    (case Admitter_Pod pkgs request of Inl e \<Rightarrow> Some e | Inr _ \<Rightarrow> None)"
proof (cases "Admitter_Pod pkgs request")
  case (Inl e)
  then show ?thesis by (simp add: ValidatePodReview_def)
next
  case (Inr pod)
  then show ?thesis by (simp add: ValidatePodReview_pod)
qed

lemma MutatePodReview_pod:
  assumes "copies pkgs" and "Admitter_Pod pkgs request = Inr pod" and "wanted_tolerations pod = Ok ts"
    and "patch_of pkgs pod (mutated_pod ts pod) = Ok b"
  shows "MutatePodReview pkgs m request = Ok (patchReviewResponse (req_UID request) b)"
proof -
  obtain p m1 where new: "mem_new m pod = (p, m1)" by fastforce
  then have p: "mem_load m1 p = Some pod" using gomem.load_new [of m pod p] by simp
  from MutatePodPatch_value [OF assms(1) p] assms(3,4)
  obtain m2 where "MutatePodPatch pkgs m1 p = Ok (b, m2)" by auto
  with assms(2) new show ?thesis by (simp add: MutatePodReview_def)
qed

end
