(* ===== verification/Base64.thy ===== *)
theory Base64
  imports Go_Strings
begin

text \<open>
  \<^verbatim>\<open>base64.StdEncoding\<close> of Go's standard library, which both webhooks use: \<open>b64_encode\<close> is
  \<^verbatim>\<open>EncodeToString\<close>, and \<open>b64_decode\<close> the strict decoder of the clients that read the text.
  Decoding gives back what was encoded, and the encoded text has no \<^verbatim>\<open>%\<close>, which matters where the
  code prints it as a format.
\<close>

section \<open>Definitions\<close>

definition b64_char :: "nat \<Rightarrow> char" where
  "b64_char n =
     (if n < 26 then char_of (65 + n) else if n < 52 then char_of (71 + n)
      else if n < 62 then char_of (n - 4) else if n = 62 then CHR ''+'' else CHR ''/'')"

definition b64_val :: "char \<Rightarrow> nat option" where
  "b64_val ch = (let c = of_char ch :: nat in
     if 65 \<le> c \<and> c \<le> 90 then Some (c - 65) else if 97 \<le> c \<and> c \<le> 122 then Some (c - 71)
     else if 48 \<le> c \<and> c \<le> 57 then Some (c + 4) else if c = 43 then Some 62
     else if c = 47 then Some 63 else None)"

fun b64_groups :: "nat list \<Rightarrow> string" where
  "b64_groups [] = []"
| "b64_groups [a] = [b64_char (a div 4), b64_char ((a mod 4) * 16), CHR ''='', CHR ''='']"
| "b64_groups [a, b] =
     [b64_char (a div 4), b64_char ((a mod 4) * 16 + b div 16), b64_char ((b mod 16) * 4), CHR ''='']"
| "b64_groups (a # b # c # rest) =
     [b64_char (a div 4), b64_char ((a mod 4) * 16 + b div 16),
      b64_char ((b mod 16) * 4 + c div 64), b64_char (c mod 64)] @ b64_groups rest"

definition b64_encode :: "string \<Rightarrow> string" where
  "b64_encode s = b64_groups (map of_char s)"

fun b64_ungroup :: "string \<Rightarrow> nat list option" where
  "b64_ungroup [] = Some []"
| "b64_ungroup (w # x # y # z # rest) =
     (case (b64_val w, b64_val x) of
        (Some a, Some b) \<Rightarrow>
          if y = CHR ''='' \<and> z = CHR ''='' \<and> rest = [] then Some [a * 4 + b div 16]
          else (case b64_val y of None \<Rightarrow> None | Some c \<Rightarrow>
            if z = CHR ''='' \<and> rest = [] then Some [a * 4 + b div 16, (b mod 16) * 16 + c div 4]
            else (case b64_val z of None \<Rightarrow> None | Some d \<Rightarrow>
              map_option (\<lambda>ns. [a * 4 + b div 16, (b mod 16) * 16 + c div 4, (c mod 4) * 64 + d] @ ns)
                (b64_ungroup rest)))
      | _ \<Rightarrow> None)"
| "b64_ungroup _ = None"

definition b64_decode :: "string \<Rightarrow> string option" where
  "b64_decode s = map_option (map char_of) (b64_ungroup s)"

section \<open>Lemmas\<close>

lemma of_char_char_of_nat: "n < 256 \<Longrightarrow> of_char (char_of n) = (n :: nat)"
  by simp

lemma b64_val_char: "n < 64 \<Longrightarrow> b64_val (b64_char n) = Some n"
  by (auto simp: b64_val_def b64_char_def Let_def of_char_char_of_nat)

lemma b64_char_not_pad: "n < 64 \<Longrightarrow> b64_char n \<noteq> CHR ''=''"
  using b64_val_char [of n] by (auto simp: b64_val_def)

lemma b64_char_not_percent: "n < 64 \<Longrightarrow> b64_char n \<noteq> CHR ''%''"
  using b64_val_char [of n] by (auto simp: b64_val_def)

lemmas b64_char_simps = b64_val_char b64_char_not_pad b64_char_not_percent

lemma quotient_bounds: "(n :: nat) < 256 \<Longrightarrow> n div 4 < 64" "n < 256 \<Longrightarrow> n div 16 < 16" "n < 256 \<Longrightarrow> n div 64 < 4"
  by (rule less_mult_imp_div_less, simp)+

lemma b64_split:
  "(a :: nat) < 256 \<Longrightarrow> a div 4 < 64"
  "(b :: nat) < 256 \<Longrightarrow> (a mod 4) * 16 + b div 16 < 64"
  "(c :: nat) < 256 \<Longrightarrow> (b mod 16) * 4 + c div 64 < 64"
  "(a mod 4) * 16 < (64 :: nat)" "(b mod 16) * 4 < (64 :: nat)" "c mod 64 < (64 :: nat)"
proof -
  have 4: "a mod 4 < 4" and 16: "b mod 16 < 16" by simp_all
  show "a < 256 \<Longrightarrow> a div 4 < 64" by (rule quotient_bounds)
  show "b < 256 \<Longrightarrow> (a mod 4) * 16 + b div 16 < 64" using 4 quotient_bounds(2) [of b] by linarith
  show "c < 256 \<Longrightarrow> (b mod 16) * 4 + c div 64 < 64" using 16 quotient_bounds(3) [of c] by linarith
  show "(a mod 4) * 16 < 64" "(b mod 16) * 4 < 64" "c mod 64 < 64" using 4 16 by simp_all
qed

lemma pair_parts: "(r :: nat) < k \<Longrightarrow> (q * k + r) div k = q" "r < k \<Longrightarrow> (q * k + r) mod k = r"
  by simp_all

lemma b64_join:
  "(b :: nat) < 256 \<Longrightarrow> (c :: nat) < 256 \<Longrightarrow>
    a div 4 * 4 + ((a mod 4) * 16) div 16 = a \<and>
    a div 4 * 4 + ((a mod 4) * 16 + b div 16) div 16 = a \<and>
    (((a mod 4) * 16 + b div 16) mod 16) * 16 + ((b mod 16) * 4) div 4 = b \<and>
    (((a mod 4) * 16 + b div 16) mod 16) * 16 + ((b mod 16) * 4 + c div 64) div 4 = b \<and>
    (((b mod 16) * 4 + c div 64) mod 4) * 64 + c mod 64 = c"
  using pair_parts [of "b div 16" 16 "a mod 4"] pair_parts [of "c div 64" 4 "b mod 16"]
    quotient_bounds(2) [of b] quotient_bounds(3) [of c]
  by (simp only: nonzero_mult_div_cancel_right div_mult_mod_eq)

lemma b64_ungroup_groups: "list_all (\<lambda>n. n < 256) ns \<Longrightarrow> b64_ungroup (b64_groups ns) = Some ns"
proof (induction ns rule: b64_groups.induct)
  case (2 a)
  then show ?case using b64_join [of 0 0 a] by (simp add: b64_char_simps b64_split)
next
  case (3 a b)
  then show ?case using b64_join [of b 0 a] by (simp add: b64_char_simps b64_split)
next
  case (4 a b c rest)
  then show ?case using b64_join [of b c a] by (simp add: b64_char_simps b64_split)
qed simp

lemma b64_decode_encode: "b64_decode (b64_encode s) = Some s"
proof -
  have "list_all (\<lambda>n. n < 256) (map (of_char :: char \<Rightarrow> nat) s)"
    by (simp add: list_all_iff)
  then show ?thesis by (simp add: b64_decode_def b64_encode_def b64_ungroup_groups comp_def)
qed

lemma b64_groups_no_percent: "list_all (\<lambda>n. n < 256) ns \<Longrightarrow> CHR ''%'' \<notin> set (b64_groups ns)"
  by (induction ns rule: b64_groups.induct) (simp_all add: b64_char_not_percent [symmetric] b64_split)

lemma b64_encode_no_percent: "CHR ''%'' \<notin> set (b64_encode s)"
  unfolding b64_encode_def by (rule b64_groups_no_percent) (simp add: list_all_iff)

lemma b64_char_ascii: "n < 64 \<Longrightarrow> of_char (b64_char n) < (128 :: nat)"
  by (auto simp: b64_char_def of_char_char_of_nat)

lemma b64_groups_ascii: "list_all (\<lambda>n. n < 256) ns \<Longrightarrow> list_all (\<lambda>c. of_char c < (128 :: nat)) (b64_groups ns)"
  by (induction ns rule: b64_groups.induct) (simp_all add: b64_char_ascii b64_split)

lemma b64_encode_ascii: "list_all (\<lambda>c. of_char c < (128 :: nat)) (b64_encode s)"
  unfolding b64_encode_def by (rule b64_groups_ascii) (simp add: list_all_iff)

lemma b64_encode_length: "length (b64_encode s) = 4 * ((length s + 2) div 3)"
proof -
  have "length (b64_groups ns) = 4 * ((length ns + 2) div 3)" for ns
  proof (induction ns rule: b64_groups.induct)
    case (4 a b c rest)
    have "(length (a # b # c # rest) + 2) div 3 = Suc ((length rest + 2) div 3)" by simp
    with 4 show ?case by simp
  qed simp_all
  then show ?thesis by (simp add: b64_encode_def)
qed

end
