(* ===== verification/Webhook_Server.thy ===== *)
theory Webhook_Server
  imports Admission Base64
begin

text \<open>
  \<^verbatim>\<open>kubewebhook/server.go\<close> and the routing of \<^verbatim>\<open>kubewebhook/main.go\<close>: the handlers of the two
  listeners, from the HTTP request to the response that is written. The JSON codec of the admission
  review types is a pair of functions of the imported packages. The log and the copy of the body on
  standard output are in \<open>Webhook_Log\<close>.
\<close>

section \<open>Definitions\<close>

record ('x, 'd) server_pkgs = "('x, 'd) admission_pkgs" +
  UnmarshalReview :: "bytes \<Rightarrow> gotext + 'x admission_review"
  MarshalReview :: "'x admission_review \<Rightarrow> gotext + bytes"

record 'tls server =
  ServerTLSConf :: 'tls
  ClientTLSConf :: 'tls
  CaPEM :: bytes

definition getCA ::
  "(string \<Rightarrow> string) \<Rightarrow> 'tls server \<Rightarrow> http_request \<Rightarrow> http_response \<Rightarrow> http_response" where
  "getCA directives s req w =
     (if length (CaPEM s) = 0 then Fprintf directives (''No certificate found'' @ [CHR 0x0A]) w
      else if gomap_get (hr_Form req) ''base64'' \<noteq> None
      then Fprintf directives (b64_encode (CaPEM s)) w
      else Fprintf directives (CaPEM s) w)"

definition ServeHealth :: "http_response \<Rightarrow> http_response" where
  "ServeHealth w = hw_write [Lit ''OK''] w"

definition parseRequest ::
  "('x, 'd, 'z) server_pkgs_scheme \<Rightarrow> http_request \<Rightarrow> gotext + 'x admission_review" where
  "parseRequest pkgs r =
     (if header_get (hr_Header r) ''Content-Type'' \<noteq> ''application/json''
      then Inl [Lit ''Content-Type: '', Quoted (header_get (hr_Header r) ''Content-Type''),
                Lit '' should be '', Quoted ''application/json'']
      else (let body = hr_Body r in
        if length body = 0 then Inl [Lit ''admission request body is empty'']
        else (case UnmarshalReview pkgs body of
            Inl err \<Rightarrow> Inl (Lit ''could not parse admission review request: '' # err)
          | Inr a \<Rightarrow>
              if rev_Request a = None
              then Inl [Lit (''admission review can'' @ [CHR 0x27] @ ''t be used: Request field is nil'')]
              else Inr a)))"

definition ServeValidatePods ::
  "('x, 'd, 'z) server_pkgs_scheme \<Rightarrow> http_request \<Rightarrow> http_response \<Rightarrow> http_response outcome" where
  "ServeValidatePods pkgs r w =
     (case parseRequest pkgs r of
        Inl err \<Rightarrow> Ok (http_Error err StatusBadRequest w)
      | Inr inp \<Rightarrow>
          (case rev_Request inp of None \<Rightarrow> Panic | Some request \<Rightarrow>
            (case ValidatePodReview pkgs request of (out, err) \<Rightarrow>
              (case err of
                 Some e \<Rightarrow>
                   Ok (http_Error (Lit ''could not generate admission response: '' # e)
                         StatusInternalServerError w)
               | None \<Rightarrow>
                   (let w1 = hw_set_header ''Content-Type'' ''application/json'' w in
                    case MarshalReview pkgs out of
                      Inl e \<Rightarrow>
                        Ok (http_Error (Lit ''could not parse admission response: '' # e)
                              StatusInternalServerError w1)
                    | Inr jout \<Rightarrow> Ok (hw_write [Lit jout] w1))))))"

definition ServeMutatePods ::
  "('x, 'd, 'z) server_pkgs_scheme \<Rightarrow> 'x pod mem \<Rightarrow> http_request \<Rightarrow> http_response \<Rightarrow>
   http_response outcome" where
  "ServeMutatePods pkgs m r w =
     (case parseRequest pkgs r of
        Inl err \<Rightarrow> Ok (http_Error err StatusBadRequest w)
      | Inr inp \<Rightarrow>
          (case rev_Request inp of None \<Rightarrow> Panic | Some request \<Rightarrow>
            and_then (MutatePodReview pkgs m request) (\<lambda>(out, err).
              (case err of
                 Some e \<Rightarrow>
                   Ok (http_Error (Lit ''could not generate admission response: '' # e)
                         StatusInternalServerError w)
               | None \<Rightarrow>
                   (let w1 = hw_set_header ''Content-Type'' ''application/json'' w in
                    case MarshalReview pkgs out of
                      Inl e \<Rightarrow>
                        Ok (http_Error (Lit ''could not parse admission response: '' # e)
                              StatusInternalServerError w1)
                    | Inr jout \<Rightarrow> Ok (hw_write [Lit jout] w1))))))"

subsection \<open>Logging configuration\<close>

record 'l logger =
  log_Level :: 'l
  log_JSON :: bool

text \<open>\<open>None\<close> is the exit of the process by \<^verbatim>\<open>logrus.Fatalf\<close>; \<open>getenv\<close> gives the empty text for an unset variable.\<close>

definition setLogger ::
  "'l \<Rightarrow> (string \<Rightarrow> gotext + 'l) \<Rightarrow> (string \<Rightarrow> string) \<Rightarrow> 'l logger \<Rightarrow> 'l logger option" where
  "setLogger DebugLevel ParseLevel getenv logger0 =
     (let logger1 = logger0\<lparr>log_Level := DebugLevel\<rparr>; lev = getenv ''LOG_LEVEL'';
          logger2 = (if lev \<noteq> ''''
            then (case ParseLevel lev of Inl err \<Rightarrow> None | Inr llev \<Rightarrow> Some (logger1\<lparr>log_Level := llev\<rparr>))
            else Some logger1)
      in map_option (\<lambda>l. if getenv ''LOG_JSON'' = ''true'' then l\<lparr>log_JSON := True\<rparr> else l) logger2)"

subsection \<open>Routing\<close>

datatype endpoint = GetCA | Health | ValidatePods | MutatePods

text \<open>The mux of the listener on localhost and the mux of the TLS listener.\<close>

definition http_routes :: "(string \<times> endpoint) list" where
  "http_routes = [(''/ca.pem'', GetCA)]"

definition https_routes :: "(string \<times> endpoint) list" where
  "https_routes = [(''/health'', Health), (''/validate-pods'', ValidatePods), (''/mutate-pods'', MutatePods)]"

fun serve_endpoint ::
  "('x, 'd, 'z) server_pkgs_scheme \<Rightarrow> (string \<Rightarrow> string) \<Rightarrow> 'tls server \<Rightarrow> 'x pod mem \<Rightarrow> endpoint \<Rightarrow>
   http_request \<Rightarrow> http_response outcome" where
  "serve_endpoint pkgs directives s m GetCA r = Ok (getCA directives s r hw_new)"
| "serve_endpoint pkgs directives s m Health r = Ok (ServeHealth hw_new)"
| "serve_endpoint pkgs directives s m ValidatePods r = ServeValidatePods pkgs r hw_new"
| "serve_endpoint pkgs directives s m MutatePods r = ServeMutatePods pkgs m r hw_new"

definition serve ::
  "('x, 'd, 'z) server_pkgs_scheme \<Rightarrow> (string \<Rightarrow> string) \<Rightarrow> 'tls server \<Rightarrow> 'x pod mem \<Rightarrow>
   (string \<times> endpoint) list \<Rightarrow> http_request \<Rightarrow> http_response outcome" where
  "serve pkgs directives s m routes r =
     (case mux_Handler routes r of
        MuxHandler e \<Rightarrow> serve_endpoint pkgs directives s m e r
      | MuxRedirect url \<Rightarrow> Ok (Redirect url hw_new)
      | MuxNotFound \<Rightarrow> Ok (NotFound hw_new))"

section \<open>Lemmas\<close>

lemma parseRequest_Inr:
  "parseRequest pkgs r = Inr a \<longleftrightarrow>
     header_get (hr_Header r) ''Content-Type'' = ''application/json'' \<and> hr_Body r \<noteq> [] \<and>
     UnmarshalReview pkgs (hr_Body r) = Inr a \<and> rev_Request a \<noteq> None"
  by (auto simp: parseRequest_def Let_def split: sum.split)

text \<open>The part the two review handlers share, from the review to the response.\<close>

definition respond ::
  "('x, 'd, 'z) server_pkgs_scheme \<Rightarrow> http_response \<Rightarrow> 'x admission_review \<times> gotext option \<Rightarrow> http_response" where
  "respond pkgs w o_e = (case snd o_e of
       Some e \<Rightarrow> http_Error (Lit ''could not generate admission response: '' # e) StatusInternalServerError w
     | None \<Rightarrow>
         (case MarshalReview pkgs (fst o_e) of
            Inl e \<Rightarrow> http_Error (Lit ''could not parse admission response: '' # e) StatusInternalServerError
                (hw_set_header ''Content-Type'' ''application/json'' w)
          | Inr jout \<Rightarrow> hw_write [Lit jout] (hw_set_header ''Content-Type'' ''application/json'' w)))"

lemma ServeValidatePods_parsed:
  assumes "parseRequest pkgs r = Inr a" and "rev_Request a = Some request"
  shows "ServeValidatePods pkgs r w = Ok (respond pkgs w (ValidatePodReview pkgs request))"
  using assms by (auto simp: ServeValidatePods_def respond_def Let_def split: option.split sum.split prod.split)

lemma ServeMutatePods_parsed:
  assumes "parseRequest pkgs r = Inr a" and "rev_Request a = Some request"
  shows "ServeMutatePods pkgs m r w = and_then (MutatePodReview pkgs m request) (\<lambda>o_e. Ok (respond pkgs w o_e))"
  using assms
  by (cases "MutatePodReview pkgs m request")
    (auto simp: ServeMutatePods_def respond_def Let_def split: option.split sum.split prod.split)

lemma respond_status:
  "hw_Status (respond pkgs hw_new (out, err)) =
     Some (if err = None \<and> (\<exists>b. MarshalReview pkgs out = Inr b) then StatusOK else StatusInternalServerError)"
  by (cases err; cases "MarshalReview pkgs out") (simp_all add: respond_def http_simps)

lemma respond_body:
  "MarshalReview pkgs out = Inr b \<Longrightarrow> respond pkgs hw_new (out, None) =
     hw_write [Lit b] (hw_set_header ''Content-Type'' ''application/json'' hw_new)"
  by (simp add: respond_def)

lemma https_routes_match: "mux_match https_routes path = map_of https_routes path"
  by (rule mux_match_exact) (simp add: https_routes_def)

lemma http_routes_match: "mux_match http_routes path = map_of http_routes path"
  by (rule mux_match_exact) (simp add: http_routes_def)

lemma cleanPath_routes:
  "cleanPath ''/health'' = ''/health''" "cleanPath ''/validate-pods'' = ''/validate-pods''"
  "cleanPath ''/mutate-pods'' = ''/mutate-pods''" "cleanPath ''/ca.pem'' = ''/ca.pem''"
  by (simp_all add: cleanPath_def)

text \<open>
  A mux of whole-path patterns, each of them clean and none of them another with a slash added, hands a
  request to the handler of its path and to no other.
\<close>

lemma mux_Handler_exact:
  assumes "\<forall>(p, h) \<in> set routes. (p = '''' \<or> last p \<noteq> CHR ''/'') \<and> cleanPath p = p"
  shows "mux_Handler routes r = MuxHandler e \<longleftrightarrow> map_of routes (hr_Path r) = Some e"
proof -
  have route: "p = '''' \<or> last p \<noteq> CHR ''/''" "cleanPath p = p" if "map_of routes p = Some h" for p h
    using bspec [OF assms map_of_SomeD [OF that]] by simp_all
  have exact: "mux_match routes p = map_of routes p" for p
    using assms by (intro mux_match_exact) auto
  have noslash: "map_of routes (p @ ''/'') = None" for p
    using route(1) [of "p @ ''/''"] by (cases "map_of routes (p @ ''/'')") auto
  define q where "q = (if hr_Method r = ''CONNECT'' then hr_Path r else cleanPath (hr_Path r))"
  have h: "mux_Handler routes r = (if q \<noteq> hr_Path r then MuxRedirect q
      else (case map_of routes q of Some h \<Rightarrow> MuxHandler h | None \<Rightarrow> MuxNotFound))"
    by (simp add: mux_Handler_def exact noslash q_def [symmetric])
  show ?thesis
  proof (cases "map_of routes (hr_Path r)")
    case None
    then show ?thesis by (simp add: h)
  next
    case (Some e')
    from route(2) [OF Some] have "q = hr_Path r" by (simp add: q_def)
    with Some show ?thesis by (simp add: h)
  qed
qed

lemma https_routes_handler:
  "mux_Handler https_routes r = MuxHandler e \<longleftrightarrow> map_of https_routes (hr_Path r) = Some e"
  by (rule mux_Handler_exact) (simp add: https_routes_def cleanPath_routes)

lemma http_routes_handler:
  "mux_Handler http_routes r = MuxHandler e \<longleftrightarrow> map_of http_routes (hr_Path r) = Some e"
  by (rule mux_Handler_exact) (simp add: http_routes_def cleanPath_routes)

lemma serve_validate: "hr_Path r = ''/validate-pods'' \<Longrightarrow>
    serve pkgs directives s m https_routes r = ServeValidatePods pkgs r hw_new"
  using https_routes_handler [of r ValidatePods] by (simp add: serve_def https_routes_def)

lemma serve_mutate: "hr_Path r = ''/mutate-pods'' \<Longrightarrow>
    serve pkgs directives s m https_routes r = ServeMutatePods pkgs m r hw_new"
  using https_routes_handler [of r MutatePods] by (simp add: serve_def https_routes_def)

section \<open>Properties\<close>

text \<open>Requests and packages for the witnesses.\<close>

definition sample_request :: "bytes \<Rightarrow> nat admission_request" where
  "sample_request raw = \<lparr>req_UID = ''u-1'',
     req_Kind = \<lparr>gvk_Group = '''', gvk_Version = ''v1'', gvk_Kind = ''Pod''\<rparr>,
     req_ObjectRaw = raw, req_rest = None\<rparr>"

definition sample_server_pkgs :: "(nat, nat pod \<times> nat pod) server_pkgs" where
  "sample_server_pkgs = \<lparr>DeepCopy = (\<lambda>pod. pod), Compare = (\<lambda>a b. Inr (a, b)),
     MarshalPatch = (\<lambda>(a, b). Inr (if a = b then ''[]'' else ''[add]'')),
     UnmarshalPod = (\<lambda>raw. Inr (lifespan_pod raw)),
     UnmarshalReview = (\<lambda>body. Inr \<lparr>rev_Kind = ''AdmissionReview'', rev_APIVersion = '''',
       rev_Request = Some (sample_request body), rev_Response = None\<rparr>),
     MarshalReview = (\<lambda>rev. Inr (case rev_Response rev of None \<Rightarrow> [] | Some rsp \<Rightarrow>
       resp_UID rsp @ (if resp_Allowed rsp then '' allowed'' else '' denied'')))\<rparr>"

definition sample_http :: "string \<Rightarrow> bytes \<Rightarrow> http_request" where
  "sample_http path body = \<lparr>hr_Method = ''POST'', hr_Path = path,
     hr_Header = [(''Content-Type'', [''application/json''])], hr_Form = None, hr_Body = body\<rparr>"


lemma sample_parse:
  "body \<noteq> [] \<Longrightarrow> parseRequest sample_server_pkgs (sample_http path body) =
    Inr \<lparr>rev_Kind = ''AdmissionReview'', rev_APIVersion = '''', rev_Request = Some (sample_request body), rev_Response = None\<rparr>"
  by (simp add: parseRequest_Inr sample_http_def header_get_def sample_server_pkgs_def)

lemma sample_decodes:
  "Admitter_Pod sample_server_pkgs (sample_request raw) = Inr (lifespan_pod raw)"
  by (simp add: Admitter_Pod_Inr sample_request_def) (simp add: sample_server_pkgs_def)

lemma lifespan_pod_admissible: "pod_admissible (lifespan_pod age)"
  by (simp add: pod_admissible_def lifespan_pod_def sample_defs gomap_simps str_contains_sublist [symmetric])

text \<open>
  C1: \<^verbatim>\<open>/validate-pods\<close>, from request to response. When the body holds a review of a pod and the
  codec works, the answer has status 200 and type \<^verbatim>\<open>application/json\<close>, and its body is a review that
  carries the UID of the request, allows the pod exactly if its name does not contain
  \<^verbatim>\<open>offensive\<close> and its label \<^verbatim>\<open>managedby\<close> is \<^verbatim>\<open>steve\<close>, and holds no patch.
\<close>

theorem serve_validate_verdict:
  assumes "hr_Path r = ''/validate-pods''"
    and "parseRequest pkgs r = Inr a" and "rev_Request a = Some request"
    and "Admitter_Pod pkgs request = Inr pod"
    and "\<And>rev. \<exists>b. MarshalReview pkgs rev = Inr b"
  shows "\<exists>resp out rsp b. serve pkgs directives s m https_routes r = Ok resp \<and>
    hw_Status resp = Some StatusOK \<and>
    header_get (hw_Header resp) ''Content-Type'' = ''application/json'' \<and>
    hw_Body resp = [Lit b] \<and> MarshalReview pkgs out = Inr b \<and>
    rev_Response out = Some rsp \<and> resp_UID rsp = req_UID request \<and>
    (resp_Allowed rsp \<longleftrightarrow> pod_admissible pod) \<and> resp_Patch rsp = None"
proof -
  define out where "out = fst (ValidatePodReview pkgs request)"
  have out: "ValidatePodReview pkgs request = (out, None)"
    and rsp: "\<exists>rsp. rev_Response out = Some rsp \<and> resp_UID rsp = req_UID request \<and>
      (resp_Allowed rsp \<longleftrightarrow> pod_admissible pod) \<and> resp_Patch rsp = None"
    by (simp_all add: out_def ValidatePodReview_pod [OF assms(4)])
  obtain b where b: "MarshalReview pkgs out = Inr b" using assms(5) by blast
  have "serve pkgs directives s m https_routes r =
      Ok (hw_write [Lit b] (hw_set_header ''Content-Type'' ''application/json'' hw_new))"
    using assms(1-3) out b by (simp add: serve_validate ServeValidatePods_parsed respond_body)
  with b rsp show ?thesis by (auto simp: http_simps)
qed

theorem serve_validate_verdict_witness:
  "\<exists>resp out rsp b. serve sample_server_pkgs (\<lambda>t. t) \<lparr>ServerTLSConf = (), ClientTLSConf = (), CaPEM = ''pem''\<rparr> []
      https_routes (sample_http ''/validate-pods'' ''12'') = Ok resp \<and>
    hw_Body resp = [Lit b] \<and> MarshalReview sample_server_pkgs out = Inr b \<and>
    rev_Response out = Some rsp \<and> resp_UID rsp = ''u-1'' \<and> resp_Allowed rsp"
proof -
  have path: "hr_Path (sample_http ''/validate-pods'' ''12'') = ''/validate-pods''"
    by (simp add: sample_http_def)
  have total: "\<And>rev. \<exists>b. MarshalReview sample_server_pkgs rev = Inr b"
    by (simp add: sample_server_pkgs_def)
  from serve_validate_verdict [OF path sample_parse _ sample_decodes total,
      where directives = "\<lambda>t. t" and s = "\<lparr>ServerTLSConf = (), ClientTLSConf = (), CaPEM = ''pem''\<rparr>" and m = "[]"]
  show ?thesis by (auto simp: lifespan_pod_admissible sample_request_def)
qed

text \<open>
  C2: \<^verbatim>\<open>/mutate-pods\<close>, from request to response. When the body holds a review of a pod with a usable
  lifespan label (or none) and the packages succeed, the answer has status 200 and its body is a
  review that carries the UID of the request, allows the pod, and holds as JSON patch the
  marshalled difference between the pod and the mutated pod.
\<close>

theorem serve_mutate_patch:
  fixes pkgs :: "('x, 'd, 'z) server_pkgs_scheme"
  assumes "hr_Path r = ''/mutate-pods''" and "copies pkgs"
    and "parseRequest pkgs r = Inr a" and "rev_Request a = Some request"
    and "Admitter_Pod pkgs request = Inr pod" and "wanted_tolerations pod = Ok ts"
    and "patch_of pkgs pod (mutated_pod ts pod) = Ok patch"
    and "\<And>rev. \<exists>b. MarshalReview pkgs rev = Inr b"
  shows "\<exists>resp out b. serve pkgs directives s m https_routes r = Ok resp \<and>
    hw_Status resp = Some StatusOK \<and>
    header_get (hw_Header resp) ''Content-Type'' = ''application/json'' \<and>
    hw_Body resp = [Lit b] \<and> MarshalReview pkgs out = Inr b \<and>
    rev_Response out = Some \<lparr>resp_UID = req_UID request, resp_Allowed = True, resp_Result = None,
      resp_PatchType = Some ''JSONPatch'', resp_Patch = Some patch\<rparr>"
proof -
  have "MutatePodReview pkgs m request = Ok (patchReviewResponse (req_UID request) patch)"
    using assms(2,5-7) by (rule MutatePodReview_pod)
  moreover obtain out :: "'x admission_review" where out: "patchReviewResponse (req_UID request) patch = (out, None)"
    by (simp add: patchReviewResponse_def)
  obtain b where b: "MarshalReview pkgs out = Inr b" using assms(8) by blast
  ultimately have "serve pkgs directives s m https_routes r =
      Ok (hw_write [Lit b] (hw_set_header ''Content-Type'' ''application/json'' hw_new))"
    using assms(1,3,4) out b by (simp add: serve_mutate ServeMutatePods_parsed respond_body)
  moreover have "rev_Response out = Some \<lparr>resp_UID = req_UID request, resp_Allowed = True,
      resp_Result = None, resp_PatchType = Some ''JSONPatch'', resp_Patch = Some patch\<rparr>"
    using out by (auto simp: patchReviewResponse_def PatchTypeJSONPatch_def)
  ultimately show ?thesis using b by (auto simp: http_simps)
qed

theorem serve_mutate_patch_witness:
  "\<exists>resp out b. serve sample_server_pkgs (\<lambda>t. t) \<lparr>ServerTLSConf = (), ClientTLSConf = (), CaPEM = ''pem''\<rparr> []
      https_routes (sample_http ''/mutate-pods'' ''12'') = Ok resp \<and>
    hw_Body resp = [Lit b] \<and> MarshalReview sample_server_pkgs out = Inr b \<and>
    rev_Response out = Some \<lparr>resp_UID = ''u-1'', resp_Allowed = True, resp_Result = None,
      resp_PatchType = Some ''JSONPatch'', resp_Patch = Some ''[add]''\<rparr>"
proof -
  have path: "hr_Path (sample_http ''/mutate-pods'' ''12'') = ''/mutate-pods''"
    by (simp add: sample_http_def)
  have copies: "copies sample_server_pkgs" by (simp add: copies_def sample_server_pkgs_def)
  have total: "\<And>rev. \<exists>b. MarshalReview sample_server_pkgs rev = Inr b"
    by (simp add: sample_server_pkgs_def)
  have patch: "patch_of sample_server_pkgs (lifespan_pod ''12'')
      (mutated_pod (lifespan_tolerations 12) (lifespan_pod ''12'')) = Ok ''[add]''"
    by (simp add: patch_of_def sample_server_pkgs_def mutated_pod_def add_env_def add_tolerations_def
        lifespan_pod_def sample_defs inject_container_def HasEnvVar_iff)
  from serve_mutate_patch [OF path copies sample_parse _ sample_decodes wanted_lifespan_pod_12 patch total,
      where directives = "\<lambda>t. t" and s = "\<lparr>ServerTLSConf = (), ClientTLSConf = (), CaPEM = ''pem''\<rparr>" and m = "[]"]
  show ?thesis by (auto simp: sample_request_def)
qed

text \<open>
  C26: \<^verbatim>\<open>ServeValidatePods\<close> always answers, and its status says where the request stopped: 400 if the
  request has another content type than \<^verbatim>\<open>application/json\<close>, an empty body, a body that does not
  decode, or no request in its review; 500 if no pod can be taken out of the review or the answer
  cannot be marshalled; 200 otherwise, for a pod that is allowed as for one that is not.
\<close>

theorem ServeValidatePods_status:
  "\<exists>resp. ServeValidatePods pkgs r hw_new = Ok resp \<and> hw_Status resp = Some
    (if header_get (hr_Header r) ''Content-Type'' = ''application/json'' \<and> hr_Body r \<noteq> []
     then (case UnmarshalReview pkgs (hr_Body r) of
         Inl _ \<Rightarrow> StatusBadRequest
       | Inr a \<Rightarrow> (case rev_Request a of
           None \<Rightarrow> StatusBadRequest
         | Some request \<Rightarrow> (case Admitter_Pod pkgs request of
             Inl _ \<Rightarrow> StatusInternalServerError
           | Inr pod \<Rightarrow> (case MarshalReview pkgs (fst (ValidatePodReview pkgs request)) of
               Inl _ \<Rightarrow> StatusInternalServerError | Inr _ \<Rightarrow> StatusOK))))
     else StatusBadRequest)"
proof (cases "parseRequest pkgs r")
  case (Inl e)
  then have "ServeValidatePods pkgs r hw_new = Ok (http_Error e StatusBadRequest hw_new)"
    by (simp add: ServeValidatePods_def)
  with Inl show ?thesis
    by (auto simp: parseRequest_def Let_def http_simps split: if_splits sum.splits)
next
  case (Inr a)
  then obtain request where request: "rev_Request a = Some request"
    by (auto simp: parseRequest_Inr)
  obtain out err where v: "ValidatePodReview pkgs request = (out, err)" by fastforce
  then have "err = (case Admitter_Pod pkgs request of Inl e \<Rightarrow> Some e | Inr _ \<Rightarrow> None)"
    using ValidatePodReview_err [of pkgs request] by simp
  moreover have "ServeValidatePods pkgs r hw_new = Ok (respond pkgs hw_new (out, err))"
    using ServeValidatePods_parsed [OF Inr request] v by simp
  ultimately show ?thesis
    using Inr request v
    by (cases "Admitter_Pod pkgs request"; cases "MarshalReview pkgs out")
      (simp_all add: respond_status parseRequest_Inr)
qed

text \<open>
  The two listeners route by whole path. A request to the TLS listener runs a handler exactly if its
  path is \<^verbatim>\<open>/health\<close>, \<^verbatim>\<open>/validate-pods\<close> or \<^verbatim>\<open>/mutate-pods\<close>, and then the handler of that path;
  the listener on localhost runs \<^verbatim>\<open>getCA\<close> exactly for \<^verbatim>\<open>/ca.pem\<close>.
\<close>

theorem listeners_route:
  "(mux_Handler https_routes r = MuxHandler e \<longleftrightarrow>
      (hr_Path r, e) \<in> {(''/health'', Health), (''/validate-pods'', ValidatePods), (''/mutate-pods'', MutatePods)}) \<and>
   (mux_Handler http_routes r = MuxHandler e \<longleftrightarrow> hr_Path r = ''/ca.pem'' \<and> e = GetCA)"
  unfolding https_routes_handler http_routes_handler
  by (auto simp: https_routes_def http_routes_def)

text \<open>
  \<^verbatim>\<open>getCA\<close> with the parameter \<^verbatim>\<open>base64\<close> writes, with status 200, a text that decodes to the
  bytes of the CA certificate, although it prints it as a format: the base64 alphabet has no \<^verbatim>\<open>%\<close>.
\<close>

theorem getCA_base64:
  assumes "CaPEM s \<noteq> []" and "gomap_get (hr_Form req) ''base64'' = Some vs"
  shows "\<exists>t. hw_Body (getCA directives s req hw_new) = [Lit t] \<and>
    hw_Status (getCA directives s req hw_new) = Some StatusOK \<and> b64_decode t = Some (CaPEM s)"
  using assms by (simp add: getCA_def http_simps b64_encode_no_percent b64_decode_encode)

theorem getCA_base64_witness:
  "\<exists>t. hw_Body (getCA (\<lambda>t. t) \<lparr>ServerTLSConf = (), ClientTLSConf = (), CaPEM = ''pem''\<rparr>
      ((sample_http ''/ca.pem'' '''')\<lparr>hr_Form := Some [(''base64'', [''''])]\<rparr>) hw_new) = [Lit t] \<and>
    b64_decode t = Some ''pem''"
  using getCA_base64 [of "\<lparr>ServerTLSConf = (), ClientTLSConf = (), CaPEM = ''pem''\<rparr>"
      "(sample_http ''/ca.pem'' '''')\<lparr>hr_Form := Some [(''base64'', [''''])]\<rparr>" "['''']" "\<lambda>t. t"]
  by (auto simp: gomap_simps)

end
