(* ===== verification/Utf8.thy ===== *)
theory Utf8
  imports Go_Strings
begin

text \<open>
  UTF-8 as Go's \<^verbatim>\<open>unicode/utf8\<close> reads it: a string is a list of bytes, which \<open>runes\<close> cuts into
  encoded code points, \<open>None\<close> standing for a byte that begins no valid encoding. JSON texts are read and
  written code point by code point.
\<close>

section \<open>Definitions\<close>

abbreviation byte :: "char \<Rightarrow> nat" where "byte c \<equiv> of_char c"

definition between :: "nat \<Rightarrow> nat \<Rightarrow> char \<Rightarrow> bool" where
  "between lo hi c \<longleftrightarrow> lo \<le> byte c \<and> byte c \<le> hi"

abbreviation cont :: "char \<Rightarrow> bool" where "cont \<equiv> between 128 191"

text \<open>
  The size of the encoding that a first byte announces (0 if none), and the range of its second byte, as
  the tables \<^verbatim>\<open>first\<close> and \<^verbatim>\<open>acceptRanges\<close> give them; then the length of the encoding a string
  begins with, 0 if it begins with none.
\<close>

definition lead :: "char \<Rightarrow> nat \<times> nat \<times> nat" where
  "lead a =
     (if byte a < 128 then (1, 0, 0)
      else if between 194 223 a then (2, 128, 191)
      else if between 224 239 a then (3, if byte a = 224 then 160 else 128, if byte a = 237 then 159 else 191)
      else if between 240 244 a then (4, if byte a = 240 then 144 else 128, if byte a = 244 then 143 else 191)
      else (0, 0, 0))"

definition rune_len :: "string \<Rightarrow> nat" where
  "rune_len s = (case s of
       [] \<Rightarrow> 0
     | a # s1 \<Rightarrow> (case lead a of (n, lo, hi) \<Rightarrow>
         if n \<le> 1 then n
         else if n - 1 \<le> length s1 \<and> between lo hi (hd s1) \<and> list_all cont (take (n - 2) (tl s1)) then n else 0))"

function runes :: "string \<Rightarrow> string option list" where
  "runes s = (if s = [] then []
     else if rune_len s = 0 then None # runes (tl s)
     else Some (take (rune_len s) s) # runes (drop (rune_len s) s))"
  by auto
termination by (relation "measure length") auto

declare runes.simps [simp del]

text \<open>The code point \<open>n\<close> encoded; surrogates and numbers out of range become U+FFFD.\<close>

definition replacement :: string where
  "replacement = map char_of [239, 191, 189 :: nat]"

definition encode_rune :: "nat \<Rightarrow> string" where
  "encode_rune n =
     (if n < 128 then [char_of n]
      else if n < 2048 then [char_of (192 + n div 64), char_of (128 + n mod 64)]
      else if 55296 \<le> n \<and> n < 57344 \<or> 1114112 \<le> n then replacement
      else if n < 65536 then [char_of (224 + n div 4096), char_of (128 + n div 64 mod 64), char_of (128 + n mod 64)]
      else [char_of (240 + n div 262144), char_of (128 + n div 4096 mod 64), char_of (128 + n div 64 mod 64),
            char_of (128 + n mod 64)])"

text \<open>Invalid bytes replaced by U+FFFD, as a list of encodings.\<close>

definition clean :: "string \<Rightarrow> string list" where
  "clean s = map (\<lambda>r. case r of None \<Rightarrow> replacement | Some r \<Rightarrow> r) (runes s)"

definition valid_rune :: "string \<Rightarrow> bool" where
  "valid_rune r \<longleftrightarrow> r \<noteq> [] \<and> rune_len r = length r"

definition valid_utf8 :: "string \<Rightarrow> bool" where
  "valid_utf8 s \<longleftrightarrow> list_all (\<lambda>r. r \<noteq> None) (runes s)"

section \<open>Lemmas\<close>

lemma lead_cases: "lead a = (n, lo, hi) \<Longrightarrow> n = 0 \<or> (n = 1 \<and> byte a < 128) \<or>
    (2 \<le> n \<and> n \<le> 4 \<and> 128 \<le> byte a \<and> 128 \<le> lo)"
  by (auto simp: lead_def between_def split: if_splits)

lemma rune_len_le: "rune_len s \<le> length s"
  by (auto simp: rune_len_def split: list.split prod.split)

lemma rune_len_local:
  assumes "rune_len s = n" and "n \<noteq> 0" and "take n s' = take n s" and "n \<le> length s'"
  shows "rune_len s' = n"
proof -
  from assms(1,2) obtain a s1 where s: "s = a # s1" by (cases s) (auto simp: rune_len_def)
  with assms(2-4) obtain s1' where s': "s' = a # s1'" and tk: "take (n - 1) s1' = take (n - 1) s1"
    by (cases s'; cases n) auto
  obtain k lo hi where l: "lead a = (k, lo, hi)" by (cases "lead a")
  show ?thesis
  proof (cases "k \<le> 1")
    case True
    with assms(1) s s' l show ?thesis by (simp add: rune_len_def)
  next
    case False
    with assms(1,2) s l have k: "k = n" "n - 1 \<le> length s1" "between lo hi (hd s1)" "list_all cont (take (n - 2) (tl s1))"
      by (auto simp: rune_len_def split: if_splits)
    from assms(4) s' have len: "n - 1 \<le> length s1'" by simp
    from False k obtain m where n: "n = Suc (Suc m)" by (metis One_nat_def less_eq_Suc_le not_less old.nat.exhaust zero_le)
    from tk k(2) len n have "hd s1' = hd s1" "take m (tl s1') = take m (tl s1)"
      by (cases s1; cases s1'; simp)+
    with k len s' l n show ?thesis by (simp add: rune_len_def)
  qed
qed

lemma rune_len_append: "rune_len s \<noteq> 0 \<Longrightarrow> rune_len (s @ t) = rune_len s"
  by (rule rune_len_local [of s]) (use rune_len_le [of s] in auto)

lemma rune_len_take: "rune_len s \<noteq> 0 \<Longrightarrow> rune_len (take (rune_len s) s) = rune_len s"
  by (rule rune_len_local [of s]) (use rune_len_le [of s] in auto)

lemma runes_Nil [simp]: "runes [] = []"
  by (simp add: runes.simps)

lemma runes_valid: "valid_rune r \<Longrightarrow> runes (r @ s) = Some r # runes s"
  by (subst runes.simps) (simp add: valid_rune_def rune_len_append)

lemma runes_concat: "list_all valid_rune rs \<Longrightarrow> runes (concat rs @ s) = map Some rs @ runes s"
  by (induction rs) (simp_all add: runes_valid)

lemma runes_are_valid: "Some r \<in> set (runes s) \<Longrightarrow> valid_rune r"
proof (induction s rule: runes.induct)
  case (1 s)
  show ?case
  proof (cases "s = [] \<or> rune_len s = 0")
    case True
    with 1(1,3) show ?thesis by (auto simp: runes.simps [of s] split: if_splits)
  next
    case False
    then have "valid_rune (take (rune_len s) s)"
      using rune_len_take [of s] rune_len_le [of s] by (auto simp: valid_rune_def)
    with False 1(2,3) show ?thesis by (auto simp: runes.simps [of s])
  qed
qed

lemma runes_concat_inv: "valid_utf8 s \<Longrightarrow> concat (map the (runes s)) = s"
proof (induction s rule: runes.induct)
  case (1 s)
  show ?case
  proof (cases "s = [] \<or> rune_len s = 0")
    case True
    with 1(3) show ?thesis by (auto simp: valid_utf8_def runes.simps [of s])
  next
    case False
    with 1(3) have "valid_utf8 (drop (rune_len s) s)" by (auto simp: valid_utf8_def runes.simps [of s])
    with 1(2) False show ?thesis by (simp add: runes.simps [of s])
  qed
qed

lemma replacement_valid [simp]: "valid_rune replacement"
  by (simp add: valid_rune_def replacement_def rune_len_def lead_def between_def)

lemma clean_valid: "list_all valid_rune (clean s)"
  by (auto simp: clean_def list_all_iff dest: runes_are_valid split: option.split)

lemma valid_utf8_concat: "list_all valid_rune rs \<Longrightarrow> valid_utf8 (concat rs)"
  using runes_concat [of rs "[]"] by (simp add: valid_utf8_def list_all_iff)

lemma clean_concat: "list_all valid_rune rs \<Longrightarrow> clean (concat rs) = rs"
  using runes_concat [of rs "[]"] by (simp add: clean_def comp_def)

lemma clean_utf8: "valid_utf8 s \<Longrightarrow> concat (clean s) = s"
proof -
  assume v: "valid_utf8 s"
  then have "clean s = map the (runes s)" by (auto simp: clean_def valid_utf8_def list_all_iff)
  with runes_concat_inv [OF v] show ?thesis by simp
qed

lemma ascii_valid: "byte c < 128 \<Longrightarrow> valid_rune [c]"
  by (simp add: valid_rune_def rune_len_def lead_def)

lemma valid_rune_single: "valid_rune [c] \<Longrightarrow> byte c < 128"
  using lead_cases [of c] by (auto simp: valid_rune_def rune_len_def split: prod.splits if_splits)

lemma valid_rune_high:
  assumes "valid_rune r" and "length r \<noteq> 1" and c: "c \<in> set r"
  shows "128 \<le> byte c"
proof -
  from assms(1) obtain a s1 where r: "r = a # s1" by (cases r) (auto simp: valid_rune_def)
  obtain n lo hi where l: "lead a = (n, lo, hi)" by (cases "lead a")
  with assms r have n: "n = Suc (length s1)" "1 < n" "between lo hi (hd s1)" "list_all cont (take (n - 2) (tl s1))"
    by (auto simp: valid_rune_def rune_len_def split: if_splits)
  then obtain b s2 where s1: "s1 = b # s2" by (cases s1) auto
  with n have "between lo hi b" "list_all cont s2" by simp_all
  with lead_cases [OF l] n c show ?thesis by (auto simp: r s1 between_def list_all_iff)
qed

lemma valid_rune2: "between 194 223 a \<Longrightarrow> cont b \<Longrightarrow> valid_rune [a, b]"
  by (simp add: valid_rune_def rune_len_def lead_def between_def)

lemma valid_rune3: "between 224 239 a \<Longrightarrow> between (if byte a = 224 then 160 else 128) (if byte a = 237 then 159 else 191) b \<Longrightarrow>
    cont c \<Longrightarrow> valid_rune [a, b, c]"
  by (simp add: valid_rune_def rune_len_def lead_def between_def)

lemma valid_rune4: "between 240 244 a \<Longrightarrow> between (if byte a = 240 then 144 else 128) (if byte a = 244 then 143 else 191) b \<Longrightarrow>
    cont c \<Longrightarrow> cont d \<Longrightarrow> valid_rune [a, b, c, d]"
  by (simp add: valid_rune_def rune_len_def lead_def between_def)

lemma byte_char: "(n :: nat) < 256 \<Longrightarrow> byte (char_of n) = n"
  by simp

lemma cont_mod: "cont (char_of (128 + (n :: nat) mod 64))"
proof -
  have "n mod 64 < 64" by simp
  then have "128 + n mod 64 < 256" by linarith
  then have "byte (char_of (128 + n mod 64)) = 128 + n mod 64" by (rule byte_char)
  then show ?thesis using \<open>n mod 64 < 64\<close> by (simp only: between_def) linarith
qed

lemma encode_rune_valid: "valid_rune (encode_rune n)"
proof -
  consider "n < 128" | "128 \<le> n" "n < 2048" | "55296 \<le> n \<and> n < 57344 \<or> 1114112 \<le> n"
    | "2048 \<le> n" "n < 65536" "n < 55296 \<or> 57344 \<le> n" | "65536 \<le> n" "n < 1114112" by linarith
  then show ?thesis
  proof cases
    case 1
    then show ?thesis by (simp add: encode_rune_def ascii_valid)
  next
    case 2
    then have "between 194 223 (char_of (192 + n div 64))" by (auto simp: between_def byte_char)
    with 2 show ?thesis by (simp add: encode_rune_def valid_rune2 cont_mod del: of_char_of)
  next
    case 3
    then show ?thesis by (auto simp: encode_rune_def)
  next
    case 4
    have a: "byte (char_of (224 + n div 4096)) = 224 + n div 4096" using 4 by (intro byte_char) linarith
    have "n div 64 mod 64 < 64" by simp
    then have b: "byte (char_of (128 + n div 64 mod 64)) = 128 + n div 64 mod 64" by (intro byte_char) linarith
    have *: "n div 64 = 64 * (n div 4096) + n div 64 mod 64" using div_mult2_eq [of n 64 64] by simp
    have e: "n div 4096 = 0 \<Longrightarrow> 32 \<le> n div 64 mod 64" "n div 4096 = 13 \<Longrightarrow> n div 64 mod 64 < 32" using 4 * by linarith+
    have "between 224 239 (char_of (224 + n div 4096))" unfolding between_def a using 4 by linarith
    moreover have "between (if byte (char_of (224 + n div 4096)) = 224 then 160 else 128)
       (if byte (char_of (224 + n div 4096)) = 237 then 159 else 191) (char_of (128 + n div 64 mod 64))"
      unfolding between_def a b using e \<open>n div 64 mod 64 < 64\<close> by auto
    ultimately show ?thesis using 4 by (simp add: encode_rune_def valid_rune3 cont_mod del: of_char_of)
  next
    case 5
    have a: "byte (char_of (240 + n div 262144)) = 240 + n div 262144" using 5 by (intro byte_char) linarith
    have "n div 4096 mod 64 < 64" by simp
    then have b: "byte (char_of (128 + n div 4096 mod 64)) = 128 + n div 4096 mod 64" by (intro byte_char) linarith
    have *: "n div 4096 = 64 * (n div 262144) + n div 4096 mod 64" using div_mult2_eq [of n 4096 64] by simp
    have e: "n div 262144 = 0 \<Longrightarrow> 16 \<le> n div 4096 mod 64" "n div 262144 = 4 \<Longrightarrow> n div 4096 mod 64 < 16" using 5 * by linarith+
    have "between 240 244 (char_of (240 + n div 262144))" unfolding between_def a using 5 by linarith
    moreover have "between (if byte (char_of (240 + n div 262144)) = 240 then 144 else 128)
       (if byte (char_of (240 + n div 262144)) = 244 then 143 else 191) (char_of (128 + n div 4096 mod 64))"
      unfolding between_def a b using e \<open>n div 4096 mod 64 < 64\<close> by auto
    ultimately show ?thesis using 5 by (simp add: encode_rune_def valid_rune4 cont_mod del: of_char_of)
  qed
qed

lemma ascii_utf8: "list_all (\<lambda>c. byte c < 128) s \<Longrightarrow> valid_utf8 s"
  using valid_utf8_concat [of "map (\<lambda>c. [c]) s"] by (simp add: list_all_iff ascii_valid)

lemma clean_ascii: "list_all (\<lambda>c. byte c < 128) s \<Longrightarrow> clean s = map (\<lambda>c. [c]) s"
  using clean_concat [of "map (\<lambda>c. [c]) s"] by (simp add: list_all_iff ascii_valid)

end
