(* ===== verification/Json.thy ===== *)
theory Json
  imports Utf8
begin

text \<open>
  What \<^verbatim>\<open>mutatingwebhook\<close> and the types of the operator use of Go's \<^verbatim>\<open>encoding/json\<close> (1.17): the scanner that reads the first value
  of a stream, as the machine \<open>scan\<close> over bytes that the scanner of the package is; the decoding of a
  value into a struct by the names of its fields; and the encoding of a struct. Reading what has
  been written gives back what was written (\<open>parse_print\<close>). The locale \<open>json_codec\<close> is the interface of a type that is
  written and read; the types of the programs are its interpretations.
\<close>

section \<open>Values\<close>

text \<open>A number is kept as it was written. The members of an object are in order and may repeat a name.\<close>

datatype json =
    JNull
  | JBool bool
  | JNum string
  | JStr string
  | JArr "json list"
  | JObj "(string \<times> json) list"

text \<open>
  \<open>ErrEOF\<close> is \<^verbatim>\<open>io.EOF\<close>, of a stream without a value; \<open>ErrType\<close> is the first error of a value that does
  not fit the type it is decoded into.
\<close>

datatype json_error = ErrEOF | ErrUnexpectedEOF | ErrSyntax | ErrDepth | ErrType

section \<open>Strings\<close>

definition hex_val :: "char \<Rightarrow> nat option" where
  "hex_val c = (if between 48 57 c then Some (byte c - 48) else if between 97 102 c then Some (byte c - 87)
     else if between 65 70 c then Some (byte c - 55) else None)"

definition hex4 :: "string \<Rightarrow> string \<Rightarrow> string \<Rightarrow> string \<Rightarrow> nat option" where
  "hex4 a b c d = (case (concat [a, b, c, d]) of
       [w, x, y, z] \<Rightarrow> (case (hex_val w, hex_val x, hex_val y, hex_val z) of
           (Some h1, Some h2, Some h3, Some h4) \<Rightarrow> Some (((h1 * 16 + h2) * 16 + h3) * 16 + h4)
         | _ \<Rightarrow> None)
     | _ \<Rightarrow> None)"

definition unescape :: "string \<Rightarrow> string" where
  "unescape e = (if e = ''b'' then [CHR 0x08] else if e = ''f'' then [CHR 0x0C] else if e = ''n'' then [CHR 0x0A]
     else if e = ''r'' then [CHR 0x0D] else if e = ''t'' then [CHR 0x09] else e)"

text \<open>
  \<^verbatim>\<open>getu4\<close>: the number of a \<^verbatim>\<open>\uXXXX\<close> at the start, with what follows it. Then \<^verbatim>\<open>unquote\<close>, on the code
  points between the quotes: escapes are resolved, a pair of surrogates to one code point and a lone
  surrogate to U+FFFD.
\<close>

definition getu4 :: "string list \<Rightarrow> (nat \<times> string list) option" where
  "getu4 rs = (case rs of
       s # u # a # b # c # d # rest \<Rightarrow>
         if s = [CHR 0x5C] \<and> u = ''u'' then map_option (\<lambda>n. (n, rest)) (hex4 a b c d) else None
     | _ \<Rightarrow> None)"

definition surrogate :: "nat \<Rightarrow> bool" where
  "surrogate n \<longleftrightarrow> 55296 \<le> n \<and> n < 57344"

lemma getu4_rest: "getu4 rs = Some (n, rest) \<Longrightarrow> length rest < length rs \<and> set rest \<subseteq> set rs"
  by (auto simp: getu4_def split: list.splits if_splits)

function unquote_runes :: "string list \<Rightarrow> string list" where
  "unquote_runes rs = (case rs of
       [] \<Rightarrow> []
     | r # rs1 \<Rightarrow>
         if r \<noteq> [CHR 0x5C] then r # unquote_runes rs1
         else (case getu4 rs of
             Some (n, rs2) \<Rightarrow>
               if surrogate n
               then (case getu4 rs2 of
                   Some (n', rs3) \<Rightarrow>
                     if n < 56320 \<and> 56320 \<le> n' \<and> n' < 57344
                     then encode_rune ((n - 55296) * 1024 + (n' - 56320) + 65536) # unquote_runes rs3
                     else replacement # unquote_runes rs2
                 | None \<Rightarrow> replacement # unquote_runes rs2)
               else encode_rune n # unquote_runes rs2
           | None \<Rightarrow>
               (case rs1 of
                  [] \<Rightarrow> []
                | e # rs2 \<Rightarrow> if e = ''u'' then [] else unescape e # unquote_runes rs2)))"
  by auto
termination by (relation "measure length") (auto dest!: getu4_rest)

declare unquote_runes.simps [simp del]

definition unquote :: "string \<Rightarrow> string" where
  "unquote raw = concat (unquote_runes (clean raw))"

text \<open>What \<^verbatim>\<open>Marshal\<close> writes for a code point of a string, as a list of code points, and for a string.\<close>

definition hex_digit :: "nat \<Rightarrow> char" where
  "hex_digit n = (if n < 10 then char_of (48 + n) else char_of (87 + n))"

definition quote_rune :: "string option \<Rightarrow> string list" where
  "quote_rune ro = (case ro of
       None \<Rightarrow> map (\<lambda>c. [c]) ([CHR 0x5C] @ ''ufffd'')
     | Some r \<Rightarrow>
         if r = [CHR 0x22] \<or> r = [CHR 0x5C] then [[CHR 0x5C], r]
         else if r = [CHR 0x0A] then [[CHR 0x5C], ''n'']
         else if r = [CHR 0x0D] then [[CHR 0x5C], ''r'']
         else if r = [CHR 0x09] then [[CHR 0x5C], ''t'']
         else if length r = 1 \<and> (byte (hd r) < 32 \<or> r = ''<'' \<or> r = ''>'' \<or> r = ''&'')
         then map (\<lambda>c. [c]) ([CHR 0x5C] @ ''u00'' @ [hex_digit (byte (hd r) div 16), hex_digit (byte (hd r) mod 16)])
         else if r = encode_rune 8232 then map (\<lambda>c. [c]) ([CHR 0x5C] @ ''u2028'')
         else if r = encode_rune 8233 then map (\<lambda>c. [c]) ([CHR 0x5C] @ ''u2029'')
         else [r])"

definition quote_body :: "string \<Rightarrow> string" where
  "quote_body s = concat (concat (map quote_rune (runes s)))"

definition quote_json :: "string \<Rightarrow> string" where
  "quote_json s = [CHR 0x22] @ quote_body s @ [CHR 0x22]"

section \<open>Writing\<close>

fun join_comma :: "string list \<Rightarrow> string" where
  "join_comma [] = []"
| "join_comma [s] = s"
| "join_comma (s # ss) = s @ CHR '','' # join_comma ss"

fun print :: "json \<Rightarrow> string" where
  "print JNull = ''null''"
| "print (JBool b) = (if b then ''true'' else ''false'')"
| "print (JNum s) = s"
| "print (JStr s) = quote_json s"
| "print (JArr vs) = ''['' @ join_comma (map print vs) @ '']''"
| "print (JObj ms) = ''{'' @ join_comma (map (\<lambda>(k, v). quote_json k @ CHR '':'' # print v) ms) @ ''}''"

section \<open>Reading\<close>

text \<open>
  The scanner. \<open>Val\<close> expects a value, \<open>ValOrEnd\<close> a value or the end of an array, \<open>KeyFirst\<close> a name or
  the end of an object, \<open>Key\<close> a name, \<open>Colon k\<close> the colon after the name \<open>k\<close>; \<open>Complete v\<close> has read \<open>v\<close>. A
  string keeps whether it is a name and its bytes; a number its state and its bytes; a word the letters
  still to come. What is being built is on a stack of open arrays and objects.
\<close>

datatype num_state = NMinus | NZero | NInt | NDot | NFrac | NE | NESign | NExp

datatype mode =
    Val | ValOrEnd | KeyFirst | Key | Colon string | Complete json
  | InStr bool string | InEsc bool string | InU nat bool string
  | InNum num_state string | InWord string json

datatype frame = FArr "json list" | FObj "(string \<times> json) list" | FMember "(string \<times> json) list" string

definition is_space :: "char \<Rightarrow> bool" where
  "is_space c \<longleftrightarrow> c = CHR '' '' \<or> c = CHR 0x09 \<or> c = CHR 0x0D \<or> c = CHR 0x0A"

definition maxNestingDepth :: nat where "maxNestingDepth = 10000"

definition push :: "frame \<Rightarrow> mode \<Rightarrow> frame list \<Rightarrow> json_error + mode \<times> frame list" where
  "push f m st = (if length st < maxNestingDepth then Inr (m, f # st) else Inl ErrDepth)"

text \<open>A character that begins a value.\<close>

definition begin_value :: "frame list \<Rightarrow> char \<Rightarrow> json_error + mode \<times> frame list" where
  "begin_value st c =
     (if is_space c then Inr (Val, st)
      else if c = CHR ''{'' then push (FObj []) KeyFirst st
      else if c = CHR ''['' then push (FArr []) ValOrEnd st
      else if c = CHR 0x22 then Inr (InStr False [], st)
      else if c = CHR ''-'' then Inr (InNum NMinus [c], st)
      else if c = CHR ''0'' then Inr (InNum NZero [c], st)
      else if between 49 57 c then Inr (InNum NInt [c], st)
      else if c = CHR ''t'' then Inr (InWord ''rue'' (JBool True), st)
      else if c = CHR ''f'' then Inr (InWord ''alse'' (JBool False), st)
      else if c = CHR ''n'' then Inr (InWord ''ull'' JNull, st)
      else Inl ErrSyntax)"

text \<open>A character after the value \<open>v\<close>, inside an array or an object.\<close>

definition after_value :: "json \<Rightarrow> frame list \<Rightarrow> char \<Rightarrow> json_error + mode \<times> frame list" where
  "after_value v st c =
     (if is_space c then Inr (Complete v, st)
      else (case st of
          FArr vs # st' \<Rightarrow>
            if c = CHR '','' then Inr (Val, FArr (vs @ [v]) # st')
            else if c = CHR '']'' then Inr (Complete (JArr (vs @ [v])), st') else Inl ErrSyntax
        | FMember ms k # st' \<Rightarrow>
            if c = CHR '','' then Inr (Key, FObj (ms @ [(k, v)]) # st')
            else if c = CHR ''}'' then Inr (Complete (JObj (ms @ [(k, v)])), st') else Inl ErrSyntax
        | _ \<Rightarrow> Inl ErrSyntax))"

definition end_string :: "bool \<Rightarrow> string \<Rightarrow> mode" where
  "end_string name raw = (if name then Colon (unquote raw) else Complete (JStr (unquote raw)))"

text \<open>The next state of a number, or that the number ends before the character.\<close>

definition num_step :: "num_state \<Rightarrow> char \<Rightarrow> json_error + num_state option" where
  "num_step ns c = (case ns of
       NMinus \<Rightarrow> if c = CHR ''0'' then Inr (Some NZero) else if between 49 57 c then Inr (Some NInt) else Inl ErrSyntax
     | NZero \<Rightarrow> if c = CHR ''.'' then Inr (Some NDot) else if c = CHR ''e'' \<or> c = CHR ''E'' then Inr (Some NE) else Inr None
     | NInt \<Rightarrow> if between 48 57 c then Inr (Some NInt)
         else if c = CHR ''.'' then Inr (Some NDot) else if c = CHR ''e'' \<or> c = CHR ''E'' then Inr (Some NE) else Inr None
     | NDot \<Rightarrow> if between 48 57 c then Inr (Some NFrac) else Inl ErrSyntax
     | NFrac \<Rightarrow> if between 48 57 c then Inr (Some NFrac) else if c = CHR ''e'' \<or> c = CHR ''E'' then Inr (Some NE) else Inr None
     | NE \<Rightarrow> if c = CHR ''+'' \<or> c = CHR ''-'' then Inr (Some NESign) else if between 48 57 c then Inr (Some NExp) else Inl ErrSyntax
     | NESign \<Rightarrow> if between 48 57 c then Inr (Some NExp) else Inl ErrSyntax
     | NExp \<Rightarrow> if between 48 57 c then Inr (Some NExp) else Inr None)"

definition num_complete :: "num_state \<Rightarrow> bool" where
  "num_complete ns \<longleftrightarrow> ns = NZero \<or> ns = NInt \<or> ns = NFrac \<or> ns = NExp"

definition scan :: "mode \<Rightarrow> frame list \<Rightarrow> char \<Rightarrow> json_error + mode \<times> frame list" where
  "scan m st c = (case m of
       Val \<Rightarrow> begin_value st c
     | ValOrEnd \<Rightarrow>
         if is_space c then Inr (ValOrEnd, st)
         else if c = CHR '']''
         then (case st of FArr vs # st' \<Rightarrow> Inr (Complete (JArr vs), st') | _ \<Rightarrow> Inl ErrSyntax)
         else begin_value st c
     | KeyFirst \<Rightarrow>
         if is_space c then Inr (KeyFirst, st)
         else if c = CHR ''}''
         then (case st of FObj ms # st' \<Rightarrow> Inr (Complete (JObj ms), st') | _ \<Rightarrow> Inl ErrSyntax)
         else if c = CHR 0x22 then Inr (InStr True [], st) else Inl ErrSyntax
     | Key \<Rightarrow>
         if is_space c then Inr (Key, st)
         else if c = CHR 0x22 then Inr (InStr True [], st) else Inl ErrSyntax
     | Colon k \<Rightarrow>
         if is_space c then Inr (Colon k, st)
         else if c = CHR '':''
         then (case st of FObj ms # st' \<Rightarrow> Inr (Val, FMember ms k # st') | _ \<Rightarrow> Inl ErrSyntax)
         else Inl ErrSyntax
     | Complete v \<Rightarrow> after_value v st c
     | InStr name raw \<Rightarrow>
         if c = CHR 0x22 then Inr (end_string name raw, st)
         else if c = CHR 0x5C then Inr (InEsc name (raw @ [c]), st)
         else if byte c < 32 then Inl ErrSyntax else Inr (InStr name (raw @ [c]), st)
     | InEsc name raw \<Rightarrow>
         if c = CHR ''u'' then Inr (InU 4 name (raw @ [c]), st)
         else if c \<in> set (''bfnrt/'' @ [CHR 0x5C, CHR 0x22]) then Inr (InStr name (raw @ [c]), st) else Inl ErrSyntax
     | InU n name raw \<Rightarrow>
         if hex_val c = None then Inl ErrSyntax
         else Inr (if n \<le> 1 then InStr name (raw @ [c]) else InU (n - 1) name (raw @ [c]), st)
     | InNum ns s \<Rightarrow>
         (case num_step ns c of
            Inl e \<Rightarrow> Inl e
          | Inr (Some ns') \<Rightarrow> Inr (InNum ns' (s @ [c]), st)
          | Inr None \<Rightarrow> after_value (JNum s) st c)
     | InWord rest v \<Rightarrow>
         (case rest of
            [] \<Rightarrow> Inl ErrSyntax
          | w # ws \<Rightarrow> if c \<noteq> w then Inl ErrSyntax else Inr (if ws = [] then Complete v else InWord ws v, st)))"

text \<open>
  The value is complete when the stack is empty: what follows is not looked at. A number that nothing
  encloses ends at the first character that does not continue it.
\<close>

definition ends :: "mode \<Rightarrow> frame list \<Rightarrow> char \<Rightarrow> json option" where
  "ends m st c = (if st \<noteq> [] then None else (case m of
       Complete v \<Rightarrow> Some v
     | InNum ns s \<Rightarrow> if num_step ns c = Inr None then Some (JNum s) else None
     | _ \<Rightarrow> None))"

fun run_scan :: "mode \<Rightarrow> frame list \<Rightarrow> string \<Rightarrow> json_error + json" where
  "run_scan m st [] = (case m of
       Complete v \<Rightarrow> if st = [] then Inr v else Inl ErrUnexpectedEOF
     | InNum ns s \<Rightarrow> if st = [] \<and> num_complete ns then Inr (JNum s) else Inl ErrUnexpectedEOF
     | Val \<Rightarrow> if st = [] then Inl ErrEOF else Inl ErrUnexpectedEOF
     | _ \<Rightarrow> Inl ErrUnexpectedEOF)"
| "run_scan m st (c # cs) =
     (case ends m st c of
        Some v \<Rightarrow> Inr v
      | None \<Rightarrow> (case scan m st c of Inl e \<Rightarrow> Inl e | Inr (m', st') \<Rightarrow> run_scan m' st' cs))"

definition parse :: "string \<Rightarrow> json_error + json" where
  "parse s = run_scan Val [] s"

section \<open>Decoding into a struct\<close>

text \<open>
  Decoding updates what is there and says whether the value fitted: \<^verbatim>\<open>null\<close> leaves everything as it is, a value of
  the wrong type is left out and makes the whole decoding fail in the end.
\<close>

type_synonym 'a decoder = "json \<Rightarrow> 'a \<Rightarrow> bool \<times> 'a"

definition dec_string :: "string decoder" where
  "dec_string j old = (case j of JNull \<Rightarrow> (True, old) | JStr s \<Rightarrow> (True, s) | _ \<Rightarrow> (False, old))"

definition dec_bool :: "bool decoder" where
  "dec_bool j old = (case j of JNull \<Rightarrow> (True, old) | JBool b \<Rightarrow> (True, b) | _ \<Rightarrow> (False, old))"

text \<open>
  A slice of strings. An element that is \<^verbatim>\<open>null\<close> keeps the string that was at its index. Go reuses the array behind a slice up to its
  capacity: if the member is there three times or more, and an earlier, longer value was followed by a shorter one, a \<^verbatim>\<open>null\<close>
  beyond the length of the latter shows the element of the former, where the model has an empty string.
\<close>

definition dec_strings :: "string list option decoder" where
  "dec_strings j old = (case j of
       JNull \<Rightarrow> (True, None)
     | JArr vs \<Rightarrow>
         (let ds = map (\<lambda>(i, v). dec_string v (case old of
                Some ss \<Rightarrow> if i < length ss then ss ! i else '''' | None \<Rightarrow> '''')) (zip [0..<length vs] vs)
          in (list_all fst ds, Some (map snd ds)))
     | _ \<Rightarrow> (False, old))"

text \<open>
  Names of members match names of fields up to case, with the two letters beyond ASCII whose
  lower case is ASCII, U+017F and U+212A. An exact match is preferred.
\<close>

definition lower :: "char \<Rightarrow> char" where
  "lower c = (if between 65 90 c then char_of (byte c + 32) else c)"

definition fold_rune :: "string \<Rightarrow> string" where
  "fold_rune r = (if r = encode_rune 383 then ''s'' else if r = encode_rune 8490 then ''k'' else map lower r)"

definition fold_key :: "string \<Rightarrow> string" where
  "fold_key k = concat (map fold_rune (clean k))"

definition find_field :: "(string \<times> 'f) list \<Rightarrow> string \<Rightarrow> 'f option" where
  "find_field fields k = (case map_of fields k of
       Some f \<Rightarrow> Some f
     | None \<Rightarrow> map_of (map (\<lambda>(n, f). (fold_key n, f)) fields) (fold_key k))"

type_synonym 'r fields = "(string \<times> 'r decoder) list"

definition field :: "string \<Rightarrow> 'a decoder \<Rightarrow> ('r \<Rightarrow> 'a) \<Rightarrow> ('a \<Rightarrow> 'r \<Rightarrow> 'r) \<Rightarrow> string \<times> 'r decoder" where
  "field name dec get upd = (name, \<lambda>j r. case dec j (get r) of (ok, a) \<Rightarrow> (ok, upd a r))"

fun dec_members :: "'r fields \<Rightarrow> (string \<times> json) list \<Rightarrow> 'r \<Rightarrow> bool \<times> 'r" where
  "dec_members fields [] r = (True, r)"
| "dec_members fields ((k, v) # ms) r =
     (case find_field fields k of
        None \<Rightarrow> dec_members fields ms r
      | Some dec \<Rightarrow>
          (case dec v r of (ok, r1) \<Rightarrow>
             (case dec_members fields ms r1 of (ok', r2) \<Rightarrow> (ok \<and> ok', r2))))"

definition dec_struct :: "'r fields \<Rightarrow> 'r decoder" where
  "dec_struct fields j r = (case j of
       JNull \<Rightarrow> (True, r)
     | JObj ms \<Rightarrow> dec_members fields ms r
     | _ \<Rightarrow> (False, r))"

text \<open>\<^verbatim>\<open>json.NewDecoder(body).Decode(&v)\<close>, for a zero \<open>v\<close>.\<close>

definition Decode :: "'r decoder \<Rightarrow> 'r \<Rightarrow> string \<Rightarrow> json_error + 'r" where
  "Decode dec zero body = (case parse body of
       Inl e \<Rightarrow> Inl e
     | Inr j \<Rightarrow> (case dec j zero of (ok, r) \<Rightarrow> if ok then Inr r else Inl ErrType))"

section \<open>Strings: reading what was written\<close>

lemma ends_simps [simp]:
  "ends m (f # st) c = None" "ends Val st c = None" "ends ValOrEnd st c = None" "ends Key st c = None"
  "ends KeyFirst st c = None" "ends (Colon k) st c = None" "ends (InStr name raw) st c = None"
  "ends (InEsc name raw) st c = None" "ends (InU n name raw) st c = None" "ends (InWord w v) st c = None"
  "ends (Complete v) [] c = Some v"
  by (simp_all add: ends_def)

lemma byte_eq_iff: "c = d \<longleftrightarrow> byte c = byte d"
  by simp

lemma hex_digit: "n < 16 \<Longrightarrow> hex_val (hex_digit n) = Some n"
  by (auto simp: hex_val_def hex_digit_def between_def byte_char)

lemma hex_digit_byte: "n < 16 \<Longrightarrow> byte (hex_digit n) < 128"
  by (auto simp: hex_digit_def byte_char)

lemma hex4_control:
  assumes "n < 256"
  shows "hex4 ''0'' ''0'' [hex_digit (n div 16)] [hex_digit (n mod 16)] = Some n"
proof -
  have "n div 16 < 16" using assms by linarith
  moreover have "hex_val CHR ''0'' = Some 0" by (simp add: hex_val_def between_def)
  ultimately show ?thesis by (simp add: hex4_def hex_digit)
qed

lemma encode_single: "byte c < 128 \<Longrightarrow> encode_rune (byte c) = [c]"
  by (simp add: encode_rune_def)

text \<open>A code point is written as it is, as a short escape, or as a numeric escape.\<close>

abbreviation chars :: "string \<Rightarrow> string list" where "chars \<equiv> map (\<lambda>c. [c])"

definition written_as :: "string \<Rightarrow> string list \<Rightarrow> bool" where
  "written_as r q \<longleftrightarrow>
     (q = [r] \<and> r \<noteq> [CHR 0x5C] \<and> r \<noteq> [CHR 0x22] \<and> (length r = 1 \<longrightarrow> 32 \<le> byte (hd r))) \<or>
     (\<exists>e \<in> set (''nrt'' @ [CHR 0x22, CHR 0x5C]). q = [[CHR 0x5C], [e]] \<and> unescape [e] = r) \<or>
     (\<exists>w x y z n. q = chars (CHR 0x5C # ''u'' @ [w, x, y, z]) \<and> hex4 [w] [x] [y] [z] = Some n \<and>
        \<not> surrogate n \<and> encode_rune n = r)"

lemma quote_rune_written:
  assumes v: "valid_rune r"
  shows "written_as r (quote_rune (Some r))"
proof (cases "r = [CHR 0x22] \<or> r = [CHR 0x5C] \<or> r = [CHR 0x0A] \<or> r = [CHR 0x0D] \<or> r = [CHR 0x09]")
  case True
  then show ?thesis by (elim disjE) (simp_all add: written_as_def quote_rune_def unescape_def)
next
  case short: False
  show ?thesis
  proof (cases "length r = 1 \<and> (byte (hd r) < 32 \<or> r = ''<'' \<or> r = ''>'' \<or> r = ''&'')")
    case True
    then obtain c where r: "r = [c]" by (cases r) auto
    from valid_rune_single v have c: "byte c < 128" by (simp add: r)
    have "quote_rune (Some r) = chars (CHR 0x5C # ''u'' @ [CHR ''0'', CHR ''0'', hex_digit (byte c div 16), hex_digit (byte c mod 16)])"
      using short True r by (simp add: quote_rune_def)
    moreover have "hex4 ''0'' ''0'' [hex_digit (byte c div 16)] [hex_digit (byte c mod 16)] = Some (byte c)"
      by (rule hex4_control) (use c in simp)
    moreover have "encode_rune (byte c) = r" using encode_single [OF c] r by simp
    ultimately show ?thesis using c unfolding written_as_def by (intro disjI2 exI conjI) (auto simp: surrogate_def)
  next
    case False
    have "hex4 ''2'' ''0'' ''2'' ''8'' = Some 8232" "hex4 ''2'' ''0'' ''2'' ''9'' = Some 8233"
      by (simp_all add: hex4_def hex_val_def between_def)
    then have "written_as (encode_rune 8232) (chars (CHR 0x5C # ''u'' @ ''2028''))"
      "written_as (encode_rune 8233) (chars (CHR 0x5C # ''u'' @ ''2029''))"
      unfolding written_as_def surrogate_def by fastforce+
    moreover have "written_as r [r]" using short False by (auto simp: written_as_def)
    moreover have "quote_rune (Some r) = (if r = encode_rune 8232 then chars (CHR 0x5C # ''u'' @ ''2028'')
        else if r = encode_rune 8233 then chars (CHR 0x5C # ''u'' @ ''2029'') else [r])"
    proof -
      from short have "(r = [CHR 0x22] \<or> r = [CHR 0x5C]) = False" "(r = [CHR 0x0A]) = False" "(r = [CHR 0x0D]) = False"
        "(r = [CHR 0x09]) = False" by auto
      with False show ?thesis by (simp only: quote_rune_def option.case if_False append_Cons append_Nil)
    qed
    ultimately show ?thesis by simp
  qed
qed

lemma hex4_Some: "hex4 [w] [x] [y] [z] = Some n \<Longrightarrow>
    hex_val w \<noteq> None \<and> hex_val x \<noteq> None \<and> hex_val y \<noteq> None \<and> hex_val z \<noteq> None"
  by (auto simp: hex4_def split: option.splits)

lemma hex_val_ascii: "hex_val c \<noteq> None \<Longrightarrow> byte c < 128 \<and> 32 \<le> byte c"
  by (auto simp: hex_val_def between_def split: if_splits)

lemma written_valid: "written_as r q \<Longrightarrow> valid_rune r \<Longrightarrow> list_all valid_rune q"
  unfolding written_as_def
proof (elim disjE bexE exE conjE, goal_cases)
  case (3 w x y z n)
  with hex4_Some [OF 3(3)] hex_val_ascii show ?case by (simp add: ascii_valid)
qed (auto simp: ascii_valid)

lemma unquote_Nil: "unquote_runes [] = []"
  by (subst unquote_runes.simps) simp

lemma unquote_plain: "r \<noteq> [CHR 0x5C] \<Longrightarrow> unquote_runes (r # rs) = r # unquote_runes rs"
  by (subst unquote_runes.simps) simp

lemma unquote_short: "e \<noteq> ''u'' \<Longrightarrow> unquote_runes ([CHR 0x5C] # e # rs) = unescape e # unquote_runes rs"
proof -
  assume "e \<noteq> ''u''"
  moreover from this have "getu4 ([CHR 0x5C] # e # rs) = None" by (simp add: getu4_def split: list.split)
  ultimately show ?thesis by (subst unquote_runes.simps) simp
qed

lemma unquote_hex: "hex4 a b c d = Some n \<Longrightarrow> \<not> surrogate n \<Longrightarrow>
    unquote_runes ([CHR 0x5C] # ''u'' # a # b # c # d # rs) = encode_rune n # unquote_runes rs"
  by (subst unquote_runes.simps) (simp add: getu4_def)

lemma unquote_written: "written_as r q \<Longrightarrow> unquote_runes (q @ rest) = r # unquote_runes rest"
  unfolding written_as_def
  by (elim disjE bexE exE conjE) (auto simp: unquote_plain unquote_short unquote_hex)

lemma runes_members: "ro \<in> set (runes s) \<Longrightarrow> ro = None \<or> (\<exists>r. ro = Some r \<and> valid_rune r)"
  using runes_are_valid by (cases ro) auto

lemma quote_rune_valid: "ro \<in> set (runes s) \<Longrightarrow> list_all valid_rune (quote_rune ro)"
  using runes_members [of ro s] written_valid [OF quote_rune_written]
  by (auto simp: quote_rune_def [of None] ascii_valid)

lemma quote_body_clean: "clean (quote_body s) = concat (map quote_rune (runes s))"
proof -
  have "list_all valid_rune (concat (map quote_rune (runes s)))"
    using quote_rune_valid by (fastforce simp: list_all_iff)
  then show ?thesis unfolding quote_body_def by (rule clean_concat)
qed

lemma unquote_quote:
  assumes v: "valid_utf8 s"
  shows "unquote (quote_body s) = s"
proof -
  have "unquote_runes (concat (map quote_rune rs)) = map the rs" if "\<forall>ro \<in> set rs. \<exists>r. ro = Some r \<and> valid_rune r" for rs
    using that by (induction rs) (auto simp: unquote_Nil unquote_written [OF quote_rune_written])
  moreover have "\<forall>ro \<in> set (runes s). \<exists>r. ro = Some r \<and> valid_rune r"
    using v runes_members by (fastforce simp: valid_utf8_def list_all_iff)
  ultimately show ?thesis using runes_concat_inv [OF v] by (simp add: unquote_def quote_body_clean)
qed

lemma scan_plain: "list_all (\<lambda>c. 32 \<le> byte c \<and> c \<noteq> CHR 0x22 \<and> c \<noteq> CHR 0x5C) t \<Longrightarrow>
    run_scan (InStr name raw) st (t @ cs) = run_scan (InStr name (raw @ t)) st cs"
  by (induction t arbitrary: raw) (simp_all add: scan_def)

lemma scan_written:
  assumes "written_as r q" and v: "valid_rune r"
  shows "run_scan (InStr name raw) st (concat q @ cs) = run_scan (InStr name (raw @ concat q)) st cs"
  using assms(1) unfolding written_as_def
proof (elim disjE bexE exE conjE, goal_cases)
  case 1
  have "list_all (\<lambda>c. 32 \<le> byte c \<and> c \<noteq> CHR 0x22 \<and> c \<noteq> CHR 0x5C) r"
  proof (cases "length r = 1")
    case True
    with 1 show ?thesis by (cases r) auto
  next
    case False
    with valid_rune_high [OF v False] show ?thesis by (fastforce simp: list_all_iff)
  qed
  with 1 scan_plain show ?case by simp
next
  case (2 e)
  then show ?case by (auto simp: scan_def)
next
  case (3 w x y z n)
  with hex4_Some [OF 3(2)] show ?case by (auto simp: scan_def)
qed

lemma scan_quote_rune: "ro \<in> set (runes s) \<Longrightarrow>
    run_scan (InStr name raw) st (concat (quote_rune ro) @ cs) = run_scan (InStr name (raw @ concat (quote_rune ro))) st cs"
  using runes_members [of ro s] scan_written [OF quote_rune_written]
  by (auto simp: quote_rune_def [of None] scan_def hex_val_def between_def)

lemma scan_quote_body: "run_scan (InStr name []) st (quote_body s @ CHR 0x22 # cs) = run_scan (end_string name (quote_body s)) st cs"
proof -
  have "run_scan (InStr name raw) st (concat (concat (map quote_rune rs)) @ CHR 0x22 # cs) =
      run_scan (end_string name (raw @ concat (concat (map quote_rune rs)))) st cs" if "set rs \<subseteq> set (runes s)" for rs raw
    using that
  proof (induction rs arbitrary: raw)
    case (Cons ro rs)
    with scan_quote_rune [of ro s name raw st] show ?case by simp
  qed (simp add: scan_def)
  from this [of "runes s" "[]"] show ?thesis by (simp add: quote_body_def)
qed

section \<open>Reading what was written\<close>

text \<open>A number is written by its text, which the scanner must read to a state in which a number may end.\<close>

definition num_start :: "char \<Rightarrow> num_state option" where
  "num_start c = (if c = CHR ''-'' then Some NMinus else if c = CHR ''0'' then Some NZero
     else if between 49 57 c then Some NInt else None)"

fun num_run :: "num_state \<Rightarrow> string \<Rightarrow> num_state option" where
  "num_run ns [] = Some ns"
| "num_run ns (c # cs) = (case num_step ns c of Inr (Some ns') \<Rightarrow> num_run ns' cs | _ \<Rightarrow> None)"

definition num_text :: "string \<Rightarrow> bool" where
  "num_text s \<longleftrightarrow> (\<exists>ns. Option.bind (if s = [] then None else num_start (hd s)) (\<lambda>ns0. num_run ns0 (tl s)) = Some ns \<and> num_complete ns)"

text \<open>The values the code writes: strings are UTF-8.\<close>

fun writable :: "json \<Rightarrow> bool" where
  "writable (JNum s) = num_text s"
| "writable (JStr s) = valid_utf8 s"
| "writable (JArr vs) = list_all writable vs"
| "writable (JObj ms) = list_all (\<lambda>(k, v). valid_utf8 k \<and> writable v) ms"
| "writable _ = True"

fun depth :: "json \<Rightarrow> nat" where
  "depth (JArr vs) = Suc (Max (insert 0 (set (map depth vs))))"
| "depth (JObj ms) = Suc (Max (insert 0 (set (map (depth \<circ> snd) ms))))"
| "depth _ = 0"

lemma scan_string:
  assumes "valid_utf8 s" and "m = Val \<or> m = ValOrEnd"
  shows "run_scan m st (quote_json s @ cs) = run_scan (Complete (JStr s)) st cs"
proof -
  have "scan m st CHR 0x22 = Inr (InStr False [], st)"
    using assms(2) by (auto simp: scan_def begin_value_def is_space_def)
  with assms scan_quote_body [of False st s cs] show ?thesis
    by (auto simp: quote_json_def end_string_def unquote_quote)
qed

lemma scan_name: "valid_utf8 k \<Longrightarrow> m = Key \<or> m = KeyFirst \<Longrightarrow>
    run_scan m (FObj ms # st) (quote_json k @ CHR '':'' # cs) = run_scan Val (FMember ms k # st) cs"
  using scan_quote_body [of True "FObj ms # st" k "CHR '':'' # cs"]
  by (auto simp: quote_json_def scan_def is_space_def end_string_def unquote_quote)

text \<open>
  \<open>reads v\<close>: where a value is expected, the text of \<open>v\<close> is read as \<open>v\<close>, whatever follows, but that nothing may follow a
  number that continues it; and no text of a value begins like the end of an array.
\<close>

definition stops :: "string \<Rightarrow> bool" where
  "stops cs \<longleftrightarrow> cs = [] \<or> (\<not> between 48 57 (hd cs) \<and> hd cs \<notin> set ''.eE'')"

fun is_num :: "json \<Rightarrow> bool" where
  "is_num (JNum s) = True"
| "is_num _ = False"

lemma stops_simps [simp]: "stops []" "stops (CHR '','' # cs)" "stops (CHR '']'' # cs)" "stops (CHR ''}'' # cs)"
    "stops (CHR 0x0A # cs)"
  by (simp_all add: stops_def between_def)

lemma scan_num_step:
  assumes "num_step ns c = Inr (Some ns1)"
  shows "ends (InNum ns s) st c = None" "scan (InNum ns s) st c = Inr (InNum ns1 (s @ [c]), st)"
  by (simp_all add: ends_def scan_def assms)

lemma scan_num_run: "num_run ns t = Some ns' \<Longrightarrow>
    run_scan (InNum ns s) st (t @ cs) = run_scan (InNum ns' (s @ t)) st cs"
proof (induction t arbitrary: ns s)
  case (Cons c t)
  then obtain ns1 where "num_step ns c = Inr (Some ns1)" "num_run ns1 t = Some ns'"
    by (simp split: sum.splits option.splits)
  with Cons.IH show ?case by (simp add: scan_num_step)
qed simp

lemma num_step_stops: "num_complete ns \<Longrightarrow> stops (c # cs) \<Longrightarrow> num_step ns c = Inr None"
  by (cases ns) (simp_all add: stops_def num_complete_def num_step_def)

lemma num_ends: "num_complete ns \<Longrightarrow> stops cs \<Longrightarrow> run_scan (InNum ns s) st cs = run_scan (Complete (JNum s)) st cs"
proof (cases cs)
  case (Cons c cs')
  assume "num_complete ns" "stops cs"
  then have step: "num_step ns c = Inr None" unfolding Cons by (rule num_step_stops)
  have "ends (InNum ns s) st c = ends (Complete (JNum s)) st c" "scan (InNum ns s) st c = scan (Complete (JNum s)) st c"
    by (simp_all add: ends_def scan_def step)
  then show ?thesis by (simp only: Cons run_scan.simps)
qed simp

lemma digit_begins:
  assumes "between 49 57 c"
  shows "\<not> is_space c" "c \<notin> set ''-0]{[tfn'' \<union> {CHR 0x22}"
proof -
  have "\<not> between 49 57 d" if "is_space d \<or> d \<in> set ''-0]{[tfn'' \<union> {CHR 0x22}" for d
    using that unfolding is_space_def by (elim disjE UnE) (auto simp: between_def)
  with assms show "\<not> is_space c" "c \<notin> set ''-0]{[tfn'' \<union> {CHR 0x22}" by blast+
qed

lemma begin_number: "num_start c = Some ns \<Longrightarrow>
    begin_value st c = Inr (InNum ns [c], st) \<and> \<not> is_space c \<and> c \<noteq> CHR '']''"
proof -
  assume n: "num_start c = Some ns"
  consider "c = CHR ''-''" "ns = NMinus" | "c = CHR ''0''" "ns = NZero" | "between 49 57 c" "ns = NInt"
    using n by (auto simp: num_start_def split: if_splits)
  then show ?thesis
  proof cases
    case 3
    with digit_begins [OF 3(1)] show ?thesis by (simp add: begin_value_def)
  qed (simp_all add: begin_value_def is_space_def)
qed

lemma scan_num:
  assumes "num_text t" and "stops cs" and m: "m = Val \<or> m = ValOrEnd"
  shows "run_scan m st (t @ cs) = run_scan (Complete (JNum t)) st cs"
proof -
  from assms(1) obtain c u ns0 ns where t: "t = c # u" and c: "num_start c = Some ns0" and u: "num_run ns0 u = Some ns"
    and e: "num_complete ns"
    by (cases t) (auto simp: num_text_def bind_eq_Some_conv)
  note b = begin_number [OF c, of st]
  have "ends m st c = None" "scan m st c = Inr (InNum ns0 [c], st)" using m b by (auto simp: scan_def)
  then have "run_scan m st (t @ cs) = run_scan (InNum ns0 [c]) st (u @ cs)" by (simp add: t)
  also have "\<dots> = run_scan (InNum ns t) st cs" using scan_num_run [OF u, of "[c]" st cs] by (simp add: t)
  finally show ?thesis using num_ends [OF e assms(2)] by simp
qed

definition reads :: "json \<Rightarrow> bool" where
  "reads v \<longleftrightarrow> (\<forall>st cs. length st + depth v \<le> maxNestingDepth \<longrightarrow> (is_num v \<longrightarrow> stops cs) \<longrightarrow>
     run_scan Val st (print v @ cs) = run_scan (Complete v) st cs \<and>
     run_scan ValOrEnd st (print v @ cs) = run_scan (Complete v) st cs)"

lemma read_elements:
  assumes "\<And>v. v \<in> set vs \<Longrightarrow> reads v \<and> Suc (length st) + depth v \<le> maxNestingDepth" and "reads v"
    and "Suc (length st) + depth v \<le> maxNestingDepth"
  shows "run_scan Val (FArr us # st) (join_comma (map print (v # vs)) @ CHR '']'' # cs) =
    run_scan (Complete (JArr (us @ v # vs))) st cs"
  using assms
proof (induction vs arbitrary: us v)
  case Nil
  then have "run_scan Val (FArr us # st) (print v @ CHR '']'' # cs) = run_scan (Complete v) (FArr us # st) (CHR '']'' # cs)"
    by (simp add: reads_def)
  then show ?case by (simp add: scan_def after_value_def is_space_def)
next
  case (Cons w vs)
  then have "run_scan Val (FArr us # st) (print v @ CHR '','' # join_comma (map print (w # vs)) @ CHR '']'' # cs) =
      run_scan (Complete v) (FArr us # st) (CHR '','' # join_comma (map print (w # vs)) @ CHR '']'' # cs)"
    by (simp add: reads_def)
  also have "\<dots> = run_scan Val (FArr (us @ [v]) # st) (join_comma (map print (w # vs)) @ CHR '']'' # cs)"
    by (simp add: scan_def after_value_def is_space_def)
  also have "\<dots> = run_scan (Complete (JArr (us @ v # w # vs))) st cs"
    using Cons.IH [of w "us @ [v]"] Cons.prems by simp
  finally show ?case by simp
qed

abbreviation print_member :: "string \<times> json \<Rightarrow> string" where
  "print_member \<equiv> \<lambda>(k, v). quote_json k @ CHR '':'' # print v"

lemma read_members:
  assumes "\<And>k v. (k, v) \<in> set ms \<Longrightarrow> valid_utf8 k \<and> reads v \<and> Suc (length st) + depth v \<le> maxNestingDepth"
    and "valid_utf8 k \<and> reads v \<and> Suc (length st) + depth v \<le> maxNestingDepth" and "m = Key \<or> m = KeyFirst"
  shows "run_scan m (FObj us # st) (join_comma (map print_member ((k, v) # ms)) @ CHR ''}'' # cs) =
    run_scan (Complete (JObj (us @ (k, v) # ms))) st cs"
  using assms
proof (induction ms arbitrary: us k v m)
  case Nil
  then have "run_scan m (FObj us # st) (quote_json k @ CHR '':'' # print v @ CHR ''}'' # cs) =
      run_scan (Complete v) (FMember us k # st) (CHR ''}'' # cs)"
    by (simp add: scan_name reads_def)
  then show ?case by (simp add: scan_def after_value_def is_space_def)
next
  case (Cons kw ms)
  obtain k' w where kw: "kw = (k', w)" by (cases kw)
  let ?rest = "join_comma (map print_member (kw # ms)) @ CHR ''}'' # cs"
  from Cons.prems have "run_scan m (FObj us # st) (quote_json k @ CHR '':'' # print v @ CHR '','' # ?rest) =
      run_scan (Complete v) (FMember us k # st) (CHR '','' # ?rest)"
    by (simp add: scan_name reads_def)
  also have "\<dots> = run_scan Key (FObj (us @ [(k, v)]) # st) ?rest"
    by (simp add: scan_def after_value_def is_space_def)
  also have "\<dots> = run_scan (Complete (JObj (us @ (k, v) # kw # ms))) st cs"
    unfolding kw using Cons.prems(1) kw by (subst Cons.IH) auto
  finally show ?case by simp
qed

lemma depth_members: "v \<in> set vs \<Longrightarrow> Suc (depth v) \<le> depth (JArr vs)"
  "(k, v) \<in> set ms \<Longrightarrow> Suc (depth v) \<le> depth (JObj ms)"
  by (force intro!: Max_ge)+

lemma reads_value: "writable v \<Longrightarrow> reads v"
proof (induction v rule: print.induct)
  case (5 vs)
  have "run_scan (if b then Val else ValOrEnd) st (print (JArr vs) @ cs) = run_scan (Complete (JArr vs)) st cs"
    if d: "length st + depth (JArr vs) \<le> maxNestingDepth" for st cs b
  proof -
    have each: "reads v \<and> Suc (length st) + depth v \<le> maxNestingDepth" if "v \<in> set vs" for v
      using 5 that d depth_members(1) [OF that] by (auto simp: list_all_iff simp del: depth.simps)
    have "run_scan (if b then Val else ValOrEnd) st (print (JArr vs) @ cs) =
        run_scan ValOrEnd (FArr [] # st) (join_comma (map print vs) @ CHR '']'' # cs)"
      using d by (simp add: scan_def begin_value_def is_space_def push_def)
    also have "\<dots> = run_scan (Complete (JArr vs)) st cs"
    proof (cases vs)
      case Nil
      then show ?thesis by (simp add: scan_def is_space_def)
    next
      case (Cons w ws)
      have "run_scan ValOrEnd (FArr [] # st) (print w @ t) = run_scan Val (FArr [] # st) (print w @ t)" if "stops t" for t
        using each [of w] Cons that by (simp add: reads_def)
      then have "run_scan ValOrEnd (FArr [] # st) (join_comma (map print vs) @ CHR '']'' # cs) =
          run_scan Val (FArr [] # st) (join_comma (map print vs) @ CHR '']'' # cs)"
        unfolding Cons by (cases ws) simp_all
      with read_elements [of ws st w "[]" cs] each Cons show ?thesis by simp
    qed
    finally show ?thesis .
  qed
  from this [of _ True] this [of _ False] show ?case by (simp add: reads_def)
next
  case (6 ms)
  have "run_scan (if b then Val else ValOrEnd) st (print (JObj ms) @ cs) = run_scan (Complete (JObj ms)) st cs"
    if d: "length st + depth (JObj ms) \<le> maxNestingDepth" for st cs b
  proof -
    have each: "valid_utf8 k \<and> reads v \<and> Suc (length st) + depth v \<le> maxNestingDepth" if "(k, v) \<in> set ms" for k v
      using 6 that d depth_members(2) [OF that] by (fastforce simp: list_all_iff simp del: depth.simps)
    have "run_scan (if b then Val else ValOrEnd) st (print (JObj ms) @ cs) =
        run_scan KeyFirst (FObj [] # st) (join_comma (map print_member ms) @ CHR ''}'' # cs)"
      using d by (simp add: scan_def begin_value_def is_space_def push_def)
    also have "\<dots> = run_scan (Complete (JObj ms)) st cs"
    proof (cases ms)
      case Nil
      then show ?thesis by (simp add: scan_def is_space_def)
    next
      case (Cons kw ws)
      obtain k v where kw: "kw = (k, v)" by (cases kw)
      from each have e: "valid_utf8 k \<and> reads v \<and> Suc (length st) + depth v \<le> maxNestingDepth"
        "\<And>k v. (k, v) \<in> set ws \<Longrightarrow> valid_utf8 k \<and> reads v \<and> Suc (length st) + depth v \<le> maxNestingDepth"
        unfolding Cons kw by (meson list.set_intros)+
      from read_members [OF e(2,1), where m = KeyFirst and us = "[]" and cs = cs] show ?thesis unfolding Cons kw by simp
    qed
    finally show ?thesis .
  qed
  from this [of _ True] this [of _ False] show ?case by (simp add: reads_def)
next
  case (3 s)
  then show ?case by (simp add: reads_def scan_num)
next
  case (4 s)
  then show ?case by (simp add: reads_def scan_string)
qed (auto simp: reads_def scan_def begin_value_def is_space_def between_def)

text \<open>Reading a value that was written gives the value back.\<close>

lemma parse_print: "writable v \<Longrightarrow> depth v \<le> maxNestingDepth \<Longrightarrow> (is_num v \<longrightarrow> stops cs) \<Longrightarrow> parse (print v @ cs) = Inr v"
proof -
  assume "writable v" "depth v \<le> maxNestingDepth" "is_num v \<longrightarrow> stops cs"
  with reads_value [of v] have "parse (print v @ cs) = run_scan (Complete v) [] cs"
    by (simp add: parse_def reads_def)
  then show ?thesis by (cases cs) simp_all
qed

section \<open>What is read is UTF-8\<close>

fun json_utf8 :: "json \<Rightarrow> bool" where
  "json_utf8 (JStr s) = valid_utf8 s"
| "json_utf8 (JArr vs) = list_all json_utf8 vs"
| "json_utf8 (JObj ms) = list_all (\<lambda>(k, v). valid_utf8 k \<and> json_utf8 v) ms"
| "json_utf8 _ = True"

fun frame_utf8 :: "frame \<Rightarrow> bool" where
  "frame_utf8 (FArr vs) = list_all json_utf8 vs"
| "frame_utf8 (FObj ms) = json_utf8 (JObj ms)"
| "frame_utf8 (FMember ms k) = (json_utf8 (JObj ms) \<and> valid_utf8 k)"

fun mode_utf8 :: "mode \<Rightarrow> bool" where
  "mode_utf8 (Complete v) = json_utf8 v"
| "mode_utf8 (Colon k) = valid_utf8 k"
| "mode_utf8 (InWord w v) = json_utf8 v"
| "mode_utf8 _ = True"

lemma unescape_valid: "valid_rune e \<Longrightarrow> valid_rune (unescape e)"
  by (simp add: unescape_def ascii_valid)

lemma unquote_runes_valid: "\<forall>r \<in> set rs. valid_rune r \<Longrightarrow> \<forall>r \<in> set (unquote_runes rs). valid_rune r"
proof (induction rs rule: unquote_runes.induct)
  case (1 rs)
  note [simp] = unescape_valid encode_rune_valid
  show ?case
  proof (cases rs)
    case (Cons r rs1)
    show ?thesis
    proof (cases "r = [CHR 0x5C]")
      case False
      with 1(1) [OF Cons] 1(7) Cons show ?thesis by (simp add: unquote_plain)
    next
      case esc: True
      show ?thesis
      proof (cases "getu4 rs")
        case None
        have "\<forall>r \<in> set (case rs1 of [] \<Rightarrow> [] | e # rs2 \<Rightarrow> if e = ''u'' then [] else unescape e # unquote_runes rs2). valid_rune r"
        proof (cases rs1)
          case (Cons e rs2)
          with 1(2) [OF \<open>rs = r # rs1\<close> _ None Cons] 1(7) \<open>rs = r # rs1\<close> esc show ?thesis by auto
        qed simp
        with None esc Cons show ?thesis by (subst unquote_runes.simps) simp
      next
        case (Some nr)
        obtain n rs2 where nr: "nr = (n, rs2)" by (cases nr)
        have rs2: "\<forall>r \<in> set rs2. valid_rune r" using Some 1(7) getu4_rest nr by blast
        have rs3: "getu4 rs2 = Some (n', rs3) \<Longrightarrow> \<forall>r \<in> set rs3. valid_rune r" for n' rs3
          using getu4_rest rs2 by blast
        have "\<forall>r \<in> set (if surrogate n then (case getu4 rs2 of
               Some (n', rs3) \<Rightarrow>
                 if n < 56320 \<and> 56320 \<le> n' \<and> n' < 57344
                 then encode_rune ((n - 55296) * 1024 + (n' - 56320) + 65536) # unquote_runes rs3
                 else replacement # unquote_runes rs2
             | None \<Rightarrow> replacement # unquote_runes rs2)
           else encode_rune n # unquote_runes rs2). valid_rune r"
          using 1(3-6) [OF Cons _ Some nr [symmetric]] esc rs2 rs3 by (auto split: option.split)
        with Some nr esc Cons show ?thesis by (subst unquote_runes.simps) simp
      qed
    qed
  qed (simp add: unquote_Nil)
qed

lemma unquote_utf8: "valid_utf8 (unquote raw)"
  unfolding unquote_def using clean_valid [of raw] unquote_runes_valid [of "clean raw"]
  by (intro valid_utf8_concat) (simp add: list_all_iff)

lemma begin_value_utf8: "begin_value st c = Inr (m', st') \<Longrightarrow> list_all frame_utf8 st \<Longrightarrow> mode_utf8 m' \<and> list_all frame_utf8 st'"
  by (auto simp: begin_value_def push_def split: if_splits)

lemma after_value_utf8: "after_value v st c = Inr (m', st') \<Longrightarrow> json_utf8 v \<Longrightarrow> list_all frame_utf8 st \<Longrightarrow>
    mode_utf8 m' \<and> list_all frame_utf8 st'"
  by (auto simp: after_value_def split: if_splits list.splits frame.splits)

lemma scan_utf8:
  assumes "scan m st c = Inr (m', st')" and "mode_utf8 m" and "list_all frame_utf8 st"
  shows "mode_utf8 m' \<and> list_all frame_utf8 st'"
proof (cases m)
  case (InNum ns s)
  with assms show ?thesis
    by (auto simp: scan_def split: sum.splits option.splits dest: after_value_utf8)
next
  case (InWord w v)
  with assms show ?thesis by (auto simp: scan_def split: if_splits list.splits)
next
  case (Complete v)
  with assms show ?thesis by (simp add: scan_def after_value_utf8)
next
  case Val
  with assms show ?thesis by (simp add: scan_def begin_value_utf8)
next
  case ValOrEnd
  with assms show ?thesis
    by (auto simp: scan_def split: if_splits list.splits frame.splits dest: begin_value_utf8)
qed (use assms in \<open>auto simp: scan_def end_string_def unquote_utf8 split: if_splits list.splits frame.splits\<close>)

lemma run_scan_utf8: "run_scan m st cs = Inr v \<Longrightarrow> mode_utf8 m \<Longrightarrow> list_all frame_utf8 st \<Longrightarrow> json_utf8 v"
proof (induction cs arbitrary: m st)
  case Nil
  then show ?case by (auto split: mode.splits if_splits)
next
  case (Cons c cs)
  show ?case
  proof (cases "ends m st c")
    case None
    with Cons.prems(1) obtain m' st' where s: "scan m st c = Inr (m', st')" "run_scan m' st' cs = Inr v"
      by (auto split: sum.splits)
    from scan_utf8 [OF s(1) Cons.prems(2,3)] Cons.IH [OF s(2)] show ?thesis by blast
  next
    case (Some w)
    with Cons.prems(1,2) show ?thesis by (auto simp: ends_def split: mode.splits if_splits)
  qed
qed

lemma parse_utf8: "parse s = Inr v \<Longrightarrow> json_utf8 v"
  unfolding parse_def by (erule run_scan_utf8) simp_all


text \<open>A decoder that keeps \<open>P\<close> of what it decodes into, for values read from a text.\<close>

definition keeps :: "('r \<Rightarrow> bool) \<Rightarrow> 'r decoder \<Rightarrow> bool" where
  "keeps P dec \<longleftrightarrow> (\<forall>j r. json_utf8 j \<longrightarrow> P r \<longrightarrow> P (snd (dec j r)))"

lemma find_field_member: "find_field fields k = Some dec \<Longrightarrow> \<exists>n. (n, dec) \<in> set fields"
  by (auto simp: find_field_def dest!: map_of_SomeD split: option.splits)

lemma keeps_struct:
  assumes "\<And>n dec. (n, dec) \<in> set fields \<Longrightarrow> keeps P dec"
  shows "keeps P (dec_struct fields)"
proof -
  have "P (snd (dec_members fields ms r))" if "json_utf8 (JObj ms)" "P r" for ms r
    using that
  proof (induction ms arbitrary: r)
    case (Cons kv ms)
    obtain k v where kv: "kv = (k, v)" by (cases kv)
    show ?case
    proof (cases "find_field fields k")
      case None
      with Cons kv show ?thesis by simp
    next
      case (Some dec)
      from find_field_member [OF Some] obtain n where "(n, dec) \<in> set fields" by (elim exE)
      from assms [OF this] Cons.prems kv have "P (snd (dec v r))" by (simp add: keeps_def)
      with Cons.IH [of "snd (dec v r)"] Cons.prems Some show ?thesis
        by (simp add: kv case_prod_unfold)
    qed
  qed simp
  then show ?thesis by (auto simp: keeps_def dec_struct_def split: json.split)
qed

lemma keeps_string: "keeps valid_utf8 dec_string"
  by (auto simp: keeps_def dec_string_def split: json.split)

lemma keeps_field: "keeps Q dec \<Longrightarrow> (\<And>r. P r \<Longrightarrow> Q (get r)) \<Longrightarrow> (\<And>a r. P r \<Longrightarrow> Q a \<Longrightarrow> P (upd a r)) \<Longrightarrow>
    keeps P (snd (field n dec get upd))"
  by (simp add: keeps_def field_def case_prod_unfold)

lemma keeps_bool: "keeps (\<lambda>b. True) dec_bool"
  by (simp add: keeps_def)

definition strings_utf8 :: "string list option \<Rightarrow> bool" where
  "strings_utf8 s \<longleftrightarrow> (case s of None \<Rightarrow> True | Some ss \<Rightarrow> list_all valid_utf8 ss)"

lemma strings_utf8_simps [simp]: "strings_utf8 None" "strings_utf8 (Some ss) \<longleftrightarrow> list_all valid_utf8 ss"
  by (simp_all add: strings_utf8_def)

lemma keeps_strings: "keeps strings_utf8 dec_strings"
proof -
  have elem: "valid_utf8 (snd (dec_string v old))" if "json_utf8 v" "valid_utf8 old" for v old
    using that keeps_string by (simp add: keeps_def)
  have "strings_utf8 (snd (dec_strings (JArr vs) old))" if vs: "list_all json_utf8 vs" and old: "strings_utf8 old" for vs old
  proof -
    have "valid_utf8 (case old of None \<Rightarrow> [] | Some ss \<Rightarrow> if i < length ss then ss ! i else [])" for i
      using old by (auto simp: ascii_utf8 list_all_length split: option.split)
    moreover have "json_utf8 v" if "(i, v) \<in> set (zip [0..<length vs] vs)" for i v
      using vs that by (auto simp: list_all_iff dest: set_zip_rightD)
    ultimately show ?thesis by (auto simp: dec_strings_def list_all_iff intro!: elem)
  qed
  then show ?thesis by (auto simp: keeps_def dec_strings_def split: json.split)
qed

lemma keeps_all_fields: "list_all (\<lambda>f. keeps P (snd f)) fs \<Longrightarrow> keeps P (dec_struct fs)"
  by (intro keeps_struct) (force simp: list_all_iff)

text \<open>The name of a member in ASCII is compared letter by letter.\<close>

lemma fold_rune_single: "fold_rune [c] = [lower c]"
  by (simp add: fold_rune_def encode_rune_def)

lemma fold_key_ascii: "list_all (\<lambda>c. byte c < 128) k \<Longrightarrow> fold_key k = map lower k"
  by (simp add: fold_key_def clean_ascii fold_rune_single comp_def)

section \<open>Slices of strings\<close>

definition strings_json :: "string list option \<Rightarrow> json" where
  "strings_json s = (case s of None \<Rightarrow> JNull | Some ss \<Rightarrow> JArr (map JStr ss))"

lemma dec_strings_json: "dec_strings (strings_json s) None = (True, s)"
proof (cases s)
  case (Some ss)
  have "list_all fst (map (\<lambda>(i, v). dec_string v '''') (zip [0..<length ss] (map JStr ss)))"
    by (auto simp: list_all_iff dec_string_def dest!: set_zip_rightD)
  moreover have "map snd (map (\<lambda>(i, v). dec_string v '''') (zip [0..<length ss] (map JStr ss))) = ss"
    by (rule nth_equalityI) (auto simp: dec_string_def)
  ultimately show ?thesis by (simp add: Some strings_json_def dec_strings_def Let_def)
qed (simp add: strings_json_def dec_strings_def)

lemma strings_writable: "strings_utf8 s \<Longrightarrow> writable (strings_json s)"
  by (cases s) (simp_all add: strings_json_def list_all_iff)

lemmas dec_simps = dec_struct_def find_field_def field_def dec_string_def dec_bool_def

lemma dec_struct_JObj: "dec_struct fs (JObj ms) r = dec_members fs ms r"
  by (simp add: dec_struct_def)

section \<open>The interface of a codec\<close>

text \<open>
  A type with its JSON: what it is written as, and a decoder for it. \<open>ok\<close> is what can be written, \<open>norm\<close> what
  comes back. Then the text of a value decodes, whatever follows it.
\<close>

locale json_codec =
  fixes enc :: "'a \<Rightarrow> json" and dec :: "'a decoder" and zero :: 'a and ok :: "'a \<Rightarrow> bool" and norm :: "'a \<Rightarrow> 'a"
  assumes decodes: "dec (enc a) zero = (True, norm a)"
    and writes: "ok a \<Longrightarrow> writable (enc a)"
    and shallow: "depth (enc a) \<le> maxNestingDepth"
    and object: "\<not> is_num (enc a)"
begin

lemma parse_enc: "ok a \<Longrightarrow> parse (print (enc a) @ rest) = Inr (enc a)"
  using parse_print [OF writes shallow] object by simp

lemma Decode_enc: "ok a \<Longrightarrow> Decode dec zero (print (enc a) @ rest) = Inr (norm a)"
  by (simp add: Decode_def parse_enc decodes)

end

end
