(* ===== verification/Mutating_Webhook.thy ===== *)
theory Mutating_Webhook
  imports Webhook_Server Json "HOL-Library.AList"
begin

text \<open>
  \<^verbatim>\<open>mutatingwebhook\<close>: the types of \<^verbatim>\<open>types.go\<close> with the names their fields have in JSON, and the handlers
  of \<^verbatim>\<open>server.go\<close>. The request is decoded from the bytes of the body and the response is written as
  bytes, with \<^verbatim>\<open>encoding/json\<close> as modelled in \<open>Json\<close>. The wording of a decoding error is an argument. The
  debugging output on standard output is not modelled.
\<close>

section \<open>Types\<close>

text \<open>\<open>Kind\<close> and \<open>RequestKind\<close> have the same fields, as have \<open>Resource\<close> and \<open>RequestResource\<close>, and the three objects.\<close>

record mw_Response =
  mwr_UID :: string
  mwr_Allowed :: bool
  mwr_Patch :: string
  mwr_PatchType :: string

record AdmissionReviewResponse =
  arr_APIVersion :: string
  arr_Kind :: string
  arr_Response :: mw_Response

record mw_Kind =
  mwk_Group :: string
  mwk_Version :: string
  mwk_Kind :: string

record mw_Resource =
  mws_Group :: string
  mws_Version :: string
  mws_Resource :: string

record mw_Extra =
  SomeKey :: "string list option"

record mw_UserInfo =
  user_Username :: string
  user_UID :: string
  user_Groups :: "string list option"
  user_Extra :: mw_Extra

record mw_Object =
  mwo_APIVersion :: string
  mwo_Kind :: string

record mw_Request =
  rq_UID :: string
  rq_Kind :: mw_Kind
  rq_Resource :: mw_Resource
  rq_SubResource :: string
  rq_RequestKind :: mw_Kind
  rq_RequestResource :: mw_Resource
  rq_RequestSubResource :: string
  rq_Name :: string
  rq_Namespace :: string
  rq_Operation :: string
  rq_UserInfo :: mw_UserInfo
  rq_Object :: mw_Object
  rq_OldObject :: mw_Object
  rq_Options :: mw_Object
  rq_DryRun :: bool

record AdmissionReviewRequest =
  arq_APIVersion :: string
  arq_Kind :: string
  arq_Request :: mw_Request

section \<open>Decoding\<close>

definition Kind_fields :: "mw_Kind fields" where
  "Kind_fields =
    [field ''group'' dec_string mwk_Group (\<lambda>a. mwk_Group_update (\<lambda>_. a)),
     field ''version'' dec_string mwk_Version (\<lambda>a. mwk_Version_update (\<lambda>_. a)),
     field ''kind'' dec_string mwk_Kind (\<lambda>a. mwk_Kind_update (\<lambda>_. a))]"

definition Resource_fields :: "mw_Resource fields" where
  "Resource_fields =
    [field ''group'' dec_string mws_Group (\<lambda>a. mws_Group_update (\<lambda>_. a)),
     field ''version'' dec_string mws_Version (\<lambda>a. mws_Version_update (\<lambda>_. a)),
     field ''resource'' dec_string mws_Resource (\<lambda>a. mws_Resource_update (\<lambda>_. a))]"

definition Extra_fields :: "mw_Extra fields" where
  "Extra_fields = [field ''some-key'' dec_strings SomeKey (\<lambda>a. SomeKey_update (\<lambda>_. a))]"

definition UserInfo_fields :: "mw_UserInfo fields" where
  "UserInfo_fields =
    [field ''username'' dec_string user_Username (\<lambda>a. user_Username_update (\<lambda>_. a)),
     field ''uid'' dec_string user_UID (\<lambda>a. user_UID_update (\<lambda>_. a)),
     field ''groups'' dec_strings user_Groups (\<lambda>a. user_Groups_update (\<lambda>_. a)),
     field ''extra'' (dec_struct Extra_fields) user_Extra (\<lambda>a. user_Extra_update (\<lambda>_. a))]"

definition Object_fields :: "mw_Object fields" where
  "Object_fields =
    [field ''apiVersion'' dec_string mwo_APIVersion (\<lambda>a. mwo_APIVersion_update (\<lambda>_. a)),
     field ''kind'' dec_string mwo_Kind (\<lambda>a. mwo_Kind_update (\<lambda>_. a))]"

definition Request_fields :: "mw_Request fields" where
  "Request_fields =
    [field ''uid'' dec_string rq_UID (\<lambda>a. rq_UID_update (\<lambda>_. a)),
     field ''kind'' (dec_struct Kind_fields) rq_Kind (\<lambda>a. rq_Kind_update (\<lambda>_. a)),
     field ''resource'' (dec_struct Resource_fields) rq_Resource (\<lambda>a. rq_Resource_update (\<lambda>_. a)),
     field ''subResource'' dec_string rq_SubResource (\<lambda>a. rq_SubResource_update (\<lambda>_. a)),
     field ''requestKind'' (dec_struct Kind_fields) rq_RequestKind (\<lambda>a. rq_RequestKind_update (\<lambda>_. a)),
     field ''requestResource'' (dec_struct Resource_fields) rq_RequestResource (\<lambda>a. rq_RequestResource_update (\<lambda>_. a)),
     field ''requestSubResource'' dec_string rq_RequestSubResource (\<lambda>a. rq_RequestSubResource_update (\<lambda>_. a)),
     field ''name'' dec_string rq_Name (\<lambda>a. rq_Name_update (\<lambda>_. a)),
     field ''namespace'' dec_string rq_Namespace (\<lambda>a. rq_Namespace_update (\<lambda>_. a)),
     field ''operation'' dec_string rq_Operation (\<lambda>a. rq_Operation_update (\<lambda>_. a)),
     field ''userInfo'' (dec_struct UserInfo_fields) rq_UserInfo (\<lambda>a. rq_UserInfo_update (\<lambda>_. a)),
     field ''object'' (dec_struct Object_fields) rq_Object (\<lambda>a. rq_Object_update (\<lambda>_. a)),
     field ''oldObject'' (dec_struct Object_fields) rq_OldObject (\<lambda>a. rq_OldObject_update (\<lambda>_. a)),
     field ''options'' (dec_struct Object_fields) rq_Options (\<lambda>a. rq_Options_update (\<lambda>_. a)),
     field ''dryRun'' dec_bool rq_DryRun (\<lambda>a. rq_DryRun_update (\<lambda>_. a))]"

definition AdmissionReviewRequest_fields :: "AdmissionReviewRequest fields" where
  "AdmissionReviewRequest_fields =
    [field ''apiVersion'' dec_string arq_APIVersion (\<lambda>a. arq_APIVersion_update (\<lambda>_. a)),
     field ''kind'' dec_string arq_Kind (\<lambda>a. arq_Kind_update (\<lambda>_. a)),
     field ''request'' (dec_struct Request_fields) arq_Request (\<lambda>a. arq_Request_update (\<lambda>_. a))]"

text \<open>\<^verbatim>\<open>var request AdmissionReviewRequest\<close>: every field has its zero value.\<close>

definition zero_Kind :: mw_Kind where
  "zero_Kind = \<lparr>mwk_Group = '''', mwk_Version = '''', mwk_Kind = ''''\<rparr>"

definition zero_Resource :: mw_Resource where
  "zero_Resource = \<lparr>mws_Group = '''', mws_Version = '''', mws_Resource = ''''\<rparr>"

definition zero_Object :: mw_Object where
  "zero_Object = \<lparr>mwo_APIVersion = '''', mwo_Kind = ''''\<rparr>"

definition zero_Request :: mw_Request where
  "zero_Request = \<lparr>rq_UID = '''', rq_Kind = zero_Kind, rq_Resource = zero_Resource, rq_SubResource = '''',
     rq_RequestKind = zero_Kind, rq_RequestResource = zero_Resource, rq_RequestSubResource = '''', rq_Name = '''',
     rq_Namespace = '''', rq_Operation = '''',
     rq_UserInfo = \<lparr>user_Username = '''', user_UID = '''', user_Groups = None, user_Extra = \<lparr>SomeKey = None\<rparr>\<rparr>,
     rq_Object = zero_Object, rq_OldObject = zero_Object, rq_Options = zero_Object, rq_DryRun = False\<rparr>"

definition zero_AdmissionReviewRequest :: AdmissionReviewRequest where
  "zero_AdmissionReviewRequest = \<lparr>arq_APIVersion = '''', arq_Kind = '''', arq_Request = zero_Request\<rparr>"

section \<open>Encoding\<close>

text \<open>\<^verbatim>\<open>omitempty\<close> leaves out an empty string.\<close>

definition omitempty :: "string \<Rightarrow> string \<Rightarrow> (string \<times> json) list" where
  "omitempty name s = (if s = '''' then [] else [(name, JStr s)])"

definition Response_json :: "mw_Response \<Rightarrow> json" where
  "Response_json r = JObj ([(''uid'', JStr (mwr_UID r)), (''allowed'', JBool (mwr_Allowed r))] @
     omitempty ''patch'' (mwr_Patch r) @ omitempty ''patchType'' (mwr_PatchType r))"

definition AdmissionReviewResponse_json :: "AdmissionReviewResponse \<Rightarrow> json" where
  "AdmissionReviewResponse_json r =
     JObj [(''apiVersion'', JStr (arr_APIVersion r)), (''kind'', JStr (arr_Kind r)), (''response'', Response_json (arr_Response r))]"

text \<open>\<^verbatim>\<open>json.Marshal\<close> has no error for a type of strings and booleans.\<close>

definition Marshal_response :: "AdmissionReviewResponse \<Rightarrow> gotext + bytes" where
  "Marshal_response r = Inr (print (AdmissionReviewResponse_json r))"

section \<open>Handlers\<close>

text \<open>\<^verbatim>\<open>getCA\<close> is the code of \<^verbatim>\<open>kubewebhook\<close> again.\<close>

definition mw_getCA ::
  "(string \<Rightarrow> string) \<Rightarrow> 'tls server \<Rightarrow> http_request \<Rightarrow> http_response \<Rightarrow> http_response" where
  "mw_getCA directives s req w =
     (if length (CaPEM s) = 0 then Fprintf directives (''No certificate found'' @ [CHR 0x0A]) w
      else if gomap_get (hr_Form req) ''base64'' \<noteq> None
      then Fprintf directives (b64_encode (CaPEM s)) w
      else Fprintf directives (CaPEM s) w)"

definition quoted :: "string \<Rightarrow> string" where
  "quoted s = [CHR 0x22] @ s @ [CHR 0x22]"

definition label_patch :: string where
  "label_patch = ''[{'' @ quoted ''op'' @ '': '' @ quoted ''add'' @ '', '' @ quoted ''path'' @ '': '' @
     quoted ''/metadata/labels/myExtraLabel'' @ '', '' @ quoted ''value'' @ '': '' @ quoted ''webhook-was-here'' @ ''}]''"

definition is_pod_create :: "mw_Request \<Rightarrow> bool" where
  "is_pod_create rq \<longleftrightarrow> mwk_Group (rq_Kind rq) = '''' \<and> mwk_Version (rq_Kind rq) = ''v1'' \<and>
     mwk_Kind (rq_Kind rq) = ''Pod'' \<and> rq_Operation rq = ''CREATE''"

definition postWebhook :: "(bytes \<Rightarrow> json_error \<Rightarrow> string) \<Rightarrow> http_request \<Rightarrow> http_response \<Rightarrow> http_response" where
  "postWebhook error_text r w =
     (case Decode (dec_struct AdmissionReviewRequest_fields) zero_AdmissionReviewRequest (hr_Body r) of
        Inl err \<Rightarrow>
          http_Error [Lit ''JSON body in invalid format: '', Lit (error_text (hr_Body r) err), newline] StatusBadRequest w
      | Inr request \<Rightarrow>
          if arq_APIVersion request \<noteq> ''admission.k8s.io/v1'' \<or> arq_Kind request \<noteq> ''AdmissionReview''
          then http_Error [Lit ''wrong APIVersion or kind: '', Lit (arq_APIVersion request), Lit '' - '', Lit (arq_Kind request)]
                 StatusBadRequest w
          else
            (let response = \<lparr>arr_APIVersion = ''admission.k8s.io/v1'', arr_Kind = ''AdmissionReview'',
                   arr_Response = \<lparr>mwr_UID = rq_UID (arq_Request request), mwr_Allowed = True,
                     mwr_Patch = '''', mwr_PatchType = ''''\<rparr>\<rparr>;
                 response1 = (if is_pod_create (arq_Request request)
                   then response\<lparr>arr_Response := (arr_Response response)\<lparr>mwr_PatchType := ''JSONPatch'',
                     mwr_Patch := b64_encode label_patch\<rparr>\<rparr>
                   else response)
             in case Marshal_response response1 of
                  Inl err \<Rightarrow> http_Error ([Lit ''JSON output marshal error: ''] @ err @ [newline]) StatusBadRequest w
                | Inr out \<Rightarrow> hw_write [Lit out, newline] w))"

datatype mw_endpoint = MW_GetCA | MW_Webhook

definition mw_http_routes :: "(string \<times> mw_endpoint) list" where
  "mw_http_routes = [(''/ca.pem'', MW_GetCA)]"

definition mw_https_routes :: "(string \<times> mw_endpoint) list" where
  "mw_https_routes = [(''/webhook'', MW_Webhook)]"

fun mw_serve_endpoint ::
  "(string \<Rightarrow> string) \<Rightarrow> (bytes \<Rightarrow> json_error \<Rightarrow> string) \<Rightarrow> 'tls server \<Rightarrow> mw_endpoint \<Rightarrow> http_request \<Rightarrow> http_response" where
  "mw_serve_endpoint directives error_text s MW_GetCA r = mw_getCA directives s r hw_new"
| "mw_serve_endpoint directives error_text s MW_Webhook r = postWebhook error_text r hw_new"

definition mw_serve ::
  "(string \<Rightarrow> string) \<Rightarrow> (bytes \<Rightarrow> json_error \<Rightarrow> string) \<Rightarrow> 'tls server \<Rightarrow> (string \<times> mw_endpoint) list \<Rightarrow>
   http_request \<Rightarrow> http_response" where
  "mw_serve directives error_text s routes r =
     (case mux_Handler routes r of
        MuxHandler e \<Rightarrow> mw_serve_endpoint directives error_text s e r
      | MuxRedirect url \<Rightarrow> Redirect url hw_new
      | MuxNotFound \<Rightarrow> NotFound hw_new)"


section \<open>Decoding a review\<close>

lemma mw_getCA_eq: "mw_getCA = getCA"
  by (simp add: fun_eq_iff mw_getCA_def getCA_def)

text \<open>
  Whatever was decoded into, every string of a decoded review is UTF-8, as every string that \<^verbatim>\<open>encoding/json\<close>
  decodes: the invariant of each type, kept by the decoder of each of its fields.
\<close>

definition Kind_utf8 :: "mw_Kind \<Rightarrow> bool" where
  "Kind_utf8 k \<longleftrightarrow> valid_utf8 (mwk_Group k) \<and> valid_utf8 (mwk_Version k) \<and> valid_utf8 (mwk_Kind k)"

definition Resource_utf8 :: "mw_Resource \<Rightarrow> bool" where
  "Resource_utf8 r \<longleftrightarrow> valid_utf8 (mws_Group r) \<and> valid_utf8 (mws_Version r) \<and> valid_utf8 (mws_Resource r)"

definition Extra_utf8 :: "mw_Extra \<Rightarrow> bool" where
  "Extra_utf8 e \<longleftrightarrow> strings_utf8 (SomeKey e)"

definition UserInfo_utf8 :: "mw_UserInfo \<Rightarrow> bool" where
  "UserInfo_utf8 u \<longleftrightarrow> valid_utf8 (user_Username u) \<and> valid_utf8 (user_UID u) \<and> strings_utf8 (user_Groups u) \<and>
     Extra_utf8 (user_Extra u)"

definition Object_utf8 :: "mw_Object \<Rightarrow> bool" where
  "Object_utf8 m \<longleftrightarrow> valid_utf8 (mwo_APIVersion m) \<and> valid_utf8 (mwo_Kind m)"

definition Request_utf8 :: "mw_Request \<Rightarrow> bool" where
  "Request_utf8 r \<longleftrightarrow> valid_utf8 (rq_UID r) \<and> Kind_utf8 (rq_Kind r) \<and> Resource_utf8 (rq_Resource r) \<and>
     valid_utf8 (rq_SubResource r) \<and> Kind_utf8 (rq_RequestKind r) \<and> Resource_utf8 (rq_RequestResource r) \<and>
     valid_utf8 (rq_RequestSubResource r) \<and> valid_utf8 (rq_Name r) \<and> valid_utf8 (rq_Namespace r) \<and>
     valid_utf8 (rq_Operation r) \<and> UserInfo_utf8 (rq_UserInfo r) \<and> Object_utf8 (rq_Object r) \<and>
     Object_utf8 (rq_OldObject r) \<and> Object_utf8 (rq_Options r)"

definition review_utf8 :: "AdmissionReviewRequest \<Rightarrow> bool" where
  "review_utf8 r \<longleftrightarrow> valid_utf8 (arq_APIVersion r) \<and> valid_utf8 (arq_Kind r) \<and> Request_utf8 (arq_Request r)"

named_theorems keeps_intros \<open>decoders that keep the invariant of what they decode\<close>

declare keeps_string [keeps_intros] keeps_strings [keeps_intros] keeps_bool [keeps_intros]

lemma keeps_Kind [keeps_intros]: "keeps Kind_utf8 (dec_struct Kind_fields)"
  by (rule keeps_all_fields) (simp add: Kind_fields_def, intro conjI; rule keeps_field, rule keeps_intros; simp add: Kind_utf8_def)

lemma keeps_Resource [keeps_intros]: "keeps Resource_utf8 (dec_struct Resource_fields)"
  by (rule keeps_all_fields) (simp add: Resource_fields_def, intro conjI; rule keeps_field, rule keeps_intros; simp add: Resource_utf8_def)

lemma keeps_Extra [keeps_intros]: "keeps Extra_utf8 (dec_struct Extra_fields)"
  by (rule keeps_all_fields) (simp add: Extra_fields_def; rule keeps_field, rule keeps_intros; simp add: Extra_utf8_def)

lemma keeps_UserInfo [keeps_intros]: "keeps UserInfo_utf8 (dec_struct UserInfo_fields)"
  by (rule keeps_all_fields) (simp add: UserInfo_fields_def, intro conjI; rule keeps_field, rule keeps_intros; simp add: UserInfo_utf8_def)

lemma keeps_Object [keeps_intros]: "keeps Object_utf8 (dec_struct Object_fields)"
  by (rule keeps_all_fields) (simp add: Object_fields_def, intro conjI; rule keeps_field, rule keeps_intros; simp add: Object_utf8_def)

lemma keeps_Request [keeps_intros]: "keeps Request_utf8 (dec_struct Request_fields)"
  by (rule keeps_all_fields) (simp add: Request_fields_def, intro conjI; rule keeps_field, rule keeps_intros; simp add: Request_utf8_def)

lemma keeps_review: "keeps review_utf8 (dec_struct AdmissionReviewRequest_fields)"
  by (rule keeps_all_fields) (simp add: AdmissionReviewRequest_fields_def, intro conjI; rule keeps_field, rule keeps_intros; simp add: review_utf8_def)

abbreviation decode_review :: "bytes \<Rightarrow> json_error + AdmissionReviewRequest" where
  "decode_review \<equiv> Decode (dec_struct AdmissionReviewRequest_fields) zero_AdmissionReviewRequest"

lemmas utf8_invariants = review_utf8_def Request_utf8_def UserInfo_utf8_def Extra_utf8_def Kind_utf8_def
  Resource_utf8_def Object_utf8_def

lemma zero_review_utf8: "review_utf8 zero_AdmissionReviewRequest"
  by (simp add: utf8_invariants zero_AdmissionReviewRequest_def zero_Request_def zero_Kind_def zero_Resource_def
      zero_Object_def ascii_utf8)

lemma decoded_utf8: "decode_review body = Inr request \<Longrightarrow> review_utf8 request"
proof -
  assume d: "decode_review body = Inr request"
  then obtain j where j: "parse body = Inr j"
    and r: "request = snd (dec_struct AdmissionReviewRequest_fields j zero_AdmissionReviewRequest)"
    by (auto simp: Decode_def split: sum.splits prod.splits if_splits)
  from keeps_review parse_utf8 [OF j] zero_review_utf8 show ?thesis unfolding r keeps_def by blast
qed

lemma decoded_UID: "decode_review body = Inr request \<Longrightarrow> valid_utf8 (rq_UID (arq_Request request))"
  using decoded_utf8 [of body request] by (simp add: review_utf8_def Request_utf8_def)

lemma label_patch_parses: "parse label_patch = Inr (JArr [JObj [(''op'', JStr ''add''),
    (''path'', JStr ''/metadata/labels/myExtraLabel''), (''value'', JStr ''webhook-was-here'')]])"
  by code_simp


section \<open>What the API server makes of the patch\<close>

text \<open>
  A JSON patch (RFC 6902), as far as an \<^verbatim>\<open>add\<close> of a member of an object goes: the object must exist, and the
  member is set in it. A path is cut at its slashes.
\<close>

fun add_at :: "string list \<Rightarrow> json \<Rightarrow> json \<Rightarrow> json option" where
  "add_at [] v doc = Some v"
| "add_at [k] v (JObj ms) = Some (JObj (AList.update k v ms))"
| "add_at (k # ks) v (JObj ms) =
     (case map_of ms k of
        None \<Rightarrow> None
      | Some d \<Rightarrow> map_option (\<lambda>d'. JObj (AList.update k d' ms)) (add_at ks v d))"
| "add_at (k # ks) v doc = None"

definition apply_op :: "json \<Rightarrow> json \<Rightarrow> json option" where
  "apply_op patch_op doc = (case patch_op of
       JObj ms \<Rightarrow>
         (case (map_of ms ''op'', map_of ms ''path'', map_of ms ''value'') of
            (Some (JStr name), Some (JStr path), Some v) \<Rightarrow>
              if name = ''add'' then add_at (tl (split_slash path)) v doc else None
          | _ \<Rightarrow> None)
     | _ \<Rightarrow> None)"

fun apply_patch :: "json list \<Rightarrow> json \<Rightarrow> json option" where
  "apply_patch [] doc = Some doc"
| "apply_patch (p # ps) doc = Option.bind (apply_op p doc) (apply_patch ps)"

section \<open>A review with all its members\<close>

text \<open>
  A text of any review: every member of \<^verbatim>\<open>types.go\<close> and no other. The program writes none; \<open>review_json\<close> gives the bodies
  of the concrete requests below. What is decoded from any JSON object is in \<open>Review_Decoding\<close>.
\<close>

definition Kind_json :: "mw_Kind \<Rightarrow> json" where
  "Kind_json k = JObj [(''group'', JStr (mwk_Group k)), (''version'', JStr (mwk_Version k)), (''kind'', JStr (mwk_Kind k))]"

definition Resource_json :: "mw_Resource \<Rightarrow> json" where
  "Resource_json r = JObj [(''group'', JStr (mws_Group r)), (''version'', JStr (mws_Version r)), (''resource'', JStr (mws_Resource r))]"

definition Object_json :: "mw_Object \<Rightarrow> json" where
  "Object_json m = JObj [(''apiVersion'', JStr (mwo_APIVersion m)), (''kind'', JStr (mwo_Kind m))]"

definition UserInfo_json :: "mw_UserInfo \<Rightarrow> json" where
  "UserInfo_json u = JObj [(''username'', JStr (user_Username u)), (''uid'', JStr (user_UID u)),
     (''groups'', strings_json (user_Groups u)), (''extra'', JObj [(''some-key'', strings_json (SomeKey (user_Extra u)))])]"

definition Request_json :: "mw_Request \<Rightarrow> json" where
  "Request_json r = JObj
    [(''uid'', JStr (rq_UID r)), (''kind'', Kind_json (rq_Kind r)), (''resource'', Resource_json (rq_Resource r)),
     (''subResource'', JStr (rq_SubResource r)), (''requestKind'', Kind_json (rq_RequestKind r)),
     (''requestResource'', Resource_json (rq_RequestResource r)), (''requestSubResource'', JStr (rq_RequestSubResource r)),
     (''name'', JStr (rq_Name r)), (''namespace'', JStr (rq_Namespace r)), (''operation'', JStr (rq_Operation r)),
     (''userInfo'', UserInfo_json (rq_UserInfo r)), (''object'', Object_json (rq_Object r)),
     (''oldObject'', Object_json (rq_OldObject r)), (''options'', Object_json (rq_Options r)), (''dryRun'', JBool (rq_DryRun r))]"

definition review_json :: "AdmissionReviewRequest \<Rightarrow> json" where
  "review_json r = JObj [(''apiVersion'', JStr (arq_APIVersion r)), (''kind'', JStr (arq_Kind r)),
     (''request'', Request_json (arq_Request r))]"

lemma dec_parts:
  "dec_struct Kind_fields (Kind_json k) zero_Kind = (True, k)"
  "dec_struct Resource_fields (Resource_json rs) zero_Resource = (True, rs)"
  "dec_struct Object_fields (Object_json m) zero_Object = (True, m)"
  "dec_struct UserInfo_fields (UserInfo_json u)
     \<lparr>user_Username = '''', user_UID = '''', user_Groups = None, user_Extra = \<lparr>SomeKey = None\<rparr>\<rparr> = (True, u)"
  by (simp_all add: dec_simps dec_strings_json Kind_fields_def Kind_json_def zero_Kind_def Resource_fields_def Resource_json_def
      zero_Resource_def Object_fields_def Object_json_def zero_Object_def UserInfo_fields_def UserInfo_json_def Extra_fields_def)


lemma dec_request: "dec_struct Request_fields (Request_json r) zero_Request = (True, r)"
  unfolding Request_json_def dec_struct_JObj
  by (simp add: find_field_def field_def dec_string_def dec_bool_def Request_fields_def zero_Request_def dec_parts)

lemma dec_review: "dec_struct AdmissionReviewRequest_fields (review_json r) zero_AdmissionReviewRequest = (True, r)"
  unfolding review_json_def dec_struct_JObj
  by (simp add: find_field_def field_def dec_string_def AdmissionReviewRequest_fields_def zero_AdmissionReviewRequest_def dec_request)

lemma depth_small:
  "depth (review_json r) \<le> maxNestingDepth" "depth (AdmissionReviewResponse_json resp) \<le> maxNestingDepth"
proof -
  have s: "depth (strings_json x) \<le> 1" for x
    by (cases x) (auto simp: strings_json_def image_constant_conv)
  then show "depth (review_json r) \<le> maxNestingDepth"
    by (simp add: order_trans [OF s] review_json_def Request_json_def Kind_json_def Resource_json_def Object_json_def UserInfo_json_def maxNestingDepth_def)
  show "depth (AdmissionReviewResponse_json resp) \<le> maxNestingDepth"
    by (simp add: AdmissionReviewResponse_json_def Response_json_def omitempty_def maxNestingDepth_def)
qed

interpretation review_codec: json_codec review_json "dec_struct AdmissionReviewRequest_fields" zero_AdmissionReviewRequest
    "\<lambda>r. writable (review_json r)" "\<lambda>r. r"
  by unfold_locales (simp_all only: dec_review depth_small, simp add: review_json_def)

lemma parse_response: "writable (AdmissionReviewResponse_json resp) \<Longrightarrow>
    parse (print (AdmissionReviewResponse_json resp) @ rest) = Inr (AdmissionReviewResponse_json resp)"
  using parse_print [OF _ depth_small(2), of resp rest] by (simp add: AdmissionReviewResponse_json_def)

section \<open>Properties\<close>

definition sample_review :: "string \<Rightarrow> AdmissionReviewRequest" where
  "sample_review operation = \<lparr>arq_APIVersion = ''admission.k8s.io/v1'', arq_Kind = ''AdmissionReview'',
     arq_Request = zero_Request\<lparr>rq_UID := ''u-7'', rq_Kind := \<lparr>mwk_Group = '''', mwk_Version = ''v1'', mwk_Kind = ''Pod''\<rparr>,
       rq_Operation := operation\<rparr>\<rparr>"

lemma sample_review_writable: "writable (review_json (sample_review ''CREATE''))"
  by (simp add: review_json_def sample_review_def Request_json_def zero_Request_def zero_Kind_def zero_Resource_def
      zero_Object_def Kind_json_def Resource_json_def Object_json_def UserInfo_json_def strings_json_def ascii_utf8)

text \<open>
  C10: the answer to a review. If the body decodes to a review of \<^verbatim>\<open>admission.k8s.io/v1\<close>, \<^verbatim>\<open>postWebhook\<close>
  answers with status 200 and a text that reads as JSON with the UID of the request, allowed, and, for
  the creation of a pod of the core group and for nothing else, the patch in base64 with its type.
\<close>

theorem postWebhook_answer:
  assumes "Decode (dec_struct AdmissionReviewRequest_fields) zero_AdmissionReviewRequest (hr_Body r) = Inr request"
    and "arq_APIVersion request = ''admission.k8s.io/v1''" and "arq_Kind request = ''AdmissionReview''"
  shows "\<exists>out. hw_Status (postWebhook error_text r hw_new) = Some StatusOK \<and>
    hw_Body (postWebhook error_text r hw_new) = [Lit out, newline] \<and>
    parse (out @ [CHR 0x0A]) = Inr (JObj [(''apiVersion'', JStr ''admission.k8s.io/v1''), (''kind'', JStr ''AdmissionReview''),
      (''response'', JObj ([(''uid'', JStr (rq_UID (arq_Request request))), (''allowed'', JBool True)] @
         (if is_pod_create (arq_Request request)
          then [(''patch'', JStr (b64_encode label_patch)), (''patchType'', JStr ''JSONPatch'')] else [])))])"
proof -
  define out where "out = print (AdmissionReviewResponse_json \<lparr>arr_APIVersion = ''admission.k8s.io/v1'',
    arr_Kind = ''AdmissionReview'', arr_Response = \<lparr>mwr_UID = rq_UID (arq_Request request), mwr_Allowed = True,
      mwr_Patch = (if is_pod_create (arq_Request request) then b64_encode label_patch else ''''),
      mwr_PatchType = (if is_pod_create (arq_Request request) then ''JSONPatch'' else '''')\<rparr>\<rparr>)"
    (is "_ = print (AdmissionReviewResponse_json ?resp)")
  have patch: "b64_encode label_patch \<noteq> ''''"
    using b64_encode_length [of label_patch] by (auto simp: label_patch_def)
  have "writable (AdmissionReviewResponse_json ?resp)"
    using decoded_UID [OF assms(1)] ascii_utf8 [OF b64_encode_ascii [of label_patch]]
    by (simp add: AdmissionReviewResponse_json_def Response_json_def omitempty_def ascii_utf8)
  from parse_response [OF this, of "[CHR 0x0A]"]
  have "parse (out @ [CHR 0x0A]) = Inr (AdmissionReviewResponse_json ?resp)" by (simp add: out_def)
  moreover have "postWebhook error_text r hw_new = hw_write [Lit out, newline] hw_new"
    using assms by (simp add: postWebhook_def Marshal_response_def out_def Let_def)
  ultimately show ?thesis
    using patch by (simp add: http_simps AdmissionReviewResponse_json_def Response_json_def omitempty_def)
qed

theorem postWebhook_answer_witness:
  "\<exists>out. hw_Body (postWebhook (\<lambda>b e. '''') ((sample_http ''/webhook'' (print (review_json (sample_review ''CREATE''))))) hw_new) =
    [Lit out, newline]"
proof -
  have "Decode (dec_struct AdmissionReviewRequest_fields) zero_AdmissionReviewRequest
      (hr_Body (sample_http ''/webhook'' (print (review_json (sample_review ''CREATE''))))) = Inr (sample_review ''CREATE'')"
    using review_codec.Decode_enc [OF sample_review_writable, of "[]"] by (simp add: sample_http_def)
  from postWebhook_answer [OF this] show ?thesis by (auto simp: sample_review_def)
qed

text \<open>
  C38: what the patch does. The text that the base64 of the answer decodes to reads as a JSON patch that sets the
  label \<^verbatim>\<open>myExtraLabel\<close> and leaves the rest of the pod as it is, if the pod has labels; applied to a pod
  without labels it fails, for \<^verbatim>\<open>add\<close> does not make the object \<^verbatim>\<open>labels\<close>.
\<close>

theorem label_patch_effect:
  "\<exists>ops. Option.bind (b64_decode (b64_encode label_patch)) (\<lambda>t. case parse t of Inr (JArr v) \<Rightarrow> Some v | _ \<Rightarrow> None) = Some ops \<and>
    apply_patch ops (JObj pod) =
      (case map_of pod ''metadata'' of
         Some (JObj meta) \<Rightarrow>
           (case map_of meta ''labels'' of
              Some (JObj labels) \<Rightarrow> Some (JObj (AList.update ''metadata'' (JObj (AList.update ''labels''
                (JObj (AList.update ''myExtraLabel'' (JStr ''webhook-was-here'') labels)) meta)) pod))
            | _ \<Rightarrow> None)
       | _ \<Rightarrow> None)"
  by (simp add: b64_decode_encode label_patch_parses apply_op_def split: option.split json.split)

text \<open>
  C39: \<^verbatim>\<open>postWebhook\<close> always answers, with status 400 if the body does not decode or is not a review of
  \<^verbatim>\<open>admission.k8s.io/v1\<close>, and with 200 otherwise; marshalling never fails.
\<close>

theorem postWebhook_status:
  "hw_Status (postWebhook error_text r hw_new) = Some
    (case Decode (dec_struct AdmissionReviewRequest_fields) zero_AdmissionReviewRequest (hr_Body r) of
       Inl _ \<Rightarrow> StatusBadRequest
     | Inr request \<Rightarrow>
         if arq_APIVersion request = ''admission.k8s.io/v1'' \<and> arq_Kind request = ''AdmissionReview''
         then StatusOK else StatusBadRequest)"
  by (auto simp: postWebhook_def Marshal_response_def http_simps Let_def split: sum.split)

end
