(* ===== verification/Review_Decoding.thy ===== *)
theory Review_Decoding
  imports Mutating_Webhook
begin

text \<open>
  What \<^verbatim>\<open>postWebhook\<close> of \<^verbatim>\<open>mutatingwebhook\<close> understands of a body. A review that an API server sends has many members that
  \<^verbatim>\<open>types.go\<close> does not name, such as the metadata and the spec of the object, and leaves out others.
  Here the decoding of any JSON object by the fields of \<^verbatim>\<open>types.go\<close> is compared with a specification that looks the members up by
  their names.
\<close>

section \<open>Members by name\<close>

text \<open>
  No name occurs twice, and a name that is not one of the given names does not differ from one of them in the case of letters only,
  for \<^verbatim>\<open>encoding/json\<close> would take it for that one.
\<close>

definition exact :: "string list \<Rightarrow> (string \<times> json) list \<Rightarrow> bool" where
  "exact names ms \<longleftrightarrow> distinct (map fst ms) \<and>
     (\<forall>k \<in> set (map fst ms). k \<in> set names \<or> fold_key k \<notin> set (map fold_key names))"

text \<open>The value of a member, by the type it should have: zero if it is missing or something else, and whether it fits.\<close>

definition text_of :: "(string \<times> json) list \<Rightarrow> string \<Rightarrow> string" where
  "text_of ms n = (case map_of ms n of Some (JStr s) \<Rightarrow> s | _ \<Rightarrow> '''')"

definition flag_of :: "(string \<times> json) list \<Rightarrow> string \<Rightarrow> bool" where
  "flag_of ms n = (case map_of ms n of Some (JBool b) \<Rightarrow> b | _ \<Rightarrow> False)"

definition texts_of :: "(string \<times> json) list \<Rightarrow> string \<Rightarrow> string list option" where
  "texts_of ms n = (case map_of ms n of
       Some (JArr vs) \<Rightarrow> Some (map (\<lambda>v. case v of JStr s \<Rightarrow> s | _ \<Rightarrow> '''') vs) | _ \<Rightarrow> None)"

definition object_of :: "(string \<times> json) list \<Rightarrow> string \<Rightarrow> (string \<times> json) list" where
  "object_of ms n = (case map_of ms n of Some (JObj ms') \<Rightarrow> ms' | _ \<Rightarrow> [])"

definition text_fits :: "json \<Rightarrow> bool" where
  "text_fits v = (case v of JNull \<Rightarrow> True | JStr s \<Rightarrow> True | _ \<Rightarrow> False)"

definition flag_fits :: "json \<Rightarrow> bool" where
  "flag_fits v = (case v of JNull \<Rightarrow> True | JBool b \<Rightarrow> True | _ \<Rightarrow> False)"

definition texts_fit :: "json \<Rightarrow> bool" where
  "texts_fit v = (case v of JNull \<Rightarrow> True | JArr vs \<Rightarrow> list_all text_fits vs | _ \<Rightarrow> False)"

definition object_fits :: "((string \<times> json) list \<Rightarrow> bool) \<Rightarrow> json \<Rightarrow> bool" where
  "object_fits fits v = (case v of JNull \<Rightarrow> True | JObj ms \<Rightarrow> fits ms | _ \<Rightarrow> False)"

definition fit :: "(string \<times> (json \<Rightarrow> bool)) list \<Rightarrow> (string \<times> json) list \<Rightarrow> bool" where
  "fit fits ms \<longleftrightarrow> list_all (\<lambda>(n, f). case map_of ms n of None \<Rightarrow> True | Some v \<Rightarrow> f v) fits"

section \<open>Decoding by name\<close>

lemma exact_find:
  assumes "exact (map fst fs) ms" and "k \<in> set (map fst ms)"
  shows "find_field fs k = map_of fs k"
proof (cases "map_of fs k")
  case None
  then have "fold_key k \<notin> set (map fold_key (map fst fs))"
    using assms by (auto simp: exact_def map_of_eq_None_iff)
  moreover have "map fst (map (\<lambda>(n, f). (fold_key n, f)) fs) = map fold_key (map fst fs)"
    by (simp add: case_prod_beta comp_def)
  ultimately have "map_of (map (\<lambda>(n, f). (fold_key n, f)) fs) (fold_key k) = None"
    by (simp only: map_of_eq_None_iff flip: set_map) simp
  with None show ?thesis by (simp add: find_field_def)
qed (simp add: find_field_def)

lemma exact_Cons: "exact names ((k, v) # ms) \<Longrightarrow> exact names ms"
  by (simp add: exact_def)

lemma exact_Nil [simp]: "exact names []"
  by (simp add: exact_def)

text \<open>A decoder whose success on a value does not depend on what it decodes into.\<close>

definition steady :: "'a decoder \<Rightarrow> (json \<Rightarrow> bool) \<Rightarrow> json \<Rightarrow> bool" where
  "steady dec fits v \<longleftrightarrow> (\<forall>r. fst (dec v r) = fits v)"

lemma dec_members_all:
  assumes "exact (map fst fs) ms" and "map fst spec = map fst fs"
    and "\<And>k v f. (k, v) \<in> set ms \<Longrightarrow> map_of fs k = Some f \<Longrightarrow> \<exists>fits. map_of spec k = Some fits \<and> steady f fits v"
  shows "fst (dec_members fs ms r) \<longleftrightarrow>
    (\<forall>(k, v) \<in> set ms. case map_of spec k of None \<Rightarrow> True | Some fits \<Rightarrow> fits v)"
  using assms(1,3)
proof (induction ms arbitrary: r)
  case (Cons kv ms)
  obtain k v where kv: "kv = (k, v)" by (cases kv)
  have IH: "fst (dec_members fs ms r) \<longleftrightarrow>
      (\<forall>(k, v) \<in> set ms. case map_of spec k of None \<Rightarrow> True | Some fits \<Rightarrow> fits v)" for r
    by (rule Cons.IH [OF exact_Cons [OF Cons.prems(1) [unfolded kv]]], rule Cons.prems(2)) simp_all
  have find: "find_field fs k = map_of fs k" using exact_find [OF Cons.prems(1)] by (simp add: kv)
  show ?case
  proof (cases "map_of fs k")
    case None
    then have "map_of spec k = None" by (simp only: map_of_eq_None_iff assms(2) flip: set_map) simp
    with None show ?thesis by (simp add: kv find IH)
  next
    case (Some f)
    with Cons.prems(2) [of k v f] obtain fits where "map_of spec k = Some fits" "steady f fits v" by (auto simp: kv)
    moreover have "fst (dec_members fs (kv # ms) r) \<longleftrightarrow> fst (f v r) \<and> fst (dec_members fs ms (snd (f v r)))"
      by (simp add: kv find Some split: prod.split)
    ultimately show ?thesis by (simp add: kv IH steady_def)
  qed
qed simp

lemma fit_members:
  assumes "distinct (map fst ms)" and "distinct (map fst spec)"
  shows "(\<forall>(k, v) \<in> set ms. case map_of spec k of None \<Rightarrow> True | Some f \<Rightarrow> f v) \<longleftrightarrow> fit spec ms" (is "?l \<longleftrightarrow> ?r")
proof
  assume l: ?l
  have "case map_of ms n of None \<Rightarrow> True | Some v \<Rightarrow> f v" if "(n, f) \<in> set spec" for n f
  proof (cases "map_of ms n")
    case (Some v)
    with bspec [OF l map_of_SomeD [OF Some]] map_of_is_SomeI [OF assms(2) that] show ?thesis by simp
  qed simp
  then show ?r by (auto simp: fit_def list_all_iff)
next
  assume r: ?r
  have "case map_of spec k of None \<Rightarrow> True | Some f \<Rightarrow> f v" if "(k, v) \<in> set ms" for k v
  proof (cases "map_of spec k")
    case (Some f)
    from r map_of_SomeD [OF Some] have "case map_of ms k of None \<Rightarrow> True | Some v \<Rightarrow> f v"
      by (auto simp: fit_def list_all_iff)
    with Some map_of_is_SomeI [OF assms(1) that] show ?thesis by simp
  qed simp
  then show ?l by auto
qed

lemma dec_members_fit:
  assumes "exact (map fst fs) ms" and "distinct (map fst fs)"
    and "list_all2 (\<lambda>(n, f) (m, fits). n = m \<and> (\<forall>v. map_of ms n = Some v \<longrightarrow> steady f fits v)) fs spec"
  shows "fst (dec_members fs ms r) = fit spec ms"
proof -
  have names: "map fst spec = map fst fs" using assms(3)
    by (induction rule: list_all2_induct) (auto split: prod.splits)
  have step: "\<exists>fits. map_of spec k = Some fits \<and> (\<forall>v. map_of ms k = Some v \<longrightarrow> steady f fits v)"
    if "map_of fs k = Some f" for k f
    using assms(3) that by (induction rule: list_all2_induct) (auto split: prod.splits if_splits)
  have d: "distinct (map fst ms)" using assms(1) by (simp add: exact_def)
  show ?thesis
    by (subst dec_members_all [OF assms(1) names])
      (use step map_of_is_SomeI [OF d] in blast, rule fit_members [OF d], simp add: names assms(2))
qed

lemma dec_members_get:
  assumes "exact (map fst fs) ms"
    and own: "map_of fs n = Some f" "\<And>v r. get (snd (f v r)) = snd (dec v (get r))"
    and others: "list_all (\<lambda>(m, g). m = n \<or> (\<forall>v r. get (snd (g v r)) = get r)) fs"
  shows "get (snd (dec_members fs ms r)) = (case map_of ms n of None \<Rightarrow> get r | Some v \<Rightarrow> snd (dec v (get r)))"
  using assms(1)
proof (induction ms arbitrary: r)
  case (Cons kv ms)
  obtain k v where kv: "kv = (k, v)" by (cases kv)
  note IH = Cons.IH [OF exact_Cons [OF Cons.prems [unfolded kv]]]
  have find: "find_field fs k = map_of fs k" using exact_find [OF Cons.prems] by (simp add: kv)
  have new: "n = k \<Longrightarrow> map_of ms n = None" using Cons.prems by (simp add: kv exact_def map_of_eq_None_iff)
  show ?case
  proof (cases "map_of fs k")
    case None
    with own(1) have "n \<noteq> k" by auto
    with None IH show ?thesis by (simp add: kv find)
  next
    case (Some g)
    have eq: "get (snd (dec_members fs (kv # ms) r)) =
        (case map_of ms n of None \<Rightarrow> get (snd (g v r)) | Some v' \<Rightarrow> snd (dec v' (get (snd (g v r)))))"
      unfolding IH [symmetric] by (simp add: kv find Some split: prod.split)
    show ?thesis
    proof (cases "n = k")
      case True
      with new own Some show ?thesis unfolding eq by (simp add: kv)
    next
      case False
      with others map_of_SomeD [OF Some] have "get (snd (g v r)) = get r" by (auto simp: list_all_iff)
      with False show ?thesis unfolding eq by (simp add: kv split: option.split)
    qed
  qed
qed simp

section \<open>The review that is decoded\<close>

text \<open>
  The value of each type by the names of its members, and whether every member fits; written down from the
  tags of \<^verbatim>\<open>types.go\<close>, not from the decoders.
\<close>

definition kind_names :: "string list" where
  "kind_names = [''group'', ''version'', ''kind'']"

definition resource_names :: "string list" where
  "resource_names = [''group'', ''version'', ''resource'']"

definition object_names :: "string list" where
  "object_names = [''apiVersion'', ''kind'']"

definition user_names :: "string list" where
  "user_names = [''username'', ''uid'', ''groups'', ''extra'']"

definition request_names :: "string list" where
  "request_names = [''uid'', ''kind'', ''resource'', ''subResource'', ''requestKind'', ''requestResource'',
     ''requestSubResource'', ''name'', ''namespace'', ''operation'', ''userInfo'', ''object'', ''oldObject'',
     ''options'', ''dryRun'']"

definition review_names :: "string list" where
  "review_names = [''apiVersion'', ''kind'', ''request'']"

definition Kind_of :: "(string \<times> json) list \<Rightarrow> mw_Kind" where
  "Kind_of ms = \<lparr>mwk_Group = text_of ms ''group'', mwk_Version = text_of ms ''version'', mwk_Kind = text_of ms ''kind''\<rparr>"

definition Resource_of :: "(string \<times> json) list \<Rightarrow> mw_Resource" where
  "Resource_of ms = \<lparr>mws_Group = text_of ms ''group'', mws_Version = text_of ms ''version'',
     mws_Resource = text_of ms ''resource''\<rparr>"

definition Object_of :: "(string \<times> json) list \<Rightarrow> mw_Object" where
  "Object_of ms = \<lparr>mwo_APIVersion = text_of ms ''apiVersion'', mwo_Kind = text_of ms ''kind''\<rparr>"

definition UserInfo_of :: "(string \<times> json) list \<Rightarrow> mw_UserInfo" where
  "UserInfo_of ms = \<lparr>user_Username = text_of ms ''username'', user_UID = text_of ms ''uid'', user_Groups = texts_of ms ''groups'',
     user_Extra = \<lparr>SomeKey = texts_of (object_of ms ''extra'') ''some-key''\<rparr>\<rparr>"

definition Request_of :: "(string \<times> json) list \<Rightarrow> mw_Request" where
  "Request_of ms = \<lparr>rq_UID = text_of ms ''uid'', rq_Kind = Kind_of (object_of ms ''kind''),
     rq_Resource = Resource_of (object_of ms ''resource''), rq_SubResource = text_of ms ''subResource'',
     rq_RequestKind = Kind_of (object_of ms ''requestKind''),
     rq_RequestResource = Resource_of (object_of ms ''requestResource''),
     rq_RequestSubResource = text_of ms ''requestSubResource'', rq_Name = text_of ms ''name'',
     rq_Namespace = text_of ms ''namespace'', rq_Operation = text_of ms ''operation'',
     rq_UserInfo = UserInfo_of (object_of ms ''userInfo''), rq_Object = Object_of (object_of ms ''object''),
     rq_OldObject = Object_of (object_of ms ''oldObject''), rq_Options = Object_of (object_of ms ''options''),
     rq_DryRun = flag_of ms ''dryRun''\<rparr>"

definition review_of :: "(string \<times> json) list \<Rightarrow> AdmissionReviewRequest" where
  "review_of ms = \<lparr>arq_APIVersion = text_of ms ''apiVersion'', arq_Kind = text_of ms ''kind'',
     arq_Request = Request_of (object_of ms ''request'')\<rparr>"

definition Kind_fits :: "(string \<times> json) list \<Rightarrow> bool" where
  "Kind_fits = fit [(''group'', text_fits), (''version'', text_fits), (''kind'', text_fits)]"

definition Resource_fits :: "(string \<times> json) list \<Rightarrow> bool" where
  "Resource_fits = fit [(''group'', text_fits), (''version'', text_fits), (''resource'', text_fits)]"

definition Object_fits :: "(string \<times> json) list \<Rightarrow> bool" where
  "Object_fits = fit [(''apiVersion'', text_fits), (''kind'', text_fits)]"

definition Extra_fits :: "(string \<times> json) list \<Rightarrow> bool" where
  "Extra_fits = fit [(''some-key'', texts_fit)]"

definition UserInfo_fits :: "(string \<times> json) list \<Rightarrow> bool" where
  "UserInfo_fits = fit [(''username'', text_fits), (''uid'', text_fits), (''groups'', texts_fit),
     (''extra'', object_fits Extra_fits)]"

definition Request_fits :: "(string \<times> json) list \<Rightarrow> bool" where
  "Request_fits = fit [(''uid'', text_fits), (''kind'', object_fits Kind_fits), (''resource'', object_fits Resource_fits),
     (''subResource'', text_fits), (''requestKind'', object_fits Kind_fits),
     (''requestResource'', object_fits Resource_fits), (''requestSubResource'', text_fits), (''name'', text_fits),
     (''namespace'', text_fits), (''operation'', text_fits), (''userInfo'', object_fits UserInfo_fits),
     (''object'', object_fits Object_fits), (''oldObject'', object_fits Object_fits),
     (''options'', object_fits Object_fits), (''dryRun'', flag_fits)]"

definition review_fits :: "(string \<times> json) list \<Rightarrow> bool" where
  "review_fits = fit [(''apiVersion'', text_fits), (''kind'', text_fits), (''request'', object_fits Request_fits)]"

definition request_exact :: "(string \<times> json) list \<Rightarrow> bool" where
  "request_exact ms \<longleftrightarrow> exact request_names ms \<and>
     exact kind_names (object_of ms ''kind'') \<and> exact kind_names (object_of ms ''requestKind'') \<and>
     exact resource_names (object_of ms ''resource'') \<and> exact resource_names (object_of ms ''requestResource'') \<and>
     exact user_names (object_of ms ''userInfo'') \<and>
     exact [''some-key''] (object_of (object_of ms ''userInfo'') ''extra'') \<and>
     exact object_names (object_of ms ''object'') \<and> exact object_names (object_of ms ''oldObject'') \<and>
     exact object_names (object_of ms ''options'')"

definition review_exact :: "(string \<times> json) list \<Rightarrow> bool" where
  "review_exact ms \<longleftrightarrow> exact review_names ms \<and> request_exact (object_of ms ''request'')"

section \<open>Decoding gives that review\<close>

lemma steady_string [simp]: "steady dec_string text_fits v"
  by (simp add: steady_def dec_string_def text_fits_def split: json.split)

lemma steady_bool [simp]: "steady dec_bool flag_fits v"
  by (simp add: steady_def dec_bool_def flag_fits_def split: json.split)

lemma indexed: "length xs = length vs \<Longrightarrow> list_all (\<lambda>x. P (snd x)) (zip xs vs) = list_all P vs"
  "length xs = length vs \<Longrightarrow> map (\<lambda>x. f (snd x)) (zip xs vs) = map f vs"
  by (induction xs vs rule: list_induct2) simp_all

lemma steady_strings [simp]: "steady dec_strings texts_fit v"
proof -
  have str: "fst (dec_string v s) = text_fits v" for v s
    using steady_string [of v] by (simp add: steady_def)
  have "list_all (\<lambda>x. text_fits (snd x)) (zip [0..<length vs] vs) = list_all text_fits vs" for vs
    using indexed(1) [of "[0..<length vs]" vs text_fits] by (simp add: case_prod_beta)
  then show ?thesis
    by (simp add: steady_def dec_strings_def texts_fit_def Let_def list.pred_map comp_def case_prod_beta str split: json.split)
qed

lemma steady_object:
  assumes "\<And>r. fst (dec_members fs (object_of ms n) r) = fits (object_of ms n)" and "map_of ms n = Some v"
  shows "steady (dec_struct fs) (object_fits fits) v"
  using assms(1) by (auto simp: steady_def dec_struct_def object_fits_def object_of_def assms(2) split: json.split)

lemma steady_field: "steady dec fits v \<Longrightarrow> steady (snd (field n dec get upd)) fits v"
  by (simp add: steady_def field_def case_prod_beta)

lemma fields_fit:
  assumes "exact (map fst fs) ms" and "distinct (map fst fs)"
    and "list_all2 (\<lambda>f s. fst f = fst s \<and> (\<forall>v. map_of ms (fst f) = Some v \<longrightarrow> steady (snd f) (snd s) v)) fs spec"
  shows "fst (dec_members fs ms r) = fit spec ms"
  by (rule dec_members_fit [OF assms(1,2)]) (use assms(3) in \<open>simp add: case_prod_unfold\<close>)

lemma fst_field [simp]: "fst (field n dec get upd) = n"
  by (simp add: field_def)

lemma field_value:
  assumes "exact (map fst fs) ms" and "map_of fs n = Some (snd (field n dec get upd))" and "\<And>a r. get (upd a r) = a"
    and "list_all (\<lambda>(m, g). m = n \<or> (\<forall>v r. get (snd (g v r)) = get r)) fs"
  shows "get (snd (dec_members fs ms r)) = (case map_of ms n of None \<Rightarrow> get r | Some v \<Rightarrow> snd (dec v (get r)))"
  by (rule dec_members_get [OF assms(1,2) _ assms(4)]) (simp add: field_def assms(3) split: prod.split)

lemma text_field:
  assumes "exact (map fst fs) ms" and "map_of fs n = Some (snd (field n dec_string get upd))" and "\<And>a r. get (upd a r) = a"
    and "list_all (\<lambda>(m, g). m = n \<or> (\<forall>v r. get (snd (g v r)) = get r)) fs" and "get r = ''''"
  shows "get (snd (dec_members fs ms r)) = text_of ms n"
  unfolding field_value [OF assms(1-4)] assms(5)
  by (simp add: text_of_def dec_string_def split: option.split json.split)

lemma flag_field:
  assumes "exact (map fst fs) ms" and "map_of fs n = Some (snd (field n dec_bool get upd))" and "\<And>a r. get (upd a r) = a"
    and "list_all (\<lambda>(m, g). m = n \<or> (\<forall>v r. get (snd (g v r)) = get r)) fs" and "\<not> get r"
  shows "get (snd (dec_members fs ms r)) = flag_of ms n"
  unfolding field_value [OF assms(1-4)] using assms(5)
  by (simp add: flag_of_def dec_bool_def split: option.split json.split)

lemma texts_value: "(case map_of ms n of None \<Rightarrow> None | Some v \<Rightarrow> snd (dec_strings v None)) = texts_of ms n"
proof -
  have str: "snd (dec_string v '''') = (case v of JStr s \<Rightarrow> s | _ \<Rightarrow> '''')" for v
    by (simp add: dec_string_def split: json.split)
  have "map (\<lambda>x. snd (dec_string (snd x) '''')) (zip [0..<length vs] vs) = map (\<lambda>v. case v of JStr s \<Rightarrow> s | _ \<Rightarrow> '''') vs" for vs
    using indexed(2) [of "[0..<length vs]" vs "\<lambda>v. snd (dec_string v '''')"] by (simp add: case_prod_beta str)
  then show ?thesis
    by (simp add: texts_of_def dec_strings_def Let_def comp_def case_prod_beta split: option.split json.split)
qed

lemma texts_field:
  assumes "exact (map fst fs) ms" and "map_of fs n = Some (snd (field n dec_strings get upd))" and "\<And>a r. get (upd a r) = a"
    and "list_all (\<lambda>(m, g). m = n \<or> (\<forall>v r. get (snd (g v r)) = get r)) fs" and "get r = None"
  shows "get (snd (dec_members fs ms r)) = texts_of ms n"
  unfolding field_value [OF assms(1-4)] assms(5) by (rule texts_value)

lemma object_field:
  assumes "exact (map fst fs) ms" and "map_of fs n = Some (snd (field n (dec_struct fs') get upd))" and "\<And>a r. get (upd a r) = a"
    and "list_all (\<lambda>(m, g). m = n \<or> (\<forall>v r. get (snd (g v r)) = get r)) fs"
    and "get r = build []" and "snd (dec_members fs' (object_of ms n) (build [])) = build (object_of ms n)"
  shows "get (snd (dec_members fs ms r)) = build (object_of ms n)"
  unfolding field_value [OF assms(1-4)] assms(5) using assms(6)
  by (auto simp: object_of_def dec_struct_def split: option.split json.split)

lemma Kind_names: "map fst Kind_fields = kind_names" "distinct kind_names" "Kind_of [] = zero_Kind"
  by (simp_all add: Kind_fields_def field_def kind_names_def Kind_of_def zero_Kind_def text_of_def)

lemma Kind_fit: "exact kind_names ms \<Longrightarrow> fst (dec_members Kind_fields ms r) = Kind_fits ms"
  unfolding Kind_fits_def
  by (rule fields_fit; (simp only: Kind_names)?; simp add: Kind_fields_def steady_field)

lemma Kind_value: "exact kind_names ms \<Longrightarrow> snd (dec_members Kind_fields ms zero_Kind) = Kind_of ms"
proof (rule mw_Kind.equality)
  assume e: "exact kind_names ms"
  note f = text_field [where fs = Kind_fields and ms = ms and r = zero_Kind, unfolded Kind_names, OF e]
  show "mwk_Group (snd (dec_members Kind_fields ms zero_Kind)) = mwk_Group (Kind_of ms)"
    by (subst f [where upd = "\<lambda>a. mwk_Group_update (\<lambda>_. a)"])
      (simp_all add: Kind_of_def Kind_fields_def field_def zero_Kind_def case_prod_beta)
  show "mwk_Version (snd (dec_members Kind_fields ms zero_Kind)) = mwk_Version (Kind_of ms)"
    by (subst f [where upd = "\<lambda>a. mwk_Version_update (\<lambda>_. a)"])
      (simp_all add: Kind_of_def Kind_fields_def field_def zero_Kind_def case_prod_beta)
  show "mwk_Kind (snd (dec_members Kind_fields ms zero_Kind)) = mwk_Kind (Kind_of ms)"
    by (subst f [where upd = "\<lambda>a. mwk_Kind_update (\<lambda>_. a)"])
      (simp_all add: Kind_of_def Kind_fields_def field_def zero_Kind_def case_prod_beta)
qed simp

lemma Resource_names: "map fst Resource_fields = resource_names" "distinct resource_names" "Resource_of [] = zero_Resource"
  by (simp_all add: Resource_fields_def resource_names_def Resource_of_def zero_Resource_def text_of_def)

lemma Resource_fit: "exact resource_names ms \<Longrightarrow> fst (dec_members Resource_fields ms r) = Resource_fits ms"
  unfolding Resource_fits_def
  by (rule fields_fit; (simp only: Resource_names)?; simp add: Resource_fields_def steady_field)

lemma Resource_value: "exact resource_names ms \<Longrightarrow> snd (dec_members Resource_fields ms zero_Resource) = Resource_of ms"
proof (rule mw_Resource.equality)
  assume e: "exact resource_names ms"
  note f = text_field [where fs = Resource_fields and ms = ms and r = zero_Resource, unfolded Resource_names, OF e]
  note defs = Resource_of_def Resource_fields_def field_def zero_Resource_def case_prod_beta
  show "mws_Group (snd (dec_members Resource_fields ms zero_Resource)) = mws_Group (Resource_of ms)"
    by (subst f [where upd = "\<lambda>a. mws_Group_update (\<lambda>_. a)"]) (simp_all add: defs)
  show "mws_Version (snd (dec_members Resource_fields ms zero_Resource)) = mws_Version (Resource_of ms)"
    by (subst f [where upd = "\<lambda>a. mws_Version_update (\<lambda>_. a)"]) (simp_all add: defs)
  show "mws_Resource (snd (dec_members Resource_fields ms zero_Resource)) = mws_Resource (Resource_of ms)"
    by (subst f [where upd = "\<lambda>a. mws_Resource_update (\<lambda>_. a)"]) (simp_all add: defs)
qed simp

lemma Object_names: "map fst Object_fields = object_names" "distinct object_names" "Object_of [] = zero_Object"
  by (simp_all add: Object_fields_def object_names_def Object_of_def zero_Object_def text_of_def)

lemma Object_fit: "exact object_names ms \<Longrightarrow> fst (dec_members Object_fields ms r) = Object_fits ms"
  unfolding Object_fits_def
  by (rule fields_fit; (simp only: Object_names)?; simp add: Object_fields_def steady_field)

lemma Object_value: "exact object_names ms \<Longrightarrow> snd (dec_members Object_fields ms zero_Object) = Object_of ms"
proof (rule mw_Object.equality)
  assume e: "exact object_names ms"
  note f = text_field [where fs = Object_fields and ms = ms and r = zero_Object, unfolded Object_names, OF e]
  note defs = Object_of_def Object_fields_def field_def zero_Object_def case_prod_beta
  show "mwo_APIVersion (snd (dec_members Object_fields ms zero_Object)) = mwo_APIVersion (Object_of ms)"
    by (subst f [where upd = "\<lambda>a. mwo_APIVersion_update (\<lambda>_. a)"]) (simp_all add: defs)
  show "mwo_Kind (snd (dec_members Object_fields ms zero_Object)) = mwo_Kind (Object_of ms)"
    by (subst f [where upd = "\<lambda>a. mwo_Kind_update (\<lambda>_. a)"]) (simp_all add: defs)
qed simp

definition Extra_of :: "(string \<times> json) list \<Rightarrow> mw_Extra" where
  "Extra_of ms = \<lparr>SomeKey = texts_of ms ''some-key''\<rparr>"

lemma Extra_names: "map fst Extra_fields = [''some-key'']" "Extra_of [] = \<lparr>SomeKey = None\<rparr>"
  by (simp_all add: Extra_fields_def Extra_of_def texts_of_def)

lemma Extra_fit: "exact [''some-key''] ms \<Longrightarrow> fst (dec_members Extra_fields ms r) = Extra_fits ms"
  unfolding Extra_fits_def
  by (rule fields_fit; (simp only: Extra_names)?; simp add: Extra_fields_def steady_field)

lemma Extra_value: "exact [''some-key''] ms \<Longrightarrow> snd (dec_members Extra_fields ms \<lparr>SomeKey = None\<rparr>) = Extra_of ms"
proof (rule mw_Extra.equality)
  assume e: "exact [''some-key''] ms"
  note f = texts_field [where fs = Extra_fields and ms = ms and r = "\<lparr>SomeKey = None\<rparr>", unfolded Extra_names, OF e]
  show "SomeKey (snd (dec_members Extra_fields ms \<lparr>SomeKey = None\<rparr>)) = SomeKey (Extra_of ms)"
    by (subst f [where upd = "\<lambda>a. SomeKey_update (\<lambda>_. a)"]) (simp_all add: Extra_of_def Extra_fields_def field_def case_prod_beta)
qed simp

definition zero_UserInfo :: mw_UserInfo where
  "zero_UserInfo = \<lparr>user_Username = '''', user_UID = '''', user_Groups = None, user_Extra = \<lparr>SomeKey = None\<rparr>\<rparr>"

lemma UserInfo_names: "map fst UserInfo_fields = user_names" "distinct user_names" "UserInfo_of [] = zero_UserInfo"
  by (simp_all add: UserInfo_fields_def user_names_def UserInfo_of_def zero_UserInfo_def text_of_def texts_of_def object_of_def)

lemma UserInfo_fit: "exact user_names ms \<Longrightarrow> exact [''some-key''] (object_of ms ''extra'') \<Longrightarrow>
    fst (dec_members UserInfo_fields ms r) = UserInfo_fits ms"
  unfolding UserInfo_fits_def
  by (rule fields_fit; (simp only: UserInfo_names)?; simp add: UserInfo_fields_def steady_field)
    (intro allI impI, rule steady_field, rule steady_object [where n = "''extra''" and ms = ms], simp_all add: Extra_fit)

lemma UserInfo_value: "exact user_names ms \<Longrightarrow> exact [''some-key''] (object_of ms ''extra'') \<Longrightarrow>
    snd (dec_members UserInfo_fields ms zero_UserInfo) = UserInfo_of ms"
proof (rule mw_UserInfo.equality)
  assume e: "exact user_names ms" and x: "exact [''some-key''] (object_of ms ''extra'')"
  note f = text_field [where fs = UserInfo_fields and ms = ms and r = zero_UserInfo, unfolded UserInfo_names, OF e]
    and g = texts_field [where fs = UserInfo_fields and ms = ms and r = zero_UserInfo, unfolded UserInfo_names, OF e]
    and h = object_field [where fs = UserInfo_fields and ms = ms and r = zero_UserInfo, unfolded UserInfo_names, OF e,
      where build = Extra_of and fs' = Extra_fields, unfolded Extra_names]
  note defs = UserInfo_of_def UserInfo_fields_def field_def zero_UserInfo_def case_prod_beta
  show "user_Username (snd (dec_members UserInfo_fields ms zero_UserInfo)) = user_Username (UserInfo_of ms)"
    by (subst f [where upd = "\<lambda>a. user_Username_update (\<lambda>_. a)"]) (simp_all add: defs)
  show "user_UID (snd (dec_members UserInfo_fields ms zero_UserInfo)) = user_UID (UserInfo_of ms)"
    by (subst f [where upd = "\<lambda>a. user_UID_update (\<lambda>_. a)"]) (simp_all add: defs)
  show "user_Groups (snd (dec_members UserInfo_fields ms zero_UserInfo)) = user_Groups (UserInfo_of ms)"
    by (subst g [where upd = "\<lambda>a. user_Groups_update (\<lambda>_. a)"]) (simp_all add: defs)
  show "user_Extra (snd (dec_members UserInfo_fields ms zero_UserInfo)) = user_Extra (UserInfo_of ms)"
    by (subst h [where upd = "\<lambda>a. user_Extra_update (\<lambda>_. a)" and n = "''extra''"])
      (simp_all add: defs Extra_value [OF x], simp add: Extra_of_def)
qed simp

lemma Request_names: "map fst Request_fields = request_names" "distinct request_names" "Request_of [] = zero_Request"
proof -
  have o: "object_of [] n = []" for n by (simp add: object_of_def)
  show "map fst Request_fields = request_names" "distinct request_names"
    by (simp_all add: Request_fields_def request_names_def)
  show "Request_of [] = zero_Request"
    by (simp only: Request_of_def o Kind_names Resource_names Object_names UserInfo_names)
      (simp add: zero_Request_def zero_UserInfo_def text_of_def flag_of_def)
qed

lemma parts_steady:
  "exact kind_names (object_of ms n) \<Longrightarrow> map_of ms n = Some v \<Longrightarrow> steady (dec_struct Kind_fields) (object_fits Kind_fits) v"
  "exact resource_names (object_of ms n) \<Longrightarrow> map_of ms n = Some v \<Longrightarrow>
     steady (dec_struct Resource_fields) (object_fits Resource_fits) v"
  "exact object_names (object_of ms n) \<Longrightarrow> map_of ms n = Some v \<Longrightarrow> steady (dec_struct Object_fields) (object_fits Object_fits) v"
  "exact user_names (object_of ms n) \<Longrightarrow> exact [''some-key''] (object_of (object_of ms n) ''extra'') \<Longrightarrow> map_of ms n = Some v \<Longrightarrow>
     steady (dec_struct UserInfo_fields) (object_fits UserInfo_fits) v"
  by (rule steady_object [where n = n and ms = ms]; simp add: Kind_fit Resource_fit Object_fit UserInfo_fit)+

lemma Request_fit: "request_exact ms \<Longrightarrow> fst (dec_members Request_fields ms r) = Request_fits ms"
  unfolding Request_fits_def
proof (rule fields_fit)
  assume e: "request_exact ms"
  then show "exact (map fst Request_fields) ms" by (simp add: Request_names request_exact_def)
  show "distinct (map fst Request_fields)" by (simp only: Request_names)
  note parts = e [unfolded request_exact_def]
  show "list_all2 (\<lambda>f s. fst f = fst s \<and> (\<forall>v. map_of ms (fst f) = Some v \<longrightarrow> steady (snd f) (snd s) v)) Request_fields
    [(''uid'', text_fits), (''kind'', object_fits Kind_fits), (''resource'', object_fits Resource_fits),
     (''subResource'', text_fits), (''requestKind'', object_fits Kind_fits),
     (''requestResource'', object_fits Resource_fits), (''requestSubResource'', text_fits), (''name'', text_fits),
     (''namespace'', text_fits), (''operation'', text_fits), (''userInfo'', object_fits UserInfo_fits),
     (''object'', object_fits Object_fits), (''oldObject'', object_fits Object_fits),
     (''options'', object_fits Object_fits), (''dryRun'', flag_fits)]"
    unfolding Request_fields_def
    using parts_steady(1) [of ms "''kind''"] parts_steady(1) [of ms "''requestKind''"] parts_steady(2) [of ms "''resource''"]
      parts_steady(2) [of ms "''requestResource''"] parts_steady(3) [of ms "''object''"] parts_steady(3) [of ms "''oldObject''"]
      parts_steady(3) [of ms "''options''"] parts_steady(4) [of ms "''userInfo''"] parts
    by (simp add: steady_field)
qed

lemma Request_value: "request_exact ms \<Longrightarrow> snd (dec_members Request_fields ms zero_Request) = Request_of ms"
proof (rule mw_Request.equality)
  assume "request_exact ms"
  note parts = this [unfolded request_exact_def]
  have e: "exact request_names ms" using parts by simp
  note f = text_field [where fs = Request_fields and ms = ms and r = zero_Request, unfolded Request_names, OF e]
    and b = flag_field [where fs = Request_fields and ms = ms and r = zero_Request, unfolded Request_names, OF e]
    and h = object_field [where fs = Request_fields and ms = ms and r = zero_Request, unfolded Request_names, OF e]
  note k = h [where build = Kind_of and fs' = Kind_fields, unfolded Kind_names]
    and rs = h [where build = Resource_of and fs' = Resource_fields, unfolded Resource_names]
    and ob = h [where build = Object_of and fs' = Object_fields, unfolded Object_names]
    and u = h [where build = UserInfo_of and fs' = UserInfo_fields, unfolded UserInfo_names]
  note defs = Request_of_def Request_fields_def field_def zero_Request_def case_prod_beta
  note vals = Kind_value Resource_value Object_value UserInfo_value
  show "rq_UID (snd (dec_members Request_fields ms zero_Request)) = rq_UID (Request_of ms)"
    by (subst f [where upd = "\<lambda>a. rq_UID_update (\<lambda>_. a)" and n = "''uid''"])
      (simp_all add: defs)
  show "rq_Kind (snd (dec_members Request_fields ms zero_Request)) = rq_Kind (Request_of ms)"
    by (subst k [where upd = "\<lambda>a. rq_Kind_update (\<lambda>_. a)" and n = "''kind''"])
      (simp_all add: defs vals parts)
  show "rq_Resource (snd (dec_members Request_fields ms zero_Request)) = rq_Resource (Request_of ms)"
    by (subst rs [where upd = "\<lambda>a. rq_Resource_update (\<lambda>_. a)" and n = "''resource''"])
      (simp_all add: defs vals parts)
  show "rq_SubResource (snd (dec_members Request_fields ms zero_Request)) = rq_SubResource (Request_of ms)"
    by (subst f [where upd = "\<lambda>a. rq_SubResource_update (\<lambda>_. a)" and n = "''subResource''"])
      (simp_all add: defs)
  show "rq_RequestKind (snd (dec_members Request_fields ms zero_Request)) = rq_RequestKind (Request_of ms)"
    by (subst k [where upd = "\<lambda>a. rq_RequestKind_update (\<lambda>_. a)" and n = "''requestKind''"])
      (simp_all add: defs vals parts)
  show "rq_RequestResource (snd (dec_members Request_fields ms zero_Request)) = rq_RequestResource (Request_of ms)"
    by (subst rs [where upd = "\<lambda>a. rq_RequestResource_update (\<lambda>_. a)" and n = "''requestResource''"])
      (simp_all add: defs vals parts)
  show "rq_RequestSubResource (snd (dec_members Request_fields ms zero_Request)) = rq_RequestSubResource (Request_of ms)"
    by (subst f [where upd = "\<lambda>a. rq_RequestSubResource_update (\<lambda>_. a)" and n = "''requestSubResource''"])
      (simp_all add: defs)
  show "rq_Name (snd (dec_members Request_fields ms zero_Request)) = rq_Name (Request_of ms)"
    by (subst f [where upd = "\<lambda>a. rq_Name_update (\<lambda>_. a)" and n = "''name''"])
      (simp_all add: defs)
  show "rq_Namespace (snd (dec_members Request_fields ms zero_Request)) = rq_Namespace (Request_of ms)"
    by (subst f [where upd = "\<lambda>a. rq_Namespace_update (\<lambda>_. a)" and n = "''namespace''"])
      (simp_all add: defs)
  show "rq_Operation (snd (dec_members Request_fields ms zero_Request)) = rq_Operation (Request_of ms)"
    by (subst f [where upd = "\<lambda>a. rq_Operation_update (\<lambda>_. a)" and n = "''operation''"])
      (simp_all add: defs)
  show "rq_UserInfo (snd (dec_members Request_fields ms zero_Request)) = rq_UserInfo (Request_of ms)"
    by (subst u [where upd = "\<lambda>a. rq_UserInfo_update (\<lambda>_. a)" and n = "''userInfo''"])
      (simp_all add: defs vals parts flip: zero_UserInfo_def)
  show "rq_Object (snd (dec_members Request_fields ms zero_Request)) = rq_Object (Request_of ms)"
    by (subst ob [where upd = "\<lambda>a. rq_Object_update (\<lambda>_. a)" and n = "''object''"])
      (simp_all add: defs vals parts)
  show "rq_OldObject (snd (dec_members Request_fields ms zero_Request)) = rq_OldObject (Request_of ms)"
    by (subst ob [where upd = "\<lambda>a. rq_OldObject_update (\<lambda>_. a)" and n = "''oldObject''"])
      (simp_all add: defs vals parts)
  show "rq_Options (snd (dec_members Request_fields ms zero_Request)) = rq_Options (Request_of ms)"
    by (subst ob [where upd = "\<lambda>a. rq_Options_update (\<lambda>_. a)" and n = "''options''"])
      (simp_all add: defs vals parts)
  show "rq_DryRun (snd (dec_members Request_fields ms zero_Request)) = rq_DryRun (Request_of ms)"
    by (subst b [where upd = "\<lambda>a. rq_DryRun_update (\<lambda>_. a)" and n = "''dryRun''"])
      (simp_all add: defs)
qed simp


lemma review_names_eq: "map fst AdmissionReviewRequest_fields = review_names" "distinct review_names"
  by (simp_all add: AdmissionReviewRequest_fields_def review_names_def)

lemma review_fit:
  assumes "review_exact ms"
  shows "fst (dec_members AdmissionReviewRequest_fields ms r) = review_fits ms"
  unfolding review_fits_def
proof (rule fields_fit)
  show "exact (map fst AdmissionReviewRequest_fields) ms" "distinct (map fst AdmissionReviewRequest_fields)"
    using assms by (simp_all add: review_names_eq review_exact_def)
  have "steady (dec_struct Request_fields) (object_fits Request_fits) v" if "map_of ms ''request'' = Some v" for v
    by (rule steady_object [where n = "''request''" and ms = ms]) (use assms that in \<open>simp_all add: review_exact_def Request_fit\<close>)
  then show "list_all2 (\<lambda>f s. fst f = fst s \<and> (\<forall>v. map_of ms (fst f) = Some v \<longrightarrow> steady (snd f) (snd s) v))
      AdmissionReviewRequest_fields
      [(''apiVersion'', text_fits), (''kind'', text_fits), (''request'', object_fits Request_fits)]"
    by (simp add: AdmissionReviewRequest_fields_def steady_field)
qed

lemma review_value:
  assumes "review_exact ms"
  shows "snd (dec_members AdmissionReviewRequest_fields ms zero_AdmissionReviewRequest) = review_of ms"
proof (rule AdmissionReviewRequest.equality)
  have e: "exact review_names ms" and rq: "request_exact (object_of ms ''request'')"
    using assms by (simp_all add: review_exact_def)
  note f = text_field [where fs = AdmissionReviewRequest_fields and ms = ms and r = zero_AdmissionReviewRequest, unfolded review_names_eq, OF e]
    and h = object_field [where fs = AdmissionReviewRequest_fields and ms = ms and r = zero_AdmissionReviewRequest,
      unfolded review_names_eq, OF e, where build = Request_of and fs' = Request_fields, unfolded Request_names]
  note defs = review_of_def AdmissionReviewRequest_fields_def field_def zero_AdmissionReviewRequest_def case_prod_beta
  let ?r = "snd (dec_members AdmissionReviewRequest_fields ms zero_AdmissionReviewRequest)"
  show "arq_APIVersion ?r = arq_APIVersion (review_of ms)"
    by (subst f [where upd = "\<lambda>a. arq_APIVersion_update (\<lambda>_. a)"]) (simp_all add: defs)
  show "arq_Kind ?r = arq_Kind (review_of ms)"
    by (subst f [where upd = "\<lambda>a. arq_Kind_update (\<lambda>_. a)"]) (simp_all add: defs)
  show "arq_Request ?r = arq_Request (review_of ms)"
    by (subst h [where upd = "\<lambda>a. arq_Request_update (\<lambda>_. a)" and n = "''request''"]) (simp_all add: defs Request_value [OF rq])
qed simp

section \<open>Properties\<close>

text \<open>
  C18: what a review says. Any JSON object is decoded by the names of \<^verbatim>\<open>types.go\<close>, at every level, whatever other members it
  has, in whatever order, and whichever are missing: it is refused exactly if one of the named members has a value of the wrong
  type, and otherwise every field of every struct has the value of the member of its name, and is zero without it or if it is
  \<^verbatim>\<open>null\<close>. No name may occur twice in an object, and no other name may be one of the named ones but for
  the case of letters.
\<close>

theorem review_decoded:
  assumes "parse body = Inr (JObj ms)" and "review_exact ms"
  shows "Decode (dec_struct AdmissionReviewRequest_fields) zero_AdmissionReviewRequest body =
    (if review_fits ms then Inr (review_of ms) else Inl ErrType)"
proof -
  have "dec_struct AdmissionReviewRequest_fields (JObj ms) zero_AdmissionReviewRequest = (review_fits ms, review_of ms)"
    unfolding dec_struct_JObj
    by (rule prod_eqI) (simp_all add: review_fit [OF assms(2)] review_value [OF assms(2)])
  then show ?thesis by (simp add: Decode_def assms(1))
qed

text \<open>A review as an API server writes it, shortened: a pod with metadata and spec, no \<^verbatim>\<open>subResource\<close>, no \<^verbatim>\<open>extra\<close>, no old object.\<close>

definition sent_review :: "(string \<times> json) list" where
  "sent_review = [(''kind'', JStr ''AdmissionReview''), (''apiVersion'', JStr ''admission.k8s.io/v1''),
     (''request'', JObj [(''uid'', JStr ''u-7''),
       (''kind'', JObj [(''group'', JStr []), (''version'', JStr ''v1''), (''kind'', JStr ''Pod'')]),
       (''namespace'', JStr ''shop''), (''operation'', JStr ''CREATE''),
       (''userInfo'', JObj [(''username'', JStr ''ann''), (''groups'', JArr [JStr ''dev''])]),
       (''object'', JObj [(''kind'', JStr ''Pod''), (''apiVersion'', JStr ''v1''), (''metadata'', JObj [(''name'', JStr ''web'')]),
         (''spec'', JObj [(''containers'', JArr [])])]),
       (''oldObject'', JNull), (''dryRun'', JBool False)])]"

theorem review_decoded_witness:
  "\<exists>request. Decode (dec_struct AdmissionReviewRequest_fields) zero_AdmissionReviewRequest (print (JObj sent_review)) = Inr request \<and>
     arq_Kind request = ''AdmissionReview'' \<and> rq_UID (arq_Request request) = ''u-7'' \<and> is_pod_create (arq_Request request) \<and>
     mwo_Kind (rq_Object (arq_Request request)) = ''Pod'' \<and> rq_OldObject (arq_Request request) = zero_Object \<and>
     user_Groups (rq_UserInfo (arq_Request request)) = Some [''dev'']"
proof -
  have "parse (print (JObj sent_review) @ []) = Inr (JObj sent_review)"
    by (rule parse_print) (simp_all add: sent_review_def ascii_utf8 maxNestingDepth_def)
  then have p: "parse (print (JObj sent_review)) = Inr (JObj sent_review)" by (simp only: append_Nil2)
  have "fold_key ''metadata'' \<notin> set (map fold_key object_names)" "fold_key ''spec'' \<notin> set (map fold_key object_names)"
    by (simp_all add: object_names_def fold_key_ascii lower_def between_def char_of_eq_iff)
  then have "review_exact sent_review"
    by (simp add: review_exact_def request_exact_def exact_def object_of_def sent_review_def review_names_def request_names_def
        kind_names_def user_names_def object_names_def)
  note d = review_decoded [OF p this]
  have "review_fits sent_review"
    by (simp add: review_fits_def Request_fits_def Kind_fits_def UserInfo_fits_def Object_fits_def fit_def sent_review_def
        text_fits_def flag_fits_def texts_fit_def object_fits_def)
  with d have "Decode (dec_struct AdmissionReviewRequest_fields) zero_AdmissionReviewRequest (print (JObj sent_review)) =
      Inr (review_of sent_review)" by simp
  then show ?thesis
    by (intro exI [of _ "review_of sent_review"] conjI, assumption)
      (simp_all add: review_of_def Request_of_def Kind_of_def Object_of_def UserInfo_of_def text_of_def texts_of_def object_of_def
        sent_review_def is_pod_create_def zero_Object_def)
qed

end
