(* ===== verification/Webhook_Log.thy ===== *)
theory Webhook_Log
  imports Webhook_Server "HOL-Library.Char_ord" "HOL-Library.List_Lexorder"
begin

text \<open>
  What kubewebhook tells its operators while it serves a request: the entries it logs with \<^verbatim>\<open>logrus\<close> and
  the texts it prints on standard output, in order. Each definition gives the output of one function
  of \<^verbatim>\<open>server.go\<close>, \<^verbatim>\<open>pkg/admission\<close>, \<^verbatim>\<open>pkg/validation\<close> or \<^verbatim>\<open>pkg/mutation\<close>, whose results are modelled in the theories
  of those parts. The level that \<^verbatim>\<open>setLogger\<close> sets decides which entries are shown; all are listed here.
\<close>

section \<open>Entries and loggers\<close>

datatype log_level = Debug | Info | Error

datatype log_value = LStr string | LInt int

type_synonym log_fields = "(string \<times> log_value) list"

record log_entry =
  en_Level :: log_level
  en_Fields :: log_fields
  en_Message :: gotext

datatype printout = Logged log_entry | Printed gotext

text \<open>A logger is the fields of its entries; \<^verbatim>\<open>WithField\<close> adds one or replaces the one of that name.\<close>

definition WithField :: "string \<Rightarrow> log_value \<Rightarrow> log_fields \<Rightarrow> log_fields" where
  "WithField k v logger = filter (\<lambda>(k', _). k' \<noteq> k) logger @ [(k, v)]"

definition entry :: "log_level \<Rightarrow> log_fields \<Rightarrow> gotext \<Rightarrow> printout" where
  "entry level logger t = Logged \<lparr>en_Level = level, en_Fields = logger, en_Message = t\<rparr>"

text \<open>\<^verbatim>\<open>fmt.Println\<close> of a text, and of a map of strings, which is shown in the order of its keys.\<close>

definition Println :: "string \<Rightarrow> printout" where
  "Println s = Printed [Lit s, newline]"

fun spaced :: "string list \<Rightarrow> string" where
  "spaced [] = ''''"
| "spaced [s] = s"
| "spaced (s # ss) = s @ '' '' @ spaced ss"

definition print_map :: "(string, string) gomap \<Rightarrow> string" where
  "print_map m = ''map['' @
     spaced (map (\<lambda>k. k @ '':'' @ gomap_index m k) (sort (remdups (map fst (gomap_entries m))))) @ '']''"

text \<open>
  The objects that hold a logger: a \<^verbatim>\<open>Validator\<close>, a \<^verbatim>\<open>Mutator\<close> and an \<^verbatim>\<open>Admitter\<close>, which has its request too.
\<close>

record validator_struct =
  Validator_Logger :: log_fields

definition NewValidator :: "log_fields \<Rightarrow> validator_struct" where
  "NewValidator logger = \<lparr>Validator_Logger = logger\<rparr>"

record mutator_struct =
  Mutator_Logger :: log_fields

definition NewMutator :: "log_fields \<Rightarrow> mutator_struct" where
  "NewMutator logger = \<lparr>Mutator_Logger = logger\<rparr>"

record 'x admitter =
  Admitter_Logger :: log_fields
  Admitter_Request :: "'x admission_request"

section \<open>Validation\<close>

text \<open>The names of the validators; nothing logs them.\<close>

definition nameValidator_Name :: string where "nameValidator_Name = ''name_validator''"
definition labelsValidator_Name :: string where "labelsValidator_Name = ''labels_validator''"

fun validator_Name :: "pod_validator \<Rightarrow> string" where
  "validator_Name nameValidator = nameValidator_Name"
| "validator_Name labelsValidator = labelsValidator_Name"

definition pod_log_name :: "'x pod \<Rightarrow> string" where
  "pod_log_name pod =
     (if pod_Name pod \<noteq> '''' then pod_Name pod
      else if meta_GenerateName (pod_Meta pod) \<noteq> '''' then meta_GenerateName (pod_Meta pod) else '''')"

text \<open>The logger of the \<^verbatim>\<open>Validator\<close> goes to the validators, which do not use it.\<close>

definition ValidatePod_output :: "validator_struct \<Rightarrow> 'x pod \<Rightarrow> printout list" where
  "ValidatePod_output v pod =
     (let log = WithField ''pod_name'' (LStr (pod_log_name pod)) [] in
      entry Info log [Lit ''delete me''] #
      (if gomap_len (pod_Labels pod) = 0 then [] else [Println (print_map (pod_Labels pod))]))"

section \<open>Mutation\<close>

definition minLifespan_Name :: string where "minLifespan_Name = ''min_lifespan''"
definition injectEnv_Name :: string where "injectEnv_Name = ''inject_env''"

fun mutator_Name :: "pod_mutator \<Rightarrow> string" where
  "mutator_Name minLifespanTolerations = minLifespan_Name"
| "mutator_Name injectEnv = injectEnv_Name"

definition minLifespan_output :: "log_fields \<Rightarrow> 'x pod \<Rightarrow> printout list" where
  "minLifespan_output logger pod =
     (let logger = WithField ''mutation'' (LStr minLifespan_Name) logger in
      if pod_Labels pod = None \<or> gomap_index (pod_Labels pod) lifespanLabel = ''''
      then [entry Info (WithField ''min_lifespan'' (LInt 0) logger)
             [Lit ''no lifespan label found, applying default lifespan toleration'']]
      else (let ts = gomap_index (pod_Labels pod) lifespanLabel in
        case atoi ts of
          Inl e \<Rightarrow> []
        | Inr minAge \<Rightarrow> [entry Info (WithField ''min_lifespan'' (LStr ts) logger) [Lit ''setting lifespan tolerations'']]))"

text \<open>How \<^verbatim>\<open>%s\<close> shows an \<^verbatim>\<open>EnvVar\<close>, a struct of another package, is the argument \<open>show_env\<close>.\<close>

definition injectEnv_output :: "('x env_var \<Rightarrow> string) \<Rightarrow> log_fields \<Rightarrow> printout list" where
  "injectEnv_output show_env logger =
     (let logger = WithField ''mutation'' (LStr injectEnv_Name) logger in
      map (\<lambda>envVar. entry Debug logger [Lit ''pod env injected '', Lit (show_env envVar)]) [kube_env])"

fun mutator_output :: "('x env_var \<Rightarrow> string) \<Rightarrow> log_fields \<Rightarrow> pod_mutator \<Rightarrow> 'x pod \<Rightarrow> printout list" where
  "mutator_output show_env logger minLifespanTolerations pod = minLifespan_output logger pod"
| "mutator_output show_env logger injectEnv pod = injectEnv_output show_env logger"

text \<open>
  The loop of \<^verbatim>\<open>MutatePodPatch\<close>: a mutator that does not return a pod is the last one heard of. The mutators
  get a new logger, not the one of the \<^verbatim>\<open>Mutator\<close>.
\<close>

fun mutations_output ::
  "('m \<Rightarrow> 'x pod mem \<Rightarrow> ptr \<Rightarrow> (ptr \<times> 'x pod mem) outcome) \<Rightarrow> ('m \<Rightarrow> 'x pod \<Rightarrow> printout list) \<Rightarrow>
   'm list \<Rightarrow> 'x pod mem \<Rightarrow> ptr \<Rightarrow> printout list" where
  "mutations_output mutate out [] m mp = []"
| "mutations_output mutate out (mu # mus) m mp =
     (case mem_load m mp of None \<Rightarrow> [] | Some pod \<Rightarrow> out mu pod) @
     (case mutate mu m mp of Ok (mp', m') \<Rightarrow> mutations_output mutate out mus m' mp' | _ \<Rightarrow> [])"

definition MutatePodPatch_output ::
  "mutator_struct \<Rightarrow> ('x env_var \<Rightarrow> string) \<Rightarrow> ('x, 'd, 'z) mutation_pkgs_scheme \<Rightarrow> 'x pod mem \<Rightarrow> ptr \<Rightarrow> printout list" where
  "MutatePodPatch_output mu show_env pkgs m p =
     (case mem_load m p of None \<Rightarrow> [] | Some pod \<Rightarrow>
       (let log = WithField ''pod_name'' (LStr (pod_log_name pod)) [] in
        case mem_new m (DeepCopy pkgs pod) of (mp0, m0) \<Rightarrow>
          mutations_output (mutator_Mutate pkgs) (mutator_output show_env log)
            [minLifespanTolerations, injectEnv] m0 mp0))"

section \<open>Reviews and requests\<close>

definition ValidatePodReview_output ::
  "('x, 'd, 'z) admission_pkgs_scheme \<Rightarrow> 'x admitter \<Rightarrow> printout list" where
  "ValidatePodReview_output pkgs a =
     (case Admitter_Pod pkgs (Admitter_Request a) of
        Inl err \<Rightarrow> []
      | Inr pod \<Rightarrow> ValidatePod_output (NewValidator (Admitter_Logger a)) pod)"

definition MutatePodReview_output ::
  "('x env_var \<Rightarrow> string) \<Rightarrow> ('x, 'd, 'z) admission_pkgs_scheme \<Rightarrow> 'x pod mem \<Rightarrow> 'x admitter \<Rightarrow> printout list" where
  "MutatePodReview_output show_env pkgs m a =
     (case Admitter_Pod pkgs (Admitter_Request a) of
        Inl err \<Rightarrow> []
      | Inr p \<Rightarrow>
          (case mem_new m p of (pod, m1) \<Rightarrow>
             MutatePodPatch_output (NewMutator (Admitter_Logger a)) show_env pkgs m1 pod))"

definition parseRequest_output :: "http_request \<Rightarrow> printout list" where
  "parseRequest_output r =
     (if header_get (hr_Header r) ''Content-Type'' \<noteq> ''application/json'' then [] else [Println (hr_Body r)])"

text \<open>From the review to the response, the same in both handlers.\<close>

definition respond_output ::
  "('x, 'd, 'z) server_pkgs_scheme \<Rightarrow> log_fields \<Rightarrow> 'x admission_review \<times> gotext option \<Rightarrow> printout list" where
  "respond_output pkgs logger o_e = (case snd o_e of
       Some e \<Rightarrow> [entry Error logger (Lit ''could not generate admission response: '' # e)]
     | None \<Rightarrow>
         (case MarshalReview pkgs (fst o_e) of
            Inl e \<Rightarrow> [entry Error logger (Lit ''could not parse admission response: '' # e)]
          | Inr jout \<Rightarrow> [entry Debug logger [Lit ''sending response''], entry Debug logger [Lit jout]]))"

text \<open>\<open>uri\<close> is the \<^verbatim>\<open>RequestURI\<close> of the request.\<close>

definition ServeValidatePods_output ::
  "('x, 'd, 'z) server_pkgs_scheme \<Rightarrow> string \<Rightarrow> http_request \<Rightarrow> printout list" where
  "ServeValidatePods_output pkgs uri r =
     (let logger = WithField ''uri'' (LStr uri) [] in
      entry Debug logger [Lit ''received validation request''] # parseRequest_output r @
      (case parseRequest pkgs r of
         Inl err \<Rightarrow> [entry Error logger err]
       | Inr inp \<Rightarrow>
           (case rev_Request inp of None \<Rightarrow> [] | Some request \<Rightarrow>
              ValidatePodReview_output pkgs \<lparr>Admitter_Logger = logger, Admitter_Request = request\<rparr> @
              respond_output pkgs logger (ValidatePodReview pkgs request))))"

definition ServeMutatePods_output ::
  "('x env_var \<Rightarrow> string) \<Rightarrow> ('x, 'd, 'z) server_pkgs_scheme \<Rightarrow> 'x pod mem \<Rightarrow> string \<Rightarrow> http_request \<Rightarrow> printout list" where
  "ServeMutatePods_output show_env pkgs m uri r =
     (let logger = WithField ''uri'' (LStr uri) [] in
      entry Debug logger [Lit ''received mutation request''] # parseRequest_output r @
      (case parseRequest pkgs r of
         Inl err \<Rightarrow> [entry Error logger err]
       | Inr inp \<Rightarrow>
           (case rev_Request inp of None \<Rightarrow> [] | Some request \<Rightarrow>
              MutatePodReview_output show_env pkgs m \<lparr>Admitter_Logger = logger, Admitter_Request = request\<rparr> @
              (case MutatePodReview pkgs m request of
                 Ok o_e \<Rightarrow> respond_output pkgs logger o_e | _ \<Rightarrow> []))))"

section \<open>Lemmas\<close>

definition is_error :: "printout \<Rightarrow> bool" where
  "is_error out = (case out of Logged en \<Rightarrow> en_Level en = Error | Printed t \<Rightarrow> False)"

lemma entry_error [simp]: "is_error (entry level logger t) \<longleftrightarrow> level = Error" "\<not> is_error (Println s)"
  by (simp_all add: is_error_def entry_def Println_def)

lemma mutator_output_errors:
  "out \<in> set (minLifespan_output logger pod) \<Longrightarrow> \<not> is_error out"
  "out \<in> set (injectEnv_output show_env logger) \<Longrightarrow> \<not> is_error out"
  by (auto simp: minLifespan_output_def injectEnv_output_def Let_def split: if_splits sum.splits)

lemma MutatePodPatch_output_errors: "out \<in> set (MutatePodPatch_output mu show_env pkgs m p) \<Longrightarrow> \<not> is_error out"
  by (auto simp: MutatePodPatch_output_def Let_def dest: mutator_output_errors
      split: option.splits prod.splits outcome.splits)

lemma review_output_errors:
  "out \<in> set (ValidatePodReview_output pkgs a) \<Longrightarrow> \<not> is_error out"
  "out \<in> set (MutatePodReview_output show_env pkgs m a) \<Longrightarrow> \<not> is_error out"
  by (auto simp: ValidatePodReview_output_def ValidatePod_output_def MutatePodReview_output_def
      dest: MutatePodPatch_output_errors split: sum.splits if_splits prod.splits)

text \<open>The last entry is what is answered, and it is an error exactly if the answer is one.\<close>

definition told :: "string \<Rightarrow> http_response \<Rightarrow> printout list \<Rightarrow> bool" where
  "told uri resp outs \<longleftrightarrow> (\<exists>front en. outs = front @ [Logged en] \<and> (\<forall>out\<in>set front. \<not> is_error out) \<and>
     en_Fields en = [(''uri'', LStr uri)] \<and>
     (if hw_Status resp = Some StatusOK then en_Level en = Debug \<and> hw_Body resp = en_Message en
      else en_Level en = Error \<and> hw_Body resp = en_Message en @ [newline]))"

lemma told_error:
  assumes "\<forall>out\<in>set front. \<not> is_error out" and "code \<noteq> StatusOK" and "hw_Status w = None" "hw_Body w = []"
  shows "told uri (http_Error e code w) (front @ [entry Error (WithField ''uri'' (LStr uri) []) e])"
  using assms by (auto simp: told_def entry_def WithField_def http_simps http_Error_def)

lemma told_respond:
  assumes "\<forall>out\<in>set front. \<not> is_error out"
  shows "told uri (respond pkgs hw_new o_e) (front @ respond_output pkgs (WithField ''uri'' (LStr uri) []) o_e)"
proof -
  have w: "hw_Status (hw_set_header k v hw_new) = None" "hw_Body (hw_set_header k v hw_new) = []" "StatusInternalServerError \<noteq> StatusOK"
    for k v by (simp_all add: http_simps hw_set_header_def hw_new_def StatusInternalServerError_def StatusOK_def)
  show ?thesis
  proof (cases "snd o_e")
    case (Some e)
    with told_error [OF assms w(3), of hw_new] show ?thesis by (simp add: respond_def respond_output_def hw_new_def)
  next
    case None
    show ?thesis
    proof (cases "MarshalReview pkgs (fst o_e)")
      case (Inl e)
      with told_error [OF assms w(3,1,2)] None show ?thesis by (simp add: respond_def respond_output_def)
    next
      case (Inr jout)
      let ?u = "WithField ''uri'' (LStr uri) []"
      have "front @ respond_output pkgs ?u o_e = (front @ [entry Debug ?u [Lit ''sending response'']]) @ [entry Debug ?u [Lit jout]]"
        using None Inr by (simp add: respond_output_def)
      moreover have "hw_Status (respond pkgs hw_new o_e) = Some StatusOK" "hw_Body (respond pkgs hw_new o_e) = [Lit jout]"
        using None Inr by (simp_all add: respond_def hw_write_def hw_write_header_def hw_set_header_def hw_new_def Let_def)
      ultimately show ?thesis unfolding told_def using assms
        by (intro exI [of _ "front @ [entry Debug ?u [Lit ''sending response'']]"]) (auto simp: entry_def WithField_def is_error_def)
    qed
  qed
qed

lemma MutatePodPatch_output_eq:
  assumes "copies pkgs" and p: "mem_load m p = Some pod"
  shows "MutatePodPatch_output mu show_env pkgs m p =
    (let log = [(''pod_name'', LStr (pod_log_name pod))] in minLifespan_output log pod @
      (case wanted_tolerations pod of Ok ts \<Rightarrow> injectEnv_output show_env log | _ \<Rightarrow> []))"
proof -
  obtain q m1 where new: "mem_new m pod = (q, m1)" by fastforce
  have q: "mem_load m1 q = Some pod" using gomem.load_new [of m pod q] new by simp
  obtain q2 m2 where new2: "mem_new m1 pod = (q2, m2)" by fastforce
  note loaded = gomem.update_copy(1) [OF new2]
  show ?thesis
    using p new q new2 loaded assms(1)
    by (cases "wanted_tolerations pod")
      (auto simp: MutatePodPatch_output_def minLifespan_Mutate_eq injectEnv_Mutate_eq copies_def WithField_def Let_def
        split: option.split prod.split outcome.split)
qed

section \<open>Properties\<close>

text \<open>
  C32: the log tells the answer. Whatever is posted to the review handlers, when they answer then the last thing
  they log, with the URI of the request, is the body of the answer: as an error if the status is not 200, as
  a debug entry if it is; and they log no other error.
\<close>

theorem log_tells_answer:
  assumes "ServeValidatePods pkgs r hw_new = Ok resp \<and> outs = ServeValidatePods_output pkgs uri r \<or>
    ServeMutatePods pkgs m r hw_new = Ok resp \<and> outs = ServeMutatePods_output show_env pkgs m uri r"
  shows "\<exists>front en. outs = front @ [Logged en] \<and> (\<forall>out\<in>set front. \<not> is_error out) \<and>
    en_Fields en = [(''uri'', LStr uri)] \<and>
    (if hw_Status resp = Some StatusOK then en_Level en = Debug \<and> hw_Body resp = en_Message en
     else en_Level en = Error \<and> hw_Body resp = en_Message en @ [newline])"
  unfolding told_def [symmetric]
proof (cases "parseRequest pkgs r")
  case (Inl err)
  let ?u = "WithField ''uri'' (LStr uri) []"
  have front: "\<forall>out\<in>set (entry Debug ?u [Lit t] # parseRequest_output r). \<not> is_error out" for t
    by (simp add: parseRequest_output_def)
  from assms Inl show "told uri resp outs"
    using told_error [OF front, of StatusBadRequest hw_new]
    by (auto simp: ServeValidatePods_def ServeMutatePods_def ServeValidatePods_output_def ServeMutatePods_output_def
        Let_def hw_new_def StatusBadRequest_def StatusOK_def)
next
  case (Inr inp)
  then obtain request where request: "rev_Request inp = Some request" by (auto simp: parseRequest_Inr)
  let ?u = "WithField ''uri'' (LStr uri) []"
  let ?v = "entry Debug ?u [Lit ''received validation request''] # parseRequest_output r @
    ValidatePodReview_output pkgs \<lparr>Admitter_Logger = ?u, Admitter_Request = request\<rparr>"
  let ?m = "entry Debug ?u [Lit ''received mutation request''] # parseRequest_output r @
    MutatePodReview_output show_env pkgs m \<lparr>Admitter_Logger = ?u, Admitter_Request = request\<rparr>"
  have "\<forall>out\<in>set ?v. \<not> is_error out" and "\<forall>out\<in>set ?m. \<not> is_error out"
    by (auto simp: parseRequest_output_def dest: review_output_errors)
  note told = told_respond [OF this(1), of uri pkgs] told_respond [OF this(2), of uri pkgs]
  from assms show "told uri resp outs"
  proof
    assume "ServeValidatePods pkgs r hw_new = Ok resp \<and> outs = ServeValidatePods_output pkgs uri r"
    with told(1) [of "ValidatePodReview pkgs request"] show ?thesis
      by (auto simp: ServeValidatePods_parsed [OF Inr request] ServeValidatePods_output_def Inr request Let_def)
  next
    assume "ServeMutatePods pkgs m r hw_new = Ok resp \<and> outs = ServeMutatePods_output show_env pkgs m uri r"
    with told(2) show ?thesis
      by (cases "MutatePodReview pkgs m request")
        (auto simp: ServeMutatePods_parsed [OF Inr request] ServeMutatePods_output_def Inr request Let_def)
  qed
qed

theorem log_tells_answer_witness:
  "\<exists>front en. ServeValidatePods_output sample_server_pkgs ''/validate-pods'' (sample_http ''/validate-pods'' []) =
    front @ [Logged en] \<and> en_Level en = Error"
proof -
  have "ServeValidatePods sample_server_pkgs (sample_http ''/validate-pods'' []) hw_new =
      Ok (http_Error [Lit ''admission request body is empty''] StatusBadRequest hw_new)"
    by (simp add: ServeValidatePods_def parseRequest_def sample_http_def header_get_def Let_def)
  from log_tells_answer [OF disjI1, OF conjI [OF this refl], where uri = "''/validate-pods''"] show ?thesis
    by (auto simp: http_simps StatusBadRequest_def StatusOK_def)
qed

text \<open>
  C33: the whole output of a mutation. For a review of a pod that can be mutated: that the request was received,
  the body as it came, on standard output, one entry of each mutator with its name and the name of the
  pod, and the response. The entries of the mutators do not say to which request they belong, and
  the body is printed whatever the level of the log.
\<close>

theorem mutation_output:
  assumes "copies pkgs" and "parseRequest pkgs r = Inr a" and "rev_Request a = Some request"
    and "Admitter_Pod pkgs request = Inr pod" and "wanted_tolerations pod = Ok ts"
    and "patch_of pkgs pod (mutated_pod ts pod) = Ok patch"
    and "MarshalReview pkgs (fst (patchReviewResponse (req_UID request) patch)) = Inr b"
  shows "ServeMutatePods_output show_env pkgs m uri r =
    (let label = gomap_index (pod_Labels pod) ''acme.com/lifespan-requested''; name = (''pod_name'', LStr (pod_log_name pod)) in
     [Logged \<lparr>en_Level = Debug, en_Fields = [(''uri'', LStr uri)], en_Message = [Lit ''received mutation request'']\<rparr>,
      Printed [Lit (hr_Body r), newline],
      Logged \<lparr>en_Level = Info, en_Fields = [name, (''mutation'', LStr ''min_lifespan''),
          (''min_lifespan'', if label = '''' then LInt 0 else LStr label)],
        en_Message = [Lit (if label = '''' then ''no lifespan label found, applying default lifespan toleration''
          else ''setting lifespan tolerations'')]\<rparr>,
      Logged \<lparr>en_Level = Debug, en_Fields = [name, (''mutation'', LStr ''inject_env'')],
        en_Message = [Lit ''pod env injected '', Lit (show_env kube_env)]\<rparr>,
      Logged \<lparr>en_Level = Debug, en_Fields = [(''uri'', LStr uri)], en_Message = [Lit ''sending response'']\<rparr>,
      Logged \<lparr>en_Level = Debug, en_Fields = [(''uri'', LStr uri)], en_Message = [Lit b]\<rparr>])"
proof -
  obtain p m1 where new: "mem_new m pod = (p, m1)" by fastforce
  then have p: "mem_load m1 p = Some pod" using gomem.load_new [of m pod p] by simp
  have "MutatePodReview_output show_env pkgs m \<lparr>Admitter_Logger = log, Admitter_Request = request\<rparr> =
      MutatePodPatch_output (NewMutator log) show_env pkgs m1 p" for log
    using assms(4) new by (simp add: MutatePodReview_output_def)
  moreover have "MutatePodReview pkgs m request = Ok (patchReviewResponse (req_UID request) patch)"
    using assms(1,4-6) by (rule MutatePodReview_pod)
  moreover have "snd (patchReviewResponse (req_UID request) patch) = None" by (simp add: patchReviewResponse_def)
  moreover have "minLifespan_output log pod = (let label = gomap_index (pod_Labels pod) lifespanLabel in
      [entry Info (WithField ''min_lifespan'' (if label = '''' then LInt 0 else LStr label)
          (WithField ''mutation'' (LStr ''min_lifespan'') log))
        [Lit (if label = '''' then ''no lifespan label found, applying default lifespan toleration''
          else ''setting lifespan tolerations'')]])" for log
    using assms(5) by (auto simp: minLifespan_output_def minLifespan_Name_def unset_label wanted_tolerations_def Let_def split: if_splits sum.splits)
  ultimately show ?thesis
    using assms(2,3,5,7) parseRequest_Inr [of pkgs r a]
    by (simp add: ServeMutatePods_output_def MutatePodPatch_output_eq [OF assms(1) p] respond_output_def injectEnv_output_def injectEnv_Name_def
        parseRequest_output_def Println_def entry_def WithField_def Let_def lifespanLabel_def)
qed

theorem mutation_output_witness:
  "length (ServeMutatePods_output (\<lambda>e. ''KUBE true nil'') sample_server_pkgs [] ''/mutate-pods''
     (sample_http ''/mutate-pods'' ''12'')) = 6"
proof -
  have "copies sample_server_pkgs" by (simp add: copies_def sample_server_pkgs_def)
  moreover have "patch_of sample_server_pkgs (lifespan_pod ''12'')
      (mutated_pod (lifespan_tolerations 12) (lifespan_pod ''12'')) = Ok ''[add]''"
    by (simp add: patch_of_def sample_server_pkgs_def mutated_pod_def add_env_def add_tolerations_def
        lifespan_pod_def sample_defs inject_container_def HasEnvVar_iff)
  moreover obtain b where "MarshalReview sample_server_pkgs
      (fst (patchReviewResponse (req_UID (sample_request ''12'')) ''[add]'')) = Inr b"
    by (simp add: sample_server_pkgs_def)
  ultimately show ?thesis
    using mutation_output [of sample_server_pkgs, OF _ sample_parse _ sample_decodes wanted_lifespan_pod_12]
    by (simp add: Let_def)
qed

end
