(* ===== verification/Mutating_Webhook_Log.thy ===== *)
theory Mutating_Webhook_Log
  imports Webhook_Log Mutating_Webhook
begin

text \<open>
  What \<^verbatim>\<open>postWebhook\<close> of \<^verbatim>\<open>mutatingwebhook/server.go\<close> prints on standard output while it answers, in order. How \<^verbatim>\<open>%+v\<close>
  shows the request, a struct, is the argument \<open>show_request\<close>.
\<close>

definition postWebhook_output :: "(mw_Request \<Rightarrow> string) \<Rightarrow> http_request \<Rightarrow> printout list" where
  "postWebhook_output show_request r =
     (case Decode (dec_struct AdmissionReviewRequest_fields) zero_AdmissionReviewRequest (hr_Body r) of
        Inl err \<Rightarrow> []
      | Inr request \<Rightarrow>
          if arq_APIVersion request \<noteq> ''admission.k8s.io/v1'' \<or> arq_Kind request \<noteq> ''AdmissionReview'' then []
          else Printed [Lit ''debug: '', Lit (show_request (arq_Request request)), newline] #
            (let response = \<lparr>arr_APIVersion = ''admission.k8s.io/v1'', arr_Kind = ''AdmissionReview'',
                   arr_Response = \<lparr>mwr_UID = rq_UID (arq_Request request), mwr_Allowed = True,
                     mwr_Patch = '''', mwr_PatchType = ''''\<rparr>\<rparr>;
                 response1 = (if is_pod_create (arq_Request request)
                   then response\<lparr>arr_Response := (arr_Response response)\<lparr>mwr_PatchType := ''JSONPatch'',
                     mwr_Patch := b64_encode label_patch\<rparr>\<rparr>
                   else response)
             in case Marshal_response response1 of
                  Inl err \<Rightarrow> []
                | Inr out \<Rightarrow> [Printed [Lit ''Got request, response: '', Lit out, newline]]))"

text \<open>
  The printed lines tell the answer: there are none if the status is 400; else there are two, the request that was
  decoded and the body that was sent.
\<close>

theorem postWebhook_prints:
  "postWebhook_output show_request r = [] \<and> hw_Status (postWebhook error_text r hw_new) = Some StatusBadRequest \<or>
   (\<exists>request out. postWebhook_output show_request r = [Printed [Lit ''debug: '', Lit (show_request request), newline],
      Printed [Lit ''Got request, response: '', Lit out, newline]] \<and>
    hw_Status (postWebhook error_text r hw_new) = Some StatusOK \<and>
    hw_Body (postWebhook error_text r hw_new) = [Lit out, newline])"
  by (auto simp: postWebhook_def postWebhook_output_def Marshal_response_def http_simps Let_def split: sum.split)

end
