(* ===== verification/Cert.thy ===== *)
theory Cert
  imports Base64
begin

text \<open>
  \<^verbatim>\<open>certsetup\<close> of \<^verbatim>\<open>kubewebhook/cert.go\<close> and of \<^verbatim>\<open>mutatingwebhook/main.go\<close>, which differ in the DNS name of the
  server certificate: a new certificate authority, a server certificate signed by it, and the TLS
  configurations of a server and of its clients. Keys, signatures and parsed certificates are those of
  \<^verbatim>\<open>crypto\<close>: its functions are the fields of \<open>crypto\<close>, with the state \<open>'s\<close> of the random source and
  the clock. The PEM text is that of \<^verbatim>\<open>encoding/pem\<close>.
\<close>

section \<open>PEM\<close>

abbreviation nl :: char where "nl \<equiv> CHR 0x0A"

text \<open>The body of a block, in lines of 64 characters.\<close>

function pem_lines :: "string \<Rightarrow> string" where
  "pem_lines s = (if s = [] then [] else take 64 s @ [nl] @ pem_lines (drop 64 s))"
  by auto
termination by (relation "measure length") auto

declare pem_lines.simps [simp del]

definition pem_Encode :: "string \<Rightarrow> bytes \<Rightarrow> bytes" where
  "pem_Encode type b = ''-----BEGIN '' @ type @ ''-----'' @ [nl] @ pem_lines (b64_encode b) @
     ''-----END '' @ type @ ''-----'' @ [nl]"

text \<open>What a reader of a block of the given type finds in it.\<close>

definition pem_decode :: "string \<Rightarrow> bytes \<Rightarrow> bytes option" where
  "pem_decode type t =
     (let pre = ''-----BEGIN '' @ type @ ''-----'' @ [nl]; post = ''-----END '' @ type @ ''-----'' @ [nl];
          body = take (length t - length pre - length post) (drop (length pre) t)
      in if t = pre @ body @ post then b64_decode (filter (\<lambda>c. c \<noteq> nl) body) else None)"

section \<open>Templates\<close>

record pkix_name =
  Organization :: "string list"
  Country :: "string list"
  Province :: "string list"
  Locality :: "string list"
  StreetAddress :: "string list"
  PostalCode :: "string list"

datatype ext_key_usage = ExtKeyUsageServerAuth | ExtKeyUsageClientAuth

definition KeyUsageDigitalSignature :: "64 word" where "KeyUsageDigitalSignature = 1"
definition KeyUsageCertSign :: "64 word" where "KeyUsageCertSign = 32"

record 't certificate =
  SerialNumber :: int
  Subject :: pkix_name
  IPAddresses :: "nat list list"
  NotBefore :: 't
  NotAfter :: 't
  SubjectKeyId :: "nat list"
  IsCA :: bool
  ExtKeyUsage :: "ext_key_usage list"
  KeyUsage :: "64 word"
  BasicConstraintsValid :: bool
  DNSNames :: "string list"

record ('c, 'p) tls_config =
  Certificates :: "'c list"
  RootCAs :: "'p option"

record ('k, 'pub, 't, 'c, 'p, 's) crypto =
  Now :: "'s \<Rightarrow> 't \<times> 's"
  AddDate :: "'t \<Rightarrow> int \<Rightarrow> int \<Rightarrow> int \<Rightarrow> 't"
  GenerateKey :: "nat \<Rightarrow> 's \<Rightarrow> (gotext + 'k) \<times> 's"
  PublicKey :: "'k \<Rightarrow> 'pub"
  CreateCertificate :: "'t certificate \<Rightarrow> 't certificate \<Rightarrow> 'pub \<Rightarrow> 'k \<Rightarrow> 's \<Rightarrow> (gotext + bytes) \<times> 's"
  MarshalPKCS1PrivateKey :: "'k \<Rightarrow> bytes"
  X509KeyPair :: "bytes \<Rightarrow> bytes \<Rightarrow> gotext + 'c"
  NewCertPool :: 'p
  AppendCertsFromPEM :: "'p \<Rightarrow> bytes \<Rightarrow> 'p"

definition company :: pkix_name where
  "company = \<lparr>Organization = [''Company, INC.''], Country = [''US''], Province = [''''], Locality = [''San Francisco''],
     StreetAddress = [''Golden Gate Bridge''], PostalCode = [''94016'']\<rparr>"

definition ca_template :: "'t \<Rightarrow> 't \<Rightarrow> 't certificate" where
  "ca_template from until = \<lparr>SerialNumber = 2019, Subject = company, IPAddresses = [], NotBefore = from, NotAfter = until,
     SubjectKeyId = [], IsCA = True, ExtKeyUsage = [ExtKeyUsageClientAuth, ExtKeyUsageServerAuth],
     KeyUsage = or KeyUsageDigitalSignature KeyUsageCertSign, BasicConstraintsValid = True, DNSNames = []\<rparr>"

text \<open>\<^verbatim>\<open>net.IPv4\<close> gives the 16-byte form of an address.\<close>

definition loopbacks :: "nat list list" where
  "loopbacks = [[0, 0, 0, 0, 0, 0, 0, 0, 0, 0, 255, 255, 127, 0, 0, 1], [0, 0, 0, 0, 0, 0, 0, 0, 0, 0, 0, 0, 0, 0, 0, 1]]"

definition server_template :: "string \<Rightarrow> 't \<Rightarrow> 't \<Rightarrow> 't certificate" where
  "server_template dns from until = \<lparr>SerialNumber = 2019, Subject = company, IPAddresses = loopbacks, NotBefore = from,
     NotAfter = until, SubjectKeyId = [1, 2, 3, 4, 6], IsCA = False, ExtKeyUsage = [ExtKeyUsageClientAuth, ExtKeyUsageServerAuth],
     KeyUsage = KeyUsageDigitalSignature, BasicConstraintsValid = False, DNSNames = [dns]\<rparr>"

section \<open>Set-up\<close>

text \<open>
  The body of both functions. The results are the two configurations, the PEM of the authority and the
  error; with an error the configurations are nil and the PEM is empty.
\<close>

type_synonym ('c, 'p) certs = "('c, 'p) tls_config option \<times> ('c, 'p) tls_config option \<times> bytes \<times> gotext option"

definition certsetup_for ::
  "string \<Rightarrow> ('k, 'pub, 't, 'c, 'p, 's) crypto \<Rightarrow> 's \<Rightarrow> ('c, 'p) certs \<times> 's" where
  "certsetup_for dns cr s0 =
     (case Now cr s0 of (from, s1) \<Rightarrow> case Now cr s1 of (until, s2) \<Rightarrow>
      let ca = ca_template from (AddDate cr until 10 0 0) in
      case GenerateKey cr 4096 s2 of
        (Inl err, s3) \<Rightarrow> ((None, None, [], Some err), s3)
      | (Inr caPrivKey, s3) \<Rightarrow>
      case CreateCertificate cr ca ca (PublicKey cr caPrivKey) caPrivKey s3 of
        (Inl err, s4) \<Rightarrow> ((None, None, [], Some err), s4)
      | (Inr caBytes, s4) \<Rightarrow>
      let caPEM = pem_Encode ''CERTIFICATE'' caBytes in
      case Now cr s4 of (from', s5) \<Rightarrow> case Now cr s5 of (until', s6) \<Rightarrow>
      let cert = server_template dns from' (AddDate cr until' 10 0 0) in
      case GenerateKey cr 4096 s6 of
        (Inl err, s7) \<Rightarrow> ((None, None, [], Some err), s7)
      | (Inr certPrivKey, s7) \<Rightarrow>
      case CreateCertificate cr cert ca (PublicKey cr certPrivKey) caPrivKey s7 of
        (Inl err, s8) \<Rightarrow> ((None, None, [], Some err), s8)
      | (Inr certBytes, s8) \<Rightarrow>
      let certPEM = pem_Encode ''CERTIFICATE'' certBytes;
          certPrivKeyPEM = pem_Encode ''RSA PRIVATE KEY'' (MarshalPKCS1PrivateKey cr certPrivKey) in
      case X509KeyPair cr certPEM certPrivKeyPEM of
        Inl err \<Rightarrow> ((None, None, [], Some err), s8)
      | Inr serverCert \<Rightarrow>
          ((Some \<lparr>Certificates = [serverCert], RootCAs = None\<rparr>,
            Some \<lparr>Certificates = [], RootCAs = Some (AppendCertsFromPEM cr (NewCertPool cr) caPEM)\<rparr>,
            caPEM, None), s8))"

definition kube_certsetup :: "('k, 'pub, 't, 'c, 'p, 's) crypto \<Rightarrow> 's \<Rightarrow> ('c, 'p) certs \<times> 's" where
  "kube_certsetup = certsetup_for ''kubewebhook.kubewebhook.svc''"

definition mw_certsetup :: "('k, 'pub, 't, 'c, 'p, 's) crypto \<Rightarrow> 's \<Rightarrow> ('c, 'p) certs \<times> 's" where
  "mw_certsetup = certsetup_for ''mutatingwebhook.mutatingwebhook.svc''"

section \<open>Lemmas\<close>

lemma pem_lines_filter: "nl \<notin> set s \<Longrightarrow> filter (\<lambda>c. c \<noteq> nl) (pem_lines s) = s"
proof (induction s rule: pem_lines.induct)
  case (1 s)
  show ?case
  proof (cases "s = []")
    case False
    have "nl \<notin> set (take 64 s)" "nl \<notin> set (drop 64 s)" using 1(2) by (auto dest: in_set_takeD in_set_dropD)
    then have "filter (\<lambda>c. c \<noteq> nl) (take 64 s) = take 64 s" "filter (\<lambda>c. c \<noteq> nl) (pem_lines (drop 64 s)) = drop 64 s"
      using 1(1) False by (auto simp: filter_id_conv)
    then show ?thesis using False by (subst pem_lines.simps) simp
  qed (simp add: pem_lines.simps)
qed

lemma pem_lines_set: "set (pem_lines s) \<subseteq> insert nl (set s)"
proof (induction s rule: pem_lines.induct)
  case (1 s)
  then show ?case by (subst pem_lines.simps) (auto dest: in_set_takeD in_set_dropD)
qed

lemma b64_char_nl: "n < 64 \<Longrightarrow> b64_char n \<noteq> nl"
  using b64_val_char [of n] by (auto simp: b64_val_def)

lemma b64_groups_nl: "list_all (\<lambda>n. n < 256) ns \<Longrightarrow> nl \<notin> set (b64_groups ns)"
  by (induction ns rule: b64_groups.induct) (simp_all add: b64_char_nl [symmetric] b64_split)

lemma b64_encode_nl: "nl \<notin> set (b64_encode s)"
  unfolding b64_encode_def by (rule b64_groups_nl) (simp add: list_all_iff)

lemma pem_decode_Encode: "pem_decode type (pem_Encode type b) = Some b"
  by (simp add: pem_decode_def pem_Encode_def Let_def pem_lines_filter b64_encode_nl b64_decode_encode)

lemma pem_no_percent: "CHR ''%'' \<notin> set type \<Longrightarrow> CHR ''%'' \<notin> set (pem_Encode type b)"
  using pem_lines_set [of "b64_encode b"] b64_encode_no_percent [of b] by (auto simp: pem_Encode_def)


text \<open>
  The chain: the server presents a certificate for \<open>dns\<close>, not an authority itself, signed by the key of an
  authority that signed itself and may sign certificates; the clients trust the PEM of that
  authority, \<open>pem\<close>, in which a reader finds the bytes of its certificate.
\<close>

definition chain ::
  "string \<Rightarrow> ('k, 'pub, 't, 'c, 'p, 's) crypto \<Rightarrow> ('c, 'p) tls_config option \<Rightarrow> ('c, 'p) tls_config option \<Rightarrow> bytes \<Rightarrow> bool" where
  "chain dns cr srv cli pem \<longleftrightarrow> (\<exists>ca caKey caBytes cert key certBytes c s1 s2 s3 s4.
     CreateCertificate cr ca ca (PublicKey cr caKey) caKey s1 = (Inr caBytes, s2) \<and>
     CreateCertificate cr cert ca (PublicKey cr key) caKey s3 = (Inr certBytes, s4) \<and>
     IsCA ca \<and> bit (KeyUsage ca) 5 \<and> \<not> IsCA cert \<and> DNSNames cert = [dns] \<and> ExtKeyUsageServerAuth \<in> set (ExtKeyUsage cert) \<and>
     X509KeyPair cr (pem_Encode ''CERTIFICATE'' certBytes) (pem_Encode ''RSA PRIVATE KEY'' (MarshalPKCS1PrivateKey cr key)) = Inr c \<and>
     srv = Some \<lparr>Certificates = [c], RootCAs = None\<rparr> \<and>
     cli = Some \<lparr>Certificates = [], RootCAs = Some (AppendCertsFromPEM cr (NewCertPool cr) pem)\<rparr> \<and>
     pem_decode ''CERTIFICATE'' pem = Some caBytes)"

lemma template_facts:
  "IsCA (ca_template a b)" "bit (KeyUsage (ca_template a b)) 5" "\<not> IsCA (server_template dns a b)"
  "DNSNames (server_template dns a b) = [dns]" "ExtKeyUsageServerAuth \<in> set (ExtKeyUsage (server_template dns a b))"
  by (simp_all add: ca_template_def server_template_def KeyUsageDigitalSignature_def KeyUsageCertSign_def)

lemma certsetup_chain:
  assumes "certsetup_for dns cr s = ((srv, cli, pem, None), s')"
  shows "chain dns cr srv cli pem \<and> CHR ''%'' \<notin> set pem \<and> pem \<noteq> []"
proof -
  obtain a s1 where n1: "Now cr s = (a, s1)" by fastforce
  obtain until s2 where n2: "Now cr s1 = (until, s2)" by fastforce
  define ca where "ca = ca_template a (AddDate cr until 10 0 0)"
  note set_up = assms [unfolded certsetup_for_def n1 n2 prod.case Let_def, folded ca_def]
  from set_up obtain caKey s3 where k1: "GenerateKey cr 4096 s2 = (Inr caKey, s3)" by (auto split: prod.splits sum.splits)
  with set_up obtain caBytes s4 where c1: "CreateCertificate cr ca ca (PublicKey cr caKey) caKey s3 = (Inr caBytes, s4)"
    by (auto split: prod.splits sum.splits)
  obtain a' s5 where n3: "Now cr s4 = (a', s5)" by fastforce
  obtain until' s6 where n4: "Now cr s5 = (until', s6)" by fastforce
  define cert where "cert = server_template dns a' (AddDate cr until' 10 0 0)"
  note set_up2 = set_up [unfolded k1 c1 n3 n4 prod.case sum.case, folded cert_def]
  from set_up2 obtain key s7 where k2: "GenerateKey cr 4096 s6 = (Inr key, s7)" by (auto split: prod.splits sum.splits)
  with set_up2 obtain certBytes s8 where c2: "CreateCertificate cr cert ca (PublicKey cr key) caKey s7 = (Inr certBytes, s8)"
    by (auto split: prod.splits sum.splits)
  from set_up2 [unfolded k2 c2 prod.case sum.case] obtain c where
    x: "X509KeyPair cr (pem_Encode ''CERTIFICATE'' certBytes) (pem_Encode ''RSA PRIVATE KEY'' (MarshalPKCS1PrivateKey cr key)) = Inr c"
    and r: "srv = Some \<lparr>Certificates = [c], RootCAs = None\<rparr>" "pem = pem_Encode ''CERTIFICATE'' caBytes"
      "cli = Some \<lparr>Certificates = [], RootCAs = Some (AppendCertsFromPEM cr (NewCertPool cr) pem)\<rparr>"
    by (auto split: sum.splits)
  have "chain dns cr srv cli pem"
    unfolding chain_def
    by (intro exI conjI, rule c1, rule c2) (simp_all add: x r pem_decode_Encode ca_def cert_def template_facts)
  then show ?thesis by (simp add: r pem_no_percent) (simp add: pem_Encode_def)
qed

section \<open>Properties\<close>

text \<open>
  C11: \<^verbatim>\<open>certsetup\<close> of both webhooks sets up a chain of trust. Whatever the keys and signatures are, when it
  returns no error the server certificate names the service, is signed by the key of the authority and is the
  only certificate of the server configuration, and clients trust the authority of the PEM returned.
\<close>

theorem certsetup_trust:
  "(case kube_certsetup cr s of ((srv, cli, pem, err), s') \<Rightarrow>
      if err = None then chain ''kubewebhook.kubewebhook.svc'' cr srv cli pem else srv = None \<and> cli = None \<and> pem = []) \<and>
   (case mw_certsetup cr s of ((srv, cli, pem, err), s') \<Rightarrow>
      if err = None then chain ''mutatingwebhook.mutatingwebhook.svc'' cr srv cli pem else srv = None \<and> cli = None \<and> pem = [])"
proof -
  have "case certsetup_for dns cr s of ((srv, cli, pem, err), s') \<Rightarrow>
      if err = None then chain dns cr srv cli pem else srv = None \<and> cli = None \<and> pem = []" for dns
  proof -
    obtain srv cli pem err s' where r: "certsetup_for dns cr s = ((srv, cli, pem, err), s')"
      by (cases "certsetup_for dns cr s") auto
    show ?thesis
    proof (cases err)
      case None
      with r certsetup_chain [of dns cr s] show ?thesis by auto
    next
      case (Some e)
      with r show ?thesis by (auto simp: certsetup_for_def Let_def split: prod.splits sum.splits)
    qed
  qed
  then show ?thesis by (simp add: kube_certsetup_def mw_certsetup_def)
qed

end
