(* ===== verification/Startup.thy ===== *)
theory Startup
  imports Cert Mutating_Webhook
begin

text \<open>
  The \<^verbatim>\<open>main\<close> functions of \<^verbatim>\<open>kubewebhook\<close> and \<^verbatim>\<open>mutatingwebhook\<close>: logging is configured (in \<^verbatim>\<open>kubewebhook\<close>), the
  certificates are made, and two listeners are started, one on localhost that serves the authority and
  one with TLS that serves the webhook. A listener is its address, its TLS configuration, if any, and
  its routes; what becomes of the process when one fails is in \<open>Process_Exit\<close>.
\<close>

datatype 'a start = Started 'a | StartPanic gotext | StartExit

record ('tls, 'h) listener =
  ln_Addr :: string
  ln_TLS :: "'tls option"
  ln_Routes :: "(string \<times> 'h) list"

definition kube_main ::
  "'l \<Rightarrow> (string \<Rightarrow> gotext + 'l) \<Rightarrow> (string \<Rightarrow> string) \<Rightarrow> 'l logger \<Rightarrow> ('k, 'pub, 't, 'c, 'p, 's) crypto \<Rightarrow> 's \<Rightarrow>
   (('c, 'p) tls_config option server \<times> (('c, 'p) tls_config, endpoint) listener list) start \<times> 's" where
  "kube_main DebugLevel ParseLevel getenv logger0 cr s0 =
     (case setLogger DebugLevel ParseLevel getenv logger0 of
        None \<Rightarrow> (StartExit, s0)
      | Some logger1 \<Rightarrow>
          (case kube_certsetup cr s0 of ((serverTLSConf, clientTLSConf, caPEM, err), s1) \<Rightarrow>
             (case err of
                Some e \<Rightarrow> (StartPanic e, s1)
              | None \<Rightarrow>
                  (Started (\<lparr>ServerTLSConf = serverTLSConf, ClientTLSConf = clientTLSConf, CaPEM = caPEM\<rparr>,
                     [\<lparr>ln_Addr = ''localhost:8080'', ln_TLS = None, ln_Routes = http_routes\<rparr>,
                      \<lparr>ln_Addr = '':8443'', ln_TLS = serverTLSConf, ln_Routes = https_routes\<rparr>]), s1))))"

definition mw_main ::
  "('k, 'pub, 't, 'c, 'p, 's) crypto \<Rightarrow> 's \<Rightarrow>
   (('c, 'p) tls_config option server \<times> (('c, 'p) tls_config, mw_endpoint) listener list) start \<times> 's" where
  "mw_main cr s0 =
     (case mw_certsetup cr s0 of ((serverTLSConf, clientTLSConf, caPEM, err), s1) \<Rightarrow>
        (case err of
           Some e \<Rightarrow> (StartPanic e, s1)
         | None \<Rightarrow>
             (Started (\<lparr>ServerTLSConf = serverTLSConf, ClientTLSConf = clientTLSConf, CaPEM = caPEM\<rparr>,
                [\<lparr>ln_Addr = ''localhost:8080'', ln_TLS = None, ln_Routes = mw_http_routes\<rparr>,
                 \<lparr>ln_Addr = '':8443'', ln_TLS = serverTLSConf, ln_Routes = mw_https_routes\<rparr>]), s1)))"

section \<open>Lemmas\<close>

lemma kube_certsetup_chain: "kube_certsetup cr s = ((srv, cli, pem, None), s') \<Longrightarrow>
    chain ''kubewebhook.kubewebhook.svc'' cr srv cli pem \<and> CHR ''%'' \<notin> set pem \<and> pem \<noteq> []"
  unfolding kube_certsetup_def by (rule certsetup_chain)

lemma mw_certsetup_chain: "mw_certsetup cr s = ((srv, cli, pem, None), s') \<Longrightarrow>
    chain ''mutatingwebhook.mutatingwebhook.svc'' cr srv cli pem \<and> CHR ''%'' \<notin> set pem \<and> pem \<noteq> []"
  unfolding mw_certsetup_def by (rule certsetup_chain)

text \<open>What \<^verbatim>\<open>getCA\<close> answers once there is a certificate.\<close>

lemma getCA_pem:
  assumes "CaPEM s \<noteq> []" and "CHR ''%'' \<notin> set (CaPEM s)"
  shows "getCA directives s req hw_new =
    hw_write [Lit (if gomap_get (hr_Form req) ''base64'' = None then CaPEM s else b64_encode (CaPEM s))] hw_new"
  using assms by (simp add: getCA_def http_simps b64_encode_no_percent)

lemma mw_routes:
  "mux_Handler mw_https_routes req = MuxHandler e \<longleftrightarrow> hr_Path req = ''/webhook'' \<and> e = MW_Webhook"
  "mux_Handler mw_http_routes req = MuxHandler e \<longleftrightarrow> hr_Path req = ''/ca.pem'' \<and> e = MW_GetCA"
proof -
  have "cleanPath ''/webhook'' = ''/webhook''" by (simp add: cleanPath_def)
  then have "mux_Handler mw_https_routes req = MuxHandler e \<longleftrightarrow> map_of mw_https_routes (hr_Path req) = Some e"
    by (intro mux_Handler_exact) (simp add: mw_https_routes_def)
  then show "mux_Handler mw_https_routes req = MuxHandler e \<longleftrightarrow> hr_Path req = ''/webhook'' \<and> e = MW_Webhook"
    by (auto simp: mw_https_routes_def)
  have "mux_Handler mw_http_routes req = MuxHandler e \<longleftrightarrow> map_of mw_http_routes (hr_Path req) = Some e"
    by (rule mux_Handler_exact) (simp add: mw_http_routes_def cleanPath_routes)
  then show "mux_Handler mw_http_routes req = MuxHandler e \<longleftrightarrow> hr_Path req = ''/ca.pem'' \<and> e = MW_GetCA"
    by (auto simp: mw_http_routes_def)
qed

lemma mw_serve_webhook: "mw_serve directives error_text s mw_https_routes req =
    (case mux_Handler mw_https_routes req of MuxHandler e \<Rightarrow> postWebhook error_text req hw_new
     | MuxRedirect url \<Rightarrow> Redirect url hw_new | MuxNotFound \<Rightarrow> NotFound hw_new)"
proof (cases "mux_Handler mw_https_routes req")
  case (MuxHandler e)
  moreover from this have "e = MW_Webhook" using mw_routes(1) by blast
  ultimately show ?thesis by (simp add: mw_serve_def)
qed (simp_all add: mw_serve_def)

section \<open>Properties\<close>

text \<open>
  C17: \<^verbatim>\<open>kubewebhook\<close>, from start-up to the first answer. When it starts, the listener on \<^verbatim>\<open>:8443\<close> presents the
  server certificate of a chain of trust for \<^verbatim>\<open>kubewebhook.kubewebhook.svc\<close>, and a request for \<^verbatim>\<open>/ca.pem\<close> to
  the listener on localhost is answered, in PEM or in base64 of it, with the authority of that chain.
\<close>

theorem kube_main_serves_ca:
  assumes "kube_main DebugLevel ParseLevel getenv logger0 cr s0 = (Started (s, listeners), s1)"
    and "hr_Path req = ''/ca.pem''"
  shows "chain ''kubewebhook.kubewebhook.svc'' cr (ServerTLSConf s) (ClientTLSConf s) (CaPEM s) \<and>
    listeners = [\<lparr>ln_Addr = ''localhost:8080'', ln_TLS = None, ln_Routes = http_routes\<rparr>,
      \<lparr>ln_Addr = '':8443'', ln_TLS = ServerTLSConf s, ln_Routes = https_routes\<rparr>] \<and>
    (\<exists>resp t. serve pkgs directives s m http_routes req = Ok resp \<and> hw_Status resp = Some StatusOK \<and> hw_Body resp = [Lit t] \<and>
       (if gomap_get (hr_Form req) ''base64'' = None then Some t else b64_decode t) = Some (CaPEM s))"
proof -
  from assms(1) obtain srv cli pem where r: "kube_certsetup cr s0 = ((srv, cli, pem, None), s1)"
    and s: "s = \<lparr>ServerTLSConf = srv, ClientTLSConf = cli, CaPEM = pem\<rparr>"
    and l: "listeners = [\<lparr>ln_Addr = ''localhost:8080'', ln_TLS = None, ln_Routes = http_routes\<rparr>,
      \<lparr>ln_Addr = '':8443'', ln_TLS = srv, ln_Routes = https_routes\<rparr>]"
    by (auto simp: kube_main_def split: option.splits prod.splits)
  have "serve pkgs directives s m http_routes req = Ok (getCA directives s req hw_new)"
    using http_routes_handler [of req GetCA] assms(2) by (simp add: serve_def http_routes_def)
  with kube_certsetup_chain [OF r] getCA_pem [of s directives req] show ?thesis
    by (simp add: s l http_simps b64_decode_encode)
qed

text \<open>A source of keys for the witnesses, which numbers what it makes.\<close>

definition sample_crypto :: "(nat, nat, nat, bytes, bytes list, nat) crypto" where
  "sample_crypto = \<lparr>Now = (\<lambda>s. (s, Suc s)), AddDate = (\<lambda>t y m d. t), GenerateKey = (\<lambda>n s. (Inr s, Suc s)), PublicKey = (\<lambda>k. k),
     CreateCertificate = (\<lambda>cert parent pub k s. (Inr (''cert'' @ [char_of s]), Suc s)),
     MarshalPKCS1PrivateKey = (\<lambda>k. [char_of k]), X509KeyPair = (\<lambda>c k. Inr c), NewCertPool = [],
     AppendCertsFromPEM = (\<lambda>p b. b # p)\<rparr>"

theorem kube_main_serves_ca_witness:
  "\<exists>s. fst (kube_main (5 :: nat) (\<lambda>t. Inr 4) (\<lambda>v. '''') \<lparr>log_Level = 0, log_JSON = False\<rparr> sample_crypto 0) =
      Started (s, [\<lparr>ln_Addr = ''localhost:8080'', ln_TLS = None, ln_Routes = http_routes\<rparr>,
        \<lparr>ln_Addr = '':8443'', ln_TLS = ServerTLSConf s, ln_Routes = https_routes\<rparr>]) \<and>
    chain ''kubewebhook.kubewebhook.svc'' sample_crypto (ServerTLSConf s) (ClientTLSConf s) (CaPEM s)"
proof -
  obtain s ls s1 where r: "kube_main (5 :: nat) (\<lambda>t. Inr 4) (\<lambda>v. '''') \<lparr>log_Level = 0, log_JSON = False\<rparr> sample_crypto 0 =
      (Started (s, ls), s1)"
    by (simp add: kube_main_def setLogger_def kube_certsetup_def certsetup_for_def sample_crypto_def Let_def)
  have "hr_Path (sample_http ''/ca.pem'' '''') = ''/ca.pem''" by (simp add: sample_http_def)
  from kube_main_serves_ca [OF r this, of sample_server_pkgs "\<lambda>t. t" "[]"] r show ?thesis by auto
qed

text \<open>
  \<^verbatim>\<open>mutatingwebhook\<close>, from start-up on: it panics with the error of \<^verbatim>\<open>certsetup\<close> or starts both listeners, with a
  chain of trust for \<^verbatim>\<open>mutatingwebhook.mutatingwebhook.svc\<close>; \<^verbatim>\<open>/webhook\<close> of the TLS listener is \<^verbatim>\<open>postWebhook\<close>
  and \<^verbatim>\<open>/ca.pem\<close> of the other is \<^verbatim>\<open>getCA\<close>, and no other path runs a handler.
\<close>

theorem mw_main_starts:
  "case mw_main cr s0 of (start, s1) \<Rightarrow> (case start of
      StartPanic e \<Rightarrow> \<exists>srv cli pem. mw_certsetup cr s0 = ((srv, cli, pem, Some e), s1)
    | StartExit \<Rightarrow> False
    | Started (s, listeners) \<Rightarrow>
        chain ''mutatingwebhook.mutatingwebhook.svc'' cr (ServerTLSConf s) (ClientTLSConf s) (CaPEM s) \<and>
        map (\<lambda>l. (ln_Addr l, ln_TLS l)) listeners = [(''localhost:8080'', None), ('':8443'', ServerTLSConf s)] \<and>
        (\<forall>req. mw_serve directives error_text s (ln_Routes (listeners ! 1)) req =
           (case mux_Handler mw_https_routes req of MuxHandler e \<Rightarrow> postWebhook error_text req hw_new
            | MuxRedirect url \<Rightarrow> Redirect url hw_new | MuxNotFound \<Rightarrow> NotFound hw_new)) \<and>
        (\<forall>req e. mux_Handler (ln_Routes (listeners ! 1)) req = MuxHandler e \<longleftrightarrow> hr_Path req = ''/webhook'' \<and> e = MW_Webhook) \<and>
        (\<forall>req e. mux_Handler (ln_Routes (listeners ! 0)) req = MuxHandler e \<longleftrightarrow> hr_Path req = ''/ca.pem'' \<and> e = MW_GetCA))"
proof -
  obtain srv cli pem err s1 where r: "mw_certsetup cr s0 = ((srv, cli, pem, err), s1)"
    by (cases "mw_certsetup cr s0") auto
  show ?thesis
  proof (cases err)
    case None
    with r mw_certsetup_chain [of cr s0 srv cli pem s1] show ?thesis by (auto simp: mw_main_def mw_routes mw_serve_webhook)
  next
    case (Some e)
    with r show ?thesis by (simp add: mw_main_def)
  qed
qed

end
