(* ===== verification/Operator_Types.thy ===== *)
theory Operator_Types
  imports Kube_Types
begin

text \<open>
  The types of \<^verbatim>\<open>golang-app-operator\<close>: the custom resource \<^verbatim>\<open>Golangappoperator\<close> of
  \<^verbatim>\<open>api/v1alpha1\<close> with its API group, and the parts of a \<^verbatim>\<open>Deployment\<close> that the controller reads or
  writes. A slice whose nil and empty values the code tells apart (\<^verbatim>\<open>reflect.DeepEqual\<close> does) is
  \<open>None\<close> or a list.
\<close>

record type_meta =
  type_Kind :: string
  type_APIVersion :: string

record golangappoperator_spec =
  Size :: "32 word"
  Image :: string
  PostgresqlDB :: bool
  DBservers :: "string list option"
  Database :: string
  DBuser :: string
  DBpass :: string

record golangappoperator_status =
  Nodes :: "string list option"

record 'x golangappoperator =
  cr_TypeMeta :: type_meta
  cr_Meta :: "'x object_meta"
  cr_Spec :: golangappoperator_spec
  cr_Status :: golangappoperator_status

text \<open>The metadata of a list is of a type of another package, \<open>'l\<close>.\<close>

record ('x, 'l) golangappoperator_list =
  list_TypeMeta :: type_meta
  list_Meta :: 'l
  Items :: "'x golangappoperator list option"

record group_version =
  gv_Group :: string
  gv_Version :: string

definition GroupVersion :: group_version where
  "GroupVersion = \<lparr>gv_Group = ''app.stevejcliu.io.stevejcliu.com'', gv_Version = ''v1alpha1''\<rparr>"

record namespaced_name =
  nn_Namespace :: string
  nn_Name :: string

record 'x label_selector =
  sel_MatchLabels :: "(string, string) gomap"
  sel_rest :: "'x option"

record 'x pod_template =
  tmpl_Meta :: "'x object_meta"
  tmpl_Spec :: "'x pod_spec"

record 'x deployment_spec =
  dep_Replicas :: "32 word option"
  dep_Selector :: "'x label_selector option"
  dep_Template :: "'x pod_template"
  dep_spec_rest :: "'x option"

record 'x deployment =
  dep_Meta :: "'x object_meta"
  dep_Spec :: "'x deployment_spec"
  dep_rest :: "'x option"

text \<open>The key under which an object is stored.\<close>

definition key_of :: "'x object_meta \<Rightarrow> namespaced_name" where
  "key_of m = \<lparr>nn_Namespace = meta_Namespace m, nn_Name = meta_Name m\<rparr>"

text \<open>An \<^verbatim>\<open>ObjectMeta\<close> and the other structs with every field zero.\<close>

definition zero_meta :: "'x object_meta" where
  "zero_meta = \<lparr>meta_Name = '''', meta_GenerateName = '''', meta_Namespace = '''', meta_Labels = None,
     meta_rest = None\<rparr>"

definition zero_container :: "'x container" where
  "zero_container = \<lparr>con_Name = '''', con_Image = '''', con_Ports = [], con_Env = [], con_rest = None\<rparr>"

definition zero_pod_spec :: "'x pod_spec" where
  "zero_pod_spec = \<lparr>spec_InitContainers = [], spec_Containers = [], spec_Tolerations = [], spec_rest = None\<rparr>"

end
