(* ===== verification/Reconcile.thy ===== *)
theory Reconcile
  imports Operator_Types
begin

text \<open>
  \<^verbatim>\<open>golang-app-operator/controllers/golangappoperator_controller.go\<close>: one reconciliation of a
  \<^verbatim>\<open>Golangappoperator\<close>. The API server is reached through the \<^verbatim>\<open>client.Client\<close> embedded in the
  reconciler; its calls, and \<^verbatim>\<open>ctrl.SetControllerReference\<close> and \<^verbatim>\<open>errors.IsNotFound\<close> of other
  packages, are the fields of \<open>client\<close>, an argument of \<open>Reconcile\<close>. A call takes and returns the
  state \<open>'s\<close> of the cluster. Every \<open>client\<close> is allowed: what is proved of the calls the
  controller makes holds for all answers they can get. What it logs is in \<open>Operator_Log\<close>.
\<close>

section \<open>Definitions\<close>

record ('x, 's) client =
  IsNotFound :: "gotext \<Rightarrow> bool"
  SetControllerReference :: "'x golangappoperator \<Rightarrow> 'x deployment \<Rightarrow> 'x deployment \<times> gotext option"
  Get_Golangappoperator :: "namespaced_name \<Rightarrow> 's \<Rightarrow> (gotext + 'x golangappoperator) \<times> 's"
  Get_Deployment :: "namespaced_name \<Rightarrow> 's \<Rightarrow> (gotext + 'x deployment) \<times> 's"
  Create_Deployment :: "'x deployment \<Rightarrow> 's \<Rightarrow> gotext option \<times> 's"
  Update_Deployment :: "'x deployment \<Rightarrow> 's \<Rightarrow> gotext option \<times> 's"
  List_Pods :: "string \<Rightarrow> (string, string) gomap \<Rightarrow> 's \<Rightarrow> (gotext + 'x pod list) \<times> 's"
  Status_Update :: "'x golangappoperator \<Rightarrow> 's \<Rightarrow> gotext option \<times> 's"

record ctrl_result =
  Requeue :: bool
  RequeueAfter :: int64

definition empty_result :: ctrl_result where
  "empty_result = \<lparr>Requeue = False, RequeueAfter = 0\<rparr>"

definition Minute :: int64 where "Minute = 60000000000"

definition labelsForGolangappoperator :: "string \<Rightarrow> (string, string) gomap" where
  "labelsForGolangappoperator name =
     Some [(''app'', ''golangappoperatored''), (''golangappoperatored_cr'', name)]"

text \<open>\<^verbatim>\<open>append\<close> to a slice that may be nil, and the loop of \<^verbatim>\<open>getPodNames\<close>.\<close>

definition slice_append :: "'a list option \<Rightarrow> 'a \<Rightarrow> 'a list option" where
  "slice_append s a = Some ((case s of None \<Rightarrow> [] | Some l \<Rightarrow> l) @ [a])"

fun pod_names_loop :: "'x pod list \<Rightarrow> string list option \<Rightarrow> string list option" where
  "pod_names_loop [] podNames = podNames"
| "pod_names_loop (pod # pods) podNames = pod_names_loop pods (slice_append podNames (pod_Name pod))"

definition getPodNames :: "'x pod list \<Rightarrow> string list option" where
  "getPodNames pods = pod_names_loop pods None"

definition deploymentForGolangappoperatored ::
  "('x, 's) client \<Rightarrow> 'x golangappoperator \<Rightarrow> 'x deployment" where
  "deploymentForGolangappoperatored c m =
     (let ls = labelsForGolangappoperator (meta_Name (cr_Meta m));
          replicas = Size (cr_Spec m);
          dep = \<lparr>dep_Meta = zero_meta\<lparr>meta_Name := meta_Name (cr_Meta m),
                   meta_Namespace := meta_Namespace (cr_Meta m)\<rparr>,
                 dep_Spec = \<lparr>dep_Replicas = Some replicas,
                   dep_Selector = Some \<lparr>sel_MatchLabels = ls, sel_rest = None\<rparr>,
                   dep_Template = \<lparr>tmpl_Meta = zero_meta\<lparr>meta_Labels := ls\<rparr>,
                     tmpl_Spec = zero_pod_spec\<lparr>spec_Containers := [zero_container\<lparr>
                       con_Image := ''675617749633.dkr.ecr.ap-southeast-2.amazonaws.com/eks-cluster/golang-app:v1'',
                       con_Name := ''golangappoperator'',
                       con_Ports := [\<lparr>port_Name = ''golangappoper'', port_ContainerPort = 8081\<rparr>]\<rparr>]\<rparr>\<rparr>,
                   dep_spec_rest = None\<rparr>,
                 dep_rest = None\<rparr>
      in fst (SetControllerReference c m dep))"

definition Reconcile ::
  "('x, 's) client \<Rightarrow> namespaced_name \<Rightarrow> 's \<Rightarrow> (ctrl_result \<times> gotext option) outcome \<times> 's" where
  "Reconcile c req s =
     (case Get_Golangappoperator c req s of
        (Inl err, s1) \<Rightarrow>
          if IsNotFound c err then (Ok (empty_result, None), s1) else (Ok (empty_result, Some err), s1)
      | (Inr cr, s1) \<Rightarrow>
          (case Get_Deployment c \<lparr>nn_Namespace = meta_Namespace (cr_Meta cr), nn_Name = meta_Name (cr_Meta cr)\<rparr> s1 of
             (Inl err, s2) \<Rightarrow>
               if IsNotFound c err
               then (case Create_Deployment c (deploymentForGolangappoperatored c cr) s2 of
                       (Some e, s3) \<Rightarrow> (Ok (empty_result, Some e), s3)
                     | (None, s3) \<Rightarrow> (Ok (empty_result\<lparr>Requeue := True\<rparr>, None), s3))
               else (Ok (empty_result, Some err), s2)
           | (Inr found, s2) \<Rightarrow>
               (let size = Size (cr_Spec cr) in
                case dep_Replicas (dep_Spec found) of
                  None \<Rightarrow> (Panic, s2)
                | Some replicas \<Rightarrow>
                    if replicas \<noteq> size
                    then (case Update_Deployment c
                              (found\<lparr>dep_Spec := (dep_Spec found)\<lparr>dep_Replicas := Some size\<rparr>\<rparr>) s2 of
                            (Some e, s3) \<Rightarrow> (Ok (empty_result, Some e), s3)
                          | (None, s3) \<Rightarrow> (Ok (empty_result\<lparr>RequeueAfter := Minute\<rparr>, None), s3))
                    else
                      (case List_Pods c (meta_Namespace (cr_Meta cr))
                              (labelsForGolangappoperator (meta_Name (cr_Meta cr))) s2 of
                         (Inl e, s3) \<Rightarrow> (Ok (empty_result, Some e), s3)
                       | (Inr items, s3) \<Rightarrow>
                           (let podNames = getPodNames items in
                            if podNames \<noteq> Nodes (cr_Status cr)
                            then (case Status_Update c
                                      (cr\<lparr>cr_Status := (cr_Status cr)\<lparr>Nodes := podNames\<rparr>\<rparr>) s3 of
                                    (Some e, s4) \<Rightarrow> (Ok (empty_result, Some e), s4)
                                  | (None, s4) \<Rightarrow> (Ok (empty_result, None), s4))
                            else (Ok (empty_result, None), s3))))))"

text \<open>
  What \<^verbatim>\<open>SetupWithManager\<close> asks the builder of \<^verbatim>\<open>controller-runtime\<close> for: the kind of resources that the controller
  is for, \<^verbatim>\<open>For(&Golangappoperator{})\<close>, and the kinds whose owners it is called for too, \<^verbatim>\<open>Owns\<close>, of which there are none.
\<close>

record watches =
  For_Kind :: string
  Owns_Kinds :: "string list"

definition controller_watches :: watches where
  "controller_watches = \<lparr>For_Kind = ''Golangappoperator'', Owns_Kinds = []\<rparr>"

text \<open>Labels match a selector when they give every label of it the same value.\<close>

definition label_match :: "(string, string) gomap \<Rightarrow> (string, string) gomap \<Rightarrow> bool" where
  "label_match ls labels = list_all (\<lambda>(l, v). gomap_get labels l = Some v) (gomap_entries ls)"

section \<open>Pod names\<close>

lemma pod_names_loop_eq:
  "pod_names_loop pods acc =
     (if pods = [] then acc else Some ((case acc of None \<Rightarrow> [] | Some l \<Rightarrow> l) @ map pod_Name pods))"
  by (induction pods arbitrary: acc) (auto simp: slice_append_def split: option.split)

lemma getPodNames_eq: "getPodNames pods = (if pods = [] then None else Some (map pod_Name pods))"
  by (simp add: getPodNames_def pod_names_loop_eq)

section \<open>The calls a reconciliation makes\<close>

text \<open>
  An event is a call on the API server with its answer. \<open>logged c\<close> is the client \<open>c\<close> with a record of
  the calls: it answers as \<open>c\<close> does.
\<close>

datatype 'x event =
    EvGetCR namespaced_name "gotext + 'x golangappoperator"
  | EvGetDep namespaced_name "gotext + 'x deployment"
  | EvCreate "'x deployment" "gotext option"
  | EvUpdate "'x deployment" "gotext option"
  | EvList string "(string, string) gomap" "gotext + 'x pod list"
  | EvStatus "'x golangappoperator" "gotext option"

definition note_call :: "('r \<Rightarrow> 'e) \<Rightarrow> ('s \<Rightarrow> 'r \<times> 's) \<Rightarrow> 's \<times> 'e list \<Rightarrow> 'r \<times> 's \<times> 'e list" where
  "note_call ev call sl = (case call (fst sl) of (r, s') \<Rightarrow> (r, s', snd sl @ [ev r]))"

definition logged :: "('x, 's) client \<Rightarrow> ('x, 's \<times> 'x event list) client" where
  "logged c = \<lparr>IsNotFound = IsNotFound c, SetControllerReference = SetControllerReference c,
     Get_Golangappoperator = (\<lambda>k. note_call (EvGetCR k) (Get_Golangappoperator c k)),
     Get_Deployment = (\<lambda>k. note_call (EvGetDep k) (Get_Deployment c k)),
     Create_Deployment = (\<lambda>d. note_call (EvCreate d) (Create_Deployment c d)),
     Update_Deployment = (\<lambda>d. note_call (EvUpdate d) (Update_Deployment c d)),
     List_Pods = (\<lambda>ns ls. note_call (EvList ns ls) (List_Pods c ns ls)),
     Status_Update = (\<lambda>cr. note_call (EvStatus cr) (Status_Update c cr))\<rparr>"

fun is_write :: "'x event \<Rightarrow> bool" where
  "is_write (EvCreate d e) = True"
| "is_write (EvUpdate d e) = True"
| "is_write (EvStatus cr e) = True"
| "is_write _ = False"

definition sum_error :: "gotext + 'a \<Rightarrow> gotext option" where
  "sum_error r = (case r of Inl e \<Rightarrow> Some e | Inr _ \<Rightarrow> None)"

fun event_error :: "'x event \<Rightarrow> gotext option" where
  "event_error (EvGetCR k r) = sum_error r"
| "event_error (EvGetDep k r) = sum_error r"
| "event_error (EvCreate d e) = e"
| "event_error (EvUpdate d e) = e"
| "event_error (EvList ns ls r) = sum_error r"
| "event_error (EvStatus cr e) = e"

abbreviation with_replicas :: "'x deployment \<Rightarrow> 32 word \<Rightarrow> 'x deployment" where
  "with_replicas d n \<equiv> d\<lparr>dep_Spec := (dep_Spec d)\<lparr>dep_Replicas := Some n\<rparr>\<rparr>"

abbreviation with_nodes :: "'x golangappoperator \<Rightarrow> string list option \<Rightarrow> 'x golangappoperator" where
  "with_nodes cr names \<equiv> cr\<lparr>cr_Status := (cr_Status cr)\<lparr>Nodes := names\<rparr>\<rparr>"

text \<open>
  The protocol of one reconciliation: which calls are made, in which order, and what is returned,
  for every way the API server can answer.
\<close>

inductive protocol ::
  "('x, 's) client \<Rightarrow> namespaced_name \<Rightarrow> 'x event list \<Rightarrow> (ctrl_result \<times> gotext option) outcome \<Rightarrow> bool"
  for c req where
  gone: "IsNotFound c e \<Longrightarrow> protocol c req [EvGetCR req (Inl e)] (Ok (empty_result, None))"
| cr_failed: "\<not> IsNotFound c e \<Longrightarrow> protocol c req [EvGetCR req (Inl e)] (Ok (empty_result, Some e))"
| dep_failed: "\<not> IsNotFound c e \<Longrightarrow> protocol c req
    [EvGetCR req (Inr cr), EvGetDep (key_of (cr_Meta cr)) (Inl e)] (Ok (empty_result, Some e))"
| created: "IsNotFound c e \<Longrightarrow> protocol c req
    [EvGetCR req (Inr cr), EvGetDep (key_of (cr_Meta cr)) (Inl e),
     EvCreate (deploymentForGolangappoperatored c cr) None] (Ok (empty_result\<lparr>Requeue := True\<rparr>, None))"
| create_failed: "IsNotFound c e \<Longrightarrow> protocol c req
    [EvGetCR req (Inr cr), EvGetDep (key_of (cr_Meta cr)) (Inl e),
     EvCreate (deploymentForGolangappoperatored c cr) (Some e')] (Ok (empty_result, Some e'))"
| no_replicas: "dep_Replicas (dep_Spec found) = None \<Longrightarrow> protocol c req
    [EvGetCR req (Inr cr), EvGetDep (key_of (cr_Meta cr)) (Inr found)] Panic"
| resized: "dep_Replicas (dep_Spec found) = Some n \<Longrightarrow> n \<noteq> Size (cr_Spec cr) \<Longrightarrow> protocol c req
    [EvGetCR req (Inr cr), EvGetDep (key_of (cr_Meta cr)) (Inr found),
     EvUpdate (with_replicas found (Size (cr_Spec cr))) None] (Ok (empty_result\<lparr>RequeueAfter := Minute\<rparr>, None))"
| resize_failed: "dep_Replicas (dep_Spec found) = Some n \<Longrightarrow> n \<noteq> Size (cr_Spec cr) \<Longrightarrow> protocol c req
    [EvGetCR req (Inr cr), EvGetDep (key_of (cr_Meta cr)) (Inr found),
     EvUpdate (with_replicas found (Size (cr_Spec cr))) (Some e)] (Ok (empty_result, Some e))"
| list_failed: "dep_Replicas (dep_Spec found) = Some (Size (cr_Spec cr)) \<Longrightarrow> protocol c req
    [EvGetCR req (Inr cr), EvGetDep (key_of (cr_Meta cr)) (Inr found),
     EvList (meta_Namespace (cr_Meta cr)) (labelsForGolangappoperator (meta_Name (cr_Meta cr))) (Inl e)]
    (Ok (empty_result, Some e))"
| settled: "dep_Replicas (dep_Spec found) = Some (Size (cr_Spec cr)) \<Longrightarrow>
    getPodNames pods = Nodes (cr_Status cr) \<Longrightarrow> protocol c req
    [EvGetCR req (Inr cr), EvGetDep (key_of (cr_Meta cr)) (Inr found),
     EvList (meta_Namespace (cr_Meta cr)) (labelsForGolangappoperator (meta_Name (cr_Meta cr))) (Inr pods)]
    (Ok (empty_result, None))"
| status_done: "dep_Replicas (dep_Spec found) = Some (Size (cr_Spec cr)) \<Longrightarrow>
    getPodNames pods \<noteq> Nodes (cr_Status cr) \<Longrightarrow> protocol c req
    [EvGetCR req (Inr cr), EvGetDep (key_of (cr_Meta cr)) (Inr found),
     EvList (meta_Namespace (cr_Meta cr)) (labelsForGolangappoperator (meta_Name (cr_Meta cr))) (Inr pods),
     EvStatus (with_nodes cr (getPodNames pods)) e]
    (Ok (empty_result, e))"

lemma note_call_eq: "call s = (r, s') \<Longrightarrow> note_call ev call (s, l) = (r, s', l @ [ev r])"
  by (simp add: note_call_def)

lemma logged_sel [simp]:
  "IsNotFound (logged c) = IsNotFound c"
  "SetControllerReference (logged c) = SetControllerReference c"
  "Get_Golangappoperator (logged c) k = note_call (EvGetCR k) (Get_Golangappoperator c k)"
  "Get_Deployment (logged c) k = note_call (EvGetDep k) (Get_Deployment c k)"
  "Create_Deployment (logged c) d = note_call (EvCreate d) (Create_Deployment c d)"
  "Update_Deployment (logged c) d = note_call (EvUpdate d) (Update_Deployment c d)"
  "List_Pods (logged c) ns ls = note_call (EvList ns ls) (List_Pods c ns ls)"
  "Status_Update (logged c) cr = note_call (EvStatus cr) (Status_Update c cr)"
  "deploymentForGolangappoperatored (logged c) = deploymentForGolangappoperatored c"
  by (simp_all add: logged_def deploymentForGolangappoperatored_def fun_eq_iff)

lemma Reconcile_protocol:
  "\<exists>evs. Reconcile (logged c) req (s, l) =
     (fst (Reconcile c req s), snd (Reconcile c req s), l @ evs) \<and>
   protocol c req evs (fst (Reconcile c req s))"
  by (auto simp: Reconcile_def note_call_eq Let_def key_of_def [symmetric] split: prod.split sum.split option.split
      intro!: protocol.intros)

text \<open>What every run of the protocol has in common.\<close>

lemma protocol_shape:
  assumes "protocol c req evs out"
  shows "evs \<noteq> []" and "ev \<in> set (butlast evs) \<Longrightarrow> \<not> is_write ev"
    and "ev \<in> set (butlast evs) \<Longrightarrow> event_error ev = Some e \<Longrightarrow> (\<exists>k. ev = EvGetDep k (Inl e)) \<and> IsNotFound c e"
  using assms by (auto elim!: protocol.cases simp: sum_error_def)

lemma protocol_error:
  assumes "protocol c req evs out"
  shows "out = Panic \<or> (\<exists>e. IsNotFound c e \<and> evs = [EvGetCR req (Inl e)] \<and> out = Ok (empty_result, None)) \<or>
    (\<exists>res. out = Ok (res, event_error (last evs)) \<and> (event_error (last evs) \<noteq> None \<longrightarrow> res = empty_result))"
  using assms by (auto elim!: protocol.cases simp: sum_error_def)

lemma protocol_requeue:
  assumes "protocol c req evs (Ok (res, None))"
  shows "(res = empty_result\<lparr>Requeue := True\<rparr> \<longleftrightarrow> (\<exists>d. EvCreate d None \<in> set evs)) \<and>
    (res = empty_result\<lparr>RequeueAfter := Minute\<rparr> \<longleftrightarrow> (\<exists>d. EvUpdate d None \<in> set evs)) \<and>
    (res = empty_result \<or> res = empty_result\<lparr>Requeue := True\<rparr> \<or> res = empty_result\<lparr>RequeueAfter := Minute\<rparr>)"
  using assms by (cases rule: protocol.cases) (simp_all add: empty_result_def Minute_def)

lemma protocol_done:
  assumes "protocol c req evs (Ok (empty_result, None))"
  shows "(\<exists>e. IsNotFound c e \<and> evs = [EvGetCR req (Inl e)]) \<or>
    (\<exists>cr k found ns ls pods. EvGetCR req (Inr cr) \<in> set evs \<and> EvGetDep k (Inr found) \<in> set evs \<and>
       EvList ns ls (Inr pods) \<in> set evs \<and> dep_Replicas (dep_Spec found) = Some (Size (cr_Spec cr)) \<and>
       (getPodNames pods = Nodes (cr_Status cr) \<or> EvStatus (with_nodes cr (getPodNames pods)) None \<in> set evs))"
  using assms
proof (cases rule: protocol.cases)
  case (settled found cr pods)
  then show ?thesis by (intro disjI2 exI [of _ cr] exI [of _ found] exI [of _ pods]) auto
next
  case (status_done found cr pods)
  then show ?thesis by (intro disjI2 exI [of _ cr] exI [of _ found] exI [of _ pods]) auto
qed (simp_all add: empty_result_def Minute_def)

text \<open>The deployment the controller creates, before the owner reference is set.\<close>

lemma deploymentFor_spec:
  assumes "\<And>d. dep_Spec (fst (SetControllerReference c cr d)) = dep_Spec d"
    and "\<And>d. key_of (dep_Meta (fst (SetControllerReference c cr d))) = key_of (dep_Meta d)"
  shows "key_of (dep_Meta (deploymentForGolangappoperatored c cr)) = key_of (cr_Meta cr)"
    and "dep_Replicas (dep_Spec (deploymentForGolangappoperatored c cr)) = Some (Size (cr_Spec cr))"
  using assms by (simp_all add: deploymentForGolangappoperatored_def Let_def key_of_def)

lemma Reconcile_logged:
  assumes "Reconcile (logged c) req (s, []) = (out, s', evs)"
  shows "protocol c req evs out" and "Reconcile c req s = (out, s')"
  using Reconcile_protocol [of c req s "[]"] assms by (auto simp: prod_eq_iff)

section \<open>Properties\<close>

text \<open>
  For the witnesses: a resource \<open>app\<close> that asks for 3 replicas and lists no pods, a deployment of it
  with \<open>n\<close> replicas, and a server that holds the resource, answers gets of the deployment with
  \<open>found\<close> and accepts every write.
\<close>

definition sample_cr :: "nat golangappoperator" where
  "sample_cr = \<lparr>cr_TypeMeta = \<lparr>type_Kind = ''Golangappoperator'', type_APIVersion = ''v1alpha1''\<rparr>,
     cr_Meta = zero_meta\<lparr>meta_Name := ''app'', meta_Namespace := ''apps''\<rparr>,
     cr_Spec = \<lparr>Size = 3, Image = ''img'', PostgresqlDB = False, DBservers = None, Database = '''',
       DBuser = '''', DBpass = ''''\<rparr>,
     cr_Status = \<lparr>Nodes = None\<rparr>\<rparr>"

definition sample_dep :: "32 word option \<Rightarrow> nat deployment" where
  "sample_dep n = \<lparr>dep_Meta = zero_meta\<lparr>meta_Name := ''app'', meta_Namespace := ''apps''\<rparr>,
     dep_Spec = \<lparr>dep_Replicas = n, dep_Selector = None,
       dep_Template = \<lparr>tmpl_Meta = zero_meta, tmpl_Spec = zero_pod_spec\<rparr>, dep_spec_rest = None\<rparr>,
     dep_rest = None\<rparr>"

definition sample_client :: "nat deployment option \<Rightarrow> (nat, unit) client" where
  "sample_client found = \<lparr>IsNotFound = (\<lambda>e. e = [Lit ''not found'']),
     SetControllerReference = (\<lambda>cr d. (d, None)),
     Get_Golangappoperator = (\<lambda>k s. (Inr sample_cr, s)),
     Get_Deployment = (\<lambda>k s. (case found of None \<Rightarrow> Inl [Lit ''not found''] | Some d \<Rightarrow> Inr d, s)),
     Create_Deployment = (\<lambda>d s. (None, s)), Update_Deployment = (\<lambda>d s. (None, s)),
     List_Pods = (\<lambda>ns ls s. (Inr [sample_pod ''app-1'' []], s)), Status_Update = (\<lambda>cr s. (None, s))\<rparr>"

abbreviation sample_key :: namespaced_name where
  "sample_key \<equiv> \<lparr>nn_Namespace = ''apps'', nn_Name = ''app''\<rparr>"

lemmas sample_client_defs = sample_client_def sample_cr_def sample_dep_def zero_meta_def

lemma sample_owner:
  "dep_Spec (fst (SetControllerReference (sample_client f) m d)) = dep_Spec d \<and>
    key_of (dep_Meta (fst (SetControllerReference (sample_client f) m d))) = key_of (dep_Meta d)"
  by (simp add: sample_client_def)

lemma sample_runs:
  "Reconcile (logged (sample_client None)) sample_key ((), []) =
     (Ok (empty_result\<lparr>Requeue := True\<rparr>, None), (),
      [EvGetCR sample_key (Inr sample_cr), EvGetDep sample_key (Inl [Lit ''not found'']),
       EvCreate (deploymentForGolangappoperatored (sample_client None) sample_cr) None])"
  "Reconcile (logged (sample_client (Some (sample_dep (Some 3))))) sample_key ((), []) =
     (Ok (empty_result, None), (),
      [EvGetCR sample_key (Inr sample_cr), EvGetDep sample_key (Inr (sample_dep (Some 3))),
       EvList ''apps'' (labelsForGolangappoperator ''app'') (Inr [sample_pod ''app-1'' []]),
       EvStatus (with_nodes sample_cr (Some [''app-1''])) None])"
  by (simp_all add: Reconcile_def note_call_def sample_client_defs getPodNames_eq Let_def sample_pod_def sample_meta_def)

text \<open>
  C8: for every behaviour of the API server, one reconciliation makes one of the sequences of calls of
  the protocol and returns what the protocol says for it; recording the calls changes nothing.
\<close>

theorem Reconcile_refines_protocol:
  "\<exists>evs. Reconcile (logged c) req (s, l) =
     (fst (Reconcile c req s), snd (Reconcile c req s), l @ evs) \<and>
   protocol c req evs (fst (Reconcile c req s))"
  by (rule Reconcile_protocol)

text \<open>
  For every behaviour of the API server, one reconciliation writes at most once, as its last call,
  and makes no call after one that failed, but for a get of the deployment that was not found.
\<close>

theorem Reconcile_one_write:
  assumes "Reconcile (logged c) req (s, []) = (out, s', evs)"
  shows "evs \<noteq> [] \<and> (\<forall>ev \<in> set (butlast evs). \<not> is_write ev \<and>
    (\<forall>e. event_error ev = Some e \<longrightarrow> (\<exists>k. ev = EvGetDep k (Inl e)) \<and> IsNotFound c e))"
  using protocol_shape [OF Reconcile_logged(1) [OF assms]] by blast

theorem Reconcile_one_write_witness:
  "\<not> is_write (EvGetCR sample_key (Inr sample_cr)) \<and>
   IsNotFound (sample_client None) [Lit ''not found'']"
  using Reconcile_one_write [OF sample_runs(1)] by (simp add: sum_error_def)

text \<open>
  \<^verbatim>\<open>Reconcile\<close> reports the outcome of its last call. Unless it panics, the error it returns is the
  error of the last call, with an empty result when there is one; only the error that says that the
  resource is gone, at the first call, is dropped.
\<close>

theorem Reconcile_reports_error:
  assumes "Reconcile (logged c) req (s, []) = (out, s', evs)" and "out \<noteq> Panic"
  shows "(\<exists>e. IsNotFound c e \<and> evs = [EvGetCR req (Inl e)] \<and> out = Ok (empty_result, None)) \<or>
    (\<exists>res. out = Ok (res, event_error (last evs)) \<and> (event_error (last evs) = None \<or> res = empty_result))"
  using protocol_error [OF Reconcile_logged(1) [OF assms(1)]] assms(2) by auto

theorem Reconcile_reports_error_witness:
  "\<exists>res. Ok (empty_result\<lparr>Requeue := True\<rparr>, None) = Ok (res, event_error
     (EvCreate (deploymentForGolangappoperatored (sample_client None) sample_cr) None))"
  using Reconcile_reports_error [OF sample_runs(1)] by auto

text \<open>
  \<^verbatim>\<open>Reconcile\<close> panics exactly when it finds a deployment whose replica count is not set; it
  always returns otherwise.
\<close>

theorem Reconcile_panics_iff:
  "let (out, _, evs) = Reconcile (logged c) req (s, []) in
   (out = Panic \<longleftrightarrow> (\<exists>k found. last evs = EvGetDep k (Inr found) \<and> dep_Replicas (dep_Spec found) = None)) \<and>
   (out = Panic \<or> (\<exists>res err. out = Ok (res, err)))"
proof -
  obtain out s' evs where r: "Reconcile (logged c) req (s, []) = (out, s', evs)" by (rule prod_cases3)
  from Reconcile_logged(1) [OF r] show ?thesis by (cases rule: protocol.cases) (auto simp: r)
qed

text \<open>
  When \<^verbatim>\<open>Reconcile\<close> returns the empty result without an error, so that it is not called again by
  itself, there is nothing left to do: the resource is gone, or in this reconciliation the
  deployment was found with the size of the resource, the pods were listed, and their names were
  those in the status or have been written there.
\<close>

theorem Reconcile_done:
  assumes "Reconcile (logged c) req (s, []) = (Ok (empty_result, None), s', evs)"
  shows "(\<exists>e. IsNotFound c e \<and> evs = [EvGetCR req (Inl e)]) \<or>
    (\<exists>cr k found ns ls pods. EvGetCR req (Inr cr) \<in> set evs \<and> EvGetDep k (Inr found) \<in> set evs \<and>
       EvList ns ls (Inr pods) \<in> set evs \<and> dep_Replicas (dep_Spec found) = Some (Size (cr_Spec cr)) \<and>
       (getPodNames pods = Nodes (cr_Status cr) \<or> EvStatus (with_nodes cr (getPodNames pods)) None \<in> set evs))"
  by (rule protocol_done [OF Reconcile_logged(1) [OF assms]])

theorem Reconcile_done_witness:
  "\<exists>cr k found. Inr cr = (Inr sample_cr :: gotext + nat golangappoperator) \<and>
    EvGetDep k (Inr found) = EvGetDep sample_key (Inr (sample_dep (Some 3))) \<and>
    dep_Replicas (dep_Spec found) = Some (Size (cr_Spec cr))"
  using Reconcile_done [OF sample_runs(2)] by auto

text \<open>
  Without an error, \<^verbatim>\<open>Reconcile\<close> asks to be called again at once exactly if it created the
  deployment, after a minute exactly if it resized it, and not at all otherwise.
\<close>

theorem Reconcile_requeues:
  assumes "Reconcile (logged c) req (s, []) = (Ok (res, None), s', evs)"
  shows "(res = \<lparr>Requeue = True, RequeueAfter = 0\<rparr> \<longleftrightarrow> (\<exists>d. EvCreate d None \<in> set evs)) \<and>
    (res = \<lparr>Requeue = False, RequeueAfter = 60 * 10 ^ 9\<rparr> \<longleftrightarrow> (\<exists>d. EvUpdate d None \<in> set evs)) \<and>
    (res = \<lparr>Requeue = False, RequeueAfter = 0\<rparr> \<longleftrightarrow>
       (\<forall>d. EvCreate d None \<notin> set evs \<and> EvUpdate d None \<notin> set evs))"
proof -
  have results: "empty_result = \<lparr>Requeue = False, RequeueAfter = 0\<rparr>" "Minute = 60 * 10 ^ 9"
    by (simp_all add: empty_result_def Minute_def)
  from protocol_requeue [OF Reconcile_logged(1) [OF assms]] show ?thesis by (auto simp: results)
qed

theorem Reconcile_requeues_witness:
  "empty_result\<lparr>Requeue := True\<rparr> = \<lparr>Requeue = True, RequeueAfter = 0\<rparr> \<longleftrightarrow>
    (\<exists>d. EvCreate d None \<in> set [EvGetCR sample_key (Inr sample_cr), EvGetDep sample_key (Inl [Lit ''not found'']),
       EvCreate (deploymentForGolangappoperatored (sample_client None) sample_cr) None])"
  using Reconcile_requeues [OF sample_runs(1)] by blast


text \<open>
  Once the pods have been listed, the status is written exactly if its list of nodes differs from
  the names of the pods listed, in their order; no pods count as the nil slice, so that an empty
  list of nodes that is not nil is overwritten with nil. Only the nodes of the resource that was read
  are replaced, and the pods are those with the labels of the resource in its namespace.
\<close>

theorem Reconcile_status_write:
  assumes "Reconcile (logged c) req (s, []) = (out, s', evs)"
    and "EvGetCR req (Inr cr) \<in> set evs" and "EvList ns ls (Inr pods) \<in> set evs"
  shows "((\<exists>cr' e. EvStatus cr' e \<in> set evs) \<longleftrightarrow>
      (if pods = [] then None else Some (map pod_Name pods)) \<noteq> Nodes (cr_Status cr)) \<and>
    (\<forall>cr' e. EvStatus cr' e \<in> set evs \<longrightarrow> cr' = cr\<lparr>cr_Status := (cr_Status cr)\<lparr>Nodes :=
      (if pods = [] then None else Some (map pod_Name pods))\<rparr>\<rparr>) \<and>
    ns = meta_Namespace (cr_Meta cr) \<and>
    ls = Some [(''app'', ''golangappoperatored''), (''golangappoperatored_cr'', meta_Name (cr_Meta cr))]"
  unfolding getPodNames_eq [symmetric] labelsForGolangappoperator_def [symmetric]
  using Reconcile_logged(1) [OF assms(1)] assms(2,3) by (cases rule: protocol.cases) auto

theorem Reconcile_status_write_witness:
  "Nodes (cr_Status sample_cr) \<noteq> Some [''app-1'']"
  using Reconcile_status_write [OF sample_runs(2), of sample_cr "''apps''" _ "[sample_pod ''app-1'' []]"]
  by (auto simp: sample_pod_def sample_meta_def)

text \<open>
  C27: the deployment made for a resource. Given that \<^verbatim>\<open>SetControllerReference\<close> leaves the spec, the
  name and the namespace alone, it has the key of the resource and the size asked for, its selector is the
  labels of its pods, and its spec depends on nothing but the name and the size of the resource:
  not on the image asked for. A pod with those labels is selected by the labels of the
  resource \<open>name\<close> exactly if \<open>name\<close> is the resource the deployment was made for.
\<close>

theorem deployment_for_resource:
  assumes "\<And>m d. dep_Spec (fst (SetControllerReference c m d)) = dep_Spec d \<and>
    key_of (dep_Meta (fst (SetControllerReference c m d))) = key_of (dep_Meta d)"
  shows "let d = deploymentForGolangappoperatored c m in
    key_of (dep_Meta d) = key_of (cr_Meta m) \<and> dep_Replicas (dep_Spec d) = Some (Size (cr_Spec m)) \<and>
    (\<exists>sel. dep_Selector (dep_Spec d) = Some sel \<and> sel_MatchLabels sel = meta_Labels (tmpl_Meta (dep_Template (dep_Spec d)))) \<and>
    (\<forall>name. label_match (labelsForGolangappoperator name) (meta_Labels (tmpl_Meta (dep_Template (dep_Spec d)))) \<longleftrightarrow>
       name = meta_Name (cr_Meta m)) \<and>
    (\<forall>m'. meta_Name (cr_Meta m') = meta_Name (cr_Meta m) \<and> Size (cr_Spec m') = Size (cr_Spec m) \<longrightarrow>
       dep_Spec (deploymentForGolangappoperatored c m') = dep_Spec d)"
  using assms by (auto simp: deploymentForGolangappoperatored_def Let_def key_of_def label_match_def
      labelsForGolangappoperator_def gomap_entries_def gomap_simps)

theorem deployment_for_resource_witness:
  "dep_Replicas (dep_Spec (deploymentForGolangappoperatored (sample_client None) sample_cr)) = Some 3"
  using deployment_for_resource [of "sample_client None" sample_cr, OF sample_owner, unfolded Let_def,
      THEN conjunct2, THEN conjunct1]
  by (simp add: sample_cr_def)

end
