(* ===== verification/Manager_Main.thy ===== *)
theory Manager_Main
  imports Reconcile
begin

text \<open>
  \<^verbatim>\<open>golang-app-operator/main.go\<close> and \<^verbatim>\<open>SetupWithManager\<close>: the operator reads its flags and its configuration, makes a manager,
  registers the controller and two checks with it and runs it, and exits with status 1 at the first call that fails. The manager is of
  \<^verbatim>\<open>controller-runtime\<close>: its calls are the fields of \<open>runtime_pkgs\<close>, on a state \<open>'s\<close>. What it logs is in \<open>Operator_Log\<close>.
\<close>

section \<open>Definitions\<close>

text \<open>The types that \<^verbatim>\<open>api/v1alpha1\<close> registers, under their names, and the builder they are registered with.\<close>

record scheme_builder =
  sb_GroupVersion :: group_version
  sb_Types :: "string list"

definition registered_types :: "string list" where
  "registered_types = [''Golangappoperator'', ''GolangappoperatorList'']"

definition SchemeBuilder :: scheme_builder where
  "SchemeBuilder = \<lparr>sb_GroupVersion = GroupVersion, sb_Types = registered_types\<rparr>"

record 'sch manager_options =
  opt_Scheme :: 'sch
  opt_MetricsBindAddress :: string
  opt_Port :: int
  opt_HealthProbeBindAddress :: string
  opt_LeaderElection :: bool
  opt_LeaderElectionID :: string

text \<open>
  \<open>ClientGoAddToScheme\<close> adds the types of Kubernetes to a scheme, \<open>BuilderAddToScheme\<close> those of a builder. \<open>GetConfig\<close> is what
  \<^verbatim>\<open>ctrl.GetConfigOrDie\<close> calls; on an error that function logs and exits with status 1 itself.
\<close>

record ('cfg, 'mgr, 'sch, 's) runtime_pkgs =
  NewScheme :: 'sch
  ClientGoAddToScheme :: "'sch \<Rightarrow> gotext + 'sch"
  BuilderAddToScheme :: "scheme_builder \<Rightarrow> 'sch \<Rightarrow> gotext + 'sch"
  GetConfig :: "'s \<Rightarrow> (gotext + 'cfg) \<times> 's"
  NewManager :: "'cfg \<Rightarrow> 'sch manager_options \<Rightarrow> 's \<Rightarrow> (gotext + 'mgr) \<times> 's"
  NewController :: "'mgr \<Rightarrow> watches \<Rightarrow> 's \<Rightarrow> gotext option \<times> 's"
  AddHealthzCheck :: "'mgr \<Rightarrow> string \<Rightarrow> 's \<Rightarrow> gotext option \<times> 's"
  AddReadyzCheck :: "'mgr \<Rightarrow> string \<Rightarrow> 's \<Rightarrow> gotext option \<times> 's"
  Start :: "'mgr \<Rightarrow> 's \<Rightarrow> gotext option \<times> 's"

definition AddToScheme :: "('cfg, 'mgr, 'sch, 's) runtime_pkgs \<Rightarrow> 'sch \<Rightarrow> gotext + 'sch" where
  "AddToScheme rt = BuilderAddToScheme rt SchemeBuilder"

text \<open>\<^verbatim>\<open>init\<close>, which runs before \<^verbatim>\<open>main\<close>: \<^verbatim>\<open>utilruntime.Must\<close> panics on an error.\<close>

definition operator_scheme :: "('cfg, 'mgr, 'sch, 's) runtime_pkgs \<Rightarrow> 'sch outcome" where
  "operator_scheme rt =
     (case ClientGoAddToScheme rt (NewScheme rt) of
        Inl err \<Rightarrow> Panic
      | Inr scheme1 \<Rightarrow>
          (case AddToScheme rt scheme1 of
             Inl err \<Rightarrow> Panic
           | Inr scheme2 \<Rightarrow> Ok scheme2))"

text \<open>The flags, \<open>None\<close> where one is not given.\<close>

record operator_flags =
  flag_metrics :: "string option"
  flag_probe :: "string option"
  flag_leader :: "bool option"

text \<open>What \<^verbatim>\<open>flag.Parse\<close> makes of the arguments: the flags, a request for help, or an error.\<close>

datatype parsed_flags = Flags operator_flags | Help_Asked | Bad_Flag

definition the_default :: "'a \<Rightarrow> 'a option \<Rightarrow> 'a" where
  "the_default d v = (case v of None \<Rightarrow> d | Some a \<Rightarrow> a)"

definition operator_options :: "operator_flags \<Rightarrow> 'sch \<Rightarrow> 'sch manager_options" where
  "operator_options fl scheme = \<lparr>opt_Scheme = scheme,
     opt_MetricsBindAddress = the_default '':8080'' (flag_metrics fl), opt_Port = 9443,
     opt_HealthProbeBindAddress = the_default '':8081'' (flag_probe fl),
     opt_LeaderElection = the_default False (flag_leader fl), opt_LeaderElectionID = ''53b6bedc.stevejcliu.com''\<rparr>"

text \<open>
  \<^verbatim>\<open>NewControllerManagedBy(mgr).For(...).Complete(r)\<close>: the controller with what it watches. What follows from that is in \<open>Controller\<close>.
\<close>

definition SetupWithManager :: "('cfg, 'mgr, 'sch, 's) runtime_pkgs \<Rightarrow> 'mgr \<Rightarrow> 's \<Rightarrow> gotext option \<times> 's" where
  "SetupWithManager rt mgr s = NewController rt mgr controller_watches s"

text \<open>The result is the exit status.\<close>

definition operator_main :: "('cfg, 'mgr, 'sch, 's) runtime_pkgs \<Rightarrow> operator_flags \<Rightarrow> 'sch \<Rightarrow> 's \<Rightarrow> nat \<times> 's" where
  "operator_main rt fl scheme s =
     (case GetConfig rt s of
        (Inl err, s0) \<Rightarrow> (1, s0)
      | (Inr cfg, s0) \<Rightarrow>
          (case NewManager rt cfg (operator_options fl scheme) s0 of
             (Inl err, s1) \<Rightarrow> (1, s1)
           | (Inr mgr, s1) \<Rightarrow>
               (case SetupWithManager rt mgr s1 of
                  (Some err, s2) \<Rightarrow> (1, s2)
                | (None, s2) \<Rightarrow>
                    (case AddHealthzCheck rt mgr ''healthz'' s2 of
                       (Some err, s3) \<Rightarrow> (1, s3)
                     | (None, s3) \<Rightarrow>
                         (case AddReadyzCheck rt mgr ''readyz'' s3 of
                            (Some err, s4) \<Rightarrow> (1, s4)
                          | (None, s4) \<Rightarrow>
                              (case Start rt mgr s4 of
                                 (Some err, s5) \<Rightarrow> (1, s5)
                               | (None, s5) \<Rightarrow> (0, s5)))))))"

text \<open>
  The program: a panic in \<^verbatim>\<open>init\<close> exits with status 2; then \<^verbatim>\<open>flag.Parse\<close> exits with status 0 if it is asked for help and with
  status 2 at a flag that is not defined or has a wrong value.
\<close>

definition operator_program :: "('cfg, 'mgr, 'sch, 's) runtime_pkgs \<Rightarrow> parsed_flags \<Rightarrow> 's \<Rightarrow> nat \<times> 's" where
  "operator_program rt args s0 =
     (case operator_scheme rt of
        Ok scheme \<Rightarrow>
          (case args of
             Help_Asked \<Rightarrow> (0, s0)
           | Bad_Flag \<Rightarrow> (2, s0)
           | Flags fl \<Rightarrow> operator_main rt fl scheme s0)
      | _ \<Rightarrow> (2, s0))"

section \<open>The calls\<close>

text \<open>A record of the calls, with the error of each.\<close>

definition logged_runtime :: "('cfg, 'mgr, 'sch, 's) runtime_pkgs \<Rightarrow> ('cfg, 'mgr, 'sch, 's \<times> (string \<times> gotext option) list) runtime_pkgs" where
  "logged_runtime rt = \<lparr>NewScheme = NewScheme rt, ClientGoAddToScheme = ClientGoAddToScheme rt,
     BuilderAddToScheme = BuilderAddToScheme rt,
     GetConfig = note_call (\<lambda>r. (''config'', sum_error r)) (GetConfig rt),
     NewManager = (\<lambda>cfg opts. note_call (\<lambda>r. (''manager'', sum_error r)) (NewManager rt cfg opts)),
     NewController = (\<lambda>mgr w. note_call (\<lambda>e. (''controller '' @ For_Kind w, e)) (NewController rt mgr w)),
     AddHealthzCheck = (\<lambda>mgr name. note_call (\<lambda>e. (name, e)) (AddHealthzCheck rt mgr name)),
     AddReadyzCheck = (\<lambda>mgr name. note_call (\<lambda>e. (name, e)) (AddReadyzCheck rt mgr name)),
     Start = (\<lambda>mgr. note_call (\<lambda>e. (''start'', e)) (Start rt mgr))\<rparr>"

definition start_sequence :: "string list" where
  "start_sequence = [''config'', ''manager'', ''controller Golangappoperator'', ''healthz'', ''readyz'', ''start'']"

lemma logged_scheme [simp]: "operator_scheme (logged_runtime rt) = operator_scheme rt"
  by (simp add: operator_scheme_def AddToScheme_def logged_runtime_def split: sum.split)

lemma operator_scheme_cases: "operator_scheme rt = Panic \<or> (\<exists>scheme. operator_scheme rt = Ok scheme)"
  by (auto simp: operator_scheme_def split: sum.split)

lemma logged_runtime_sel [simp]:
  "GetConfig (logged_runtime rt) = note_call (\<lambda>r. (''config'', sum_error r)) (GetConfig rt)"
  "NewManager (logged_runtime rt) cfg opts = note_call (\<lambda>r. (''manager'', sum_error r)) (NewManager rt cfg opts)"
  "NewController (logged_runtime rt) mgr w = note_call (\<lambda>e. (''controller '' @ For_Kind w, e)) (NewController rt mgr w)"
  "AddHealthzCheck (logged_runtime rt) mgr name = note_call (\<lambda>e. (name, e)) (AddHealthzCheck rt mgr name)"
  "AddReadyzCheck (logged_runtime rt) mgr name = note_call (\<lambda>e. (name, e)) (AddReadyzCheck rt mgr name)"
  "Start (logged_runtime rt) mgr = note_call (\<lambda>e. (''start'', e)) (Start rt mgr)"
  by (simp_all add: logged_runtime_def)

section \<open>Properties\<close>

text \<open>
  C37: the operator starts in order or exits. Without a scheme it panics before any call, and \<^verbatim>\<open>flag.Parse\<close> may end it then, with
  status 0 if help was asked for. Else the calls \<^verbatim>\<open>main\<close> makes are a prefix of configuration, manager, controller for the
  resources, health check, ready check, start; each but the last succeeded, so that the manager never runs without its controller;
  and the exit status is 0 exactly if all six were made and the last one succeeded, and else 1.
\<close>

theorem operator_main_order:
  "case operator_program (logged_runtime rt) args (s, []) of (status, _, calls) \<Rightarrow>
     (calls = [] \<longleftrightarrow> operator_scheme rt = Panic \<or> args = Help_Asked \<or> args = Bad_Flag) \<and>
     map fst calls = take (length calls) start_sequence \<and>
     list_all (\<lambda>call. snd call = None) (butlast calls) \<and>
     status = (if calls = [] then (if operator_scheme rt = Panic \<or> args = Bad_Flag then 2 else 0)
       else if length calls = 6 \<and> snd (last calls) = None then 0 else 1)"
proof (cases "operator_scheme rt = Panic")
  case False
  then obtain scheme where scheme: "operator_scheme rt = Ok scheme" using operator_scheme_cases [of rt] by blast
  show ?thesis
  proof (cases args)
    case (Flags fl)
    with scheme show ?thesis
      by (auto simp: operator_program_def operator_main_def SetupWithManager_def controller_watches_def note_call_def
          start_sequence_def sum_error_def split: prod.split sum.split option.split)
  qed (simp_all add: operator_program_def scheme)
qed (simp add: operator_program_def)

end
