(* ===== verification/Hello_Metrics.thy ===== *)
theory Hello_Metrics
  imports Go_Http
begin

text \<open>
  \<^verbatim>\<open>goprometheus\<close>: two pages that count the calls, and the page of the metrics. The counter and the handler of
  \<^verbatim>\<open>/metrics\<close> are of the Prometheus client: the argument \<open>inc\<close> is the \<^verbatim>\<open>Inc\<close> of the counter, on a state
  \<open>'c\<close>, and \<open>metrics\<close> answers from it. The lines on standard output are not modelled.
\<close>

section \<open>Definitions\<close>

datatype hello_endpoint = Metrics | Hello | InfoPage

definition hello_routes :: "(string \<times> hello_endpoint) list" where
  "hello_routes = [(''/metrics'', Metrics), (''/'', Hello), (''/info'', InfoPage)]"

definition helloServer :: "('c \<Rightarrow> 'c) \<Rightarrow> http_response \<times> 'c \<Rightarrow> http_response \<times> 'c" where
  "helloServer inc wc = (hw_write [Lit ''Hello world!''] (fst wc), inc (snd wc))"

definition infoServer :: "('c \<Rightarrow> 'c) \<Rightarrow> http_response \<times> 'c \<Rightarrow> http_response \<times> 'c" where
  "infoServer inc wc = (hw_write [Lit ''info page''] (fst wc), inc (snd wc))"

definition hello_serve ::
  "('c \<Rightarrow> 'c) \<Rightarrow> ('c \<Rightarrow> http_response \<Rightarrow> http_response) \<Rightarrow> http_request \<Rightarrow> 'c \<Rightarrow> http_response \<times> 'c" where
  "hello_serve inc metrics r c =
     (case mux_Handler hello_routes r of
        MuxHandler Metrics \<Rightarrow> (metrics c hw_new, c)
      | MuxHandler Hello \<Rightarrow> helloServer inc (hw_new, c)
      | MuxHandler InfoPage \<Rightarrow> infoServer inc (hw_new, c)
      | MuxRedirect url \<Rightarrow> (Redirect url hw_new, c)
      | MuxNotFound \<Rightarrow> (NotFound hw_new, c))"

text \<open>The answers to a sequence of requests, and the counter after them.\<close>

fun hello_run ::
  "('c \<Rightarrow> 'c) \<Rightarrow> ('c \<Rightarrow> http_response \<Rightarrow> http_response) \<Rightarrow> http_request list \<Rightarrow> 'c \<Rightarrow> http_response list \<times> 'c" where
  "hello_run inc metrics [] c = ([], c)"
| "hello_run inc metrics (r # rs) c =
     (case hello_serve inc metrics r c of (w, c1) \<Rightarrow>
        (case hello_run inc metrics rs c1 of (ws, c2) \<Rightarrow> (w # ws, c2)))"

section \<open>Lemmas\<close>

lemma join_slash_slash: "\<exists>t. join_slash ss = CHR ''/'' # t"
  by (cases ss rule: join_slash.cases) auto

lemma cleanPath_slash: "\<exists>t. cleanPath p = CHR ''/'' # t"
proof -
  define q where "q = (if hd p = CHR ''/'' then p else CHR ''/'' # p)"
  obtain t where "join_slash (rev (clean_segments [] (split_slash q))) = CHR ''/'' # t" using join_slash_slash by blast
  then show ?thesis by (auto simp: cleanPath_def Let_def q_def [symmetric])
qed

lemma hello_match: "mux_match hello_routes (CHR ''/'' # t) =
    Some (if CHR ''/'' # t = ''/metrics'' then Metrics else if CHR ''/'' # t = ''/info'' then InfoPage else Hello)"
  by (auto simp: mux_match_def hello_routes_def longer_def)

text \<open>
  A request gets the page of its path, the greeting being the page of every other path, if the path is clean. A path that
  is not is redirected, but not the path of a \<^verbatim>\<open>CONNECT\<close> request, which has a page if it is rooted.
\<close>

definition served :: "http_request \<Rightarrow> bool" where
  "served r \<longleftrightarrow> (\<exists>t. hr_Path r = CHR ''/'' # t) \<and> (hr_Method r = ''CONNECT'' \<or> cleanPath (hr_Path r) = hr_Path r)"

definition counted :: "http_request \<Rightarrow> bool" where
  "counted r \<longleftrightarrow> served r \<and> hr_Path r \<noteq> ''/metrics''"

lemma hello_match_other: "\<nexists>t. p = CHR ''/'' # t \<Longrightarrow> mux_match hello_routes p = None"
  by (cases p) (auto simp: mux_match_def hello_routes_def longer_def)

lemma hello_redirects: "map_of hello_routes p = None \<and> map_of hello_routes (p @ ''/'') \<noteq> None \<longleftrightarrow> p = []"
  by (auto simp: hello_routes_def append_eq_Cons_conv)

lemma hello_mux: "mux_Handler hello_routes r =
    (let path = (if hr_Method r = ''CONNECT'' then hr_Path r else cleanPath (hr_Path r)) in
     if path = [] then MuxRedirect (path @ ''/'') else if path \<noteq> hr_Path r then MuxRedirect path
     else (case mux_match hello_routes path of Some h \<Rightarrow> MuxHandler h | None \<Rightarrow> MuxNotFound))"
  by (simp only: mux_Handler_def hello_redirects)

lemma hello_handler: "served r \<Longrightarrow> mux_Handler hello_routes r =
    MuxHandler (if hr_Path r = ''/metrics'' then Metrics else if hr_Path r = ''/info'' then InfoPage else Hello)"
  and hello_no_handler: "\<not> served r \<Longrightarrow> mux_Handler hello_routes r \<noteq> MuxHandler e"
proof -
  obtain t where t: "cleanPath (hr_Path r) = CHR ''/'' # t" using cleanPath_slash by blast
  show "mux_Handler hello_routes r =
      MuxHandler (if hr_Path r = ''/metrics'' then Metrics else if hr_Path r = ''/info'' then InfoPage else Hello)"
    if served: "served r"
  proof -
    from served obtain u where u: "hr_Path r = CHR ''/'' # u" by (auto simp: served_def)
    with served have "(if hr_Method r = ''CONNECT'' then hr_Path r else cleanPath (hr_Path r)) = CHR ''/'' # u"
      by (auto simp: served_def)
    then show ?thesis by (simp only: hello_mux Let_def u hello_match list.distinct if_False simp_thms option.case)
  qed
  show "mux_Handler hello_routes r \<noteq> MuxHandler e" if "\<not> served r"
  proof (cases "hr_Method r = ''CONNECT''")
    case True
    with that have "mux_match hello_routes (hr_Path r) = None" by (intro hello_match_other) (simp add: served_def)
    with True show ?thesis by (simp add: hello_mux Let_def)
  next
    case False
    with that t have "cleanPath (hr_Path r) \<noteq> hr_Path r" by (metis served_def)
    with False show ?thesis by (simp add: hello_mux Let_def)
  qed
qed

lemma hello_serve_page: "counted r \<Longrightarrow> hello_serve inc metrics r c =
    (hw_write [Lit (if hr_Path r = ''/info'' then ''info page'' else ''Hello world!'')] hw_new, inc c)"
  by (auto simp: counted_def hello_serve_def hello_handler helloServer_def infoServer_def)

lemma hello_serve_other: "\<not> counted r \<Longrightarrow> snd (hello_serve inc metrics r c) = c"
  using hello_no_handler [of r] hello_handler [of r]
  by (cases "served r") (auto simp: counted_def hello_serve_def split: mux_result.split)

section \<open>Properties\<close>

text \<open>
  C31: the counter counts the pages served. After any sequence of requests, of any methods, it has been incremented once for each
  request that got the greeting or the information page, that is for each with a rooted path other than \<^verbatim>\<open>/metrics\<close> that is
  clean, or not clean but of a \<^verbatim>\<open>CONNECT\<close> request; and every such request was answered with status 200 and the text of its page.
\<close>

theorem hello_counter:
  "snd (hello_run inc metrics rs c) = (inc ^^ length (filter counted rs)) c \<and>
    length (fst (hello_run inc metrics rs c)) = length rs \<and>
    (\<forall>i < length rs. counted (rs ! i) \<longrightarrow> fst (hello_run inc metrics rs c) ! i =
       hw_write [Lit (if hr_Path (rs ! i) = ''/info'' then ''info page'' else ''Hello world!'')] hw_new)"
proof (induction rs arbitrary: c)
  case (Cons r rs)
  obtain w c1 where s: "hello_serve inc metrics r c = (w, c1)" by fastforce
  obtain ws c2 where t: "hello_run inc metrics rs c1 = (ws, c2)" by fastforce
  have c1: "c1 = (if counted r then inc c else c)"
    using hello_serve_page [of r inc metrics c] hello_serve_other [of r inc metrics c] s by auto
  have w: "counted r \<Longrightarrow> w = hw_write [Lit (if hr_Path r = ''/info'' then ''info page'' else ''Hello world!'')] hw_new"
    using hello_serve_page [of r inc metrics c] s by simp
  from Cons.IH [of c1] t have ih: "c2 = (inc ^^ length (filter counted rs)) c1" "length ws = length rs"
    "\<forall>i < length rs. counted (rs ! i) \<longrightarrow> ws ! i =
       hw_write [Lit (if hr_Path (rs ! i) = ''/info'' then ''info page'' else ''Hello world!'')] hw_new" by simp_all
  have run: "hello_run inc metrics (r # rs) c = (w # ws, c2)" by (simp add: s t)
  have c2: "c2 = (inc ^^ length (filter counted (r # rs))) c" by (simp add: ih(1) c1 funpow_swap1)
  show ?case unfolding run fst_conv snd_conv c2 using ih(2,3) w by (simp add: All_less_Suc2)
qed simp

theorem hello_counter_witness:
  "fst (hello_run Suc (\<lambda>c w. w) [\<lparr>hr_Method = ''GET'', hr_Path = ''/metrics'', hr_Header = [], hr_Form = None, hr_Body = []\<rparr>,
      \<lparr>hr_Method = ''CONNECT'', hr_Path = ''/info'', hr_Header = [], hr_Form = None, hr_Body = []\<rparr>] 7) ! 1 =
    hw_write [Lit ''info page''] hw_new"
  using hello_counter [of Suc "\<lambda>c w. w" "[\<lparr>hr_Method = ''GET'', hr_Path = ''/metrics'', hr_Header = [], hr_Form = None, hr_Body = []\<rparr>,
      \<lparr>hr_Method = ''CONNECT'', hr_Path = ''/info'', hr_Header = [], hr_Form = None, hr_Body = []\<rparr>]" 7]
  by (simp add: counted_def served_def)

end
