(* ===== verification/Golang_App.thy ===== *)
theory Golang_App
  imports Go_Http Json
begin

text \<open>
  \<^verbatim>\<open>golang-app-v1\<close>: an HTTP service with a greeting and with a description of the service that it makes anew at each request, from constants and from a
  configuration file. The configuration is read with \<^verbatim>\<open>viper\<close> and the answer is sent with \<^verbatim>\<open>render\<close>,
  two packages outside the repository: their functions are arguments. All requests write one
  shared \<^verbatim>\<open>Event\<close>; the section on interleaving says what that can do to an answer.
\<close>

section \<open>Trimming\<close>

text \<open>\<^verbatim>\<open>strings.TrimSpace\<close>: a string is cut into code points, bytes that encode nothing standing alone.\<close>

function pieces :: "string \<Rightarrow> string list" where
  "pieces s = (if s = [] then [] else take (max 1 (rune_len s)) s # pieces (drop (max 1 (rune_len s)) s))"
  by auto
termination by (relation "measure length") auto

declare pieces.simps [simp del]

definition space_points :: "nat list" where
  "space_points = [9, 10, 11, 12, 13, 32, 133, 160, 5760] @ [8192..<8203] @ [8232, 8233, 8239, 8287, 12288]"

definition is_space_rune :: "string \<Rightarrow> bool" where
  "is_space_rune r \<longleftrightarrow> r \<in> set (map encode_rune space_points)"

definition TrimSpace :: "string \<Rightarrow> string" where
  "TrimSpace s = concat (rev (dropWhile is_space_rune (rev (dropWhile is_space_rune (pieces s)))))"

section \<open>Types\<close>

record environment =
  Service_port :: string
  Log_level :: string

record event =
  Service_name :: string
  ev_Version :: string
  Git_commit_sha :: string
  ev_Environment :: "environment option"

text \<open>What \<^verbatim>\<open>ReadEnvironment\<close> tells \<^verbatim>\<open>viper\<close>, and what \<^verbatim>\<open>viper\<close> then does.\<close>

record viper_settings =
  ConfigName :: string
  ConfigType :: string
  ConfigPaths :: "string list"
  Defaults :: "(string \<times> string) list"
  EnvPrefix :: string
  AutomaticEnv :: bool

record ('cfg, 's) viper =
  ReadInConfig :: "viper_settings \<Rightarrow> 's \<Rightarrow> gotext + 'cfg"
  GetString :: "viper_settings \<Rightarrow> 'cfg \<Rightarrow> 's \<Rightarrow> string \<Rightarrow> string"

section \<open>Operations\<close>

definition settings :: viper_settings where
  "settings = \<lparr>ConfigName = ''conf'', ConfigType = ''toml'', ConfigPaths = [''.''],
     Defaults = [(''Service_port'', ''''), (''Log_level'', '''')], EnvPrefix = ''VTT'', AutomaticEnv = True\<rparr>"

text \<open>The state \<open>s\<close> is that of the files and of the process environment.\<close>

definition ReadEnvironment :: "('cfg, 's) viper \<Rightarrow> 's \<Rightarrow> environment outcome" where
  "ReadEnvironment vp s =
     (case ReadInConfig vp settings s of
        Inl err \<Rightarrow> Panic
      | Inr cfg \<Rightarrow>
          Ok \<lparr>Service_port = TrimSpace (GetString vp settings cfg s ''Service_port''),
              Log_level = TrimSpace (GetString vp settings cfg s ''Log_level'')\<rparr>)"

text \<open>
  The assignments of \<^verbatim>\<open>CreateEvent\<close>, one by one, since requests that run at once may come between them; the
  function as such makes them all. \<open>GetEvent_args\<close> is the call of \<^verbatim>\<open>CreateEvent\<close> in \<^verbatim>\<open>GetEvent\<close>.
\<close>

definition CreateEvent_steps :: "string \<Rightarrow> string \<Rightarrow> string \<Rightarrow> environment option \<Rightarrow> (event \<Rightarrow> event) list" where
  "CreateEvent_steps service_name version git_commit_sha environment =
     [\<lambda>ev. ev\<lparr>Service_name := service_name\<rparr>,
      \<lambda>ev. ev\<lparr>ev_Version := version\<rparr>,
      \<lambda>ev. ev\<lparr>Git_commit_sha := git_commit_sha\<rparr>,
      \<lambda>ev. ev\<lparr>ev_Environment := environment\<rparr>]"

definition CreateEvent :: "string \<Rightarrow> string \<Rightarrow> string \<Rightarrow> environment option \<Rightarrow> event \<Rightarrow> event" where
  "CreateEvent service_name version git_commit_sha environment ev =
     fold (\<lambda>step ev. step ev) (CreateEvent_steps service_name version git_commit_sha environment) ev"

definition GetEvent_args :: "(string \<Rightarrow> string \<Rightarrow> string \<Rightarrow> environment option \<Rightarrow> 'r) \<Rightarrow> environment \<Rightarrow> 'r" where
  "GetEvent_args create environment = create ''myapplication'' ''1.0.0'' ''abc57858585'' (Some environment)"

definition GetEvent :: "('cfg, 's) viper \<Rightarrow> 's \<Rightarrow> event \<Rightarrow> event outcome" where
  "GetEvent vp s ev =
     and_then (ReadEnvironment vp s) (\<lambda>environment. Ok (GetEvent_args CreateEvent environment ev))"

text \<open>The JSON of an event; \<^verbatim>\<open>Environment\<close> has no tag and keeps its name.\<close>

definition Environment_json :: "environment \<Rightarrow> json" where
  "Environment_json env = JObj [(''service_port'', JStr (Service_port env)), (''log_level'', JStr (Log_level env))]"

text \<open>The members of an event, each with the field that the encoder reads for it.\<close>

definition Event_members :: "(string \<times> (event \<Rightarrow> json)) list" where
  "Event_members =
     [(''service_name'', \<lambda>ev. JStr (Service_name ev)), (''version'', \<lambda>ev. JStr (ev_Version ev)),
      (''git_commit_sha'', \<lambda>ev. JStr (Git_commit_sha ev)),
      (''Environment'', \<lambda>ev. case ev_Environment ev of None \<Rightarrow> JNull | Some env \<Rightarrow> Environment_json env)]"

definition Event_json :: "event \<Rightarrow> json" where
  "Event_json ev = JObj (map (\<lambda>(name, get). (name, get ev)) Event_members)"

text \<open>
  The handlers, with the shared event before and after. \<^verbatim>\<open>Service\<close> knows its event by the interface
  \<^verbatim>\<open>Eventmodel\<close> only: \<open>get\<close> is its \<^verbatim>\<open>GetEvent\<close>, \<open>show_event\<close> the JSON of what that returns.
\<close>

definition Service_GetEvent ::
  "(32 word \<Rightarrow> json \<Rightarrow> http_response \<Rightarrow> http_response) \<Rightarrow> ('e \<Rightarrow> 'e outcome) \<Rightarrow> ('e \<Rightarrow> json) \<Rightarrow> 'e \<Rightarrow>
   http_response \<Rightarrow> (http_response \<times> 'e) outcome" where
  "Service_GetEvent render_JSON get show_event ev w =
     and_then (get ev) (\<lambda>ev'. Ok (render_JSON StatusOK (show_event ev') w, ev'))"

datatype app_endpoint = Greeting string | Info

definition SetupRoutes_v1 :: "(string \<times> string \<times> app_endpoint) list" where
  "SetupRoutes_v1 = [(''GET'', ''/'', Greeting ''hi golang app v1''), (''GET'', ''/info'', Info)]"

fun run_endpoint ::
  "(32 word \<Rightarrow> json \<Rightarrow> http_response \<Rightarrow> http_response) \<Rightarrow> (event \<Rightarrow> event outcome) \<Rightarrow> app_endpoint \<Rightarrow> event \<Rightarrow>
   http_response \<Rightarrow> (http_response \<times> event) outcome" where
  "run_endpoint render_JSON get (Greeting t) ev w = Ok (hw_write [Lit t] w, ev)"
| "run_endpoint render_JSON get Info ev w = Service_GetEvent render_JSON get Event_json ev w"

text \<open>\<^verbatim>\<open>main\<close>: an empty event, and the address of the server from the flag \<^verbatim>\<open>port\<close>.\<close>

definition default_port :: int64 where "default_port = 8081"

definition zero_event :: event where
  "zero_event = \<lparr>Service_name = '''', ev_Version = '''', Git_commit_sha = '''', ev_Environment = None\<rparr>"

definition app_Addr :: "int64 option \<Rightarrow> string" where
  "app_Addr flag = '':'' @ itoa (case flag of None \<Rightarrow> default_port | Some port \<Rightarrow> port)"

text \<open>\<^verbatim>\<open>Service\<close> holds its event; a server hands requests to the handlers of a service.\<close>

record 'e service =
  svc_event :: 'e

definition NewEventService :: "'e \<Rightarrow> 'e service" where
  "NewEventService ev = \<lparr>svc_event = ev\<rparr>"

record 'v app_server =
  srv_Service :: 'v
  srv_Routes :: "(string \<times> string \<times> app_endpoint) list"
  srv_Addr :: string

definition main_v1 :: "int64 option \<Rightarrow> event service app_server" where
  "main_v1 flag = \<lparr>srv_Service = NewEventService zero_event, srv_Routes = SetupRoutes_v1, srv_Addr = app_Addr flag\<rparr>"

section \<open>The interface Eventmodel\<close>

text \<open>
  \<^verbatim>\<open>Service\<close> reaches its event through the interface \<^verbatim>\<open>Eventmodel\<close>. What it relies on: getting the event
  again, with the configuration as it was, shows the same; whatever was there before does not matter.
\<close>

locale event_model =
  fixes get :: "'e \<Rightarrow> 'e outcome"
    and show_event :: "'e \<Rightarrow> json"
  assumes get_forgets: "get e = Ok e' \<Longrightarrow> \<exists>f'. get f = Ok f' \<and> show_event f' = show_event e'"
begin

text \<open>The service answers a request as it answered another, or fails for both.\<close>

lemma served_alike:
  "Service_GetEvent render_JSON get show_event e w = Ok (resp, e') \<Longrightarrow>
    \<exists>f'. Service_GetEvent render_JSON get show_event f w = Ok (resp, f')"
  using get_forgets [of e _ f] by (fastforce simp: Service_GetEvent_def and_then_Ok_iff)

end

lemma ReadEnvironment_cases: "ReadEnvironment vp s = Panic \<or> (\<exists>env. ReadEnvironment vp s = Ok env)"
  by (cases "ReadInConfig vp settings s") (simp_all add: ReadEnvironment_def)

lemma GetEvent_Ok: "GetEvent vp s ev = Ok ev' \<longleftrightarrow> (\<exists>env. ReadEnvironment vp s = Ok env \<and>
    ev' = \<lparr>Service_name = ''myapplication'', ev_Version = ''1.0.0'', Git_commit_sha = ''abc57858585'', ev_Environment = Some env\<rparr>)"
  using ReadEnvironment_cases [of vp s] by (cases ev) (auto simp: GetEvent_def GetEvent_args_def CreateEvent_def CreateEvent_steps_def)

interpretation golang_event: event_model "GetEvent vp s" Event_json for vp s
  by unfold_locales (auto simp: GetEvent_Ok)


section \<open>Requests that interleave\<close>

text \<open>
  Requests run at once and write the one event of the service, without a lock. A request reads the
  configuration, makes the assignments of \<^verbatim>\<open>CreateEvent\<close> one after the other, as \<^verbatim>\<open>GetEvent\<close> calls it, and then
  the encoder reads the members of the answer one after the other. A state is the event and what each request has
  left to do. Steps of different requests interleave, and the configuration may change in between.
\<close>

datatype progress = Waiting | Writing "(event \<Rightarrow> event) list" |
  Showing "(string \<times> (event \<Rightarrow> json)) list" "(string \<times> json) list" | Answered json

inductive app_run :: "('cfg, 's) viper \<Rightarrow> event \<Rightarrow> (nat \<Rightarrow> progress) \<Rightarrow> bool" for vp where
  run_init: "app_run vp zero_event (\<lambda>i. Waiting)"
| run_read: "app_run vp ev pc \<Longrightarrow> pc i = Waiting \<Longrightarrow> ReadEnvironment vp s = Ok env \<Longrightarrow>
    app_run vp ev (pc(i := Writing (GetEvent_args CreateEvent_steps env)))"
| run_write: "app_run vp ev pc \<Longrightarrow> pc i = Writing (step # steps) \<Longrightarrow>
    app_run vp (step ev) (pc(i := Writing steps))"
| run_written: "app_run vp ev pc \<Longrightarrow> pc i = Writing [] \<Longrightarrow> app_run vp ev (pc(i := Showing Event_members []))"
| run_show: "app_run vp ev pc \<Longrightarrow> pc i = Showing ((name, get) # members) shown \<Longrightarrow>
    app_run vp ev (pc(i := Showing members (shown @ [(name, get ev)])))"
| run_answer: "app_run vp ev pc \<Longrightarrow> pc i = Showing [] shown \<Longrightarrow> app_run vp ev (pc(i := Answered (JObj shown)))"

text \<open>The first \<open>k\<close> fields hold what some request has written, and the members shown are of such fields.\<close>

definition written :: "('cfg, 's) viper \<Rightarrow> nat \<Rightarrow> event \<Rightarrow> bool" where
  "written vp k ev \<longleftrightarrow> (0 < k \<longrightarrow> Service_name ev = ''myapplication'') \<and> (1 < k \<longrightarrow> ev_Version ev = ''1.0.0'') \<and>
     (2 < k \<longrightarrow> Git_commit_sha ev = ''abc57858585'') \<and>
     (3 < k \<longrightarrow> (\<exists>s env. ReadEnvironment vp s = Ok env \<and> ev_Environment ev = Some env))"

definition answer_members :: "environment \<Rightarrow> (string \<times> json) list" where
  "answer_members env = [(''service_name'', JStr ''myapplication''), (''version'', JStr ''1.0.0''),
     (''git_commit_sha'', JStr ''abc57858585''), (''Environment'', Environment_json env)]"

fun progress_ok :: "('cfg, 's) viper \<Rightarrow> event \<Rightarrow> progress \<Rightarrow> bool" where
  "progress_ok vp ev Waiting = True"
| "progress_ok vp ev (Writing steps) = (\<exists>k s env. k \<le> 4 \<and> steps = drop k (GetEvent_args CreateEvent_steps env) \<and>
     ReadEnvironment vp s = Ok env \<and> written vp k ev)"
| "progress_ok vp ev (Showing members shown) = (written vp 4 ev \<and> (\<exists>k s env. k \<le> 4 \<and> members = drop k Event_members \<and>
     ReadEnvironment vp s = Ok env \<and> shown = take k (answer_members env)))"
| "progress_ok vp ev (Answered j) = (\<exists>s env. ReadEnvironment vp s = Ok env \<and> j = JObj (answer_members env))"

lemma upto_four: "k \<le> 4 \<Longrightarrow> k = 0 \<or> k = Suc 0 \<or> k = Suc (Suc 0) \<or> k = Suc (Suc (Suc 0)) \<or> k = Suc (Suc (Suc (Suc 0)))"
  by auto

lemma write_step:
  assumes "k \<le> 4" and "step # steps = drop k (GetEvent_args CreateEvent_steps env)" and "ReadEnvironment vp s = Ok env"
  shows "written vp j ev \<Longrightarrow> written vp j (step ev)" and "written vp k ev \<Longrightarrow> written vp (Suc k) (step ev)"
    and "k < 4" and "steps = drop (Suc k) (GetEvent_args CreateEvent_steps env)"
  using upto_four [OF assms(1)] assms(2,3)
  by (auto simp: GetEvent_args_def CreateEvent_steps_def written_def)

lemma write_progress:
  assumes "progress_ok vp ev (Writing (step # steps))"
  shows "progress_ok vp (step ev) (Writing steps)" and "progress_ok vp ev p \<Longrightarrow> progress_ok vp (step ev) p"
proof -
  from assms obtain k s env where k: "k \<le> 4" "step # steps = drop k (GetEvent_args CreateEvent_steps env)"
    "ReadEnvironment vp s = Ok env" "written vp k ev" by auto
  from write_step(2-4) [OF k(1-3)] k(3,4) show "progress_ok vp (step ev) (Writing steps)"
    by (auto intro!: exI [of _ "Suc k"])
  show "progress_ok vp ev p \<Longrightarrow> progress_ok vp (step ev) p"
  proof (cases p)
    case (Writing left)
    moreover assume "progress_ok vp ev p"
    ultimately obtain k' s' env' where "k' \<le> 4" "left = drop k' (GetEvent_args CreateEvent_steps env')"
      "ReadEnvironment vp s' = Ok env'" "written vp k' (step ev)" using write_step(1) [OF k(1-3)] by auto
    with Writing show ?thesis by (auto intro!: exI [of _ k'] exI [of _ s'] exI [of _ env'])
  qed (use write_step(1) [OF k(1-3)] in auto)
qed

lemma show_progress:
  assumes "progress_ok vp ev (Showing ((name, get) # members) shown)"
  shows "progress_ok vp ev (Showing members (shown @ [(name, get ev)]))"
proof -
  from assms obtain k s env where k: "written vp 4 ev" "k \<le> 4" "(name, get) # members = drop k Event_members"
    "ReadEnvironment vp s = Ok env" "shown = take k (answer_members env)" by auto
  from k(1) obtain u env' where u: "Service_name ev = ''myapplication''" "ev_Version ev = ''1.0.0''"
    "Git_commit_sha ev = ''abc57858585''" "ReadEnvironment vp u = Ok env'" "ev_Environment ev = Some env'"
    by (auto simp: written_def)
  have "Suc k \<le> 4 \<and> members = drop (Suc k) Event_members \<and> shown @ [(name, get ev)] = take (Suc k) (answer_members env')"
    using upto_four [OF k(2)] k(3,5) u by (auto simp: Event_members_def answer_members_def)
  with k(1) u(4) show ?thesis by (auto intro!: exI [of _ "Suc k"] exI [of _ u] exI [of _ env'])
qed

lemma shown_all: "progress_ok vp ev (Showing [] shown) \<Longrightarrow> progress_ok vp ev (Answered (JObj shown))"
proof -
  assume "progress_ok vp ev (Showing [] shown)"
  then obtain k s env where k: "k \<le> 4" "[] = drop k Event_members" "ReadEnvironment vp s = Ok env"
    "shown = take k (answer_members env)" by auto
  then have "4 \<le> k" by (simp add: Event_members_def)
  with k show ?thesis by (auto simp: answer_members_def)
qed

lemma app_run_ok: "app_run vp ev pc \<Longrightarrow> progress_ok vp ev (pc j)"
proof (induction arbitrary: j rule: app_run.induct)
  case (run_read ev pc i s env)
  from run_read.IH [of j] run_read.hyps show ?case
    by (auto simp: written_def intro!: exI [of _ 0] exI [of _ s] exI [of _ env])
next
  case (run_write ev pc i step steps)
  from write_progress [of vp ev step steps] run_write.IH [of i] run_write.IH [of j] run_write.hyps show ?case
    by (auto simp del: progress_ok.simps)
next
  case (run_written ev pc i)
  from run_written.IH [of i] run_written.hyps obtain k s env where "k \<le> 4" "[] = drop k (GetEvent_args CreateEvent_steps env)"
    "ReadEnvironment vp s = Ok env" "written vp k ev" by auto
  moreover from this have "k = 4" by (simp add: GetEvent_args_def CreateEvent_steps_def)
  ultimately have "progress_ok vp ev (Showing Event_members [])" by (auto intro!: exI [of _ 0])
  with run_written.IH [of j] show ?case by (simp del: progress_ok.simps)
next
  case (run_show ev pc i name get members shown)
  from show_progress run_show.IH [of i] run_show.IH [of j] run_show.hyps show ?case
    by (auto simp del: progress_ok.simps)
next
  case (run_answer ev pc i shown)
  from shown_all run_answer.IH [of i] run_answer.IH [of j] run_answer.hyps show ?case
    by (auto simp del: progress_ok.simps)
qed simp

section \<open>Properties\<close>

text \<open>
  \<^verbatim>\<open>GetEvent\<close> gives an event that names the service, its version and its commit and holds the trimmed
  settings of the configuration as it is now, whatever the event held before; it panics exactly if the
  configuration cannot be read.
\<close>

theorem GetEvent_value:
  "GetEvent vp s ev = (case ReadInConfig vp settings s of
      Inl err \<Rightarrow> Panic
    | Inr cfg \<Rightarrow> Ok \<lparr>Service_name = ''myapplication'', ev_Version = ''1.0.0'', Git_commit_sha = ''abc57858585'',
        ev_Environment = Some \<lparr>Service_port = TrimSpace (GetString vp settings cfg s ''Service_port''),
          Log_level = TrimSpace (GetString vp settings cfg s ''Log_level'')\<rparr>\<rparr>)"
  by (cases ev) (simp add: GetEvent_def ReadEnvironment_def GetEvent_args_def CreateEvent_def CreateEvent_steps_def split: sum.split)

text \<open>
  C29: requests that interleave. However the assignments of concurrent requests and the reads of their encoders
  interleave on the shared event, every answer names the service, the version and the commit, and its
  environment is one that some request read from the configuration: it is what \<^verbatim>\<open>GetEvent\<close> gives to a
  request that is alone, never a mixture of two, and never empty.
\<close>

theorem interleaved_answers:
  assumes "app_run vp ev pc" and "pc i = Answered answer"
  shows "\<exists>s env alone. ReadEnvironment vp s = Ok env \<and> GetEvent vp s zero_event = Ok alone \<and> answer = Event_json alone \<and>
    answer = JObj [(''service_name'', JStr ''myapplication''), (''version'', JStr ''1.0.0''),
      (''git_commit_sha'', JStr ''abc57858585''), (''Environment'', Environment_json env)]"
proof -
  from app_run_ok [OF assms(1), of i] assms(2) obtain s env where r: "ReadEnvironment vp s = Ok env"
    "answer = JObj (answer_members env)" by auto
  define alone where "alone = \<lparr>Service_name = ''myapplication'', ev_Version = ''1.0.0'',
    Git_commit_sha = ''abc57858585'', ev_Environment = Some env\<rparr>"
  have "GetEvent vp s zero_event = Ok alone" using r(1) by (simp add: GetEvent_Ok alone_def)
  moreover have "Event_json alone = answer"
    by (simp add: r(2) alone_def Event_json_def Event_members_def answer_members_def)
  ultimately show ?thesis
    using r by (intro exI [of _ s] exI [of _ env] exI [of _ alone]) (simp add: answer_members_def)
qed

text \<open>
  \<^verbatim>\<open>/info\<close>. While the configuration stays as it is, every request is answered alike, whatever requests
  were served before.
\<close>

theorem info_repeatable:
  assumes "run_endpoint render_JSON (GetEvent vp s) Info ev w = Ok (resp, ev')"
  shows "\<exists>ev2. run_endpoint render_JSON (GetEvent vp s) Info other w = Ok (resp, ev2)"
  using golang_event.served_alike assms by simp

text \<open>For the witnesses: a configuration that is a port, and is the state.\<close>

definition sample_viper :: "(string, string option) viper" where
  "sample_viper = \<lparr>ReadInConfig = (\<lambda>vs s. case s of None \<Rightarrow> Inl [Lit ''no file''] | Some c \<Rightarrow> Inr c),
     GetString = (\<lambda>vs cfg s k. if k = ''Service_port'' then cfg else '''')\<rparr>"

theorem info_repeatable_witness:
  "\<exists>resp ev2. run_endpoint (\<lambda>code j w. hw_write [Lit (print j)] w) (GetEvent sample_viper (Some ''8080'')) Info zero_event hw_new =
    Ok (resp, ev2)"
proof -
  have "\<exists>resp ev2. run_endpoint (\<lambda>code j w. hw_write [Lit (print j)] w) (GetEvent sample_viper (Some ''8080'')) Info
      (zero_event\<lparr>Service_name := ''old''\<rparr>) hw_new = Ok (resp, ev2)"
    by (simp add: Service_GetEvent_def GetEvent_def ReadEnvironment_def sample_viper_def)
  then obtain resp ev2 where "run_endpoint (\<lambda>code j w. hw_write [Lit (print j)] w) (GetEvent sample_viper (Some ''8080'')) Info
      (zero_event\<lparr>Service_name := ''old''\<rparr>) hw_new = Ok (resp, ev2)" by blast
  from info_repeatable [OF this, of zero_event] show ?thesis by blast
qed

text \<open>A request that is served alone is one way to interleave.\<close>

lemma run_writes: "app_run vp ev pc \<Longrightarrow> pc i = Writing steps \<Longrightarrow> \<exists>ev pc. app_run vp ev pc \<and> pc i = Writing []"
proof (induction steps arbitrary: ev pc)
  case (Cons step steps)
  from Cons.IH [OF run_write [OF Cons.prems]] show ?case by simp
qed blast

lemma run_shows: "app_run vp ev pc \<Longrightarrow> pc i = Showing members shown \<Longrightarrow> \<exists>ev pc shown. app_run vp ev pc \<and> pc i = Showing [] shown"
proof (induction members arbitrary: ev pc shown)
  case (Cons m members)
  obtain name get where "m = (name, get)" by fastforce
  with Cons.IH [OF run_show [of vp ev pc i name get members shown]] Cons.prems show ?case by simp
qed blast

lemma sample_app_run: "\<exists>ev pc answer. app_run sample_viper ev pc \<and> pc 0 = Answered answer"
proof -
  obtain env where "ReadEnvironment sample_viper (Some ''8080'') = Ok env"
    by (simp add: ReadEnvironment_def sample_viper_def)
  from run_writes [OF run_read [OF run_init refl this] fun_upd_same] obtain ev pc
    where w: "app_run sample_viper ev pc" "pc 0 = Writing []" by blast
  from run_shows [OF run_written [OF w] fun_upd_same] obtain ev pc shown
    where "app_run sample_viper ev pc" "pc 0 = Showing [] shown" by blast
  from run_answer [OF this] fun_upd_same [of pc 0] show ?thesis by metis
qed

theorem interleaved_answers_witness:
  "\<exists>ev pc env. app_run sample_viper ev pc \<and> pc 0 = Answered (JObj [(''service_name'', JStr ''myapplication''),
     (''version'', JStr ''1.0.0''), (''git_commit_sha'', JStr ''abc57858585''), (''Environment'', Environment_json env)])"
proof -
  from sample_app_run obtain ev pc answer where r: "app_run sample_viper ev pc" "pc 0 = Answered answer" by blast
  from interleaved_answers [OF r] obtain env where "answer = JObj [(''service_name'', JStr ''myapplication''),
     (''version'', JStr ''1.0.0''), (''git_commit_sha'', JStr ''abc57858585''), (''Environment'', Environment_json env)]" by blast
  with r show ?thesis by (intro exI [of _ ev] exI [of _ pc] exI [of _ env]) simp
qed

end
