(* ===== verification/Golang_App_V2.thy ===== *)
theory Golang_App_V2
  imports Golang_App
begin

text \<open>
  \<^verbatim>\<open>golang-app-v2\<close>, a program of its own with its own types, and its equivalence with
  \<^verbatim>\<open>golang-app-v1\<close>: sent the same requests, the two give the same answers but for the text of the greeting.
  What is outside both programs is taken from \<open>Golang_App\<close>: the settings and functions of \<^verbatim>\<open>viper\<close>,
  \<^verbatim>\<open>strings.TrimSpace\<close> and the responses.
\<close>

section \<open>Types\<close>

record environment_v2 =
  Service_port_v2 :: string
  Log_level_v2 :: string

record event_v2 =
  Service_name_v2 :: string
  Version_v2 :: string
  Git_commit_sha_v2 :: string
  Environment_v2 :: "environment_v2 option"

definition Environment_json_v2 :: "environment_v2 \<Rightarrow> json" where
  "Environment_json_v2 env =
     JObj [(''service_port'', JStr (Service_port_v2 env)), (''log_level'', JStr (Log_level_v2 env))]"

definition Event_json_v2 :: "event_v2 \<Rightarrow> json" where
  "Event_json_v2 ev = JObj [(''service_name'', JStr (Service_name_v2 ev)), (''version'', JStr (Version_v2 ev)),
     (''git_commit_sha'', JStr (Git_commit_sha_v2 ev)),
     (''Environment'', case Environment_v2 ev of None \<Rightarrow> JNull | Some env \<Rightarrow> Environment_json_v2 env)]"

section \<open>Operations\<close>

definition CreateEvent_v2 :: "string \<Rightarrow> string \<Rightarrow> string \<Rightarrow> environment_v2 option \<Rightarrow> event_v2 \<Rightarrow> event_v2" where
  "CreateEvent_v2 service_name version git_commit_sha environment ev =
     ev\<lparr>Service_name_v2 := service_name, Version_v2 := version, Git_commit_sha_v2 := git_commit_sha,
       Environment_v2 := environment\<rparr>"

definition settings_v2 :: viper_settings where
  "settings_v2 = \<lparr>ConfigName = ''conf'', ConfigType = ''toml'', ConfigPaths = [''.''],
     Defaults = [(''Service_port'', ''''), (''Log_level'', '''')], EnvPrefix = ''VTT'', AutomaticEnv = True\<rparr>"

definition ReadEnvironment_v2 :: "('cfg, 's) viper \<Rightarrow> 's \<Rightarrow> environment_v2 outcome" where
  "ReadEnvironment_v2 vp s =
     (case ReadInConfig vp settings_v2 s of
        Inl err \<Rightarrow> Panic
      | Inr cfg \<Rightarrow>
          Ok \<lparr>Service_port_v2 = TrimSpace (GetString vp settings_v2 cfg s ''Service_port''),
              Log_level_v2 = TrimSpace (GetString vp settings_v2 cfg s ''Log_level'')\<rparr>)"

definition GetEvent_v2 :: "('cfg, 's) viper \<Rightarrow> 's \<Rightarrow> event_v2 \<Rightarrow> event_v2 outcome" where
  "GetEvent_v2 vp s ev =
     and_then (ReadEnvironment_v2 vp s)
       (\<lambda>environment. Ok (CreateEvent_v2 ''myapplication'' ''1.0.0'' ''abc57858585'' (Some environment) ev))"

definition SetupRoutes_v2 :: "(string \<times> string \<times> app_endpoint) list" where
  "SetupRoutes_v2 = [(''GET'', ''/'', Greeting ''hi golang app v2''), (''GET'', ''/info'', Info)]"

definition Service_GetEvent_v2 ::
  "(32 word \<Rightarrow> json \<Rightarrow> http_response \<Rightarrow> http_response) \<Rightarrow> ('e \<Rightarrow> 'e outcome) \<Rightarrow> ('e \<Rightarrow> json) \<Rightarrow> 'e \<Rightarrow>
   http_response \<Rightarrow> (http_response \<times> 'e) outcome" where
  "Service_GetEvent_v2 render_JSON get show_event ev w =
     and_then (get ev) (\<lambda>ev'. Ok (render_JSON StatusOK (show_event ev') w, ev'))"

fun run_endpoint_v2 ::
  "(32 word \<Rightarrow> json \<Rightarrow> http_response \<Rightarrow> http_response) \<Rightarrow> (event_v2 \<Rightarrow> event_v2 outcome) \<Rightarrow> app_endpoint \<Rightarrow>
   event_v2 \<Rightarrow> http_response \<Rightarrow> (http_response \<times> event_v2) outcome" where
  "run_endpoint_v2 render_JSON get (Greeting t) ev w = Ok (hw_write [Lit t] w, ev)"
| "run_endpoint_v2 render_JSON get Info ev w = Service_GetEvent_v2 render_JSON get Event_json_v2 ev w"

definition zero_event_v2 :: event_v2 where
  "zero_event_v2 = \<lparr>Service_name_v2 = '''', Version_v2 = '''', Git_commit_sha_v2 = '''', Environment_v2 = None\<rparr>"

definition app_Addr_v2 :: "int64 option \<Rightarrow> string" where
  "app_Addr_v2 flag = '':'' @ itoa (case flag of None \<Rightarrow> 8081 | Some port \<Rightarrow> port)"

record 'e service_v2 =
  svc_event_v2 :: 'e

definition NewEventService_v2 :: "'e \<Rightarrow> 'e service_v2" where
  "NewEventService_v2 ev = \<lparr>svc_event_v2 = ev\<rparr>"

definition main_v2 :: "int64 option \<Rightarrow> event_v2 service_v2 app_server" where
  "main_v2 flag = \<lparr>srv_Service = NewEventService_v2 zero_event_v2, srv_Routes = SetupRoutes_v2, srv_Addr = app_Addr_v2 flag\<rparr>"

section \<open>A service and its requests\<close>

text \<open>
  The requests of a history are served one after the other, each with the files and the process environment
  \<open>s\<close> as they are at that time. The event is kept from one request to the next. A handler that panics
  before it writes the event leaves it as it was, and the server goes on. The router and the response to a
  request without a route are arguments: \<open>route table req\<close> is the handler that the
  router has for the request.
\<close>

fun serve :: "('r \<Rightarrow> 'e \<Rightarrow> (http_response \<times> 'e) outcome) \<Rightarrow> 'e \<Rightarrow> 'r list \<Rightarrow> http_response outcome list" where
  "serve handle ev [] = []"
| "serve handle ev (r # rs) =
     and_then (handle r ev) (\<lambda>(resp, ev'). Ok resp) #
     serve handle (case handle r ev of Ok (resp, ev') \<Rightarrow> ev' | _ \<Rightarrow> ev) rs"

type_synonym 'r router = "(string \<times> string \<times> app_endpoint) list \<Rightarrow> 'r \<Rightarrow> app_endpoint option"

definition handle_with ::
  "'r router \<Rightarrow> http_response \<Rightarrow> ('s \<Rightarrow> app_endpoint \<Rightarrow> 'e \<Rightarrow> http_response \<Rightarrow> (http_response \<times> 'e) outcome) \<Rightarrow>
   'v app_server \<Rightarrow> 'r \<times> 's \<Rightarrow> 'e \<Rightarrow> (http_response \<times> 'e) outcome" where
  "handle_with route no_route run srv rs ev = (case route (srv_Routes srv) (fst rs) of
       None \<Rightarrow> Ok (no_route, ev)
     | Some e \<Rightarrow> run (snd rs) e ev hw_new)"

definition answers_v1 ::
  "'r router \<Rightarrow> http_response \<Rightarrow> (32 word \<Rightarrow> json \<Rightarrow> http_response \<Rightarrow> http_response) \<Rightarrow> ('cfg, 's) viper \<Rightarrow>
   int64 option \<Rightarrow> ('r \<times> 's) list \<Rightarrow> http_response outcome list" where
  "answers_v1 route no_route render_JSON vp flag = serve (handle_with route no_route
     (\<lambda>s. run_endpoint render_JSON (GetEvent vp s)) (main_v1 flag)) (svc_event (srv_Service (main_v1 flag)))"

definition answers_v2 ::
  "'r router \<Rightarrow> http_response \<Rightarrow> (32 word \<Rightarrow> json \<Rightarrow> http_response \<Rightarrow> http_response) \<Rightarrow> ('cfg, 's) viper \<Rightarrow>
   int64 option \<Rightarrow> ('r \<times> 's) list \<Rightarrow> http_response outcome list" where
  "answers_v2 route no_route render_JSON vp flag = serve (handle_with route no_route
     (\<lambda>s. run_endpoint_v2 render_JSON (GetEvent_v2 vp s)) (main_v2 flag)) (svc_event_v2 (srv_Service (main_v2 flag)))"

text \<open>If what a handler answers does not depend on the event, the history does not matter.\<close>

abbreviation answer_part :: "(http_response \<times> 'e) outcome \<Rightarrow> http_response outcome" where
  "answer_part out \<equiv> and_then out (\<lambda>(resp, ev'). Ok resp)"

lemma serve_pure:
  assumes "\<And>r ev. answer_part (handle r ev) = answer_to r"
  shows "serve handle ev rs = map answer_to rs"
  by (induction rs arbitrary: ev) (simp_all add: assms)

section \<open>The event of version 2\<close>

text \<open>An event of version 2 as one of version 1.\<close>

definition env_v1 :: "environment_v2 \<Rightarrow> environment" where
  "env_v1 env = \<lparr>Service_port = Service_port_v2 env, Log_level = Log_level_v2 env\<rparr>"

definition event_v1 :: "event_v2 \<Rightarrow> event" where
  "event_v1 ev = \<lparr>Service_name = Service_name_v2 ev, ev_Version = Version_v2 ev,
     Git_commit_sha = Git_commit_sha_v2 ev, ev_Environment = map_option env_v1 (Environment_v2 ev)\<rparr>"

lemma Event_json_v1: "Event_json (event_v1 ev) = Event_json_v2 ev"
  by (simp add: Event_json_def Event_members_def Event_json_v2_def event_v1_def env_v1_def Environment_json_def Environment_json_v2_def
      split: option.split)

lemma GetEvent_v1:
  "GetEvent vp s (event_v1 ev) = and_then (GetEvent_v2 vp s ev) (\<lambda>ev'. Ok (event_v1 ev'))"
  by (simp add: GetEvent_def GetEvent_v2_def ReadEnvironment_def ReadEnvironment_v2_def settings_def settings_v2_def
      GetEvent_args_def CreateEvent_def CreateEvent_steps_def CreateEvent_v2_def event_v1_def env_v1_def split: sum.split)

lemma ReadEnvironment_v2_cases: "ReadEnvironment_v2 vp s = Panic \<or> (\<exists>env. ReadEnvironment_v2 vp s = Ok env)"
  by (cases "ReadInConfig vp settings_v2 s") (simp_all add: ReadEnvironment_v2_def)

interpretation golang_event_v2: event_model "GetEvent_v2 vp s" Event_json_v2 for vp s
proof
  fix e e' f
  assume "GetEvent_v2 vp s e = Ok e'"
  then show "\<exists>f'. GetEvent_v2 vp s f = Ok f' \<and> Event_json_v2 f' = Event_json_v2 e'"
    using ReadEnvironment_v2_cases [of vp s]
    by (auto simp: GetEvent_v2_def CreateEvent_v2_def Event_json_v2_def)
qed

section \<open>Answers\<close>

text \<open>The answer of an endpoint, in terms of the configuration only.\<close>

definition endpoint_answer ::
  "(32 word \<Rightarrow> json \<Rightarrow> http_response \<Rightarrow> http_response) \<Rightarrow> ('cfg, 's) viper \<Rightarrow> 's \<Rightarrow> app_endpoint \<Rightarrow> http_response outcome" where
  "endpoint_answer render_JSON vp s e = (case e of
       Greeting t \<Rightarrow> Ok (hw_write [Lit t] hw_new)
     | Info \<Rightarrow> and_then (GetEvent vp s zero_event)
         (\<lambda>ev. Ok (render_JSON StatusOK (Event_json ev) hw_new)))"

lemma endpoint_v1:
  "answer_part (run_endpoint render_JSON (GetEvent vp s) e ev hw_new) = endpoint_answer render_JSON vp s e"
  using ReadEnvironment_cases [of vp s]
  by (cases e) (auto simp: endpoint_answer_def Service_GetEvent_def GetEvent_def GetEvent_args_def CreateEvent_def CreateEvent_steps_def Event_json_def Event_members_def)

lemma endpoint_v2:
  "answer_part (run_endpoint_v2 render_JSON (GetEvent_v2 vp s) e ev hw_new) = endpoint_answer render_JSON vp s e"
proof (cases e)
  case Info
  have "endpoint_answer render_JSON vp s e =
      and_then (GetEvent vp s (event_v1 ev)) (\<lambda>ev. Ok (render_JSON StatusOK (Event_json ev) hw_new))"
    using ReadEnvironment_cases [of vp s]
    by (auto simp: Info endpoint_answer_def GetEvent_def GetEvent_args_def CreateEvent_def CreateEvent_steps_def Event_json_def Event_members_def)
  then show ?thesis unfolding GetEvent_v1 Info
    by (cases "GetEvent_v2 vp s ev") (simp_all add: Service_GetEvent_v2_def Event_json_v1)
qed (simp add: endpoint_answer_def)

definition routed_answer ::
  "'r router \<Rightarrow> http_response \<Rightarrow> (32 word \<Rightarrow> json \<Rightarrow> http_response \<Rightarrow> http_response) \<Rightarrow> ('cfg, 's) viper \<Rightarrow>
   (string \<times> string \<times> app_endpoint) list \<Rightarrow> 'r \<times> 's \<Rightarrow> http_response outcome" where
  "routed_answer route no_route render_JSON vp table rs = (case route table (fst rs) of
     None \<Rightarrow> Ok no_route | Some e \<Rightarrow> endpoint_answer render_JSON vp (snd rs) e)"

lemma answers_v1_eq:
  "answers_v1 route no_route render_JSON vp flag = map (routed_answer route no_route render_JSON vp SetupRoutes_v1)"
  unfolding answers_v1_def fun_eq_iff
  by (auto intro!: serve_pure simp: handle_with_def routed_answer_def main_v1_def endpoint_v1 split: option.split)

lemma answers_v2_eq:
  "answers_v2 route no_route render_JSON vp flag = map (routed_answer route no_route render_JSON vp SetupRoutes_v2)"
  unfolding answers_v2_def fun_eq_iff
  by (auto intro!: serve_pure simp: handle_with_def routed_answer_def main_v2_def endpoint_v2 split: option.split)

section \<open>Properties\<close>

text \<open>
  C30: the two versions are equivalent. Given a router that finds a route by its method and path, not by its
  handler: for every history of requests, with the configuration changing in any way, version 2 gives the answers
  of version 1 with one greeting replaced by the other, panics included, and it listens at the same address.
\<close>

theorem versions_agree:
  fixes route :: "'r router" and requests :: "('r \<times> 's) list"
  assumes "\<And>f table req. route (map (\<lambda>(meth, path, e). (meth, path, f e)) table) req = map_option f (route table req)"
  shows "answers_v2 route no_route render_JSON vp flag requests =
      map (\<lambda>((req, s), a). if route (srv_Routes (main_v1 flag)) req = Some (Greeting ''hi golang app v1'')
          then Ok (hw_write [Lit ''hi golang app v2''] hw_new) else a)
        (zip requests (answers_v1 route no_route render_JSON vp flag requests)) \<and>
    srv_Addr (main_v2 flag) = srv_Addr (main_v1 flag)"
proof
  let ?f = "\<lambda>e. if e = Greeting ''hi golang app v1'' then Greeting ''hi golang app v2'' else e"
  have "SetupRoutes_v2 = map (\<lambda>(meth, path, e). (meth, path, ?f e)) SetupRoutes_v1"
    by (simp add: SetupRoutes_v1_def SetupRoutes_v2_def)
  then have route: "route SetupRoutes_v2 req = map_option ?f (route SetupRoutes_v1 req)" for req
    using assms [of ?f SetupRoutes_v1 req] by (simp only:)
  have "routed_answer route no_route render_JSON vp SetupRoutes_v2 (req, s) =
      (if route SetupRoutes_v1 req = Some (Greeting ''hi golang app v1'')
       then Ok (hw_write [Lit ''hi golang app v2''] hw_new)
       else routed_answer route no_route render_JSON vp SetupRoutes_v1 (req, s))" for req and s :: 's
    by (cases "route SetupRoutes_v1 req") (auto simp: routed_answer_def route endpoint_answer_def)
  then show "answers_v2 route no_route render_JSON vp flag requests =
      map (\<lambda>((req, s), a). if route (srv_Routes (main_v1 flag)) req = Some (Greeting ''hi golang app v1'')
          then Ok (hw_write [Lit ''hi golang app v2''] hw_new) else a)
        (zip requests (answers_v1 route no_route render_JSON vp flag requests))"
    by (induction requests) (auto simp: answers_v1_eq answers_v2_eq main_v1_def)
  show "srv_Addr (main_v2 flag) = srv_Addr (main_v1 flag)"
    by (cases flag) (simp_all add: main_v1_def main_v2_def app_Addr_def app_Addr_v2_def default_port_def)
qed

text \<open>For the witness: a router that looks its table up, and a history with a greeting, an answer and a panic.\<close>

definition sample_router :: "(string \<times> string) router" where
  "sample_router table req = map_option (\<lambda>(meth, path, e). e) (find (\<lambda>(meth, path, e). (meth, path) = req) table)"

lemma sample_router_natural:
  "sample_router (map (\<lambda>(meth, path, e). (meth, path, f e)) table) req = map_option f (sample_router table req)"
  by (induction table) (auto simp: sample_router_def)

theorem versions_agree_witness:
  "answers_v2 sample_router hw_new (\<lambda>code j w. hw_write [Lit (print j)] w) sample_viper None
     [((''GET'', ''/''), Some ''8080''), ((''GET'', ''/info''), None)] =
   [Ok (hw_write [Lit ''hi golang app v2''] hw_new), Panic]"
  unfolding versions_agree [OF sample_router_natural, THEN conjunct1]
  by (simp add: answers_v1_eq main_v1_def SetupRoutes_v1_def sample_router_def routed_answer_def endpoint_answer_def
      GetEvent_def GetEvent_args_def ReadEnvironment_def sample_viper_def)

end
