(* ===== verification/Process_Exit.thy ===== *)
theory Process_Exit
  imports Startup Manager_Main Hello_Metrics Golang_App_V2
begin

text \<open>
  How the six programs end: the last lines of their \<^verbatim>\<open>main\<close> functions. \<^verbatim>\<open>ListenAndServe\<close> serves until it fails, when it
  cannot bind its address or later, and then returns the error. What happens to the listeners of a machine is the
  argument \<open>returns\<close>: which of them, by address, return which error, in the order of time. A
  program goes on for ever, or ends with an exit status and the error that it reports, if any. A panic
  ends a program with status 2 and \<^verbatim>\<open>log.Fatal\<close> with status 1.
\<close>

section \<open>Definitions\<close>

datatype process = Runs | Exits nat "gotext option"

type_synonym listen_errors = "(string \<times> gotext) list"

text \<open>The first error among some listeners.\<close>

definition first_error :: "string list \<Rightarrow> listen_errors \<Rightarrow> gotext option" where
  "first_error addrs returns = map_option snd (List.find (\<lambda>(addr, err). addr \<in> set addrs) returns)"

text \<open>\<^verbatim>\<open>log.Fatal\<close> of what listening returns, for each listener in a goroutine of its own: the first ends them all.\<close>

definition serve_fatal :: "string list \<Rightarrow> listen_errors \<Rightarrow> process" where
  "serve_fatal addrs returns =
     (case first_error addrs returns of None \<Rightarrow> Runs | Some err \<Rightarrow> Exits 1 (Some err))"

text \<open>
  The webhooks: in \<^verbatim>\<open>kubewebhook\<close> also the exit of \<^verbatim>\<open>setLogger\<close>, which reports the level that it cannot parse.
\<close>

definition kube_process ::
  "'l \<Rightarrow> (string \<Rightarrow> gotext + 'l) \<Rightarrow> (string \<Rightarrow> string) \<Rightarrow> 'l logger \<Rightarrow> ('k, 'pub, 't, 'c, 'p, 's) crypto \<Rightarrow> 's \<Rightarrow>
   listen_errors \<Rightarrow> process" where
  "kube_process DebugLevel ParseLevel getenv logger0 cr s0 returns =
     (case fst (kube_main DebugLevel ParseLevel getenv logger0 cr s0) of
        StartExit \<Rightarrow> Exits 1 (Some [Lit ''cannot set LOG_LEVEL to '', Quoted (getenv ''LOG_LEVEL'')])
      | StartPanic e \<Rightarrow> Exits 2 (Some e)
      | Started (s, listeners) \<Rightarrow> serve_fatal (map ln_Addr listeners) returns)"

definition mw_process :: "('k, 'pub, 't, 'c, 'p, 's) crypto \<Rightarrow> 's \<Rightarrow> listen_errors \<Rightarrow> process" where
  "mw_process cr s0 returns =
     (case fst (mw_main cr s0) of
        StartExit \<Rightarrow> Exits 1 None
      | StartPanic e \<Rightarrow> Exits 2 (Some e)
      | Started (s, listeners) \<Rightarrow> serve_fatal (map ln_Addr listeners) returns)"

definition app_process_v1 :: "int64 option \<Rightarrow> listen_errors \<Rightarrow> process" where
  "app_process_v1 flag returns = serve_fatal [srv_Addr (main_v1 flag)] returns"

definition app_process_v2 :: "int64 option \<Rightarrow> listen_errors \<Rightarrow> process" where
  "app_process_v2 flag returns = serve_fatal [srv_Addr (main_v2 flag)] returns"

text \<open>\<^verbatim>\<open>goprometheus\<close> does not look at what \<^verbatim>\<open>http.ListenAndServe\<close> returns: \<^verbatim>\<open>main\<close> ends, with status 0.\<close>

definition hello_process :: "listen_errors \<Rightarrow> process" where
  "hello_process returns =
     (case first_error ['':8080''] returns of None \<Rightarrow> Runs | Some err \<Rightarrow> Exits 0 None)"

section \<open>Lemmas\<close>

lemma first_error_None: "first_error addrs returns = None \<longleftrightarrow> fst ` set returns \<inter> set addrs = {}"
  by (force simp: first_error_def find_None_iff)

lemma serve_fatal_Runs: "serve_fatal addrs returns = Runs \<longleftrightarrow> fst ` set returns \<inter> set addrs = {}"
  and serve_fatal_fails: "serve_fatal addrs returns \<noteq> Exits 0 e"
  by (simp_all add: serve_fatal_def first_error_None [symmetric] split: option.split)

lemma hello_cases: "hello_process returns = (if '':8080'' \<in> fst ` set returns then Exits 0 None else Runs)"
  using first_error_None [of "['':8080'']" returns] by (auto simp: hello_process_def split: option.split)

lemma kube_main_listeners: "kube_main DebugLevel ParseLevel getenv logger0 cr s0 = (Started (s, listeners), s1) \<Longrightarrow>
    map ln_Addr listeners = [''localhost:8080'', '':8443'']"
  by (auto simp: kube_main_def split: option.splits prod.splits)

lemma mw_main_listeners: "mw_main cr s0 = (Started (s, listeners), s1) \<Longrightarrow>
    map ln_Addr listeners = [''localhost:8080'', '':8443'']"
  by (auto simp: mw_main_def split: option.splits prod.splits)

lemma kube_process_Started: "kube_main DebugLevel ParseLevel getenv logger0 cr s0 = (Started x, s1) \<Longrightarrow>
    kube_process DebugLevel ParseLevel getenv logger0 cr s0 returns = serve_fatal [''localhost:8080'', '':8443''] returns"
  using kube_main_listeners by (cases x) (fastforce simp: kube_process_def)

lemma mw_process_Started: "mw_main cr s0 = (Started x, s1) \<Longrightarrow>
    mw_process cr s0 returns = serve_fatal [''localhost:8080'', '':8443''] returns"
  using mw_main_listeners by (cases x) (fastforce simp: mw_process_def)

section \<open>Properties\<close>

text \<open>
  C36: what keeps the programs alive. A webhook goes on exactly while it could start and neither of its two
  listeners has failed, so that losing the one on localhost, which only hands out the authority, ends the webhook too; the
  services go on while they listen. The webhooks and both versions of the service never end with status 0; \<^verbatim>\<open>goprometheus\<close>
  always does, even if it could not listen at all.
\<close>

theorem process_ends:
  "(kube_process DebugLevel ParseLevel getenv logger0 cr s0 returns = Runs \<longleftrightarrow>
     (\<exists>x s1. kube_main DebugLevel ParseLevel getenv logger0 cr s0 = (Started x, s1)) \<and>
     fst ` set returns \<inter> {''localhost:8080'', '':8443''} = {}) \<and>
   (mw_process cr s0 returns = Runs \<longleftrightarrow>
     (\<exists>x s1. mw_main cr s0 = (Started x, s1)) \<and> fst ` set returns \<inter> {''localhost:8080'', '':8443''} = {}) \<and>
   (app_process_v1 flag returns = Runs \<longleftrightarrow> app_Addr flag \<notin> fst ` set returns) \<and>
   app_process_v2 flag returns = app_process_v1 flag returns \<and>
   kube_process DebugLevel ParseLevel getenv logger0 cr s0 returns \<noteq> Exits 0 e \<and>
   mw_process cr s0 returns \<noteq> Exits 0 e \<and> app_process_v1 flag returns \<noteq> Exits 0 e \<and>
   hello_process returns = (if '':8080'' \<in> fst ` set returns then Exits 0 None else Runs)"
proof -
  let ?kube = "kube_main DebugLevel ParseLevel getenv logger0 cr s0"
  let ?P = "kube_process DebugLevel ParseLevel getenv logger0 cr s0 returns"
  have kube: "(?P = Runs \<longleftrightarrow> (\<exists>x s1. ?kube = (Started x, s1)) \<and> fst ` set returns \<inter> {''localhost:8080'', '':8443''} = {}) \<and>
    ?P \<noteq> Exits 0 e"
  proof (cases "fst ?kube")
    case (Started x)
    then obtain s1 where "?kube = (Started x, s1)" by (metis prod.collapse)
    from kube_process_Started [OF this] this show ?thesis by (simp add: serve_fatal_Runs serve_fatal_fails)
  qed (auto simp: kube_process_def)
  have mw: "(mw_process cr s0 returns = Runs \<longleftrightarrow>
      (\<exists>x s1. mw_main cr s0 = (Started x, s1)) \<and> fst ` set returns \<inter> {''localhost:8080'', '':8443''} = {}) \<and>
    mw_process cr s0 returns \<noteq> Exits 0 e"
  proof (cases "fst (mw_main cr s0)")
    case (Started x)
    then obtain s1 where "mw_main cr s0 = (Started x, s1)" by (metis prod.collapse)
    from mw_process_Started [OF this] this show ?thesis by (simp add: serve_fatal_Runs serve_fatal_fails)
  next
    case StartExit
    then show ?thesis by (auto simp: mw_main_def split: prod.splits option.splits)
  qed (auto simp: mw_process_def)
  have "app_Addr_v2 flag = app_Addr flag" by (cases flag) (simp_all add: app_Addr_def app_Addr_v2_def default_port_def)
  then have app: "app_process_v2 flag returns = app_process_v1 flag returns"
    "app_process_v1 flag returns = Runs \<longleftrightarrow> app_Addr flag \<notin> fst ` set returns"
    by (simp_all add: app_process_v1_def app_process_v2_def main_v1_def main_v2_def serve_fatal_Runs)
  show ?thesis using kube mw app by (simp add: hello_cases app_process_v1_def serve_fatal_fails)
qed

end
