(* ===== verification/Operator_Json.thy ===== *)
theory Operator_Json
  imports Reconcile Json
begin

text \<open>
  The resource of the operator as JSON: the tags of \<^verbatim>\<open>golangappoperator_types.go\<close>, and the schema of
  \<^verbatim>\<open>config/crd/bases\<close> by which the API server judges what the controller writes. The fields of the
  embedded \<^verbatim>\<open>TypeMeta\<close> and the metadata are of another package: their JSON is an argument.
\<close>

section \<open>Definitions\<close>

text \<open>An \<^verbatim>\<open>int32\<close> is written in decimal, and read from a text that is an integer in its range.\<close>

definition int32_json :: "32 word \<Rightarrow> json" where
  "int32_json i = JNum (itoa (scast i))"

definition dec_int32 :: "32 word decoder" where
  "dec_int32 j old = (case j of
       JNull \<Rightarrow> (True, old)
     | JNum s \<Rightarrow>
         (case atoi s of
            Inl e \<Rightarrow> (False, old)
          | Inr n \<Rightarrow> if - (2 ^ 31) \<le> sint n \<and> sint n < 2 ^ 31 then (True, scast n) else (False, old))
     | _ \<Rightarrow> (False, old))"

definition Spec_json :: "golangappoperator_spec \<Rightarrow> json" where
  "Spec_json sp = JObj
     ([(''size'', int32_json (Size sp)), (''image'', JStr (Image sp)), (''postgresqldb'', JBool (PostgresqlDB sp))] @
      (if DBservers sp = None \<or> DBservers sp = Some [] then [] else [(''dbservers'', strings_json (DBservers sp))]) @
      [(''database'', JStr (Database sp)), (''dbuser'', JStr (DBuser sp)), (''dbpass'', JStr (DBpass sp))])"

definition Spec_fields :: "golangappoperator_spec fields" where
  "Spec_fields =
    [field ''size'' dec_int32 Size (\<lambda>a. Size_update (\<lambda>_. a)),
     field ''image'' dec_string Image (\<lambda>a. Image_update (\<lambda>_. a)),
     field ''postgresqldb'' dec_bool PostgresqlDB (\<lambda>a. PostgresqlDB_update (\<lambda>_. a)),
     field ''dbservers'' dec_strings DBservers (\<lambda>a. DBservers_update (\<lambda>_. a)),
     field ''database'' dec_string Database (\<lambda>a. Database_update (\<lambda>_. a)),
     field ''dbuser'' dec_string DBuser (\<lambda>a. DBuser_update (\<lambda>_. a)),
     field ''dbpass'' dec_string DBpass (\<lambda>a. DBpass_update (\<lambda>_. a))]"

definition Status_json :: "golangappoperator_status \<Rightarrow> json" where
  "Status_json st = JObj [(''nodes'', strings_json (Nodes st))]"

definition Status_fields :: "golangappoperator_status fields" where
  "Status_fields = [field ''nodes'' dec_strings Nodes (\<lambda>a. Nodes_update (\<lambda>_. a))]"

text \<open>\<open>inline\<close> is the members of a \<^verbatim>\<open>TypeMeta\<close>; \<^verbatim>\<open>omitempty\<close> never leaves out a struct.\<close>

definition Golangappoperator_json ::
  "(type_meta \<Rightarrow> (string \<times> json) list) \<Rightarrow> ('x object_meta \<Rightarrow> json) \<Rightarrow> 'x golangappoperator \<Rightarrow> json" where
  "Golangappoperator_json inline meta m = JObj (inline (cr_TypeMeta m) @
     [(''metadata'', meta (cr_Meta m)), (''spec'', Spec_json (cr_Spec m)), (''status'', Status_json (cr_Status m))])"

subsection \<open>The schema\<close>

text \<open>Of OpenAPI v3 as far as the file uses it: no type accepts \<^verbatim>\<open>null\<close> unless it is declared nullable, which none is.\<close>

datatype schema =
    SString
  | SBoolean
  | SInteger32
  | SArray schema
  | SObject "(string \<times> schema) list" "string list"

fun schema_accepts :: "schema \<Rightarrow> json \<Rightarrow> bool" where
  "schema_accepts SString (JStr s) = True"
| "schema_accepts SBoolean (JBool b) = True"
| "schema_accepts SInteger32 (JNum s) = fst (dec_int32 (JNum s) 0)"
| "schema_accepts (SArray items) (JArr vs) = list_all (schema_accepts items) vs"
| "schema_accepts (SObject properties required) (JObj ms) =
     (list_all (\<lambda>k. map_of ms k \<noteq> None) required \<and>
      list_all (\<lambda>(k, p). case map_of ms k of None \<Rightarrow> True | Some v \<Rightarrow> schema_accepts p v) properties)"
| "schema_accepts _ _ = False"

definition spec_schema :: schema where
  "spec_schema = SObject
     [(''database'', SString), (''dbpass'', SString), (''dbservers'', SArray SString), (''dbuser'', SString),
      (''image'', SString), (''postgresqldb'', SBoolean), (''size'', SInteger32)]
     [''database'', ''dbpass'', ''dbuser'', ''image'', ''postgresqldb'', ''size'']"

definition status_schema :: schema where
  "status_schema = SObject [(''nodes'', SArray SString)] [''nodes'']"

definition crd_schema :: schema where
  "crd_schema = SObject [(''apiVersion'', SString), (''kind'', SString), (''metadata'', SObject [] []),
     (''spec'', spec_schema), (''status'', status_schema)] []"

section \<open>Lemmas\<close>

lemma sint_scast_up: "sint (scast (i :: 32 word) :: int64) = sint i"
  by (rule sint_up_scast) (simp add: is_up)

lemma sint32_bounds: "- (2 ^ 31) \<le> sint (i :: 32 word)" "sint (i :: 32 word) < 2 ^ 31"
  using sint_ge [of i] sint_lt [of i] by simp_all

lemma dec_int32_json: "dec_int32 (int32_json i) old = (True, i)"
  using sint32_bounds [of i]
  by (simp add: dec_int32_def int32_json_def atoi_itoa sint_scast_up scast_up_scast_id is_up)

text \<open>The decimal text of an integer is a number of JSON: no leading zero.\<close>

lemma digits_run: "list_all is_digit ds \<Longrightarrow> num_run NInt ds = Some NInt"
  by (induction ds) (simp_all add: num_step_def is_digit_def between_def)

lemma nat_digits_first: "0 < n \<Longrightarrow> \<exists>c cs. nat_digits n = c # cs \<and> between 49 57 c \<and> list_all is_digit cs"
proof (induction n rule: nat_digits.induct)
  case (1 n)
  show ?case
  proof (cases "n < 10")
    case True
    with 1 show ?thesis by (subst nat_digits.simps) (simp add: between_def)
  next
    case False
    with 1 obtain c cs where "nat_digits (n div 10) = c # cs" "between 49 57 c" "list_all is_digit cs" by force
    with False show ?thesis by (subst nat_digits.simps) (simp add: is_digit_char_of)
  qed
qed

lemma num_text_itoa: "num_text (itoa i)"
proof -
  have pos: "num_text (nat_digits n) \<and> num_text (CHR ''-'' # nat_digits n)" if n: "0 < n" for n
  proof -
    obtain c cs where "nat_digits n = c # cs" "between 49 57 c" "list_all is_digit cs"
      using nat_digits_first [OF n] by blast
    with digit_begins(2) [of c] digits_run [of cs] show ?thesis
      by (simp add: num_text_def num_start_def num_step_def num_complete_def)
  qed
  have "num_text (nat_digits 0)" by (subst nat_digits.simps) (simp add: num_text_def num_start_def num_complete_def char_of_eq_iff between_def)
  with pos show ?thesis by (cases "nat (sint i) = 0") (auto simp: itoa_def)
qed

text \<open>Strings of a spec.\<close>

definition spec_utf8 :: "golangappoperator_spec \<Rightarrow> bool" where
  "spec_utf8 sp \<longleftrightarrow> valid_utf8 (Image sp) \<and> strings_utf8 (DBservers sp) \<and> valid_utf8 (Database sp) \<and>
     valid_utf8 (DBuser sp) \<and> valid_utf8 (DBpass sp)"

lemma Spec_writable: "spec_utf8 sp \<Longrightarrow> writable (Spec_json sp)"
  by (simp add: Spec_json_def spec_utf8_def int32_json_def num_text_itoa strings_writable ascii_utf8)

lemma depth_strings: "depth (strings_json x) \<le> 1"
  by (cases x) (auto simp: strings_json_def image_constant_conv)

lemma operator_depth: "depth (Spec_json sp) \<le> maxNestingDepth" "depth (Status_json st) \<le> maxNestingDepth"
  by (simp_all add: order_trans [OF depth_strings] Spec_json_def int32_json_def Status_json_def maxNestingDepth_def)

definition zero_spec :: golangappoperator_spec where
  "zero_spec = \<lparr>Size = 0, Image = '''', PostgresqlDB = False, DBservers = None, Database = '''', DBuser = '''', DBpass = ''''\<rparr>"

lemma dec_spec: "dec_struct Spec_fields (Spec_json sp) zero_spec =
    (True, sp\<lparr>DBservers := (if DBservers sp = Some [] then None else DBservers sp)\<rparr>)"
  unfolding Spec_json_def dec_struct_JObj
  by (simp add: find_field_def field_def dec_string_def dec_bool_def Spec_fields_def zero_spec_def dec_int32_json dec_strings_json)

lemma dec_status: "dec_struct Status_fields (Status_json st) \<lparr>Nodes = None\<rparr> = (True, st)"
  unfolding Status_json_def dec_struct_JObj
  by (simp add: find_field_def field_def Status_fields_def dec_strings_json)

interpretation spec_codec: json_codec Spec_json "dec_struct Spec_fields" zero_spec spec_utf8
    "\<lambda>sp. sp\<lparr>DBservers := (if DBservers sp = Some [] then None else DBservers sp)\<rparr>"
  by unfold_locales (simp_all only: dec_spec Spec_writable operator_depth, simp add: Spec_json_def)

interpretation status_codec: json_codec Status_json "dec_struct Status_fields" "\<lparr>Nodes = None\<rparr>"
    "\<lambda>st. strings_utf8 (Nodes st)" "\<lambda>st. st"
  by unfold_locales (simp_all only: dec_status operator_depth, simp_all add: Status_json_def strings_writable ascii_utf8)

lemma accepts_strings: "schema_accepts (SArray SString) (strings_json s) \<longleftrightarrow> s \<noteq> None"
  by (cases s) (simp_all add: strings_json_def list_all_iff)

lemma accepts_spec: "schema_accepts spec_schema (Spec_json sp)"
proof -
  have "schema_accepts SInteger32 (int32_json (Size sp))"
    using dec_int32_json [of "Size sp" 0] by (simp add: int32_json_def)
  moreover have "schema_accepts (SArray SString) (strings_json (DBservers sp))" if "DBservers sp \<noteq> None"
    using that by (simp add: accepts_strings del: schema_accepts.simps)
  ultimately show ?thesis
    by (simp add: spec_schema_def Spec_json_def del: schema_accepts.simps(3,4))
qed

lemma accepts_status: "schema_accepts status_schema (Status_json st) \<longleftrightarrow> Nodes st \<noteq> None"
  using accepts_strings [of "Nodes st"] by (simp add: status_schema_def Status_json_def del: schema_accepts.simps(4))

text \<open>What is known of the JSON of the embedded type and of the metadata.\<close>

definition inline_strings :: "(type_meta \<Rightarrow> (string \<times> json) list) \<Rightarrow> bool" where
  "inline_strings inline \<longleftrightarrow> (\<forall>tm k v. (k, v) \<in> set (inline tm) \<longrightarrow> k \<in> {''kind'', ''apiVersion''} \<and> (\<exists>t. v = JStr t))"

lemma accepts_object:
  assumes "inline_strings inline" and "\<And>m. \<exists>ms. meta m = JObj ms"
  shows "schema_accepts crd_schema (Golangappoperator_json inline meta cr) \<longleftrightarrow> Nodes (cr_Status cr) \<noteq> None"
proof -
  let ?ms = "inline (cr_TypeMeta cr)"
  have other: "map_of ?ms k = None" if "k \<notin> {''kind'', ''apiVersion''}" for k
  proof (cases "map_of ?ms k")
    case (Some v)
    with map_of_SomeD [OF Some] assms(1) that show ?thesis unfolding inline_strings_def by blast
  qed simp
  have str: "schema_accepts SString v" if "map_of ?ms k = Some v" for k v
  proof -
    from map_of_SomeD [OF that] assms(1) obtain t where "v = JStr t" unfolding inline_strings_def by blast
    then show ?thesis by simp
  qed
  obtain ms where "meta (cr_Meta cr) = JObj ms" using assms(2) by blast
  moreover define all where "all = ?ms @ [(''metadata'', meta (cr_Meta cr)), (''spec'', Spec_json (cr_Spec cr)), (''status'', Status_json (cr_Status cr))]"
  ultimately have members: "map_of all ''metadata'' = Some (JObj ms)" "map_of all ''spec'' = Some (Spec_json (cr_Spec cr))"
    "map_of all ''status'' = Some (Status_json (cr_Status cr))"
    "map_of all ''kind'' = map_of ?ms ''kind''" "map_of all ''apiVersion'' = map_of ?ms ''apiVersion''"
    by (simp_all add: map_add_def other split: option.split)
  have "Golangappoperator_json inline meta cr = JObj all" by (simp only: Golangappoperator_json_def all_def)
  moreover have "case map_of ?ms k of None \<Rightarrow> True | Some v \<Rightarrow> schema_accepts SString v" for k
    using str [of k] by (simp split: option.split)
  ultimately show ?thesis
    by (simp add: crd_schema_def members accepts_spec accepts_status)
qed

section \<open>Properties\<close>

text \<open>
  The spec and the status of a resource survive JSON. For all values of all fields, every 32-bit size among
  them, decoding the text gives back the spec, but that an empty list of servers that is not nil comes back
  as nil (\<^verbatim>\<open>omitempty\<close>), and gives back exactly the status, nil or not.
\<close>

theorem operator_roundtrip:
  assumes "spec_utf8 sp" and "strings_utf8 (Nodes st)"
  shows "Decode (dec_struct Spec_fields) zero_spec (print (Spec_json sp) @ rest) =
      Inr (sp\<lparr>DBservers := (if DBservers sp = Some [] then None else DBservers sp)\<rparr>) \<and>
    Decode (dec_struct Status_fields) \<lparr>Nodes = None\<rparr> (print (Status_json st) @ rest) = Inr st"
  using spec_codec.Decode_enc [OF assms(1)] status_codec.Decode_enc [of st rest] assms(2) by simp

theorem operator_roundtrip_witness:
  "Decode (dec_struct Spec_fields) zero_spec (print (Spec_json (zero_spec\<lparr>Size := - 2147483648, DBservers := Some [''db-1'']\<rparr>)) @ []) =
    Inr (zero_spec\<lparr>Size := - 2147483648, DBservers := Some [''db-1'']\<rparr>)"
proof -
  have "spec_utf8 (zero_spec\<lparr>Size := - 2147483648, DBservers := Some [''db-1'']\<rparr>)" "strings_utf8 (Nodes \<lparr>Nodes = None\<rparr>)"
    by (simp_all add: spec_utf8_def zero_spec_def ascii_utf8)
  from operator_roundtrip [OF this, of "[]"] show ?thesis by simp
qed

text \<open>
  C24: with no pods the status cannot be written. Whatever the API server answers, a status that \<^verbatim>\<open>Reconcile\<close> writes is one
  that the schema of the resource accepts exactly if the list of pods was not empty: the nil slice of \<^verbatim>\<open>getPodNames\<close> is
  written as \<^verbatim>\<open>null\<close>, where the schema asks for an array. The schema accepts everything else the controller writes.
\<close>

theorem status_write_accepted:
  assumes "Reconcile (logged c) req (s, []) = (out, s', evs)" and "EvStatus cr e \<in> set evs"
    and "inline_strings inline" and "\<And>m. \<exists>ms. meta m = JObj ms"
  shows "\<exists>ns ls pods. EvList ns ls (Inr pods) \<in> set evs \<and>
    (schema_accepts crd_schema (Golangappoperator_json inline meta cr) \<longleftrightarrow> pods \<noteq> [])"
proof -
  from Reconcile_logged(1) [OF assms(1)] assms(2) obtain ns ls pods cr0
    where "EvList ns ls (Inr pods) \<in> set evs" and "cr = with_nodes cr0 (getPodNames pods)"
    by (cases rule: protocol.cases) auto
  with accepts_object [OF assms(3,4), where cr = cr] show ?thesis by (auto simp: getPodNames_eq)
qed

theorem status_write_accepted_witness:
  "schema_accepts crd_schema (Golangappoperator_json (\<lambda>tm. [(''kind'', JStr (type_Kind tm))]) (\<lambda>m. JObj []) (with_nodes sample_cr (Some [''app-1''])))"
proof -
  have "inline_strings (\<lambda>tm. [(''kind'', JStr (type_Kind tm))])" by (simp add: inline_strings_def)
  from status_write_accepted [OF sample_runs(2), of "with_nodes sample_cr (Some [''app-1''])" None, OF _ this, of "\<lambda>m. JObj []"]
  show ?thesis by auto
qed

end
