(* ===== verification/Reconcile_Cluster.thy ===== *)
theory Reconcile_Cluster
  imports Operator_Json
begin

text \<open>
  What repeated reconciliation achieves on a cluster whose API server works and that nobody else
  changes meanwhile. The documented behaviour of the server is the hypothesis \<open>cluster_laws\<close>, over
  three views of the state: the custom resources and the deployments stored under a key, and the
  pods that a list call finds; it refuses a status that the schema of the resource does not accept.
  \<open>store_client\<close> is a small server that satisfies it, for the witness.
\<close>

section \<open>A cluster that works\<close>

type_synonym ('x, 's) crs_view = "'s \<Rightarrow> namespaced_name \<Rightarrow> 'x golangappoperator option"
type_synonym ('x, 's) deps_view = "'s \<Rightarrow> namespaced_name \<Rightarrow> 'x deployment option"
type_synonym ('x, 's) pods_view = "'s \<Rightarrow> string \<Rightarrow> (string, string) gomap \<Rightarrow> 'x pod list"

definition answer :: "gotext \<Rightarrow> 'a option \<Rightarrow> gotext + 'a" where
  "answer e r = (case r of None \<Rightarrow> Inl e | Some a \<Rightarrow> Inr a)"

text \<open>A get returns what is stored or an error that \<^verbatim>\<open>IsNotFound\<close> recognises, and changes nothing; a list too.\<close>

definition read_laws ::
  "('x, 's) client \<Rightarrow> ('x, 's) crs_view \<Rightarrow> ('x, 's) deps_view \<Rightarrow> ('x, 's) pods_view \<Rightarrow> bool" where
  "read_laws c crs deps pods \<longleftrightarrow> (\<exists>e. IsNotFound c e \<and>
     (\<forall>k s. Get_Golangappoperator c k s = (answer e (crs s k), s)) \<and>
     (\<forall>k s. Get_Deployment c k s = (answer e (deps s k), s)) \<and>
     (\<forall>ns ls s. List_Pods c ns ls s = (Inr (pods s ns ls), s)))"

text \<open>
  Creating an absent deployment or updating a present one stores it under its key; a status update
  of a stored resource stores its status, if the schema accepts it, and is an error if not. Nothing else changes.
\<close>

definition write_laws ::
  "('x, 's) client \<Rightarrow> ('x, 's) crs_view \<Rightarrow> ('x, 's) deps_view \<Rightarrow> ('x, 's) pods_view \<Rightarrow> bool" where
  "write_laws c crs deps pods \<longleftrightarrow>
     (\<forall>d s. deps s (key_of (dep_Meta d)) = None \<longrightarrow> (\<exists>s'. Create_Deployment c d s = (None, s') \<and>
        crs s' = crs s \<and> deps s' = (deps s)(key_of (dep_Meta d) \<mapsto> d) \<and> pods s' = pods s)) \<and>
     (\<forall>d s. deps s (key_of (dep_Meta d)) \<noteq> None \<longrightarrow> (\<exists>s'. Update_Deployment c d s = (None, s') \<and>
        crs s' = crs s \<and> deps s' = (deps s)(key_of (dep_Meta d) \<mapsto> d) \<and> pods s' = pods s)) \<and>
     (\<forall>cr cr0 s. crs s (key_of (cr_Meta cr)) = Some cr0 \<longrightarrow>
        (if schema_accepts status_schema (Status_json (cr_Status cr))
         then \<exists>s'. Status_Update c cr s = (None, s') \<and>
           crs s' = (crs s)(key_of (cr_Meta cr) \<mapsto> cr0\<lparr>cr_Status := cr_Status cr\<rparr>) \<and>
           deps s' = deps s \<and> pods s' = pods s
         else \<exists>e. Status_Update c cr s = (Some e, s)))"

text \<open>\<^verbatim>\<open>SetControllerReference\<close> sets an owner in the metadata and nothing else.\<close>

definition owner_laws :: "('x, 's) client \<Rightarrow> bool" where
  "owner_laws c \<longleftrightarrow> (\<forall>cr d. dep_Spec (fst (SetControllerReference c cr d)) = dep_Spec d \<and>
     key_of (dep_Meta (fst (SetControllerReference c cr d))) = key_of (dep_Meta d))"

definition cluster_laws ::
  "('x, 's) client \<Rightarrow> ('x, 's) crs_view \<Rightarrow> ('x, 's) deps_view \<Rightarrow> ('x, 's) pods_view \<Rightarrow> bool" where
  "cluster_laws c crs deps pods \<longleftrightarrow> read_laws c crs deps pods \<and> write_laws c crs deps pods \<and> owner_laws c"

section \<open>Three stages\<close>

text \<open>
  \<open>tracked\<close>: the resource is stored under \<open>k\<close>, its own key, with the given spec, and a deployment
  stored there is stored under its own key and has a replica count. \<open>sized\<close>: the deployment
  exists and has the size asked for. \<open>reported\<close>: the status lists the pods as well. \<open>stuck\<close>: there are
  no pods and the status has nodes, so that the status to write is one that the schema refuses.
\<close>

definition tracked ::
  "('x, 's) crs_view \<Rightarrow> ('x, 's) deps_view \<Rightarrow> namespaced_name \<Rightarrow> golangappoperator_spec \<Rightarrow> 's \<Rightarrow> bool" where
  "tracked crs deps k spec s \<longleftrightarrow>
     (\<exists>cr. crs s k = Some cr \<and> key_of (cr_Meta cr) = k \<and> cr_Spec cr = spec) \<and>
     (\<forall>d. deps s k = Some d \<longrightarrow> key_of (dep_Meta d) = k \<and> dep_Replicas (dep_Spec d) \<noteq> None)"

definition sized ::
  "('x, 's) crs_view \<Rightarrow> ('x, 's) deps_view \<Rightarrow> namespaced_name \<Rightarrow> golangappoperator_spec \<Rightarrow> 's \<Rightarrow> bool" where
  "sized crs deps k spec s \<longleftrightarrow> tracked crs deps k spec s \<and>
     (\<exists>d. deps s k = Some d \<and> dep_Replicas (dep_Spec d) = Some (Size spec))"

definition reported ::
  "('x, 's) crs_view \<Rightarrow> ('x, 's) deps_view \<Rightarrow> ('x, 's) pods_view \<Rightarrow> namespaced_name \<Rightarrow>
   golangappoperator_spec \<Rightarrow> 's \<Rightarrow> bool" where
  "reported crs deps pods k spec s \<longleftrightarrow> sized crs deps k spec s \<and>
     (\<exists>cr. crs s k = Some cr \<and> Nodes (cr_Status cr) =
        getPodNames (pods s (nn_Namespace k) (labelsForGolangappoperator (nn_Name k))))"

definition stuck :: "('x, 's) crs_view \<Rightarrow> ('x, 's) pods_view \<Rightarrow> namespaced_name \<Rightarrow> 's \<Rightarrow> bool" where
  "stuck crs pods k s \<longleftrightarrow> pods s (nn_Namespace k) (labelsForGolangappoperator (nn_Name k)) = [] \<and>
     (\<exists>cr. crs s k = Some cr \<and> Nodes (cr_Status cr) \<noteq> None)"

lemma key_of_eq: "key_of m = k \<longleftrightarrow> meta_Namespace m = nn_Namespace k \<and> meta_Name m = nn_Name k"
  by (auto simp: key_of_def)

lemma reads: "cluster_laws c crs deps pods \<Longrightarrow> \<exists>e. IsNotFound c e \<and>
    (\<forall>k s. Get_Golangappoperator c k s = (answer e (crs s k), s)) \<and>
    (\<forall>k s. Get_Deployment c k s = (answer e (deps s k), s)) \<and>
    (\<forall>ns ls s. List_Pods c ns ls s = (Inr (pods s ns ls), s))"
  by (simp add: cluster_laws_def read_laws_def)

lemma nn_collapse [simp]: "\<lparr>nn_Namespace = nn_Namespace k, nn_Name = nn_Name k\<rparr> = k"
  by simp

lemma create_law: "cluster_laws c crs deps pods \<Longrightarrow> key_of (dep_Meta d) = k \<Longrightarrow> deps s k = None \<Longrightarrow>
    \<exists>s'. Create_Deployment c d s = (None, s') \<and> crs s' = crs s \<and> deps s' = (deps s)(k \<mapsto> d)"
  unfolding cluster_laws_def write_laws_def by blast

lemma update_law: "cluster_laws c crs deps pods \<Longrightarrow> key_of (dep_Meta d) = k \<Longrightarrow> deps s k = Some d0 \<Longrightarrow>
    \<exists>s'. Update_Deployment c d s = (None, s') \<and> crs s' = crs s \<and> deps s' = (deps s)(k \<mapsto> d)"
  unfolding cluster_laws_def write_laws_def by blast

lemma status_law: "cluster_laws c crs deps pods \<Longrightarrow> key_of (cr_Meta cr) = k \<Longrightarrow> crs s k = Some cr0 \<Longrightarrow>
    Nodes (cr_Status cr) \<noteq> None \<Longrightarrow>
    \<exists>s'. Status_Update c cr s = (None, s') \<and> crs s' = (crs s)(k \<mapsto> cr0\<lparr>cr_Status := cr_Status cr\<rparr>) \<and>
      deps s' = deps s \<and> pods s' = pods s"
  unfolding cluster_laws_def write_laws_def accepts_status by meson

lemma status_refused: "cluster_laws c crs deps pods \<Longrightarrow> key_of (cr_Meta cr) = k \<Longrightarrow> crs s k = Some cr0 \<Longrightarrow>
    Nodes (cr_Status cr) = None \<Longrightarrow> \<exists>e. Status_Update c cr s = (Some e, s)"
  unfolding cluster_laws_def write_laws_def accepts_status by meson

lemma reported_stays:
  assumes laws: "cluster_laws c crs deps pods" and "reported crs deps pods k spec s"
  shows "Reconcile c k s = (Ok (empty_result, None), s)"
proof -
  obtain e where r: "\<forall>k s. Get_Golangappoperator c k s = (answer e (crs s k), s)"
    "\<forall>k s. Get_Deployment c k s = (answer e (deps s k), s)"
    "\<forall>ns ls s. List_Pods c ns ls s = (Inr (pods s ns ls), s)" using reads [OF laws] by blast
  from assms(2) obtain cr d where "crs s k = Some cr" "meta_Namespace (cr_Meta cr) = nn_Namespace k"
    "meta_Name (cr_Meta cr) = nn_Name k" "cr_Spec cr = spec" "deps s k = Some d"
    "dep_Replicas (dep_Spec d) = Some (Size spec)"
    "Nodes (cr_Status cr) = getPodNames (pods s (nn_Namespace k) (labelsForGolangappoperator (nn_Name k)))"
    by (auto simp: reported_def sized_def tracked_def key_of_eq)
  then show ?thesis by (simp add: Reconcile_def r answer_def Let_def)
qed

lemma sized_step:
  assumes laws: "cluster_laws c crs deps pods" and s: "sized crs deps k spec s"
  shows "if stuck crs pods k s then \<exists>e. Reconcile c k s = (Ok (empty_result, Some e), s)
    else \<exists>s'. Reconcile c k s = (Ok (empty_result, None), s') \<and> reported crs deps pods k spec s'"
proof (cases "reported crs deps pods k spec s")
  case True
  then have "\<not> stuck crs pods k s" by (auto simp: reported_def stuck_def getPodNames_eq)
  with reported_stays [OF laws True] True show ?thesis by auto
next
  case False
  obtain e where r: "\<forall>k s. Get_Golangappoperator c k s = (answer e (crs s k), s)"
    "\<forall>k s. Get_Deployment c k s = (answer e (deps s k), s)"
    "\<forall>ns ls s. List_Pods c ns ls s = (Inr (pods s ns ls), s)" using reads [OF laws] by blast
  from s obtain cr d where cr: "crs s k = Some cr" "key_of (cr_Meta cr) = k" "cr_Spec cr = spec"
    and d: "deps s k = Some d" "dep_Replicas (dep_Spec d) = Some (Size spec)"
    by (auto simp: sized_def tracked_def)
  let ?names = "getPodNames (pods s (nn_Namespace k) (labelsForGolangappoperator (nn_Name k)))"
  have differ: "?names \<noteq> Nodes (cr_Status cr)"
    using False s cr by (auto simp: reported_def)
  then have stuck: "stuck crs pods k s \<longleftrightarrow> ?names = None"
    using cr differ by (cases "Nodes (cr_Status cr)") (auto simp: stuck_def getPodNames_eq)
  have reconcile: "Reconcile c k s = (case Status_Update c (with_nodes cr ?names) s of
      (Some e, s') \<Rightarrow> (Ok (empty_result, Some e), s') | (None, s') \<Rightarrow> (Ok (empty_result, None), s'))"
    using cr d differ by (simp add: Reconcile_def r answer_def Let_def key_of_eq)
  show ?thesis
  proof (cases "?names = None")
    case True
    with status_refused [OF laws _ cr(1), of "with_nodes cr ?names"] cr(2) reconcile stuck show ?thesis by auto
  next
    case names: False
    obtain s' where u: "Status_Update c (with_nodes cr ?names) s = (None, s')"
      and s': "crs s' = (crs s)(k \<mapsto> with_nodes cr ?names)" "deps s' = deps s" "pods s' = pods s"
      using status_law [OF laws _ cr(1), of "with_nodes cr ?names"] cr(2) names by auto
    moreover have "reported crs deps pods k spec s'"
      using s cr d s' by (auto simp: reported_def sized_def tracked_def)
    ultimately show ?thesis using reconcile stuck names by auto
  qed
qed

lemma tracked_step:
  assumes laws: "cluster_laws c crs deps pods" and t: "tracked crs deps k spec s"
  shows "\<exists>res err s'. Reconcile c k s = (Ok (res, err), s') \<and> sized crs deps k spec s' \<and>
    (res = empty_result \<longleftrightarrow> sized crs deps k spec s) \<and> (err \<noteq> None \<longleftrightarrow> sized crs deps k spec s \<and> stuck crs pods k s)"
proof (cases "sized crs deps k spec s")
  case True
  with sized_step [OF laws True] show ?thesis by (auto simp: reported_def split: if_splits)
next
  case False
  obtain e where nf: "IsNotFound c e" and r: "\<forall>k s. Get_Golangappoperator c k s = (answer e (crs s k), s)"
    "\<forall>k s. Get_Deployment c k s = (answer e (deps s k), s)"
    "\<forall>ns ls s. List_Pods c ns ls s = (Inr (pods s ns ls), s)" using reads [OF laws] by blast
  from t obtain cr where cr: "crs s k = Some cr" "key_of (cr_Meta cr) = k" "cr_Spec cr = spec"
    by (auto simp: tracked_def)
  show ?thesis
  proof (cases "deps s k")
    case None
    let ?d = "deploymentForGolangappoperatored c cr"
    have d: "key_of (dep_Meta ?d) = k" "dep_Replicas (dep_Spec ?d) = Some (Size spec)"
      using deploymentFor_spec [of c cr] laws cr by (simp_all add: cluster_laws_def owner_laws_def)
    obtain s' where u: "Create_Deployment c ?d s = (None, s')"
      and s': "crs s' = crs s" "deps s' = (deps s)(k \<mapsto> ?d)"
      using create_law [OF laws d(1) None] by blast
    have "Reconcile c k s = (Ok (empty_result\<lparr>Requeue := True\<rparr>, None), s')"
      using cr None nf u by (simp add: Reconcile_def r answer_def key_of_eq)
    moreover have "sized crs deps k spec s'" using t cr d s' by (auto simp: sized_def tracked_def)
    ultimately show ?thesis using False by (auto simp: empty_result_def)
  next
    case (Some d)
    with t False obtain n where d: "key_of (dep_Meta d) = k" "dep_Replicas (dep_Spec d) = Some n" "n \<noteq> Size spec"
      by (auto simp: sized_def tracked_def)
    let ?d = "with_replicas d (Size spec)"
    have "key_of (dep_Meta ?d) = k" using d by simp
    then obtain s' where u: "Update_Deployment c ?d s = (None, s')"
      and s': "crs s' = crs s" "deps s' = (deps s)(k \<mapsto> ?d)"
      using update_law [OF laws _ Some, of ?d] by blast
    have "Reconcile c k s = (Ok (empty_result\<lparr>RequeueAfter := Minute\<rparr>, None), s')"
      using cr Some d u by (simp add: Reconcile_def r answer_def key_of_eq Let_def)
    moreover have "sized crs deps k spec s'" using t cr d s' by (auto simp: sized_def tracked_def)
    ultimately show ?thesis using False by (auto simp: empty_result_def Minute_def)
  qed
qed


section \<open>Runs\<close>

text \<open>
  A run interleaves reconciliations of \<open>k\<close> with steps of the rest of the cluster, which may
  start, stop and rename pods and fill in deployments, but leaves the resource, the key of the
  deployment and its replica count as they are. The number counts the reconciliations.
\<close>

definition sizing :: "('x, 's) deps_view \<Rightarrow> namespaced_name \<Rightarrow> 's \<Rightarrow> (namespaced_name \<times> 32 word option) option" where
  "sizing deps k s = map_option (\<lambda>d. (key_of (dep_Meta d), dep_Replicas (dep_Spec d))) (deps s k)"

inductive run ::
  "('x, 's) client \<Rightarrow> ('x, 's) crs_view \<Rightarrow> ('x, 's) deps_view \<Rightarrow> namespaced_name \<Rightarrow> nat \<Rightarrow> 's \<Rightarrow> 's \<Rightarrow> bool"
  for c crs deps k where
  run_start: "run c crs deps k 0 s s"
| run_reconcile: "run c crs deps k n s t \<Longrightarrow> Reconcile c k t = (out, u) \<Longrightarrow> run c crs deps k (Suc n) s u"
| run_rest: "run c crs deps k n s t \<Longrightarrow> crs u k = crs t k \<Longrightarrow> sizing deps k u = sizing deps k t \<Longrightarrow>
    run c crs deps k n s u"

lemma tracked_sizing:
  "tracked crs deps k spec s \<longleftrightarrow> (\<exists>cr. crs s k = Some cr \<and> key_of (cr_Meta cr) = k \<and> cr_Spec cr = spec) \<and>
     (\<forall>key n. sizing deps k s = Some (key, n) \<longrightarrow> key = k \<and> n \<noteq> None)"
  by (auto simp: tracked_def sizing_def)

lemma sized_sizing:
  "sized crs deps k spec s \<longleftrightarrow> tracked crs deps k spec s \<and> (\<exists>key. sizing deps k s = Some (key, Some (Size spec)))"
  by (auto simp: sized_def sizing_def)

lemma run_stages:
  assumes laws: "cluster_laws c crs deps pods" and t: "tracked crs deps k spec s"
    and r: "run c crs deps k n s s'"
  shows "tracked crs deps k spec s' \<and> (0 < n \<longrightarrow> sized crs deps k spec s')"
  using r t
proof induction
  case (run_reconcile n s t out u)
  then have "tracked crs deps k spec t" by blast
  from tracked_step [OF laws this] run_reconcile(2) have "sized crs deps k spec u" by auto
  then show ?case by (simp add: sized_def)
next
  case (run_rest n s t u)
  then have "tracked crs deps k spec t" "0 < n \<longrightarrow> sized crs deps k spec t" by blast+
  with run_rest(2,3) show ?case by (simp add: tracked_sizing sized_sizing)
qed simp

section \<open>An API server in memory\<close>

text \<open>It satisfies the laws, so they can be met; the witnesses run on it.\<close>

record 'x store =
  st_crs :: "namespaced_name \<Rightarrow> 'x golangappoperator option"
  st_deps :: "namespaced_name \<Rightarrow> 'x deployment option"
  st_pods :: "'x pod list"

definition store_list :: "'x store \<Rightarrow> string \<Rightarrow> (string, string) gomap \<Rightarrow> 'x pod list" where
  "store_list s ns ls = filter (\<lambda>p. meta_Namespace (pod_Meta p) = ns \<and>
     label_match ls (pod_Labels p)) (st_pods s)"

definition store_client :: "('x, 'x store) client" where
  "store_client = \<lparr>IsNotFound = (\<lambda>e. e = [Lit ''not found'']),
     SetControllerReference = (\<lambda>cr d. (d, None)),
     Get_Golangappoperator = (\<lambda>k s. (answer [Lit ''not found''] (st_crs s k), s)),
     Get_Deployment = (\<lambda>k s. (answer [Lit ''not found''] (st_deps s k), s)),
     Create_Deployment = (\<lambda>d s. if st_deps s (key_of (dep_Meta d)) = None
       then (None, s\<lparr>st_deps := (st_deps s)(key_of (dep_Meta d) \<mapsto> d)\<rparr>) else (Some [Lit ''exists''], s)),
     Update_Deployment = (\<lambda>d s. if st_deps s (key_of (dep_Meta d)) \<noteq> None
       then (None, s\<lparr>st_deps := (st_deps s)(key_of (dep_Meta d) \<mapsto> d)\<rparr>) else (Some [Lit ''not found''], s)),
     List_Pods = (\<lambda>ns ls s. (Inr (store_list s ns ls), s)),
     Status_Update = (\<lambda>cr s. case st_crs s (key_of (cr_Meta cr)) of
         None \<Rightarrow> (Some [Lit ''not found''], s)
       | Some cr0 \<Rightarrow> if schema_accepts status_schema (Status_json (cr_Status cr))
           then (None, s\<lparr>st_crs := (st_crs s)(key_of (cr_Meta cr) \<mapsto> cr0\<lparr>cr_Status := cr_Status cr\<rparr>)\<rparr>)
           else (Some [Lit ''invalid''], s))\<rparr>"

lemma store_client_laws: "cluster_laws store_client st_crs st_deps store_list"
  unfolding cluster_laws_def read_laws_def write_laws_def owner_laws_def
  by (auto simp: store_client_def store_list_def fun_eq_iff)

definition sample_store :: "nat store" where
  "sample_store = \<lparr>st_crs = [sample_key \<mapsto> sample_cr], st_deps = Map.empty, st_pods = []\<rparr>"

lemma sample_store_tracked: "tracked st_crs st_deps sample_key (cr_Spec sample_cr) sample_store"
  by (simp add: tracked_def sample_store_def sample_cr_def key_of_def zero_meta_def)

section \<open>Properties\<close>

text \<open>
  C7: convergence. On a cluster that works, from any state with the resource and no broken
  deployment, and however pods come and go between reconciliations: after the first
  reconciliation the deployment has the size asked for, forever. The next one returns the empty
  result without an error and leaves the status listing the pods, and one more finds nothing to do; but
  if there are no pods while the status still has nodes, it fails, changes nothing, and so fails for ever.
\<close>

theorem Reconcile_converges:
  assumes "cluster_laws c crs deps pods" and "tracked crs deps k spec s"
    and "run c crs deps k n s t" and "0 < n"
  shows "(\<exists>d. deps t k = Some d \<and> dep_Replicas (dep_Spec d) = Some (Size spec)) \<and>
    (if pods t (nn_Namespace k) (labelsForGolangappoperator (nn_Name k)) = [] \<and>
        (\<exists>cr. crs t k = Some cr \<and> Nodes (cr_Status cr) \<noteq> None)
     then \<exists>e. Reconcile c k t = (Ok (empty_result, Some e), t)
     else \<exists>u cr. Reconcile c k t = (Ok (empty_result, None), u) \<and> crs u k = Some cr \<and> cr_Spec cr = spec \<and>
       Nodes (cr_Status cr) = getPodNames (pods u (nn_Namespace k) (labelsForGolangappoperator (nn_Name k))) \<and>
       Reconcile c k u = (Ok (empty_result, None), u))"
  unfolding stuck_def [symmetric]
proof -
  from run_stages [OF assms(1-3)] assms(4) have t: "sized crs deps k spec t" by simp
  have d: "\<exists>d. deps t k = Some d \<and> dep_Replicas (dep_Spec d) = Some (Size spec)" using t by (auto simp: sized_def)
  show "(\<exists>d. deps t k = Some d \<and> dep_Replicas (dep_Spec d) = Some (Size spec)) \<and>
    (if stuck crs pods k t then \<exists>e. Reconcile c k t = (Ok (empty_result, Some e), t)
     else \<exists>u cr. Reconcile c k t = (Ok (empty_result, None), u) \<and> crs u k = Some cr \<and> cr_Spec cr = spec \<and>
       Nodes (cr_Status cr) = getPodNames (pods u (nn_Namespace k) (labelsForGolangappoperator (nn_Name k))) \<and>
       Reconcile c k u = (Ok (empty_result, None), u))"
  proof (cases "stuck crs pods k t")
    case True
    with sized_step [OF assms(1) t] d show ?thesis by simp
  next
    case False
    with sized_step [OF assms(1) t] obtain u where
      "Reconcile c k t = (Ok (empty_result, None), u)" and u: "reported crs deps pods k spec u" by auto
    with False d reported_stays [OF assms(1) u] show ?thesis
      by (fastforce simp: reported_def sized_def tracked_def)
  qed
qed

lemma sample_store_run:
  "run store_client st_crs st_deps sample_key 1 sample_store
     ((snd (Reconcile store_client sample_key sample_store))\<lparr>st_pods := [sample_pod ''app-1'' []]\<rparr>)"
proof (rule run_rest)
  show "run store_client st_crs st_deps sample_key 1 sample_store
      (snd (Reconcile store_client sample_key sample_store))"
    using run_reconcile [OF run_start surjective_pairing] by simp
qed (simp_all add: sizing_def)

theorem Reconcile_converges_witness:
  "\<exists>d. st_deps (snd (Reconcile store_client sample_key sample_store)) sample_key = Some d \<and>
     dep_Replicas (dep_Spec d) = Some 3"
  using Reconcile_converges [OF store_client_laws sample_store_tracked sample_store_run]
  by (simp add: sample_cr_def)

text \<open>
  No panic on such a cluster, and one kind of failure. Every reconciliation of a run returns; it asks for
  another one exactly if the deployment was missing or had another size, and it returns an error exactly if
  the deployment was right and there were no pods while the status had nodes.
\<close>

theorem Reconcile_healthy:
  assumes "cluster_laws c crs deps pods" and "tracked crs deps k spec s" and "run c crs deps k n s t"
  shows "\<exists>res err u. Reconcile c k t = (Ok (res, err), u) \<and>
    (res = empty_result \<longleftrightarrow> (\<exists>d. deps t k = Some d \<and> dep_Replicas (dep_Spec d) = Some (Size spec))) \<and>
    (err \<noteq> None \<longleftrightarrow> (\<exists>d. deps t k = Some d \<and> dep_Replicas (dep_Spec d) = Some (Size spec)) \<and>
       pods t (nn_Namespace k) (labelsForGolangappoperator (nn_Name k)) = [] \<and>
       (\<exists>cr. crs t k = Some cr \<and> Nodes (cr_Status cr) \<noteq> None))"
proof -
  from run_stages [OF assms] have t: "tracked crs deps k spec t" by blast
  then have sized: "sized crs deps k spec t \<longleftrightarrow> (\<exists>d. deps t k = Some d \<and> dep_Replicas (dep_Spec d) = Some (Size spec))"
    by (auto simp: sized_def)
  obtain res err u where "Reconcile c k t = (Ok (res, err), u)" "res = empty_result \<longleftrightarrow> sized crs deps k spec t"
    "err \<noteq> None \<longleftrightarrow> sized crs deps k spec t \<and> stuck crs pods k t"
    using tracked_step [OF assms(1) t] by blast
  then show ?thesis unfolding sized stuck_def by blast
qed

theorem Reconcile_healthy_witness:
  "\<exists>res. fst (Reconcile store_client sample_key sample_store) = Ok (res, None) \<and> res \<noteq> empty_result"
  using Reconcile_healthy [OF store_client_laws sample_store_tracked run_start]
  by (auto simp: sample_store_def)

end
