(* ===== verification/Controller.thy ===== *)
theory Controller
  imports Reconcile_Cluster
begin

text \<open>
  The controller as a whole: \<^verbatim>\<open>Reconcile\<close> of \<^verbatim>\<open>golangappoperator_controller.go\<close> called for the keys of
  a work queue, as \<^verbatim>\<open>SetupWithManager\<close> of the same file asks for with
  \<^verbatim>\<open>For(&Golangappoperator{}).Complete(r)\<close>, which is \<open>controller_watches\<close>. Many resources are reconciled in any order, users edit them
  meanwhile, and the API server may fail or lose an answer. The queue is code of
  controller-runtime; its documented behaviour is the step relation \<open>ctrl\<close>, a hypothesis of the
  properties. The locale \<open>api_server\<close> holds what is asked of the server, which is less than
  \<open>cluster_laws\<close>: a call may also fail.
\<close>

section \<open>An API server whose calls can fail\<close>

text \<open>
  A call that returns no error has done what it should. A read changes nothing, says what the server has now, and says that an
  object is not found only if it is not there: the client reads from the server itself, or from a cache that is up to date.
  \<open>Controller_Cache\<close> is about a cache that is not. A write that returns an error was done or was not. Objects
  other than the one written stay as they are.
\<close>

locale api_server =
  fixes c :: "('x, 's) client" and crs :: "('x, 's) crs_view"
    and deps :: "('x, 's) deps_view" and pods :: "('x, 's) pods_view"
  assumes get_cr: "\<exists>r s'. Get_Golangappoperator c k s = (r, s') \<and>
      crs s' = crs s \<and> deps s' = deps s \<and> pods s' = pods s \<and>
      (case r of Inl e \<Rightarrow> IsNotFound c e \<longrightarrow> crs s k = None | Inr cr \<Rightarrow> crs s k = Some cr)"
    and get_dep: "\<exists>r s'. Get_Deployment c k s = (r, s') \<and>
      crs s' = crs s \<and> deps s' = deps s \<and> pods s' = pods s \<and>
      (case r of Inl e \<Rightarrow> IsNotFound c e \<longrightarrow> deps s k = None | Inr d \<Rightarrow> deps s k = Some d)"
    and list_pods: "\<exists>r s'. List_Pods c ns ls s = (r, s') \<and>
      crs s' = crs s \<and> deps s' = deps s \<and> pods s' = pods s \<and>
      (case r of Inl e \<Rightarrow> True | Inr items \<Rightarrow> items = pods s ns ls)"
    and create: "deps s (key_of (dep_Meta d)) = None \<Longrightarrow> \<exists>e s'. Create_Deployment c d s = (e, s') \<and>
      crs s' = crs s \<and> pods s' = pods s \<and>
      (e \<noteq> None \<and> deps s' = deps s \<or> deps s' = (deps s)(key_of (dep_Meta d) \<mapsto> d))"
    and update: "deps s (key_of (dep_Meta d)) \<noteq> None \<Longrightarrow> \<exists>e s'. Update_Deployment c d s = (e, s') \<and>
      crs s' = crs s \<and> pods s' = pods s \<and>
      (e \<noteq> None \<and> deps s' = deps s \<or> deps s' = (deps s)(key_of (dep_Meta d) \<mapsto> d))"
    and status: "crs s (key_of (cr_Meta cr)) = Some cr0 \<Longrightarrow> \<exists>e s'. Status_Update c cr s = (e, s') \<and>
      deps s' = deps s \<and> pods s' = pods s \<and>
      (e \<noteq> None \<and> crs s' = crs s \<or>
       crs s' = (crs s)(key_of (cr_Meta cr) \<mapsto> cr0\<lparr>cr_Status := cr_Status cr\<rparr>))"
    and owner: "owner_laws c"

text \<open>A server that obeys \<open>cluster_laws\<close> is one that never fails.\<close>

locale cluster =
  fixes c :: "('x, 's) client" and crs :: "('x, 's) crs_view"
    and deps :: "('x, 's) deps_view" and pods :: "('x, 's) pods_view"
  assumes laws: "cluster_laws c crs deps pods"

sublocale cluster \<subseteq> api_server
proof
  obtain e where r: "IsNotFound c e" "\<forall>k s. Get_Golangappoperator c k s = (answer e (crs s k), s)"
    "\<forall>k s. Get_Deployment c k s = (answer e (deps s k), s)"
    "\<forall>ns ls s. List_Pods c ns ls s = (Inr (pods s ns ls), s)" using reads [OF laws] by blast
  show "\<exists>r s'. Get_Golangappoperator c k s = (r, s') \<and> crs s' = crs s \<and> deps s' = deps s \<and> pods s' = pods s \<and>
      (case r of Inl e \<Rightarrow> IsNotFound c e \<longrightarrow> crs s k = None | Inr cr \<Rightarrow> crs s k = Some cr)" for k s
    by (auto simp: r answer_def split: option.split)
  show "\<exists>r s'. Get_Deployment c k s = (r, s') \<and> crs s' = crs s \<and> deps s' = deps s \<and> pods s' = pods s \<and>
      (case r of Inl e \<Rightarrow> IsNotFound c e \<longrightarrow> deps s k = None | Inr d \<Rightarrow> deps s k = Some d)" for k s
    by (auto simp: r answer_def split: option.split)
  show "\<exists>r s'. List_Pods c ns ls s = (r, s') \<and> crs s' = crs s \<and> deps s' = deps s \<and> pods s' = pods s \<and>
      (case r of Inl e \<Rightarrow> True | Inr items \<Rightarrow> items = pods s ns ls)" for ns ls s
    by (simp add: r)
  have w: "write_laws c crs deps pods" and o: "owner_laws c" using laws by (simp_all add: cluster_laws_def)
  show "\<exists>e s'. Create_Deployment c d s = (e, s') \<and> crs s' = crs s \<and> pods s' = pods s \<and>
      (e \<noteq> None \<and> deps s' = deps s \<or> deps s' = (deps s)(key_of (dep_Meta d) \<mapsto> d))"
    if "deps s (key_of (dep_Meta d)) = None" for s d
    using w that unfolding write_laws_def by meson
  show "\<exists>e s'. Update_Deployment c d s = (e, s') \<and> crs s' = crs s \<and> pods s' = pods s \<and>
      (e \<noteq> None \<and> deps s' = deps s \<or> deps s' = (deps s)(key_of (dep_Meta d) \<mapsto> d))"
    if "deps s (key_of (dep_Meta d)) \<noteq> None" for s d
    using w that unfolding write_laws_def by meson
  show "\<exists>e s'. Status_Update c cr s = (e, s') \<and> deps s' = deps s \<and> pods s' = pods s \<and>
      (e \<noteq> None \<and> crs s' = crs s \<or> crs s' = (crs s)(key_of (cr_Meta cr) \<mapsto> cr0\<lparr>cr_Status := cr_Status cr\<rparr>))"
    if "crs s (key_of (cr_Meta cr)) = Some cr0" for s cr cr0
    using w that unfolding write_laws_def by (metis option.distinct(1))
  show "owner_laws c" by (fact o)
qed

section \<open>Faults\<close>

text \<open>
  \<open>flaky c\<close> is the server \<open>c\<close> behind a connection with the faults of a list: the request or the
  answer of a call is lost, and the caller sees a timeout.
\<close>

datatype fault = Fine | Request_lost | Answer_lost

definition timeout :: gotext where "timeout = [Lit ''context deadline exceeded'']"

definition flaky_call :: "(gotext \<Rightarrow> 'r) \<Rightarrow> ('s \<Rightarrow> 'r \<times> 's) \<Rightarrow> 's \<times> fault list \<Rightarrow> 'r \<times> 's \<times> fault list" where
  "flaky_call err call sf = (case sf of
       (s, []) \<Rightarrow> (case call s of (r, s') \<Rightarrow> (r, s', []))
     | (s, Fine # fs) \<Rightarrow> (case call s of (r, s') \<Rightarrow> (r, s', fs))
     | (s, Request_lost # fs) \<Rightarrow> (err timeout, s, fs)
     | (s, Answer_lost # fs) \<Rightarrow> (case call s of (r, s') \<Rightarrow> (err timeout, s', fs)))"

definition flaky :: "('x, 's) client \<Rightarrow> ('x, 's \<times> fault list) client" where
  "flaky c = \<lparr>IsNotFound = IsNotFound c, SetControllerReference = SetControllerReference c,
     Get_Golangappoperator = (\<lambda>k. flaky_call Inl (Get_Golangappoperator c k)),
     Get_Deployment = (\<lambda>k. flaky_call Inl (Get_Deployment c k)),
     Create_Deployment = (\<lambda>d. flaky_call Some (Create_Deployment c d)),
     Update_Deployment = (\<lambda>d. flaky_call Some (Update_Deployment c d)),
     List_Pods = (\<lambda>ns ls. flaky_call Inl (List_Pods c ns ls)),
     Status_Update = (\<lambda>cr. flaky_call Some (Status_Update c cr))\<rparr>"

text \<open>Any property of a call's effect that a timeout satisfies too is kept by the faults.\<close>

lemma flaky_call_keeps:
  assumes "\<exists>r s'. call (fst sf) = (r, s') \<and> P r s'" and "P (err timeout) (fst sf)"
    and "\<And>r s'. P r s' \<Longrightarrow> P (err timeout) s'"
  shows "\<exists>r sf'. flaky_call err call sf = (r, sf') \<and> P r (fst sf')"
proof -
  obtain s fs where "sf = (s, fs)" by fastforce
  with assms show ?thesis
    by (auto simp: flaky_call_def split: list.split fault.split)
qed

context api_server
begin

lemma flaky_server:
  assumes "\<not> IsNotFound c timeout"
  shows "api_server (flaky c) (crs \<circ> fst) (deps \<circ> fst) (pods \<circ> fst)"
proof
  note defs = flaky_def o_apply client.simps
  show "\<exists>r s'. Get_Golangappoperator (flaky c) k s = (r, s') \<and>
      (crs \<circ> fst) s' = (crs \<circ> fst) s \<and> (deps \<circ> fst) s' = (deps \<circ> fst) s \<and> (pods \<circ> fst) s' = (pods \<circ> fst) s \<and>
      (case r of Inl e \<Rightarrow> IsNotFound (flaky c) e \<longrightarrow> (crs \<circ> fst) s k = None | Inr cr \<Rightarrow> (crs \<circ> fst) s k = Some cr)" for k s
    unfolding defs by (rule flaky_call_keeps) (use assms get_cr in auto)
  show "\<exists>r s'. Get_Deployment (flaky c) k s = (r, s') \<and>
      (crs \<circ> fst) s' = (crs \<circ> fst) s \<and> (deps \<circ> fst) s' = (deps \<circ> fst) s \<and> (pods \<circ> fst) s' = (pods \<circ> fst) s \<and>
      (case r of Inl e \<Rightarrow> IsNotFound (flaky c) e \<longrightarrow> (deps \<circ> fst) s k = None | Inr d \<Rightarrow> (deps \<circ> fst) s k = Some d)" for k s
    unfolding defs by (rule flaky_call_keeps) (use assms get_dep in auto)
  show "\<exists>r s'. List_Pods (flaky c) ns ls s = (r, s') \<and>
      (crs \<circ> fst) s' = (crs \<circ> fst) s \<and> (deps \<circ> fst) s' = (deps \<circ> fst) s \<and> (pods \<circ> fst) s' = (pods \<circ> fst) s \<and>
      (case r of Inl e \<Rightarrow> True | Inr items \<Rightarrow> items = (pods \<circ> fst) s ns ls)" for ns ls s
    unfolding defs by (rule flaky_call_keeps) (use list_pods in auto)
  show "\<exists>e s'. Create_Deployment (flaky c) d s = (e, s') \<and> (crs \<circ> fst) s' = (crs \<circ> fst) s \<and> (pods \<circ> fst) s' = (pods \<circ> fst) s \<and>
      (e \<noteq> None \<and> (deps \<circ> fst) s' = (deps \<circ> fst) s \<or> (deps \<circ> fst) s' = ((deps \<circ> fst) s)(key_of (dep_Meta d) \<mapsto> d))"
    if "(deps \<circ> fst) s (key_of (dep_Meta d)) = None" for s d
    unfolding defs by (rule flaky_call_keeps) (use that create [of "fst s" d] in \<open>auto simp del: fun_upd_apply\<close>)
  show "\<exists>e s'. Update_Deployment (flaky c) d s = (e, s') \<and> (crs \<circ> fst) s' = (crs \<circ> fst) s \<and> (pods \<circ> fst) s' = (pods \<circ> fst) s \<and>
      (e \<noteq> None \<and> (deps \<circ> fst) s' = (deps \<circ> fst) s \<or> (deps \<circ> fst) s' = ((deps \<circ> fst) s)(key_of (dep_Meta d) \<mapsto> d))"
    if "(deps \<circ> fst) s (key_of (dep_Meta d)) \<noteq> None" for s d
    unfolding defs by (rule flaky_call_keeps) (use that update [of "fst s" d] in \<open>auto simp del: fun_upd_apply\<close>)
  show "\<exists>e s'. Status_Update (flaky c) cr s = (e, s') \<and> (deps \<circ> fst) s' = (deps \<circ> fst) s \<and> (pods \<circ> fst) s' = (pods \<circ> fst) s \<and>
      (e \<noteq> None \<and> (crs \<circ> fst) s' = (crs \<circ> fst) s \<or>
       (crs \<circ> fst) s' = ((crs \<circ> fst) s)(key_of (cr_Meta cr) \<mapsto> cr0\<lparr>cr_Status := cr_Status cr\<rparr>))"
    if "(crs \<circ> fst) s (key_of (cr_Meta cr)) = Some cr0" for s cr cr0
    unfolding defs by (rule flaky_call_keeps) (use that status [of "fst s" cr cr0] in \<open>auto simp del: fun_upd_apply\<close>)
  show "owner_laws (flaky c)" using owner by (simp add: owner_laws_def flaky_def)
qed

end

section \<open>What one reconciliation changes\<close>

text \<open>
  \<open>keyed\<close>: objects are stored under their own keys. \<open>right_size\<close>: the deployment of a resource has the size
  asked for; \<open>settled\<close>: its status lists the pods as well.
\<close>

definition keyed :: "('x, 's) crs_view \<Rightarrow> ('x, 's) deps_view \<Rightarrow> 's \<Rightarrow> bool" where
  "keyed crs deps s \<longleftrightarrow> (\<forall>k cr. crs s k = Some cr \<longrightarrow> key_of (cr_Meta cr) = k) \<and>
     (\<forall>k d. deps s k = Some d \<longrightarrow> key_of (dep_Meta d) = k)"

definition right_size :: "('x, 's) deps_view \<Rightarrow> namespaced_name \<Rightarrow> 'x golangappoperator \<Rightarrow> 's \<Rightarrow> bool" where
  "right_size deps k cr s \<longleftrightarrow> (\<exists>d. deps s k = Some d \<and> dep_Replicas (dep_Spec d) = Some (Size (cr_Spec cr)))"

definition settled ::
  "('x, 's) deps_view \<Rightarrow> ('x, 's) pods_view \<Rightarrow> namespaced_name \<Rightarrow> 'x golangappoperator \<Rightarrow> 's \<Rightarrow> bool" where
  "settled deps pods k cr s \<longleftrightarrow> right_size deps k cr s \<and>
     Nodes (cr_Status cr) = getPodNames (pods s (nn_Namespace k) (labelsForGolangappoperator (nn_Name k)))"

text \<open>The effects a reconciliation can have on the cluster: nothing, or one of three writes.\<close>

inductive effect ::
  "('x, 's) client \<Rightarrow> ('x, 's) crs_view \<Rightarrow> ('x, 's) deps_view \<Rightarrow> ('x, 's) pods_view \<Rightarrow> namespaced_name \<Rightarrow>
   's \<Rightarrow> 's \<Rightarrow> bool"
  for c crs deps pods k s s' where
  effect_none: "crs s' = crs s \<Longrightarrow> deps s' = deps s \<Longrightarrow> effect c crs deps pods k s s'"
| effect_create: "crs s k = Some cr \<Longrightarrow> deps s k = None \<Longrightarrow> crs s' = crs s \<Longrightarrow>
    deps s' = (deps s)(k \<mapsto> deploymentForGolangappoperatored c cr) \<Longrightarrow> effect c crs deps pods k s s'"
| effect_resize: "crs s k = Some cr \<Longrightarrow> deps s k = Some d \<Longrightarrow> crs s' = crs s \<Longrightarrow>
    deps s' = (deps s)(k \<mapsto> with_replicas d (Size (cr_Spec cr))) \<Longrightarrow> effect c crs deps pods k s s'"
| effect_status: "crs s k = Some cr \<Longrightarrow> crs s' = (crs s)(k \<mapsto> with_nodes cr
      (getPodNames (pods s (nn_Namespace k) (labelsForGolangappoperator (nn_Name k))))) \<Longrightarrow> deps s' = deps s \<Longrightarrow>
    effect c crs deps pods k s s'"

context api_server
begin

lemma deployment_key: "key_of (dep_Meta (deploymentForGolangappoperatored c cr)) = key_of (cr_Meta cr)"
  and deployment_size: "dep_Replicas (dep_Spec (deploymentForGolangappoperatored c cr)) = Some (Size (cr_Spec cr))"
  using deploymentFor_spec [of c cr] owner by (simp_all add: owner_laws_def)

lemma sized_effect:
  assumes "keyed crs deps s0" and cr: "crs s0 k = Some cr" and d: "deps s0 k = Some found"
    and s: "crs s = crs s0" "deps s = deps s0" "pods s = pods s0"
    and n: "dep_Replicas (dep_Spec found) = Some n" "n \<noteq> Size (cr_Spec cr)"
  shows "\<exists>e s'. Update_Deployment c (with_replicas found (Size (cr_Spec cr))) s = (e, s') \<and>
    pods s' = pods s0 \<and> effect c crs deps pods k s0 s'"
proof -
  let ?d = "with_replicas found (Size (cr_Spec cr))"
  have key: "key_of (dep_Meta ?d) = k" using assms by (simp add: keyed_def)
  then obtain e s' where "Update_Deployment c ?d s = (e, s')" "crs s' = crs s" "pods s' = pods s"
    "e \<noteq> None \<and> deps s' = deps s \<or> deps s' = (deps s)(k \<mapsto> ?d)"
    using update [of s ?d] s d by auto
  with s cr d show ?thesis by (auto intro: effect_none effect_resize)
qed

lemma created_effect:
  assumes "keyed crs deps s0" and cr: "crs s0 k = Some cr" and d: "deps s0 k = None"
    and s: "crs s = crs s0" "deps s = deps s0" "pods s = pods s0"
  shows "\<exists>e s'. Create_Deployment c (deploymentForGolangappoperatored c cr) s = (e, s') \<and>
    pods s' = pods s0 \<and> effect c crs deps pods k s0 s'"
proof -
  let ?d = "deploymentForGolangappoperatored c cr"
  have key: "key_of (dep_Meta ?d) = k" using assms deployment_key [of cr] by (simp add: keyed_def)
  then obtain e s' where "Create_Deployment c ?d s = (e, s')" "crs s' = crs s" "pods s' = pods s"
    "e \<noteq> None \<and> deps s' = deps s \<or> deps s' = (deps s)(k \<mapsto> ?d)"
    using create [of s ?d] s d by auto
  with s cr d show ?thesis by (auto intro: effect_none effect_create)
qed

lemma status_effect:
  assumes "keyed crs deps s0" and cr: "crs s0 k = Some cr"
    and s: "crs s = crs s0" "deps s = deps s0" "pods s = pods s0"
  defines "names \<equiv> getPodNames (pods s0 (nn_Namespace k) (labelsForGolangappoperator (nn_Name k)))"
  shows "\<exists>e s'. Status_Update c (with_nodes cr names) s = (e, s') \<and> pods s' = pods s0 \<and>
    effect c crs deps pods k s0 s' \<and> (e = None \<longrightarrow> crs s' k = Some (with_nodes cr names))"
proof -
  let ?cr = "with_nodes cr names"
  have key: "key_of (cr_Meta ?cr) = k" using assms by (simp add: keyed_def)
  then obtain e s' where "Status_Update c ?cr s = (e, s')" "deps s' = deps s" "pods s' = pods s"
    "e \<noteq> None \<and> crs s' = crs s \<or> crs s' = (crs s)(k \<mapsto> ?cr)"
    using status [of s ?cr cr] s cr by auto
  with s cr show ?thesis by (auto simp: names_def intro: effect_none effect_status)
qed

text \<open>The last part of a reconciliation: the deployment has been found with the right size.\<close>

lemma Reconcile_found:
  assumes keyed: "keyed crs deps s" and key: "crs s k = Some cr"
    "meta_Namespace (cr_Meta cr) = nn_Namespace k" "meta_Name (cr_Meta cr) = nn_Name k"
    and found: "deps s k = Some found"
    and gets: "Get_Golangappoperator c k s = (Inr cr, s1)" "Get_Deployment c k s1 = (Inr found, s2)"
    and views: "crs s2 = crs s" "deps s2 = deps s" "pods s2 = pods s"
    and size: "dep_Replicas (dep_Spec found) = Some (Size (cr_Spec cr))"
  shows "\<exists>out s'. Reconcile c k s = (out, s') \<and> pods s' = pods s \<and> effect c crs deps pods k s s' \<and>
    (out = Ok (empty_result, None) \<longrightarrow> (\<forall>cr. crs s k = Some cr \<longrightarrow> crs s' k \<noteq> crs s k \<or> settled deps pods k cr s'))"
proof -
  let ?ls = "labelsForGolangappoperator (nn_Name k)"
  obtain r3 s3 where 3: "List_Pods c (nn_Namespace k) ?ls s2 = (r3, s3)"
    "crs s3 = crs s" "deps s3 = deps s" "pods s3 = pods s"
    "case r3 of Inl e \<Rightarrow> True | Inr items \<Rightarrow> items = pods s (nn_Namespace k) ?ls"
    using list_pods [of "nn_Namespace k" ?ls s2] unfolding views by blast
  let ?names = "getPodNames (pods s (nn_Namespace k) ?ls)"
  obtain e' s' where u: "Status_Update c (with_nodes cr ?names) s3 = (e', s')" "pods s' = pods s"
    "effect c crs deps pods k s s'" "e' = None \<longrightarrow> crs s' k = Some (with_nodes cr ?names)"
    using status_effect [OF keyed key(1) 3(2-4)] by auto
  show ?thesis
  proof (cases r3)
    case (Inl e)
    then show ?thesis using gets 3 key size by (auto simp: Reconcile_def Let_def intro: effect_none)
  next
    case (Inr items)
    have changed: "crs s' k \<noteq> crs s k" if "e' = None" "?names \<noteq> Nodes (cr_Status cr)"
      using u(4) that key(1) by (auto dest: arg_cong [where f = "\<lambda>cr. Nodes (cr_Status cr)"])
    have "settled deps pods k cr s'" if "?names = Nodes (cr_Status cr)" "deps s' = deps s" "pods s' = pods s" for s'
      using that found size by (simp add: settled_def right_size_def)
    moreover have "Reconcile c k s = (if ?names \<noteq> Nodes (cr_Status cr)
        then (Ok (empty_result, e'), s') else (Ok (empty_result, None), s3))"
      using gets 3(1,5) key size Inr u(1)
      by (simp add: Reconcile_def Let_def split: option.split)
    ultimately show ?thesis using u(2,3) changed 3(2-4) key(1)
      by (cases "?names = Nodes (cr_Status cr)") (auto intro: effect_none)
  qed
qed

lemma Reconcile_effect:
  assumes keyed: "keyed crs deps s"
  shows "\<exists>out s'. Reconcile c k s = (out, s') \<and> pods s' = pods s \<and> effect c crs deps pods k s s' \<and>
    (out = Ok (empty_result, None) \<longrightarrow> (\<forall>cr. crs s k = Some cr \<longrightarrow> crs s' k \<noteq> crs s k \<or> settled deps pods k cr s'))"
proof -
  obtain r s1 where 1: "Get_Golangappoperator c k s = (r, s1)"
    "crs s1 = crs s" "deps s1 = deps s" "pods s1 = pods s"
    "case r of Inl e \<Rightarrow> IsNotFound c e \<longrightarrow> crs s k = None | Inr cr \<Rightarrow> crs s k = Some cr"
    using get_cr [of k s] by blast
  show ?thesis
  proof (cases r)
    case (Inl e)
    then show ?thesis using 1 by (auto simp: Reconcile_def intro: effect_none)
  next
    case cr: (Inr cr)
    have key: "meta_Namespace (cr_Meta cr) = nn_Namespace k" "meta_Name (cr_Meta cr) = nn_Name k" "crs s k = Some cr"
      using 1(5) cr keyed by (simp_all add: keyed_def key_of_def) (metis namespaced_name.simps(1,2))+
    obtain r' s2 where 2: "Get_Deployment c k s1 = (r', s2)"
      "crs s2 = crs s" "deps s2 = deps s" "pods s2 = pods s"
      "case r' of Inl e \<Rightarrow> IsNotFound c e \<longrightarrow> deps s k = None | Inr d \<Rightarrow> deps s k = Some d"
      using get_dep [of k s1] unfolding 1(2-4) by blast
    show ?thesis
    proof (cases r')
      case (Inl e)
      show ?thesis
      proof (cases "IsNotFound c e")
        case True
        with created_effect [OF keyed key(3) _ 2(2-4)] Inl 2 obtain e' s' where
          "Create_Deployment c (deploymentForGolangappoperatored c cr) s2 = (e', s')"
          "pods s' = pods s" "effect c crs deps pods k s s'" by auto
        then show ?thesis using 1 2 cr key Inl True
          by (cases e') (auto simp: Reconcile_def empty_result_def)
      next
        case False
        then show ?thesis using 1 2 cr key Inl by (auto simp: Reconcile_def intro: effect_none)
      qed
    next
      case d: (Inr found)
      then have found: "deps s k = Some found" using 2 by simp
      consider "dep_Replicas (dep_Spec found) = None"
        | n where "dep_Replicas (dep_Spec found) = Some n" "n \<noteq> Size (cr_Spec cr)"
        | "dep_Replicas (dep_Spec found) = Some (Size (cr_Spec cr))" by (cases "dep_Replicas (dep_Spec found)") auto
      then show ?thesis
      proof cases
        case 1
        then show ?thesis using \<open>Get_Golangappoperator c k s = (r, s1)\<close> 2 cr key d
          by (auto simp: Reconcile_def intro: effect_none)
      next
        case size: (2 n)
        from sized_effect [OF keyed key(3) found 2(2-4) size] obtain e' s' where
          "Update_Deployment c (with_replicas found (Size (cr_Spec cr))) s2 = (e', s')"
          "pods s' = pods s" "effect c crs deps pods k s s'" by auto
        then show ?thesis using 1 2 cr key d size
          by (cases e') (auto simp: Reconcile_def Let_def empty_result_def Minute_def)
      next
        case 3
        then show ?thesis using Reconcile_found [OF keyed key(3,1,2) found _ _ 2(2-4)] 1 2 cr d by simp
      qed
    qed
  qed
qed

end


section \<open>The work queue\<close>

text \<open>
  A state of the controller is the cluster with the set of keys that are pending: in the queue, waiting out a delay
  or a back-off, or with a watch event under way. A key stays pending after a reconciliation that returned an
  error, \<^verbatim>\<open>Requeue\<close> or a positive \<^verbatim>\<open>RequeueAfter\<close>, and becomes pending when a watch of the controller notices a
  change, whoever made it. At the start, after a panic, and now and then, all resources become pending.
\<close>

definition asks_again :: "ctrl_result \<times> gotext option \<Rightarrow> bool" where
  "asks_again out = (case out of (res, err) \<Rightarrow> err \<noteq> None \<or> Requeue res \<or> 0 < sint (RequeueAfter res))"

definition all_keys :: "('x, 's) crs_view \<Rightarrow> 's \<Rightarrow> namespaced_name set" where
  "all_keys crs s = {k. crs s k \<noteq> None}"

definition changed :: "('x, 's) crs_view \<Rightarrow> 's \<Rightarrow> 's \<Rightarrow> namespaced_name set" where
  "changed crs s t = {k. crs t k \<noteq> crs s k}"

text \<open>
  What makes keys pending is decided by what \<^verbatim>\<open>SetupWithManager\<close> asks for, \<open>controller_watches\<close>: a change of a resource, if
  the controller is for resources, and a change of its deployment, which has the same key, if it owns deployments.
\<close>

definition for_resources :: bool where
  "for_resources \<longleftrightarrow> For_Kind controller_watches = ''Golangappoperator''"

definition owns_deployments :: bool where
  "owns_deployments \<longleftrightarrow> ''Deployment'' \<in> set (Owns_Kinds controller_watches)"

definition noticed :: "('x, 's) crs_view \<Rightarrow> ('x, 's) deps_view \<Rightarrow> 's \<Rightarrow> 's \<Rightarrow> namespaced_name set" where
  "noticed crs deps s t =
     (if for_resources then changed crs s t else {}) \<union> (if owns_deployments then {k. deps t k \<noteq> deps s k} else {})"

definition listed :: "('x, 's) crs_view \<Rightarrow> 's \<Rightarrow> namespaced_name set" where
  "listed crs s = (if for_resources then all_keys crs s else {})"

lemma watched [simp]:
  "for_resources" "noticed crs deps s t = changed crs s t" "listed crs s = all_keys crs s"
  by (simp_all add: noticed_def listed_def for_resources_def owns_deployments_def controller_watches_def)

inductive work ::
  "('x, 's) client \<Rightarrow> ('x, 's) crs_view \<Rightarrow> ('x, 's) deps_view \<Rightarrow> 's \<times> namespaced_name set \<Rightarrow> 's \<times> namespaced_name set \<Rightarrow> bool"
  for c crs deps where
  work_step: "k \<in> Q \<Longrightarrow> Reconcile c k s = (Ok out, t) \<Longrightarrow>
    work c crs deps (s, Q) (t, (if asks_again out then Q else Q - {k}) \<union> noticed crs deps s t)"

inductive ctrl ::
  "('s \<Rightarrow> 's \<Rightarrow> bool) \<Rightarrow> ('x, 's) client \<Rightarrow> ('x, 's) crs_view \<Rightarrow> ('x, 's) deps_view \<Rightarrow>
   's \<times> namespaced_name set \<Rightarrow> 's \<times> namespaced_name set \<Rightarrow> bool"
  for rest c crs deps where
  ctrl_work: "work c crs deps x y \<Longrightarrow> ctrl rest c crs deps x y"
| ctrl_crash: "k \<in> Q \<Longrightarrow> Reconcile c k s = (Panic, t) \<Longrightarrow> ctrl rest c crs deps (s, Q) (t, listed crs t)"
| ctrl_resync: "ctrl rest c crs deps (s, Q) (s, Q \<union> listed crs s)"
| ctrl_rest: "rest s t \<Longrightarrow> ctrl rest c crs deps (s, Q) (t, Q \<union> noticed crs deps s t)"

text \<open>
  The rest of the cluster edits resources at will, but it stores objects under their keys and
  leaves the deployment of a resource that stays as it is under that key with that replica count.
\<close>

definition calm :: "('x, 's) crs_view \<Rightarrow> ('x, 's) deps_view \<Rightarrow> 's \<Rightarrow> 's \<Rightarrow> bool" where
  "calm crs deps s t \<longleftrightarrow> keyed crs deps t \<and>
     (\<forall>k. crs t k \<noteq> None \<and> crs t k = crs s k \<longrightarrow> sizing deps k t = sizing deps k s)"

text \<open>What is shown to hold in every reachable state; \<open>quiet\<close> says that the pods do not change.\<close>

definition queue_inv ::
  "('x, 's) crs_view \<Rightarrow> ('x, 's) deps_view \<Rightarrow> ('x, 's) pods_view \<Rightarrow> bool \<Rightarrow> 's \<times> namespaced_name set \<Rightarrow> bool" where
  "queue_inv crs deps pods quiet = (\<lambda>(s, Q). keyed crs deps s \<and> (\<forall>k cr. crs s k = Some cr \<longrightarrow> k \<notin> Q \<longrightarrow>
     right_size deps k cr s \<and> (quiet \<longrightarrow> settled deps pods k cr s)))"

lemma not_asks_again:
  assumes "Reconcile c k s = (Ok out, t)" and "\<not> asks_again out"
  shows "out = (empty_result, None)"
proof -
  obtain evs where "protocol c k evs (Ok out)" using Reconcile_protocol [of c k s "[]"] assms(1) by auto
  then show ?thesis using assms(2)
    by (cases rule: protocol.cases) (auto simp: asks_again_def empty_result_def Minute_def)
qed

lemma right_size_sizing:
  "right_size deps k cr s \<longleftrightarrow> (\<exists>key. sizing deps k s = Some (key, Some (Size (cr_Spec cr))))"
  by (auto simp: right_size_def sizing_def)

lemma effect_others:
  assumes "effect c crs deps pods k s t" and "j \<noteq> k"
  shows "crs t j = crs s j" and "deps t j = deps s j"
  using assms by (auto elim!: effect.cases)

context api_server
begin

lemma effect_keyed:
  assumes "effect c crs deps pods k s t" and "keyed crs deps s"
  shows "keyed crs deps t"
  using assms(1)
proof cases
  case effect_none
  with assms(2) show ?thesis by (simp add: keyed_def)
next
  case (effect_create cr)
  with assms(2) deployment_key [of cr] show ?thesis by (simp add: keyed_def)
next
  case (effect_resize cr d)
  with assms(2) show ?thesis by (simp add: keyed_def)
next
  case (effect_status cr)
  with assms(2) show ?thesis by (simp add: keyed_def)
qed

lemma inv_work: "work c crs deps x y \<Longrightarrow> queue_inv crs deps pods quiet x \<Longrightarrow> queue_inv crs deps pods quiet y"
proof (induction rule: work.induct)
  case (work_step k Q s out t)
  then have keyed: "keyed crs deps s" by (simp add: queue_inv_def)
  from Reconcile_effect [OF keyed, of k] work_step(2) have e: "pods t = pods s" "effect c crs deps pods k s t"
    and ok: "out = (empty_result, None) \<Longrightarrow> crs s k = Some cr \<Longrightarrow> crs t k \<noteq> crs s k \<or> settled deps pods k cr t" for cr
    by auto
  have "right_size deps j cr t \<and> (quiet \<longrightarrow> settled deps pods j cr t)"
    if j: "crs t j = Some cr" "j \<notin> (if asks_again out then Q else Q - {k}) \<union> changed crs s t" for j cr
  proof (cases "j = k")
    case True
    with j work_step(1) have "\<not> asks_again out" "crs t k = crs s k"
      by (auto simp: changed_def split: if_splits)
    with ok not_asks_again [OF work_step(2)] j True show ?thesis by (auto simp: settled_def)
  next
    case False
    note others = effect_others [OF e(2) False]
    from False j have "crs s j = Some cr" "j \<notin> Q" by (auto simp: others split: if_splits)
    with work_step(3) show ?thesis by (auto simp: queue_inv_def right_size_def settled_def others e(1))
  qed
  with effect_keyed [OF e(2) keyed] show ?case by (simp add: queue_inv_def)
qed

lemma inv_ctrl:
  assumes "ctrl rest c crs deps x y" and "\<And>s t. rest s t \<Longrightarrow> calm crs deps s t"
    and "\<And>s t. quiet \<Longrightarrow> rest s t \<Longrightarrow> pods t = pods s" and "queue_inv crs deps pods quiet x"
  shows "queue_inv crs deps pods quiet y"
  using assms(1)
proof cases
  case ctrl_work
  with inv_work assms(4) show ?thesis by blast
next
  case (ctrl_crash k Q s t)
  with assms(4) have keyed: "keyed crs deps s" by (simp add: queue_inv_def)
  with Reconcile_effect [OF keyed, of k] effect_keyed ctrl_crash show ?thesis by (auto simp: queue_inv_def all_keys_def)
next
  case (ctrl_resync s Q)
  with assms(4) show ?thesis by (auto simp: queue_inv_def)
next
  case (ctrl_rest s t Q)
  with assms(2)[of s t] assms(3)[of s t] assms(4) show ?thesis
    by (auto simp: queue_inv_def changed_def calm_def settled_def right_size_sizing)
qed

lemma inv_reachable:
  assumes "(ctrl rest c crs deps)\<^sup>*\<^sup>* x y" and "\<And>s t. rest s t \<Longrightarrow> calm crs deps s t"
    and "\<And>s t. quiet \<Longrightarrow> rest s t \<Longrightarrow> pods t = pods s" and "queue_inv crs deps pods quiet x"
  shows "queue_inv crs deps pods quiet y"
  using assms(1,4) by (induction rule: rtranclp_induct) (auto intro: inv_ctrl [OF _ assms(2,3)])

end

section \<open>How much work there is\<close>

text \<open>
  On a server that works, a pending key needs at most three reconciliations: one to create or resize the
  deployment, one to write the status, and one to find nothing to do. The weight of a key is the
  number of reconciliations it may still need.
\<close>

definition weight ::
  "('x, 's) crs_view \<Rightarrow> ('x, 's) deps_view \<Rightarrow> ('x, 's) pods_view \<Rightarrow> 's \<Rightarrow> namespaced_name \<Rightarrow> nat" where
  "weight crs deps pods s k = (case crs s k of None \<Rightarrow> 1
     | Some cr \<Rightarrow> if settled deps pods k cr s then 1 else if right_size deps k cr s then 2 else 3)"

lemma weight_pos: "0 < weight crs deps pods s k" and weight_le: "weight crs deps pods s k \<le> 3"
  by (auto simp: weight_def split: option.split)

text \<open>\<open>workable\<close>: what is stored is under its key, deployments have a replica count, and no key is stuck.\<close>

definition workable :: "('x, 's) crs_view \<Rightarrow> ('x, 's) deps_view \<Rightarrow> ('x, 's) pods_view \<Rightarrow> 's \<Rightarrow> bool" where
  "workable crs deps pods s \<longleftrightarrow> keyed crs deps s \<and> (\<forall>k d. deps s k = Some d \<longrightarrow> dep_Replicas (dep_Spec d) \<noteq> None) \<and>
     (\<forall>k. \<not> stuck crs pods k s)"

lemma workable_tracked: "workable crs deps pods s \<Longrightarrow> crs s k = Some cr \<Longrightarrow> tracked crs deps k (cr_Spec cr) s"
  by (auto simp: workable_def keyed_def tracked_def)

lemma sized_iff: "crs s k = Some cr \<Longrightarrow>
    sized crs deps k spec s \<longleftrightarrow> tracked crs deps k spec s \<and> right_size deps k cr s"
  by (auto simp: sized_def right_size_def tracked_def)

lemma reported_iff: "crs s k = Some cr \<Longrightarrow>
    reported crs deps pods k spec s \<longleftrightarrow> tracked crs deps k spec s \<and> settled deps pods k cr s"
  by (auto simp: reported_def sized_iff settled_def)

context cluster
begin

lemma workable_effect:
  assumes "effect c crs deps pods k s t" and "pods t = pods s" and w: "workable crs deps pods s"
  shows "workable crs deps pods t"
proof -
  have "keyed crs deps t" using effect_keyed [OF assms(1)] w by (simp add: workable_def)
  moreover have "\<not> stuck crs pods j t" for j
    using assms by (auto simp: workable_def stuck_def getPodNames_eq elim!: effect.cases split: if_splits)
  moreover have "dep_Replicas (dep_Spec d) \<noteq> None" if "deps t j = Some d" for j d
    using assms(1) w that by (auto simp: workable_def deployment_size elim!: effect.cases split: if_splits)
  ultimately show ?thesis by (simp add: workable_def)
qed

lemma work_key:
  assumes w: "workable crs deps pods s"
  shows "\<exists>out t. Reconcile c k s = (Ok out, t) \<and>
    (asks_again out \<or> crs t k \<noteq> crs s k \<longrightarrow> weight crs deps pods t k < weight crs deps pods s k)"
proof (cases "crs s k")
  case None
  obtain e where "IsNotFound c e" "\<forall>k s. Get_Golangappoperator c k s = (answer e (crs s k), s)"
    using reads [OF laws] by blast
  with None show ?thesis by (simp add: Reconcile_def answer_def asks_again_def empty_result_def)
next
  case (Some cr)
  note t = workable_tracked [OF w Some]
  consider "reported crs deps pods k (cr_Spec cr) s"
    | "sized crs deps k (cr_Spec cr) s" "\<not> reported crs deps pods k (cr_Spec cr) s"
    | "\<not> sized crs deps k (cr_Spec cr) s" by (auto simp: reported_def)
  then show ?thesis
  proof cases
    case 1
    with reported_stays [OF laws] show ?thesis by (simp add: asks_again_def empty_result_def)
  next
    case 2
    have "\<not> stuck crs pods k s" using w by (simp add: workable_def)
    with sized_step [OF laws 2(1)] obtain u where u: "Reconcile c k s = (Ok (empty_result, None), u)"
      "reported crs deps pods k (cr_Spec cr) u" by auto
    then obtain cr' where "crs u k = Some cr'" by (auto simp: reported_def sized_def tracked_def)
    with u(2) have "weight crs deps pods u k = 1" by (simp add: reported_iff weight_def)
    moreover from 2 t have "weight crs deps pods s k = 2"
      by (simp add: reported_iff sized_iff weight_def Some)
    ultimately show ?thesis using u(1) by simp
  next
    case 3
    with tracked_step [OF laws t] obtain out u where u: "Reconcile c k s = (Ok out, u)"
      "sized crs deps k (cr_Spec cr) u" by auto
    then obtain cr' where "crs u k = Some cr'" by (auto simp: sized_def tracked_def)
    with u(2) have "weight crs deps pods u k \<le> 2" by (simp add: sized_iff weight_def)
    moreover from 3 t have "weight crs deps pods s k = 3"
      by (simp add: sized_iff weight_def Some settled_def)
    ultimately show ?thesis using u(1) by simp
  qed
qed

lemma work_progress: "workable crs deps pods s \<Longrightarrow> Q \<noteq> {} \<Longrightarrow> \<exists>y. work c crs deps (s, Q) y"
  using work_key work.work_step by (metis ex_in_conv)

lemma work_decreases:
  assumes "work c crs deps (s, Q) (t, P)" and w: "workable crs deps pods s" and fin: "finite Q"
  shows "workable crs deps pods t \<and> P \<subseteq> Q \<and> sum (weight crs deps pods t) P < sum (weight crs deps pods s) Q"
  using assms(1)
proof cases
  case (work_step k out)
  from w have keyed: "keyed crs deps s" by (simp add: workable_def)
  from Reconcile_effect [OF keyed, of k] work_step have e: "pods t = pods s" "effect c crs deps pods k s t" by auto
  note others = effect_others [OF e(2)]
  have same: "weight crs deps pods t j = weight crs deps pods s j" if "j \<noteq> k" for j
    using others [OF that] e(1) by (cases "crs s j") (simp_all add: weight_def settled_def right_size_def)
  have sub: "changed crs s t \<subseteq> {k}" using others(1) by (auto simp: changed_def)
  have "P \<subseteq> Q" using sub work_step(1,2) by (auto split: if_splits)
  moreover have "sum (weight crs deps pods t) P < sum (weight crs deps pods s) Q"
  proof -
    have rest: "sum (weight crs deps pods t) (Q - {k}) = sum (weight crs deps pods s) (Q - {k})"
      by (rule sum.cong) (auto simp: same)
    have Q: "sum f Q = f k + sum f (Q - {k})" for f :: "namespaced_name \<Rightarrow> nat"
      by (rule sum.remove [OF fin work_step(2)])
    show ?thesis
    proof (cases "asks_again out \<or> crs t k \<noteq> crs s k")
      case True
      then have "P = Q" using sub work_step(1,2) by (auto simp: changed_def split: if_splits)
      moreover have "weight crs deps pods t k < weight crs deps pods s k"
        using work_key [OF w, of k] True work_step(3) by auto
      ultimately show ?thesis by (simp add: Q rest)
    next
      case False
      then have "P = Q - {k}" using sub work_step(1,2) by (auto simp: changed_def)
      then show ?thesis using weight_pos [of crs deps pods s k] by (simp add: Q rest)
    qed
  qed
  ultimately show ?thesis using workable_effect [OF e(2,1) w] by blast
qed

lemma work_bound:
  assumes "(work c crs deps ^^ n) (s, Q) (t, P)" and "workable crs deps pods s" and "finite Q"
  shows "workable crs deps pods t \<and> P \<subseteq> Q \<and> n + sum (weight crs deps pods t) P \<le> sum (weight crs deps pods s) Q"
  using assms(1)
proof (induction n arbitrary: t P)
  case 0
  with assms(2) show ?case by auto
next
  case (Suc n)
  then obtain u R where "(work c crs deps ^^ n) (s, Q) (u, R)" "work c crs deps (u, R) (t, P)" by auto
  with Suc.IH [of u R] work_decreases [of u R t P] finite_subset [OF _ assms(3)] show ?case by fastforce
qed

text \<open>Keys that are not pending do not matter to the work on the others, so they may be taken to be pending.\<close>

lemma work_frame: "work c crs deps (s, Q) (t, P) \<Longrightarrow> Q \<inter> R = {} \<Longrightarrow> work c crs deps (s, Q \<union> R) (t, P \<union> R)"
proof (erule work.cases, goal_cases)
  case (1 k Q' s' out t')
  then have "P \<union> R = (if asks_again out then Q \<union> R else (Q \<union> R) - {k}) \<union> changed crs s t" by auto
  then show ?case using 1 work.work_step [of k "Q \<union> R" c s out t crs deps] by simp
qed

lemma works_frame:
  assumes "(work c crs deps ^^ n) (s, Q) (t, P)" and "workable crs deps pods s" and "finite Q" and "Q \<inter> R = {}"
  shows "(work c crs deps ^^ n) (s, Q \<union> R) (t, P \<union> R)"
  using assms(1)
proof (induction n arbitrary: t P)
  case (Suc n)
  then obtain u S where u: "(work c crs deps ^^ n) (s, Q) (u, S)" "work c crs deps (u, S) (t, P)" by auto
  with work_bound [OF u(1) assms(2,3)] assms(4) have "S \<inter> R = {}" by blast
  with Suc.IH [OF u(1)] work_frame [OF u(2)] show ?case by auto
qed auto

lemma worked_settled:
  assumes "(work c crs deps ^^ n) (s, Q) (t, P)" and w: "workable crs deps pods s" and "finite Q"
    and "k \<in> Q" "k \<notin> P" "crs t k = Some cr"
  shows "settled deps pods k cr t"
proof -
  have "(work c crs deps ^^ n) (s, Q \<union> - Q) (t, P \<union> - Q)" by (rule works_frame [OF assms(1-3)]) simp
  then have "(work c crs deps)\<^sup>*\<^sup>* (s, Q \<union> - Q) (t, P \<union> - Q)" by (rule relpowp_imp_rtranclp)
  then have "queue_inv crs deps pods True (t, P \<union> - Q)"
  proof (induction rule: rtranclp_induct)
    case base
    with w show ?case by (simp add: queue_inv_def workable_def)
  next
    case (step y z)
    with inv_work show ?case by blast
  qed
  with assms(4-6) show ?thesis by (auto simp: queue_inv_def)
qed

end

section \<open>The servers of the witnesses\<close>

interpretation store: cluster store_client st_crs st_deps store_list
  by unfold_locales (rule store_client_laws)

interpretation flaky_store: api_server "flaky store_client" "st_crs \<circ> fst" "st_deps \<circ> fst" "store_list \<circ> fst"
  by (rule store.flaky_server) (simp add: store_client_def timeout_def)

definition created_store :: "nat store" where
  "created_store = sample_store\<lparr>st_deps := [sample_key \<mapsto> deploymentForGolangappoperatored store_client sample_cr]\<rparr>"

lemma sample_keyed: "keyed st_crs st_deps sample_store" "all_keys st_crs sample_store = {sample_key}"
  by (auto simp: keyed_def all_keys_def sample_store_def sample_cr_def key_of_def zero_meta_def)

lemma store_sel:
  "IsNotFound store_client e \<longleftrightarrow> e = [Lit ''not found'']"
  "Get_Golangappoperator store_client k s = (answer [Lit ''not found''] (st_crs s k), s)"
  "Get_Deployment store_client k s = (answer [Lit ''not found''] (st_deps s k), s)"
  "List_Pods store_client ns ls s = (Inr (store_list s ns ls), s)"
  "st_deps s (key_of (dep_Meta d)) = None \<Longrightarrow>
     Create_Deployment store_client d s = (None, s\<lparr>st_deps := (st_deps s)(key_of (dep_Meta d) \<mapsto> d)\<rparr>)"
  by (simp_all add: store_client_def)

lemma flaky_sel:
  "IsNotFound (flaky c) = IsNotFound c"
  "Get_Golangappoperator (flaky c) k = flaky_call Inl (Get_Golangappoperator c k)"
  "Get_Deployment (flaky c) k = flaky_call Inl (Get_Deployment c k)"
  "Create_Deployment (flaky c) d = flaky_call Some (Create_Deployment c d)"
  "List_Pods (flaky c) ns ls = flaky_call Inl (List_Pods c ns ls)"
  "deploymentForGolangappoperatored (flaky c) cr = deploymentForGolangappoperatored c cr"
  by (simp_all add: flaky_def deploymentForGolangappoperatored_def)

lemma sample_deployment:
  "key_of (dep_Meta (deploymentForGolangappoperatored store_client sample_cr)) = sample_key"
  "dep_Replicas (dep_Spec (deploymentForGolangappoperatored store_client sample_cr)) = Some (Size (cr_Spec sample_cr))"
proof -
  have "key_of (cr_Meta sample_cr) = sample_key" by (simp add: sample_cr_def key_of_def zero_meta_def)
  then show "key_of (dep_Meta (deploymentForGolangappoperatored store_client sample_cr)) = sample_key"
    by (simp add: store.deployment_key)
  show "dep_Replicas (dep_Spec (deploymentForGolangappoperatored store_client sample_cr)) = Some (Size (cr_Spec sample_cr))"
    by (rule store.deployment_size)
qed

lemma sample_cr_sel:
  "meta_Namespace (cr_Meta sample_cr) = ''apps''" "meta_Name (cr_Meta sample_cr) = ''app''"
  "Nodes (cr_Status sample_cr) = None"
  by (simp_all add: sample_cr_def zero_meta_def)

lemmas eval_store = Reconcile_def store_sel flaky_sel flaky_call_def sample_deployment sample_cr_sel answer_def
  timeout_def store_list_def getPodNames_eq created_store_def sample_store_def

lemma store_creates:
  "Reconcile store_client sample_key sample_store = (Ok (empty_result\<lparr>Requeue := True\<rparr>, None), created_store)"
  "Reconcile (flaky store_client) sample_key (sample_store, [Fine, Fine, Answer_lost]) =
     (Ok (empty_result, Some timeout), created_store, [])"
  by (simp_all add: eval_store)

lemma store_finds:
  "Reconcile store_client sample_key created_store = (Ok (empty_result, None), created_store)"
  "Reconcile (flaky store_client) sample_key (created_store, []) = (Ok (empty_result, None), created_store, [])"
  by (simp_all add: eval_store)

section \<open>Properties\<close>

text \<open>
  C13: isolation. Reconciling \<open>k\<close>, with an API server that may fail, changes nothing that belongs to another
  resource and no pod. Of its own resource it changes the status only, of a deployment that
  is there the replica count only, and if the resource is gone it changes nothing at all.
\<close>

theorem Reconcile_isolated:
  assumes "api_server c crs deps pods" and "keyed crs deps s" and "Reconcile c k s = (out, t)"
  shows "(\<forall>j. j \<noteq> k \<longrightarrow> crs t j = crs s j \<and> deps t j = deps s j) \<and> pods t = pods s \<and>
    (\<forall>cr. crs s k = Some cr \<longrightarrow> (\<exists>names. crs t k = Some (cr\<lparr>cr_Status := (cr_Status cr)\<lparr>Nodes := names\<rparr>\<rparr>))) \<and>
    (\<forall>d. deps s k = Some d \<longrightarrow> (\<exists>n. deps t k = Some (d\<lparr>dep_Spec := (dep_Spec d)\<lparr>dep_Replicas := n\<rparr>\<rparr>))) \<and>
    (crs s k = None \<longrightarrow> crs t = crs s \<and> deps t = deps s)"
proof -
  from api_server.Reconcile_effect [OF assms(1,2), of k] assms(3)
  have e: "effect c crs deps pods k s t" and "pods t = pods s" by auto
  moreover have "\<exists>names. with_nodes cr names = cr" for cr :: "'a golangappoperator"
    by (rule exI [of _ "Nodes (cr_Status cr)"]) simp
  moreover have "\<exists>n. d\<lparr>dep_Spec := (dep_Spec d)\<lparr>dep_Replicas := n\<rparr>\<rparr> = d" for d :: "'a deployment"
    by (rule exI [of _ "dep_Replicas (dep_Spec d)"]) simp
  ultimately show ?thesis by (cases rule: effect.cases) (auto, (metis option.inject)+)
qed

theorem Reconcile_isolated_witness:
  "\<exists>names. st_crs created_store sample_key = Some (sample_cr\<lparr>cr_Status := (cr_Status sample_cr)\<lparr>Nodes := names\<rparr>\<rparr>)"
  using Reconcile_isolated [OF flaky_store.api_server_axioms _ store_creates(2)] sample_keyed(1)
  by (simp add: keyed_def sample_store_def)

text \<open>
  C4: a resource that is not pending is right, for a client whose reads say what the server has. Whatever users do to the resources, in whatever order keys are
  reconciled, and although calls fail and answers get lost, as long as nobody else resizes or removes the deployment of a
  resource: in every state that the controller reaches from its
  start, each resource that is not pending has a deployment of the size it asks for. If the pods do not
  change either, its status lists them.
\<close>

theorem controller_invariant:
  assumes "api_server c crs deps pods" and "keyed crs deps s"
    and "\<And>s t. rest s t \<Longrightarrow> calm crs deps s t"
    and "(ctrl rest c crs deps)\<^sup>*\<^sup>* (s, all_keys crs s) (t, Q)"
    and "crs t k = Some cr" and "k \<notin> Q"
  shows "(\<exists>d. deps t k = Some d \<and> dep_Replicas (dep_Spec d) = Some (Size (cr_Spec cr))) \<and>
    ((\<forall>s t. rest s t \<longrightarrow> pods t = pods s) \<longrightarrow>
       Nodes (cr_Status cr) = getPodNames (pods t (nn_Namespace k) (labelsForGolangappoperator (nn_Name k))))"
proof -
  have start: "queue_inv crs deps pods quiet (s, all_keys crs s)" for quiet
    using assms(2) by (simp add: queue_inv_def all_keys_def)
  note inv = api_server.inv_reachable [OF assms(1,4,3) _ start, unfolded queue_inv_def]
  from inv [of False] assms(5,6) have "right_size deps k cr t" by auto
  moreover from inv [of True] assms(5,6) have "(\<forall>s t. rest s t \<longrightarrow> pods t = pods s) \<longrightarrow> settled deps pods k cr t" by auto
  ultimately show ?thesis by (simp add: right_size_def settled_def)
qed

lemma store_changes:
  "changed (st_crs \<circ> fst) (s, fs) (t, gs) = changed st_crs s t" "changed st_crs s s = {}"
  "changed st_crs sample_store created_store = {}" "all_keys (st_crs \<circ> fst) (s, fs) = all_keys st_crs s"
  by (simp_all add: changed_def created_store_def all_keys_def)

lemma flaky_works:
  "work (flaky store_client) (st_crs \<circ> fst) (st_deps \<circ> fst) ((sample_store, [Fine, Fine, Answer_lost]), {sample_key})
     ((created_store, []), {sample_key})"
  "work (flaky store_client) (st_crs \<circ> fst) (st_deps \<circ> fst) ((created_store, []), {sample_key}) ((created_store, []), {})"
  using work_step [OF _ store_creates(2), of "{sample_key}" "st_crs \<circ> fst" "st_deps \<circ> fst"]
    work_step [OF _ store_finds(2), of "{sample_key}" "st_crs \<circ> fst" "st_deps \<circ> fst"]
  by (simp_all add: asks_again_def empty_result_def store_changes)

lemma flaky_run:
  "(ctrl rest (flaky store_client) (st_crs \<circ> fst) (st_deps \<circ> fst))\<^sup>*\<^sup>*
     ((sample_store, [Fine, Fine, Answer_lost]), all_keys (st_crs \<circ> fst) (sample_store, [Fine, Fine, Answer_lost]))
     ((created_store, []), {})"
  unfolding store_changes sample_keyed using flaky_works [THEN ctrl_work]
  by (meson converse_rtranclp_into_rtranclp rtranclp.rtrancl_refl)

theorem controller_invariant_witness:
  "\<exists>d. st_deps created_store sample_key = Some d \<and> dep_Replicas (dep_Spec d) = Some (Size (cr_Spec sample_cr))"
  using controller_invariant [OF flaky_store.api_server_axioms, where k = sample_key and cr = sample_cr and
      rest = "calm (st_crs \<circ> fst) (st_deps \<circ> fst)" and s = "(sample_store, [Fine, Fine, Answer_lost])" and
      t = "(created_store, [])" and Q = "{}", OF _ _ flaky_run] sample_keyed(1)
  by (simp add: keyed_def created_store_def sample_store_def)




lemma sample_workable: "workable st_crs st_deps store_list sample_store"
  using sample_keyed(1) by (auto simp: workable_def stuck_def sample_store_def sample_cr_sel)


text \<open>
  C34: what the controller does not notice. It watches its resources but neither the deployments it creates nor their pods. Whatever
  others do to these, as long as the resources stay as they are, a controller with nothing pending still has nothing pending
  afterwards, and nothing but listing all the resources again gives it work; although, if the deployment of a resource is gone or
  resized, one reconciliation would give it the size asked for, and if only the pods are others, one would list them in
  the status. The server works, deployments have a replica count and no resource is stuck.
\<close>

theorem changes_unnoticed:
  assumes "cluster_laws c crs deps pods" and "\<And>s t. rest s t \<Longrightarrow> crs t = crs s" and "rest\<^sup>*\<^sup>* s t"
  shows "(ctrl rest c crs deps)\<^sup>*\<^sup>* (s, {}) (t, {}) \<and>
    (\<forall>u Q. ctrl rest c crs deps (t, {}) (u, Q) \<longrightarrow> Q = {} \<or> u = t \<and> Q = all_keys crs t) \<and>
    (\<forall>k cr. workable crs deps pods t \<and> crs t k = Some cr \<and> \<not> settled deps pods k cr t \<longrightarrow>
       (\<exists>out u cr'. Reconcile c k t = (Ok out, u) \<and> crs u k = Some cr' \<and> cr_Spec cr' = cr_Spec cr \<and>
          right_size deps k cr' u \<and> (right_size deps k cr t \<longrightarrow> settled deps pods k cr' u)))"
proof (intro conjI allI impI)
  show "(ctrl rest c crs deps)\<^sup>*\<^sup>* (s, {}) (t, {})"
    using assms(3)
  proof (induction rule: rtranclp_induct)
    case (step t u)
    from ctrl_rest [where rest = rest and s = t and t = u and c = c and crs = crs and deps = deps and Q = "{}", OF step(2)]
      assms(2) [OF step(2)]
    have "ctrl rest c crs deps (t, {}) (u, {})" by (simp add: changed_def)
    with step(3) show ?case by (rule rtranclp.rtrancl_into_rtrancl)
  qed simp
next
  fix u Q
  assume "ctrl rest c crs deps (t, {}) (u, Q)"
  then show "Q = {} \<or> u = t \<and> Q = all_keys crs t"
    by cases (auto simp: changed_def dest: assms(2) elim: work.cases)
next
  fix k cr
  assume k: "workable crs deps pods t \<and> crs t k = Some cr \<and> \<not> settled deps pods k cr t"
  then have w: "\<not> stuck crs pods k t" by (simp add: workable_def)
  from k have t: "tracked crs deps k (cr_Spec cr) t" using workable_tracked [of crs deps pods t k cr] by simp
  have found: "\<exists>cr'. crs u k = Some cr' \<and> cr_Spec cr' = cr_Spec cr \<and> right_size deps k cr' u"
    if "sized crs deps k (cr_Spec cr) u" for u
    using that by (auto simp: sized_def tracked_def right_size_def)
  show "\<exists>out u cr'. Reconcile c k t = (Ok out, u) \<and> crs u k = Some cr' \<and> cr_Spec cr' = cr_Spec cr \<and>
      right_size deps k cr' u \<and> (right_size deps k cr t \<longrightarrow> settled deps pods k cr' u)"
  proof (cases "right_size deps k cr t")
    case True
    with k t have sized: "sized crs deps k (cr_Spec cr) t" by (simp add: sized_iff)
    from sized_step [OF assms(1) sized] w obtain u where u: "Reconcile c k t = (Ok (empty_result, None), u)"
      and r: "reported crs deps pods k (cr_Spec cr) u" by auto
    from r have "sized crs deps k (cr_Spec cr) u" by (simp add: reported_def)
    from found [OF this] obtain cr' where "crs u k = Some cr'" "cr_Spec cr' = cr_Spec cr" "right_size deps k cr' u" by blast
    with u r show ?thesis by (auto simp: reported_iff)
  next
    case False
    from tracked_step [OF assms(1) t] obtain out u where u: "Reconcile c k t = (Ok out, u)" "sized crs deps k (cr_Spec cr) u" by auto
    with found [OF u(2)] False show ?thesis by blast
  qed
qed

text \<open>Somebody deletes the deployment of the sample.\<close>

theorem changes_unnoticed_witness:
  "(ctrl (\<lambda>s t. st_crs t = st_crs s) store_client st_crs st_deps)\<^sup>*\<^sup>* (created_store, {}) (sample_store, {}) \<and>
   st_deps sample_store sample_key = None \<and>
   (\<exists>d. st_deps (snd (Reconcile store_client sample_key sample_store)) sample_key = Some d \<and>
      dep_Replicas (dep_Spec d) = Some (Size (cr_Spec sample_cr)))"
proof -
  let ?rest = "\<lambda>s t. st_crs t = st_crs s"
  have "?rest created_store sample_store" by (simp add: created_store_def)
  then have steps: "?rest\<^sup>*\<^sup>* created_store sample_store" by (rule r_into_rtranclp)
  note u = changes_unnoticed [where rest = ?rest, OF store_client_laws _ steps]
  have run: "(ctrl ?rest store_client st_crs st_deps)\<^sup>*\<^sup>* (created_store, {}) (sample_store, {})"
    by (rule u [THEN conjunct1])
  have s: "st_deps sample_store sample_key = None" "st_crs sample_store sample_key = Some sample_cr"
    by (simp_all add: sample_store_def)
  then have "\<not> settled st_deps store_list sample_key sample_cr sample_store"
    by (simp add: settled_def right_size_def)
  with u [THEN conjunct2, THEN conjunct2] sample_workable s(2) obtain out v cr' where
    "Reconcile store_client sample_key sample_store = (Ok out, v)" "cr_Spec cr' = cr_Spec sample_cr"
    "right_size st_deps sample_key cr' v" by meson
  then have "\<exists>d. st_deps (snd (Reconcile store_client sample_key sample_store)) sample_key = Some d \<and>
      dep_Replicas (dep_Spec d) = Some (Size (cr_Spec sample_cr))" by (simp add: right_size_def)
  with run s(1) show ?thesis by simp
qed

end
