(* ===== verification/Controller_Cache.thy ===== *)
theory Controller_Cache
  imports Controller
begin

text \<open>
  The controller behind a cache. The \<^verbatim>\<open>client.Client\<close> that \<^verbatim>\<open>main.go\<close> of the operator gives the reconciler,
  \<^verbatim>\<open>mgr.GetClient()\<close>, answers \<^verbatim>\<open>Get\<close> and \<^verbatim>\<open>List\<close> from a cache that follows the API server by watches, and sends writes
  to the server. So \<^verbatim>\<open>Reconcile\<close> of \<^verbatim>\<open>golangappoperator_controller.go\<close> may act on what is no longer so. The
  documented behaviour of such a client is the locale \<open>cached_server\<close>; the queue has its timers and the
  watch events that are still to come, one by one, which \<open>Controller\<close> puts into one set.
\<close>

section \<open>A client that reads from a cache\<close>

text \<open>
  Reads say what the cache holds. A write that was made has met an object that is as the cache had it: the
  server refuses to create what exists and, by the version in the metadata, to overwrite what has changed.
\<close>

locale cached_server =
  fixes c :: "('x, 's) client" and crs :: "('x, 's) crs_view" and deps :: "('x, 's) deps_view"
    and seen_crs :: "('x, 's) crs_view" and seen_deps :: "('x, 's) deps_view" and seen_pods :: "('x, 's) pods_view"
  assumes get_cr: "\<exists>r. Get_Golangappoperator c k s = (r, s) \<and>
      (case r of Inl e \<Rightarrow> IsNotFound c e \<longrightarrow> seen_crs s k = None | Inr cr \<Rightarrow> seen_crs s k = Some cr)"
    and get_dep: "\<exists>r. Get_Deployment c k s = (r, s) \<and>
      (case r of Inl e \<Rightarrow> IsNotFound c e \<longrightarrow> seen_deps s k = None | Inr d \<Rightarrow> seen_deps s k = Some d)"
    and list_pods: "\<exists>r. List_Pods c ns ls s = (r, s) \<and>
      (case r of Inl e \<Rightarrow> True | Inr items \<Rightarrow> items = seen_pods s ns ls)"
    and create: "\<exists>e s'. Create_Deployment c d s = (e, s') \<and>
      crs s' = crs s \<and> seen_crs s' = seen_crs s \<and> seen_deps s' = seen_deps s \<and>
      (e \<noteq> None \<and> deps s' = deps s \<or>
       deps s (key_of (dep_Meta d)) = None \<and> deps s' = (deps s)(key_of (dep_Meta d) \<mapsto> d))"
    and update: "\<exists>e s'. Update_Deployment c d s = (e, s') \<and>
      crs s' = crs s \<and> seen_crs s' = seen_crs s \<and> seen_deps s' = seen_deps s \<and>
      (e \<noteq> None \<and> deps s' = deps s \<or>
       deps s (key_of (dep_Meta d)) \<noteq> None \<and> seen_deps s (key_of (dep_Meta d)) = deps s (key_of (dep_Meta d)) \<and>
       deps s' = (deps s)(key_of (dep_Meta d) \<mapsto> d))"
    and status: "\<exists>e s'. Status_Update c cr s = (e, s') \<and>
      deps s' = deps s \<and> seen_crs s' = seen_crs s \<and> seen_deps s' = seen_deps s \<and>
      (e \<noteq> None \<and> crs s' = crs s \<or>
       (\<exists>cr0. crs s (key_of (cr_Meta cr)) = Some cr0 \<and> seen_crs s (key_of (cr_Meta cr)) = Some cr0 \<and>
          crs s' = (crs s)(key_of (cr_Meta cr) \<mapsto> cr0\<lparr>cr_Status := cr_Status cr\<rparr>)))"
    and owner: "owner_laws c"

text \<open>
  The effects that a reconciliation of \<open>k\<close> can have, with what it has seen: \<open>seen_crs\<close>, \<open>seen_deps\<close> and \<open>seen_pods\<close>
  at \<open>k\<close> are \<open>cr\<close>, \<open>d\<close> and \<open>items\<close>.
\<close>

inductive seen_effect ::
  "('x, 's) client \<Rightarrow> ('x, 's) crs_view \<Rightarrow> ('x, 's) deps_view \<Rightarrow> ('x, 's) crs_view \<Rightarrow> ('x, 's) deps_view \<Rightarrow>
   ('x, 's) pods_view \<Rightarrow> namespaced_name \<Rightarrow> 's \<Rightarrow> 's \<Rightarrow> bool"
  for c crs deps seen_crs seen_deps seen_pods k s s' where
  seen_none: "crs s' = crs s \<Longrightarrow> deps s' = deps s \<Longrightarrow>
    seen_effect c crs deps seen_crs seen_deps seen_pods k s s'"
| seen_create: "seen_crs s k = Some cr \<Longrightarrow> deps s k = None \<Longrightarrow> crs s' = crs s \<Longrightarrow>
    deps s' = (deps s)(k \<mapsto> deploymentForGolangappoperatored c cr) \<Longrightarrow>
    seen_effect c crs deps seen_crs seen_deps seen_pods k s s'"
| seen_resize: "seen_crs s k = Some cr \<Longrightarrow> deps s k = Some d \<Longrightarrow> seen_deps s k = Some d \<Longrightarrow> crs s' = crs s \<Longrightarrow>
    deps s' = (deps s)(k \<mapsto> with_replicas d (Size (cr_Spec cr))) \<Longrightarrow>
    seen_effect c crs deps seen_crs seen_deps seen_pods k s s'"
| seen_status: "crs s k = Some cr \<Longrightarrow> seen_crs s k = Some cr \<Longrightarrow> deps s' = deps s \<Longrightarrow>
    crs s' = (crs s)(k \<mapsto> with_nodes cr
      (getPodNames (seen_pods s (nn_Namespace k) (labelsForGolangappoperator (nn_Name k))))) \<Longrightarrow>
    seen_effect c crs deps seen_crs seen_deps seen_pods k s s'"

context cached_server
begin

abbreviation seen_change :: "namespaced_name \<Rightarrow> 's \<Rightarrow> 's \<Rightarrow> bool" where
  "seen_change \<equiv> seen_effect c crs deps seen_crs seen_deps seen_pods"

lemma deployment_key: "key_of (dep_Meta (deploymentForGolangappoperatored c cr)) = key_of (cr_Meta cr)"
  and deployment_size: "dep_Replicas (dep_Spec (deploymentForGolangappoperatored c cr)) = Some (Size (cr_Spec cr))"
  using deploymentFor_spec [of c cr] owner by (simp_all add: owner_laws_def)

text \<open>The three writes, and the last part of a reconciliation: the deployment has been seen with the right size.\<close>

abbreviation seen_write :: "namespaced_name \<Rightarrow> 's \<Rightarrow> gotext option \<times> 's \<Rightarrow> bool" where
  "seen_write k s r \<equiv> seen_crs (snd r) = seen_crs s \<and> seen_deps (snd r) = seen_deps s \<and> seen_change k s (snd r)"

lemma seen_created:
  assumes "seen_crs s k = Some cr" and "key_of (cr_Meta cr) = k"
  shows "seen_write k s (Create_Deployment c (deploymentForGolangappoperatored c cr) s)"
  using create [of "deploymentForGolangappoperatored c cr" s] deployment_key [of cr] assms
  by (auto intro: seen_none seen_create)

lemma seen_resized:
  assumes "seen_crs s k = Some cr" and "seen_deps s k = Some d" and "key_of (dep_Meta d) = k"
  shows "seen_write k s (Update_Deployment c (with_replicas d (Size (cr_Spec cr))) s)"
proof -
  obtain e s' where u: "Update_Deployment c (with_replicas d (Size (cr_Spec cr))) s = (e, s')" "crs s' = crs s"
    "seen_crs s' = seen_crs s" "seen_deps s' = seen_deps s"
    "e \<noteq> None \<and> deps s' = deps s \<or> deps s k = Some d \<and> deps s' = (deps s)(k \<mapsto> with_replicas d (Size (cr_Spec cr)))"
    using update [of "with_replicas d (Size (cr_Spec cr))" s] assms by (auto simp del: fun_upd_apply)
  with seen_resize [of seen_crs s k cr deps d seen_deps crs s'] assms show ?thesis by (auto intro: seen_none)
qed

lemma seen_reported:
  assumes "seen_crs s k = Some cr" and "key_of (cr_Meta cr) = k"
    and "names = getPodNames (seen_pods s (nn_Namespace k) (labelsForGolangappoperator (nn_Name k)))"
    and "names \<noteq> Nodes (cr_Status cr)" and "Status_Update c (with_nodes cr names) s = (e, s')"
  shows "seen_write k s (e, s') \<and> (e = None \<longrightarrow> crs s' k \<noteq> crs s k)"
proof -
  have "with_nodes cr names \<noteq> cr" using assms(4) by (auto dest: arg_cong [where f = "\<lambda>cr. Nodes (cr_Status cr)"])
  then show ?thesis using status [of "with_nodes cr names" s] assms(1-3,5) by (auto intro: seen_none seen_status)
qed

lemma seen_found:
  assumes key: "seen_crs s k = Some cr" "key_of (cr_Meta cr) = k"
    "meta_Namespace (cr_Meta cr) = nn_Namespace k" "meta_Name (cr_Meta cr) = nn_Name k"
    and gets: "Get_Golangappoperator c k s = (Inr cr, s)" "Get_Deployment c k s = (Inr found, s)"
    and found: "seen_deps s k = Some found" "dep_Replicas (dep_Spec found) = Some (Size (cr_Spec cr))"
  shows "\<exists>out s'. Reconcile c k s = (out, s') \<and> seen_write k s (None, s') \<and>
    (out = Ok (empty_result, None) \<longrightarrow> crs s' k \<noteq> crs s k \<or> right_size seen_deps k cr s \<and>
       Nodes (cr_Status cr) = getPodNames (seen_pods s (nn_Namespace k) (labelsForGolangappoperator (nn_Name k))))"
proof -
  let ?ls = "labelsForGolangappoperator (nn_Name k)"
  define names where "names = getPodNames (seen_pods s (nn_Namespace k) ?ls)"
  obtain r where l: "List_Pods c (nn_Namespace k) ?ls s = (r, s)"
    "case r of Inl e \<Rightarrow> True | Inr items \<Rightarrow> items = seen_pods s (nn_Namespace k) ?ls"
    using list_pods [of "nn_Namespace k" ?ls s] by blast
  have right: "right_size seen_deps k cr s" using found by (simp add: right_size_def)
  obtain e s' where u: "Status_Update c (with_nodes cr names) s = (e, s')" by fastforce
  show ?thesis
  proof (cases r)
    case (Inl e)
    then show ?thesis using gets l key found by (auto simp: Reconcile_def Let_def intro: seen_none)
  next
    case (Inr items)
    then have "Reconcile c k s = (if names \<noteq> Nodes (cr_Status cr)
        then (Ok (empty_result, e), s') else (Ok (empty_result, None), s))"
      using gets l key found u by (simp add: Reconcile_def Let_def names_def split: option.split)
    then show ?thesis using seen_reported [OF key(1,2) names_def _ u] right
      by (cases "names = Nodes (cr_Status cr)") (auto simp: names_def intro: seen_none)
  qed
qed

lemma seen_Reconcile:
  assumes keyed: "keyed seen_crs seen_deps s"
  shows "\<exists>out s'. Reconcile c k s = (out, s') \<and> seen_write k s (None, s') \<and>
    (out = Ok (empty_result, None) \<longrightarrow> seen_crs s k = None \<or> crs s' k \<noteq> crs s k \<or>
       (\<exists>cr. seen_crs s k = Some cr \<and> right_size seen_deps k cr s \<and>
          Nodes (cr_Status cr) = getPodNames (seen_pods s (nn_Namespace k) (labelsForGolangappoperator (nn_Name k)))))"
proof -
  obtain r where 1: "Get_Golangappoperator c k s = (r, s)"
    "case r of Inl e \<Rightarrow> IsNotFound c e \<longrightarrow> seen_crs s k = None | Inr cr \<Rightarrow> seen_crs s k = Some cr"
    using get_cr [of k s] by blast
  show ?thesis
  proof (cases r)
    case (Inl e)
    then show ?thesis using 1 by (auto simp: Reconcile_def intro: seen_none)
  next
    case cr: (Inr cr)
    have key: "seen_crs s k = Some cr" "key_of (cr_Meta cr) = k"
      "meta_Namespace (cr_Meta cr) = nn_Namespace k" "meta_Name (cr_Meta cr) = nn_Name k"
      using 1(2) cr keyed by (simp_all add: keyed_def key_of_def) (metis namespaced_name.simps(1,2))+
    obtain r' where 2: "Get_Deployment c k s = (r', s)"
      "case r' of Inl e \<Rightarrow> IsNotFound c e \<longrightarrow> seen_deps s k = None | Inr d \<Rightarrow> seen_deps s k = Some d"
      using get_dep [of k s] by blast
    note gets = 1(1) [unfolded cr] 2(1)
    show ?thesis
    proof (cases r')
      case (Inl e)
      then show ?thesis using gets key seen_created [OF key(1,2)]
        by (auto simp: Reconcile_def empty_result_def intro: seen_none split: prod.split option.split)
    next
      case d: (Inr found)
      then have found: "seen_deps s k = Some found" using 2 by simp
      then have dkey: "key_of (dep_Meta found) = k" using keyed by (simp add: keyed_def)
      show ?thesis
      proof (cases "dep_Replicas (dep_Spec found) = Some (Size (cr_Spec cr))")
        case True
        with seen_found [OF key gets(1) _ found] gets(2) d key(1) show ?thesis by auto
      next
        case False
        then show ?thesis using gets key d seen_resized [OF key(1) found dkey]
          by (auto simp: Reconcile_def Let_def empty_result_def Minute_def intro: seen_none
              split: prod.split option.split)
      qed
    qed
  qed
qed

end

section \<open>The queue, its timers and the watch\<close>

text \<open>
  A state is the cluster with its cache, the keys in the queue, the keys with a timer that will put them there
  (set by \<^verbatim>\<open>Requeue\<close>, \<^verbatim>\<open>RequeueAfter\<close> or an error, and left alone by a later reconciliation), and the keys whose newest
  version the cache is still to get. The cache gets the newest version of a resource and the key is
  queued, or meanwhile an older one, and it may follow deployments and pods as it likes: \<open>late\<close> says how. \<open>rest\<close> is
  everybody else at work on the server. The process may end at any time; a new one fills its cache, as \<open>late\<close> allows, and
  queues all it finds. What a change in the cache queues is decided by what \<^verbatim>\<open>SetupWithManager\<close> asks for, as in
  \<open>Controller\<close>. \<open>fresh\<close> says when a reconciliation may be the last one of its key for now. Reads come from the cache and a
  reconciliation writes once at most, so that nothing is lost by taking it for one step.
\<close>

type_synonym 's loop_state = "'s \<times> namespaced_name set \<times> namespaced_name set \<times> namespaced_name set"

inductive loop ::
  "('s \<Rightarrow> namespaced_name \<Rightarrow> bool) \<Rightarrow> ('s \<Rightarrow> 's \<Rightarrow> bool) \<Rightarrow> ('s \<Rightarrow> 's \<Rightarrow> bool) \<Rightarrow> ('x, 's) client \<Rightarrow>
   ('x, 's) crs_view \<Rightarrow> ('x, 's) deps_view \<Rightarrow> ('x, 's) crs_view \<Rightarrow> ('x, 's) deps_view \<Rightarrow>
   's loop_state \<Rightarrow> 's loop_state \<Rightarrow> bool"
  for fresh late rest c crs deps seen_crs seen_deps where
  loop_work: "k \<in> Q \<Longrightarrow> Reconcile c k s = (Ok out, t) \<Longrightarrow> asks_again out \<or> k \<in> W \<or> fresh s k \<Longrightarrow>
    loop fresh late rest c crs deps seen_crs seen_deps (s, Q, W, E)
      (t, Q - {k}, if asks_again out then insert k W else W, E \<union> changed crs s t)"
| loop_timer: "k \<in> W \<Longrightarrow>
    loop fresh late rest c crs deps seen_crs seen_deps (s, Q, W, E) (s, insert k Q, W - {k}, E)"
| loop_resync: "loop fresh late rest c crs deps seen_crs seen_deps (s, Q, W, E) (s, Q \<union> listed seen_crs s, W, E)"
| loop_newest: "k \<in> E \<Longrightarrow> crs t = crs s \<Longrightarrow> deps t = deps s \<Longrightarrow>
    seen_crs t = (seen_crs s)(k := crs s k) \<Longrightarrow> seen_deps t = seen_deps s \<Longrightarrow>
    loop fresh late rest c crs deps seen_crs seen_deps (s, Q, W, E) 
      (t, if for_resources then insert k Q else Q, W, E - {k})"
| loop_late: "late s t \<Longrightarrow> crs t = crs s \<Longrightarrow> deps t = deps s \<Longrightarrow> changed seen_crs s t \<subseteq> E \<Longrightarrow>
    loop fresh late rest c crs deps seen_crs seen_deps (s, Q, W, E) 
      (t, Q \<union> noticed seen_crs seen_deps s t, W, E)"
| loop_rest: "rest s t \<Longrightarrow> seen_crs t = seen_crs s \<Longrightarrow> seen_deps t = seen_deps s \<Longrightarrow>
    loop fresh late rest c crs deps seen_crs seen_deps (s, Q, W, E) (t, Q, W, E \<union> changed crs s t)"
| loop_restart: "late s t \<Longrightarrow> crs t = crs s \<Longrightarrow> deps t = deps s \<Longrightarrow>
    loop fresh late rest c crs deps seen_crs seen_deps (s, Q, W, E)
      (t, listed seen_crs t, {}, {k. seen_crs t k \<noteq> crs t k})"

text \<open>What holds in every reachable state: a key that is in none of the sets is right, in the sense of \<open>right\<close>.\<close>

definition cache_inv ::
  "(namespaced_name \<Rightarrow> 'x golangappoperator \<Rightarrow> 's \<Rightarrow> bool) \<Rightarrow> ('x, 's) crs_view \<Rightarrow> ('x, 's) deps_view \<Rightarrow>
   ('x, 's) crs_view \<Rightarrow> ('x, 's) deps_view \<Rightarrow> 's loop_state \<Rightarrow> bool" where
  "cache_inv right crs deps seen_crs seen_deps = (\<lambda>(s, Q, W, E). keyed crs deps s \<and> keyed seen_crs seen_deps s \<and>
     (\<forall>k. k \<notin> E \<longrightarrow> seen_crs s k = crs s k) \<and>
     (\<forall>k cr. crs s k = Some cr \<longrightarrow> k \<notin> Q \<union> W \<union> E \<longrightarrow> right k cr s))"

text \<open>What \<open>right\<close> has to satisfy: it is about one key, the last reconciliation of a key establishes it, and others leave it.\<close>

definition established ::
  "(namespaced_name \<Rightarrow> 'x golangappoperator \<Rightarrow> 's \<Rightarrow> bool) \<Rightarrow> ('s \<Rightarrow> namespaced_name \<Rightarrow> bool) \<Rightarrow> ('s \<Rightarrow> 's \<Rightarrow> bool) \<Rightarrow>
   ('x, 's) client \<Rightarrow> ('x, 's) crs_view \<Rightarrow> ('x, 's) deps_view \<Rightarrow> ('x, 's) crs_view \<Rightarrow> ('x, 's) deps_view \<Rightarrow> bool" where
  "established right fresh rest c crs deps seen_crs seen_deps \<longleftrightarrow>
     (\<forall>k cr s t. deps t k = deps s k \<longrightarrow> right k cr t = right k cr s) \<and>
     (\<forall>k cr s t. fresh s k \<longrightarrow> keyed seen_crs seen_deps s \<longrightarrow> Reconcile c k s = (Ok (empty_result, None), t) \<longrightarrow>
        crs t k = crs s k \<longrightarrow> seen_crs s k = Some cr \<longrightarrow> right k cr t) \<and>
     (\<forall>s t. rest s t \<longrightarrow> keyed crs deps t \<and>
        (\<forall>k cr. crs t k = Some cr \<longrightarrow> crs s k = Some cr \<longrightarrow> right k cr s \<longrightarrow> right k cr t))"

lemma established_same: "established right fresh rest c crs deps seen_crs seen_deps \<Longrightarrow> deps t k = deps s k \<Longrightarrow>
    right k cr t = right k cr s"
  unfolding established_def by blast

lemma established_rest: "established right fresh rest c crs deps seen_crs seen_deps \<Longrightarrow> rest s t \<Longrightarrow> keyed crs deps t"
  "established right fresh rest c crs deps seen_crs seen_deps \<Longrightarrow> rest s t \<Longrightarrow> crs t k = Some cr \<Longrightarrow> crs s k = Some cr \<Longrightarrow>
     right k cr s \<Longrightarrow> right k cr t"
  unfolding established_def by blast+

lemma seen_others:
  assumes "seen_effect c crs deps seen_crs seen_deps seen_pods k s t" and "j \<noteq> k"
  shows "crs t j = crs s j" and "deps t j = deps s j"
  using assms by (auto elim!: seen_effect.cases)

lemma seen_settled:
  assumes "seen_effect c crs deps seen_crs seen_deps seen_pods k s t" and "crs t k = crs s k"
    and "right_size seen_deps k cr s" and "sizing seen_deps k s = sizing deps k s" and "seen_crs s k = Some cr"
  shows "right_size deps k cr t"
proof -
  have "right_size deps k cr s" using assms(3,4) by (simp add: right_size_sizing)
  with assms(1,5) show ?thesis by cases (auto simp: right_size_def)
qed

lemma keyed_cong: "crs t = crs s \<Longrightarrow> deps t = deps s \<Longrightarrow> keyed crs deps t = keyed crs deps s"
  and right_size_cong: "deps t k = deps s k \<Longrightarrow> right_size deps k cr t = right_size deps k cr s"
  by (simp_all add: keyed_def right_size_def)

context cached_server
begin

lemma seen_keyed:
  assumes "seen_change k s t" and "keyed crs deps s" and "keyed seen_crs seen_deps s"
  shows "keyed crs deps t"
  using assms(1)
proof cases
  case seen_none
  with assms(2) show ?thesis by (simp add: keyed_def)
next
  case (seen_create cr)
  with assms(2,3) deployment_key [of cr] show ?thesis by (simp add: keyed_def)
next
  case (seen_resize cr d)
  with assms(2) show ?thesis by (simp add: keyed_def)
next
  case (seen_status cr)
  with assms(2) show ?thesis by (simp add: keyed_def)
qed

lemma cache_inv_work:
  assumes inv: "cache_inv right crs deps seen_crs seen_deps (s, Q, W, E)"
    and est: "established right fresh rest c crs deps seen_crs seen_deps"
    and r: "Reconcile c k s = (Ok out, t)" and "asks_again out \<or> k \<in> W \<or> fresh s k"
  shows "cache_inv right crs deps seen_crs seen_deps
    (t, Q - {k}, if asks_again out then insert k W else W, E \<union> changed crs s t)"
proof -
  let ?W = "if asks_again out then insert k W else W" and ?E = "E \<union> changed crs s t"
  from inv have keyed: "keyed crs deps s" "keyed seen_crs seen_deps s"
    and E: "j \<notin> E \<Longrightarrow> seen_crs s j = crs s j"
    and right: "crs s j = Some cr \<Longrightarrow> j \<notin> Q \<union> W \<union> E \<Longrightarrow> right j cr s" for j cr
    by (auto simp: cache_inv_def)
  from seen_Reconcile [OF keyed(2), of k] r have same: "seen_crs t = seen_crs s" "seen_deps t = seen_deps s"
    and e: "seen_change k s t" by auto
  have "right j cr t" if j: "crs t j = Some cr" "j \<notin> (Q - {k}) \<union> ?W \<union> ?E" for j cr
  proof (cases "j = k")
    case True
    with j have "\<not> asks_again out" "k \<notin> W" "crs t k = crs s k" "seen_crs s k = Some cr"
      by (auto simp: changed_def E split: if_splits)
    with est keyed(2) r not_asks_again [OF r] assms(4) True show ?thesis unfolding established_def by blast
  next
    case False
    note others = seen_others [OF e False]
    from False j have "crs s j = Some cr" "j \<notin> Q \<union> W \<union> E" by (auto simp: others split: if_splits)
    with right est others(2) show ?thesis unfolding established_def by blast
  qed
  moreover have "seen_crs t j = crs t j" if "j \<notin> ?E" for j
    using that E [of j] by (auto simp: changed_def same)
  ultimately show ?thesis using seen_keyed [OF e keyed] keyed(2) same by (auto simp: cache_inv_def keyed_def)
qed

lemma cache_inv_loop:
  assumes "loop fresh late rest c crs deps seen_crs seen_deps x y"
    and est: "established right fresh rest c crs deps seen_crs seen_deps"
    and "\<And>s t. late s t \<Longrightarrow> keyed seen_crs seen_deps t" and "cache_inv right crs deps seen_crs seen_deps x"
  shows "cache_inv right crs deps seen_crs seen_deps y"
proof -
  note same = established_same [OF est]
  show ?thesis
    using assms(1)
  proof cases
    case (loop_work k Q s out t W E)
    with cache_inv_work [OF _ est, of s Q W E k out t] assms(4) show ?thesis by auto
  next
    case (loop_newest k E t s Q W)
    with assms(4) keyed_cong [of crs t s deps] show ?thesis
      by (auto simp: cache_inv_def same [where s = s and t = t]) (auto simp: keyed_def)
  next
    case (loop_late s t E Q W)
    then have "seen_crs t k = seen_crs s k" if "k \<notin> E" for k using that by (auto simp: changed_def)
    with loop_late assms(3,4) keyed_cong [of crs t s deps] show ?thesis
      by (auto simp: cache_inv_def same [where s = s and t = t])
  next
    case (loop_rest s t Q W E)
    note kept = established_rest [OF est loop_rest(3)]
    with loop_rest assms(4) keyed_cong [of seen_crs t s seen_deps] show ?thesis
      by (auto simp: cache_inv_def changed_def)
  next
    case (loop_restart s t Q W E)
    with assms(3,4) keyed_cong [of crs t s deps] show ?thesis
      by (auto simp: cache_inv_def all_keys_def)
  qed (use assms(4) in \<open>auto simp: cache_inv_def\<close>)
qed

lemma cache_inv_reachable:
  assumes "(loop fresh late rest c crs deps seen_crs seen_deps)\<^sup>*\<^sup>* x y"
    and "established right fresh rest c crs deps seen_crs seen_deps"
    and "\<And>s t. late s t \<Longrightarrow> keyed seen_crs seen_deps t" and "cache_inv right crs deps seen_crs seen_deps x"
  shows "cache_inv right crs deps seen_crs seen_deps y"
  using assms(1,4) by (induction rule: rtranclp_induct) (auto intro: cache_inv_loop [OF _ assms(2,3)])

lemma done_right:
  assumes "keyed seen_crs seen_deps s" and "Reconcile c k s = (Ok (empty_result, None), t)"
    and "crs t k = crs s k" and "seen_crs s k = Some cr"
  shows "right_size seen_deps k cr s"
    and "Nodes (cr_Status cr) = getPodNames (seen_pods s (nn_Namespace k) (labelsForGolangappoperator (nn_Name k)))"
    and "seen_change k s t"
  using seen_Reconcile [OF assms(1), of k] assms(2-4) by auto

lemma size_established:
  assumes "\<And>s t. rest s t \<Longrightarrow> calm crs deps s t" and "\<And>s k. fresh s k \<Longrightarrow> sizing seen_deps k s = sizing deps k s"
  shows "established (right_size deps) fresh rest c crs deps seen_crs seen_deps"
  unfolding established_def
proof (intro conjI allI impI)
  fix k cr s t
  assume a: "fresh s k" "keyed seen_crs seen_deps s" "Reconcile c k s = (Ok (empty_result, None), t)"
    "crs t k = crs s k" "seen_crs s k = Some cr"
  note d = done_right [OF a(2-5)]
  show "right_size deps k cr t" by (rule seen_settled [OF d(3) a(4) d(1) assms(2) [OF a(1)] a(5)])
next
  fix s t k cr
  assume "rest s t" "crs t k = Some cr" "crs s k = Some cr" "right_size deps k cr s"
  with assms(1) [of s t] show "right_size deps k cr t" by (auto simp: calm_def right_size_sizing)
next
  fix s t
  assume "rest s t"
  with assms(1) show "keyed crs deps t" by (simp add: calm_def)
qed (simp add: right_size_def)

lemma status_established:
  assumes "\<And>s t. rest s t \<Longrightarrow> keyed crs deps t"
    and "\<And>s k. fresh s k \<Longrightarrow> seen_pods s (nn_Namespace k) (labelsForGolangappoperator (nn_Name k)) = running k"
  shows "established (\<lambda>k cr s. Nodes (cr_Status cr) = getPodNames (running k)) fresh rest c crs deps seen_crs seen_deps"
  unfolding established_def using assms done_right(2) by fastforce

end

section \<open>A server with a cache\<close>

text \<open>
  For the witnesses: the store of \<open>Reconcile_Cluster\<close> behind a cache, which refuses a write of an object
  that is not as the cache has it.
\<close>

record 'x cached_store =
  server :: "'x store"
  ca_crs :: "namespaced_name \<Rightarrow> 'x golangappoperator option"
  ca_deps :: "namespaced_name \<Rightarrow> 'x deployment option"
  ca_pods :: "string \<Rightarrow> (string, string) gomap \<Rightarrow> 'x pod list"

definition send :: "('x store \<Rightarrow> gotext option \<times> 'x store) \<Rightarrow> bool \<Rightarrow> 'x cached_store \<Rightarrow> gotext option \<times> 'x cached_store" where
  "send call up_to_date s = (if up_to_date
     then (case call (server s) of (e, u) \<Rightarrow> (e, s\<lparr>server := u\<rparr>)) else (Some [Lit ''conflict''], s))"

definition cached_client :: "('x, 'x cached_store) client" where
  "cached_client = \<lparr>IsNotFound = (\<lambda>e. e = [Lit ''not found'']), SetControllerReference = (\<lambda>cr d. (d, None)),
     Get_Golangappoperator = (\<lambda>k s. (answer [Lit ''not found''] (ca_crs s k), s)),
     Get_Deployment = (\<lambda>k s. (answer [Lit ''not found''] (ca_deps s k), s)),
     Create_Deployment = (\<lambda>d. send (Create_Deployment store_client d) True),
     Update_Deployment = (\<lambda>d s. send (Update_Deployment store_client d)
       (ca_deps s (key_of (dep_Meta d)) = st_deps (server s) (key_of (dep_Meta d))) s),
     List_Pods = (\<lambda>ns ls s. (Inr (ca_pods s ns ls), s)),
     Status_Update = (\<lambda>cr s. send (Status_Update store_client cr)
       (ca_crs s (key_of (cr_Meta cr)) = st_crs (server s) (key_of (cr_Meta cr))) s)\<rparr>"

interpretation cached: cached_server cached_client "st_crs \<circ> server" "st_deps \<circ> server" ca_crs ca_deps ca_pods
proof
  show "\<exists>e s'. Create_Deployment cached_client d s = (e, s') \<and>
      (st_crs \<circ> server) s' = (st_crs \<circ> server) s \<and> ca_crs s' = ca_crs s \<and> ca_deps s' = ca_deps s \<and>
      (e \<noteq> None \<and> (st_deps \<circ> server) s' = (st_deps \<circ> server) s \<or>
       (st_deps \<circ> server) s (key_of (dep_Meta d)) = None \<and>
       (st_deps \<circ> server) s' = ((st_deps \<circ> server) s)(key_of (dep_Meta d) \<mapsto> d))" for d :: "'x deployment" and s
    by (auto simp: cached_client_def send_def store_client_def)
  show "\<exists>e s'. Update_Deployment cached_client d s = (e, s') \<and>
      (st_crs \<circ> server) s' = (st_crs \<circ> server) s \<and> ca_crs s' = ca_crs s \<and> ca_deps s' = ca_deps s \<and>
      (e \<noteq> None \<and> (st_deps \<circ> server) s' = (st_deps \<circ> server) s \<or>
       (st_deps \<circ> server) s (key_of (dep_Meta d)) \<noteq> None \<and>
       ca_deps s (key_of (dep_Meta d)) = (st_deps \<circ> server) s (key_of (dep_Meta d)) \<and>
       (st_deps \<circ> server) s' = ((st_deps \<circ> server) s)(key_of (dep_Meta d) \<mapsto> d))" for d :: "'x deployment" and s
    by (auto simp: cached_client_def send_def store_client_def)
  show "\<exists>e s'. Status_Update cached_client cr s = (e, s') \<and>
      (st_deps \<circ> server) s' = (st_deps \<circ> server) s \<and> ca_crs s' = ca_crs s \<and> ca_deps s' = ca_deps s \<and>
      (e \<noteq> None \<and> (st_crs \<circ> server) s' = (st_crs \<circ> server) s \<or>
       (\<exists>cr0. (st_crs \<circ> server) s (key_of (cr_Meta cr)) = Some cr0 \<and> ca_crs s (key_of (cr_Meta cr)) = Some cr0 \<and>
          (st_crs \<circ> server) s' = ((st_crs \<circ> server) s)(key_of (cr_Meta cr) \<mapsto> cr0\<lparr>cr_Status := cr_Status cr\<rparr>)))"
    for cr :: "'x golangappoperator" and s
    by (auto simp: cached_client_def send_def store_client_def split: option.split)
qed (auto simp: cached_client_def answer_def owner_laws_def split: option.split)

text \<open>
  One resource and its deployment, without pods: the size asked for and the replicas there are, on the server and in
  the cache.
\<close>

definition cr_of :: "32 word \<Rightarrow> nat golangappoperator" where
  "cr_of n = sample_cr\<lparr>cr_Spec := (cr_Spec sample_cr)\<lparr>Size := n\<rparr>\<rparr>"

definition dep_of :: "32 word \<Rightarrow> nat deployment" where
  "dep_of n = with_replicas (deploymentForGolangappoperatored cached_client sample_cr) n"

definition lagging :: "32 word \<Rightarrow> 32 word \<Rightarrow> 32 word \<Rightarrow> 32 word \<Rightarrow> nat cached_store" where
  "lagging n replicas seen_n seen_replicas =
     \<lparr>server = \<lparr>st_crs = [sample_key \<mapsto> cr_of n], st_deps = [sample_key \<mapsto> dep_of replicas], st_pods = []\<rparr>,
      ca_crs = [sample_key \<mapsto> cr_of seen_n], ca_deps = [sample_key \<mapsto> dep_of seen_replicas],
      ca_pods = (\<lambda>ns ls. [])\<rparr>"

lemma cr_of_sel [simp]:
  "meta_Namespace (cr_Meta (cr_of n)) = ''apps''" "meta_Name (cr_Meta (cr_of n)) = ''app''"
  "key_of (cr_Meta (cr_of n)) = sample_key" "Size (cr_Spec (cr_of n)) = n" "Nodes (cr_Status (cr_of n)) = None"
  by (simp_all add: cr_of_def sample_cr_def zero_meta_def key_of_def)

lemma dep_of_sel [simp]:
  "key_of (dep_Meta (dep_of n)) = sample_key" "dep_Replicas (dep_Spec (dep_of n)) = Some n"
  "with_replicas (dep_of n) m = dep_of m"
  using cached.deployment_key [of sample_cr] cr_of_sel(3) [of 0] by (simp_all add: dep_of_def cr_of_def)

lemma of_inject [simp]: "cr_of n = cr_of m \<longleftrightarrow> n = m" "dep_of n = dep_of m \<longleftrightarrow> n = m"
  by (metis cr_of_sel(4), metis dep_of_sel(2) option.inject)

lemma lagging_sel [simp]:
  "st_crs (server (lagging a b a' b')) = [sample_key \<mapsto> cr_of a]"
  "st_deps (server (lagging a b a' b')) = [sample_key \<mapsto> dep_of b]"
  "ca_crs (lagging a b a' b') = [sample_key \<mapsto> cr_of a']" "ca_deps (lagging a b a' b') = [sample_key \<mapsto> dep_of b']"
  by (simp_all add: lagging_def)

lemma lagging_Reconcile:
  "Reconcile cached_client sample_key (lagging a b a' b') =
     (if b' = a' then (Ok (empty_result, None), lagging a b a' b')
      else if b = b' then (Ok (empty_result\<lparr>RequeueAfter := Minute\<rparr>, None), lagging a a' a' b')
      else (Ok (empty_result, Some [Lit ''conflict'']), lagging a b a' b'))"
  by (simp add: Reconcile_def cached_client_def answer_def getPodNames_eq send_def store_client_def Let_def)
    (simp add: lagging_def)

lemma lagging_keyed: "keyed (st_crs \<circ> server) (st_deps \<circ> server) (lagging a b a' b')" "keyed ca_crs ca_deps (lagging a b a' b')"
  by (simp_all add: keyed_def)

lemma lagging_changed:
  "changed (st_crs \<circ> server) (lagging a b a' b') (lagging d e d' e') = (if a = d then {} else {sample_key})"
  "changed ca_crs (lagging a b a' b') (lagging d e d' e') = (if a' = d' then {} else {sample_key})"
  "all_keys ca_crs (lagging a b a' b') = {sample_key}"
  "all_keys (st_crs \<circ> server) (lagging a b a' b') = {sample_key}"
  by (auto simp: changed_def all_keys_def)


section \<open>Properties\<close>

text \<open>
  C14: acting on old data does no harm. However far the cache is behind, reconciling \<open>k\<close> changes nothing that
  belongs to another resource; a deployment is made only if the server has none, from the resource as the cache has
  it; one that is there changes only if the cache has it as it is, and then only in the replica
  count, to the size in the cached resource; of the resource only the nodes in the status change, and only if the cache
  has it as it is; a deleted resource does not come back.
\<close>

theorem stale_reads_safe:
  assumes "cached_server c crs deps seen_crs seen_deps seen_pods" and "keyed seen_crs seen_deps s"
    and "Reconcile c k s = (out, t)"
  shows "(\<forall>j. j \<noteq> k \<longrightarrow> crs t j = crs s j \<and> deps t j = deps s j) \<and>
    (deps s k = None \<longrightarrow> deps t k = None \<or>
       (\<exists>cr. seen_crs s k = Some cr \<and> deps t k = Some (deploymentForGolangappoperatored c cr))) \<and>
    (\<forall>d. deps s k = Some d \<longrightarrow> deps t k = Some d \<or> seen_deps s k = Some d \<and>
       (\<exists>cr. seen_crs s k = Some cr \<and>
         deps t k = Some (d\<lparr>dep_Spec := (dep_Spec d)\<lparr>dep_Replicas := Some (Size (cr_Spec cr))\<rparr>\<rparr>))) \<and>
    (crs t k = crs s k \<or> (\<exists>cr names. crs s k = Some cr \<and> seen_crs s k = Some cr \<and>
       crs t k = Some (cr\<lparr>cr_Status := (cr_Status cr)\<lparr>Nodes := names\<rparr>\<rparr>)))"
proof -
  from cached_server.seen_Reconcile [OF assms(1,2), of k] assms(3)
  have "seen_effect c crs deps seen_crs seen_deps seen_pods k s t" by auto
  then show ?thesis by cases auto
qed

theorem stale_reads_safe_witness:
  "st_deps (server (snd (Reconcile cached_client sample_key (lagging 3 5 4 3)))) sample_key = Some (dep_of 5)"
  using stale_reads_safe [OF cached.cached_server_axioms lagging_keyed(2) surjective_pairing, of sample_key 3 5 4 3]
  by auto

text \<open>
  C6: a resource that is not pending is right, for a controller that reads from a cache. Whatever users do, however late
  the watches are, although calls fail and the process ends and starts again, and as long as
  nobody else resizes or removes the deployment of a resource that stays as it is: if the last reconciliation of a key, the one after which nothing is
  queued and no timer runs, sees the replica count that the server has, then each resource whose key is not queued, has no timer
  and no event to come, has a deployment of the size it asks for, and the cache has it as it is.
\<close>

theorem cached_controller_invariant:
  assumes "cached_server c crs deps seen_crs seen_deps seen_pods" and "keyed crs deps s"
    and "seen_crs s = crs s" and "seen_deps s = deps s"
    and "\<And>s t. rest s t \<Longrightarrow> calm crs deps s t" and "\<And>s t. late s t \<Longrightarrow> keyed seen_crs seen_deps t"
    and "\<And>s k. fresh s k \<Longrightarrow> sizing seen_deps k s = sizing deps k s"
    and "(loop fresh late rest c crs deps seen_crs seen_deps)\<^sup>*\<^sup>* (s, all_keys crs s, {}, {}) (t, Q, W, E)"
    and "crs t k = Some cr" and "k \<notin> Q" and "k \<notin> W" and "k \<notin> E"
  shows "(\<exists>d. deps t k = Some d \<and> dep_Replicas (dep_Spec d) = Some (Size (cr_Spec cr))) \<and> seen_crs t k = Some cr"
proof -
  have start: "cache_inv (right_size deps) crs deps seen_crs seen_deps (s, all_keys crs s, {}, {})"
    using assms(2-4) by (auto simp: cache_inv_def keyed_def all_keys_def)
  note est = cached_server.size_established [where fresh = fresh and rest = rest, OF assms(1,5,7)]
  from cached_server.cache_inv_reachable [OF assms(1,8) est assms(6) start] assms(9-12)
  show ?thesis by (auto simp: cache_inv_def right_size_def)
qed

text \<open>The steps of one resource and its deployment, by what the server and the cache have.\<close>

definition catch_up :: "'x cached_store \<Rightarrow> 'x cached_store \<Rightarrow> bool" where
  "catch_up s t \<longleftrightarrow> keyed ca_crs ca_deps t \<and> ca_crs t = ca_crs s \<and>
     (ca_deps t = ca_deps s \<or> ca_deps t = st_deps (server s))"

abbreviation one_loop :: "(nat cached_store \<Rightarrow> namespaced_name \<Rightarrow> bool) \<Rightarrow>
   nat cached_store loop_state \<Rightarrow> nat cached_store loop_state \<Rightarrow> bool" where
  "one_loop fresh \<equiv> loop fresh catch_up (calm (st_crs \<circ> server) (st_deps \<circ> server)) cached_client
     (st_crs \<circ> server) (st_deps \<circ> server) ca_crs ca_deps"

lemma asks_again_iff:
  "\<not> asks_again (empty_result, None)" "asks_again (empty_result\<lparr>RequeueAfter := Minute\<rparr>, None)"
  by (simp_all add: asks_again_def empty_result_def Minute_def)

lemma one_work:
  assumes "Reconcile cached_client sample_key (lagging a b a' b') = (Ok out, lagging a d a' b')"
    and "asks_again out \<or> sample_key \<in> W \<or> fresh (lagging a b a' b') sample_key"
  shows "one_loop fresh (lagging a b a' b', {sample_key}, W, E)
    (lagging a d a' b', {}, if asks_again out then insert sample_key W else W, E)"
  using loop_work [where k = sample_key and Q = "{sample_key}" and c = cached_client and s = "lagging a b a' b'" and
      t = "lagging a d a' b'" and out = out and W = W and E = E and fresh = fresh and crs = "st_crs \<circ> server"] assms
  by (simp only: lagging_changed refl if_True Diff_cancel Un_empty_right insert_iff simp_thms)

lemma one_done:
  assumes "sample_key \<in> W \<or> fresh (lagging a b n n) sample_key"
  shows "one_loop fresh (lagging a b n n, {sample_key}, W, E) (lagging a b n n, {}, W, E)"
  using one_work [of a b n n "(empty_result, None)" b W fresh E] assms
  by (simp only: lagging_Reconcile asks_again_iff refl if_True if_False simp_thms)

lemma one_resize:
  assumes "n \<noteq> b"
  shows "one_loop fresh (lagging a b n b, {sample_key}, W, E) (lagging a n n b, {}, insert sample_key W, E)"
  using one_work [of a b n b "(empty_result\<lparr>RequeueAfter := Minute\<rparr>, None)" n W fresh E] assms [symmetric]
  by (simp only: lagging_Reconcile asks_again_iff refl if_True if_False simp_thms)

lemma one_timer: "one_loop fresh (s, {}, {sample_key}, E) (s, {sample_key}, {}, E)"
  using loop_timer [of sample_key "{sample_key}"] by fastforce

lemma one_edit: "a \<noteq> d \<Longrightarrow>
    one_loop fresh (lagging a b a' b', Q, W, {}) (lagging d b a' b', Q, W, {sample_key})"
  using loop_rest [of "calm (st_crs \<circ> server) (st_deps \<circ> server)" "lagging a b a' b'" "lagging d b a' b'"
      ca_crs ca_deps fresh catch_up cached_client "st_crs \<circ> server" "st_deps \<circ> server" Q W "{}"] lagging_keyed(1)
  by (simp add: lagging_changed calm_def sizing_def)

lemma one_newest: "one_loop fresh (lagging a b a' b', Q, W, {sample_key}) (lagging a b a b', insert sample_key Q, W, {})"
  using loop_newest [of sample_key "{sample_key}" "st_crs \<circ> server" "lagging a b a b'" "lagging a b a' b'"
      "st_deps \<circ> server" ca_crs ca_deps] by simp

lemma one_late: "one_loop fresh (lagging a b a' b', Q, W, E) (lagging a b a' b, Q, W, E)"
  using loop_late [of catch_up "lagging a b a' b'" "lagging a b a' b" "st_crs \<circ> server" "st_deps \<circ> server" ca_crs E]
  by (simp add: catch_up_def lagging_changed lagging_keyed)

text \<open>A user asks for 5 replicas instead of 3.\<close>

lemma one_run:
  assumes "\<And>a b. fresh (lagging a b b b) sample_key"
  shows "(one_loop fresh)\<^sup>*\<^sup>* (lagging 3 3 3 3, {sample_key}, {}, {}) (lagging 5 5 5 3, {}, {sample_key}, {})"
proof -
  have 1: "one_loop fresh (lagging 3 3 3 3, {sample_key}, {}, {}) (lagging 3 3 3 3, {}, {}, {})"
    by (rule one_done) (simp add: assms)
  have 2: "one_loop fresh (lagging 3 3 3 3, {}, {}, {}) (lagging 5 3 3 3, {}, {}, {sample_key})"
    by (rule one_edit) simp
  have 3: "one_loop fresh (lagging 5 3 3 3, {}, {}, {sample_key}) (lagging 5 3 5 3, {sample_key}, {}, {})"
    by (rule one_newest)
  have 4: "one_loop fresh (lagging 5 3 5 3, {sample_key}, {}, {}) (lagging 5 5 5 3, {}, {sample_key}, {})"
    by (rule one_resize) simp
  show ?thesis
    by (rule converse_rtranclp_into_rtranclp, rule 1, rule converse_rtranclp_into_rtranclp, rule 2,
        rule converse_rtranclp_into_rtranclp, rule 3, rule r_into_rtranclp, rule 4)
qed

text \<open>The cache catches up before the timer ends, and what is done is right.\<close>

lemma one_run_fresh:
  assumes "\<And>a b. fresh (lagging a b b b) sample_key"
  shows "(one_loop fresh)\<^sup>*\<^sup>* (lagging 3 3 3 3, {sample_key}, {}, {}) (lagging 5 5 5 5, {}, {}, {})"
proof -
  have 1: "one_loop fresh (lagging 5 5 5 5, {}, {sample_key}, {}) (lagging 5 5 5 5, {sample_key}, {}, {})"
    by (rule one_timer)
  have 2: "one_loop fresh (lagging 5 5 5 5, {sample_key}, {}, {}) (lagging 5 5 5 5, {}, {}, {})"
    by (rule one_done) (simp add: assms)
  show ?thesis
    by (rule rtranclp_trans, rule one_run, rule assms, rule converse_rtranclp_into_rtranclp, rule one_late,
        rule converse_rtranclp_into_rtranclp, rule 1, rule r_into_rtranclp, rule 2)
qed

theorem cached_controller_invariant_witness:
  "\<exists>d. st_deps (server (lagging 5 5 5 5)) sample_key = Some d \<and> dep_Replicas (dep_Spec d) = Some 5"
proof -
  have run: "(one_loop (\<lambda>s k. sizing ca_deps k s = sizing (st_deps \<circ> server) k s))\<^sup>*\<^sup>*
      (lagging 3 3 3 3, all_keys (st_crs \<circ> server) (lagging 3 3 3 3), {}, {}) (lagging 5 5 5 5, {}, {}, {})"
    unfolding lagging_changed by (rule one_run_fresh) (simp add: sizing_def)
  show ?thesis
    using cached_controller_invariant [OF cached.cached_server_axioms lagging_keyed(1) _ _ _ _ _ run, of sample_key "cr_of 5"]
    by (simp add: catch_up_def)
qed

text \<open>
  C15: a resource that is not pending reports its pods, for a controller that reads from a cache. Whatever users do, also to deployments,
  however late the watches are, although calls fail and the process ends and starts again: if the pods that the last
  reconciliation of a key sees, the one after which nothing is queued and no timer runs, are always the same ones, then the status of each
  resource whose key is not queued, has no timer and no event to come lists just these, on the server and in
  the cache.
\<close>

theorem cached_controller_status:
  assumes "cached_server c crs deps seen_crs seen_deps seen_pods" and "keyed crs deps s"
    and "seen_crs s = crs s" and "seen_deps s = deps s"
    and "\<And>s t. rest s t \<Longrightarrow> keyed crs deps t" and "\<And>s t. late s t \<Longrightarrow> keyed seen_crs seen_deps t"
    and "\<And>s k. fresh s k \<Longrightarrow> seen_pods s (nn_Namespace k) (labelsForGolangappoperator (nn_Name k)) = running k"
    and "(loop fresh late rest c crs deps seen_crs seen_deps)\<^sup>*\<^sup>* (s, all_keys crs s, {}, {}) (t, Q, W, E)"
    and "crs t k = Some cr" and "k \<notin> Q" and "k \<notin> W" and "k \<notin> E"
  shows "Nodes (cr_Status cr) = (if running k = [] then None else Some (map pod_Name (running k))) \<and> seen_crs t k = Some cr"
proof -
  let ?right = "\<lambda>k cr s. Nodes (cr_Status cr) = getPodNames (running k)"
  have start: "cache_inv ?right crs deps seen_crs seen_deps (s, all_keys crs s, {}, {})"
    using assms(2-4) by (auto simp: cache_inv_def keyed_def all_keys_def)
  note est = cached_server.status_established [where fresh = fresh and rest = rest, OF assms(1,5,7)]
  from cached_server.cache_inv_reachable [OF assms(1,8) est assms(6) start] assms(9-12)
  show ?thesis by (auto simp: cache_inv_def getPodNames_eq)
qed

text \<open>The sample with one pod: the nodes on the server and in the cache.\<close>

definition podded :: "string list option \<Rightarrow> string list option \<Rightarrow> nat cached_store" where
  "podded n m = \<lparr>server = \<lparr>st_crs = [sample_key \<mapsto> with_nodes (cr_of 3) n], st_deps = [sample_key \<mapsto> dep_of 3], st_pods = []\<rparr>,
     ca_crs = [sample_key \<mapsto> with_nodes (cr_of 3) m], ca_deps = [sample_key \<mapsto> dep_of 3],
     ca_pods = (\<lambda>ns ls. [sample_pod ''app-1'' []])\<rparr>"

lemma podded_sel [simp]:
  "st_crs (server (podded n m)) = [sample_key \<mapsto> with_nodes (cr_of 3) n]"
  "st_deps (server (podded n m)) = [sample_key \<mapsto> dep_of 3]"
  "ca_crs (podded n m) = [sample_key \<mapsto> with_nodes (cr_of 3) m]" "ca_deps (podded n m) = [sample_key \<mapsto> dep_of 3]"
  "ca_pods (podded n m) ns ls = [sample_pod ''app-1'' []]"
  by (simp_all add: podded_def)

lemma podded_Reconcile:
  "Reconcile cached_client sample_key (podded None None) = (Ok (empty_result, None), podded (Some [''app-1'']) None)"
  "Reconcile cached_client sample_key (podded (Some [''app-1'']) (Some [''app-1''])) =
     (Ok (empty_result, None), podded (Some [''app-1'']) (Some [''app-1'']))"
  by (simp_all add: Reconcile_def cached_client_def answer_def getPodNames_eq send_def store_client_def Let_def
      sample_pod_def sample_meta_def accepts_status) (simp_all add: podded_def)

lemma podded_changed:
  "changed (st_crs \<circ> server) (podded n m) (podded n' m') = (if n = n' then {} else {sample_key})"
  "all_keys (st_crs \<circ> server) (podded n m) = {sample_key}"
proof -
  have "with_nodes (cr_of 3) n = with_nodes (cr_of 3) n' \<longleftrightarrow> n = n'"
    by (auto dest: arg_cong [where f = "\<lambda>cr. Nodes (cr_Status cr)"])
  then show "changed (st_crs \<circ> server) (podded n m) (podded n' m') = (if n = n' then {} else {sample_key})"
    by (auto simp: changed_def)
  show "all_keys (st_crs \<circ> server) (podded n m) = {sample_key}" by (auto simp: all_keys_def)
qed

abbreviation pod_loop :: "nat cached_store loop_state \<Rightarrow> nat cached_store loop_state \<Rightarrow> bool" where
  "pod_loop \<equiv> loop (\<lambda>s k. ca_pods s (nn_Namespace k) (labelsForGolangappoperator (nn_Name k)) = [sample_pod ''app-1'' []])
     catch_up (calm (st_crs \<circ> server) (st_deps \<circ> server)) cached_client (st_crs \<circ> server) (st_deps \<circ> server) ca_crs ca_deps"

lemma podded_run:
  "pod_loop\<^sup>*\<^sup>* (podded None None, {sample_key}, {}, {}) (podded (Some [''app-1'']) (Some [''app-1'']), {}, {}, {})"
proof -
  let ?n = "Some [''app-1'']"
  note work = loop_work [where Q = "{sample_key}" and W = "{}" and E = "{}" and crs = "st_crs \<circ> server"]
  have 1: "pod_loop (podded None None, {sample_key}, {}, {}) (podded ?n None, {}, {}, {sample_key})"
    using work [OF _ podded_Reconcile(1)] by (simp add: podded_changed asks_again_iff)
  have 2: "pod_loop (podded ?n None, {}, {}, {sample_key}) (podded ?n ?n, {sample_key}, {}, {})"
    using loop_newest [of sample_key "{sample_key}" "st_crs \<circ> server" "podded ?n ?n" "podded ?n None"
        "st_deps \<circ> server" ca_crs ca_deps] by simp
  have 3: "pod_loop (podded ?n ?n, {sample_key}, {}, {}) (podded ?n ?n, {}, {}, {})"
    using work [OF _ podded_Reconcile(2)] by (simp add: podded_changed asks_again_iff)
  show ?thesis
    by (rule converse_rtranclp_into_rtranclp, rule 1, rule converse_rtranclp_into_rtranclp, rule 2, rule r_into_rtranclp, rule 3)
qed

theorem cached_controller_status_witness:
  "\<exists>cr. st_crs (server (podded (Some [''app-1'']) (Some [''app-1'']))) sample_key = Some cr \<and> Nodes (cr_Status cr) = Some [''app-1'']"
proof -
  have run: "pod_loop\<^sup>*\<^sup>* (podded None None, all_keys (st_crs \<circ> server) (podded None None), {}, {})
      (podded (Some [''app-1'']) (Some [''app-1'']), {}, {}, {})" unfolding podded_changed by (rule podded_run)
  have "keyed (st_crs \<circ> server) (st_deps \<circ> server) (podded None None)" by (simp add: keyed_def)
  note status = cached_controller_status [OF cached.cached_server_axioms this, where running = "\<lambda>k. [sample_pod ''app-1'' []]",
      OF _ _ _ _ _ run, of sample_key "with_nodes (cr_of 3) (Some [''app-1''])"]
  have "Nodes (cr_Status (with_nodes (cr_of 3) (Some [''app-1'']))) = Some (map pod_Name [sample_pod ''app-1'' []])"
    using status by (simp add: catch_up_def calm_def)
  then show ?thesis by (intro exI [of _ "with_nodes (cr_of 3) (Some [''app-1''])"]) simp
qed

text \<open>
  Why a resize has to wait. Without the assumption on the last reconciliation, a run in which nobody but
  the user of the resource does anything ends with a deployment of the wrong size, although nothing is queued, no timer runs, no
  event is to come and the cache has everything: after 5 replicas are asked for and 3 again,
  the controller still sees the 3 that it has just replaced by 5.
\<close>

theorem stale_resize_lost:
  "\<exists>t. (loop (\<lambda>s k. True) catch_up (calm (st_crs \<circ> server) (st_deps \<circ> server)) cached_client
       (st_crs \<circ> server) (st_deps \<circ> server) ca_crs ca_deps)\<^sup>*\<^sup>*
       (lagging 3 3 3 3, all_keys (st_crs \<circ> server) (lagging 3 3 3 3), {}, {}) (t, {}, {}, {}) \<and>
     ca_crs t = st_crs (server t) \<and> ca_deps t = st_deps (server t) \<and>
     map_option (Size \<circ> cr_Spec) (st_crs (server t) sample_key) = Some 3 \<and>
     map_option (dep_Replicas \<circ> dep_Spec) (st_deps (server t) sample_key) = Some (Some 5)"
proof -
  let ?loop = "one_loop (\<lambda>s k. True)"
  have 1: "?loop (lagging 5 5 5 3, {}, {sample_key}, {}) (lagging 3 5 5 3, {}, {sample_key}, {sample_key})"
    by (rule one_edit) simp
  have 2: "?loop (lagging 3 5 5 3, {}, {sample_key}, {sample_key}) (lagging 3 5 3 3, {sample_key}, {sample_key}, {})"
    by (rule one_newest)
  have 3: "?loop (lagging 3 5 3 3, {sample_key}, {sample_key}, {}) (lagging 3 5 3 3, {}, {sample_key}, {})"
    by (rule one_done) simp
  have 4: "?loop (lagging 3 5 3 3, {}, {sample_key}, {}) (lagging 3 5 3 3, {sample_key}, {}, {})" by (rule one_timer)
  have 5: "?loop (lagging 3 5 3 3, {sample_key}, {}, {}) (lagging 3 5 3 3, {}, {}, {})" by (rule one_done) simp
  have "?loop\<^sup>*\<^sup>* (lagging 3 3 3 3, {sample_key}, {}, {}) (lagging 3 5 3 5, {}, {}, {})"
    by (rule rtranclp_trans, rule one_run, rule TrueI, rule converse_rtranclp_into_rtranclp, rule 1,
        rule converse_rtranclp_into_rtranclp, rule 2, rule converse_rtranclp_into_rtranclp, rule 3,
        rule converse_rtranclp_into_rtranclp, rule 4, rule converse_rtranclp_into_rtranclp, rule 5,
        rule r_into_rtranclp, rule one_late)
  then show ?thesis unfolding lagging_changed by (intro exI [of _ "lagging 3 5 3 5"]) simp
qed

end
