(* ===== verification/Operator_Codec.thy ===== *)
theory Operator_Codec
  imports Operator_Json
begin

text \<open>
  Whole objects of \<^verbatim>\<open>golangappoperator_types.go\<close> as JSON and back: a \<^verbatim>\<open>Golangappoperator\<close> with its embedded
  \<^verbatim>\<open>TypeMeta\<close> and \<^verbatim>\<open>ObjectMeta\<close>, and a \<^verbatim>\<open>GolangappoperatorList\<close>. The embedded types are of another package; what
  is asked of their codecs is \<open>inline_codec\<close> and \<open>value_codec\<close>.
\<close>

section \<open>Definitions\<close>

text \<open>\<^verbatim>\<open>json:",inline"\<close> on an embedded struct: its fields are fields of the outer struct.\<close>

definition inline_fields :: "('r \<Rightarrow> 'a) \<Rightarrow> ('a \<Rightarrow> 'r \<Rightarrow> 'r) \<Rightarrow> 'a fields \<Rightarrow> 'r fields" where
  "inline_fields get upd fs = map (\<lambda>(name, dec). field name dec get upd) fs"

definition Golangappoperator_fields ::
  "type_meta fields \<Rightarrow> 'x object_meta decoder \<Rightarrow> 'x golangappoperator fields" where
  "Golangappoperator_fields tfs meta =
     inline_fields cr_TypeMeta (\<lambda>a. cr_TypeMeta_update (\<lambda>_. a)) tfs @
     [field ''metadata'' meta cr_Meta (\<lambda>a. cr_Meta_update (\<lambda>_. a)),
      field ''spec'' (dec_struct Spec_fields) cr_Spec (\<lambda>a. cr_Spec_update (\<lambda>_. a)),
      field ''status'' (dec_struct Status_fields) cr_Status (\<lambda>a. cr_Status_update (\<lambda>_. a))]"

text \<open>
  A slice of structs: an element is decoded into the struct that was at its index, or a zero one. The capacity of a slice beyond
  its length is not modelled, see \<open>dec_strings\<close>.
\<close>

definition dec_slice :: "'a decoder \<Rightarrow> 'a \<Rightarrow> 'a list option decoder" where
  "dec_slice dec zero j old = (case j of
       JNull \<Rightarrow> (True, None)
     | JArr vs \<Rightarrow>
         (let ds = map (\<lambda>(i, v). dec v (case old of
                Some as \<Rightarrow> if i < length as then as ! i else zero | None \<Rightarrow> zero)) (zip [0..<length vs] vs)
          in (list_all fst ds, Some (map snd ds)))
     | _ \<Rightarrow> (False, old))"

definition slice_json :: "('a \<Rightarrow> json) \<Rightarrow> 'a list option \<Rightarrow> json" where
  "slice_json enc s = (case s of None \<Rightarrow> JNull | Some as \<Rightarrow> JArr (map enc as))"

definition GolangappoperatorList_json ::
  "(type_meta \<Rightarrow> (string \<times> json) list) \<Rightarrow> ('x object_meta \<Rightarrow> json) \<Rightarrow> ('l \<Rightarrow> json) \<Rightarrow>
   ('x, 'l) golangappoperator_list \<Rightarrow> json" where
  "GolangappoperatorList_json inline meta lmeta l = JObj (inline (list_TypeMeta l) @
     [(''metadata'', lmeta (list_Meta l)), (''items'', slice_json (Golangappoperator_json inline meta) (Items l))])"

definition GolangappoperatorList_fields ::
  "type_meta fields \<Rightarrow> 'l decoder \<Rightarrow> 'x golangappoperator decoder \<Rightarrow> 'x golangappoperator \<Rightarrow>
   ('x, 'l) golangappoperator_list fields" where
  "GolangappoperatorList_fields tfs lmeta item zero =
     inline_fields list_TypeMeta (\<lambda>a. list_TypeMeta_update (\<lambda>_. a)) tfs @
     [field ''metadata'' lmeta list_Meta (\<lambda>a. list_Meta_update (\<lambda>_. a)),
      field ''items'' (dec_slice item zero) Items (\<lambda>a. Items_update (\<lambda>_. a))]"

definition zero_type_meta :: type_meta where
  "zero_type_meta = \<lparr>type_Kind = '''', type_APIVersion = ''''\<rparr>"

definition zero_resource :: "'x object_meta \<Rightarrow> 'x golangappoperator" where
  "zero_resource zm = \<lparr>cr_TypeMeta = zero_type_meta, cr_Meta = zm, cr_Spec = zero_spec, cr_Status = \<lparr>Nodes = None\<rparr>\<rparr>"

section \<open>The codecs of the embedded types\<close>

text \<open>
  The members of a \<^verbatim>\<open>TypeMeta\<close> are texts under \<^verbatim>\<open>kind\<close> and \<^verbatim>\<open>apiVersion\<close>, and are read back; a
  value of another type that is \<open>ok\<close> is read back, is UTF-8 and is not too deep.
\<close>

definition inline_codec :: "(type_meta \<Rightarrow> (string \<times> json) list) \<Rightarrow> type_meta fields \<Rightarrow> bool" where
  "inline_codec inline tfs \<longleftrightarrow> map fst tfs = [''kind'', ''apiVersion''] \<and>
     (\<forall>tm. list_all (\<lambda>(k, v). k \<in> {''kind'', ''apiVersion''} \<and> v \<in> {JStr (type_Kind tm), JStr (type_APIVersion tm)}) (inline tm) \<and>
        dec_members tfs (inline tm) zero_type_meta = (True, tm))"

definition value_codec :: "('a \<Rightarrow> json) \<Rightarrow> 'a decoder \<Rightarrow> 'a \<Rightarrow> ('a \<Rightarrow> bool) \<Rightarrow> bool" where
  "value_codec enc dec zero ok \<longleftrightarrow> (\<forall>a. ok a \<longrightarrow> dec (enc a) zero = (True, a) \<and> writable (enc a) \<and>
     depth (enc a) + 4 \<le> maxNestingDepth)"

definition type_utf8 :: "type_meta \<Rightarrow> bool" where
  "type_utf8 tm \<longleftrightarrow> valid_utf8 (type_Kind tm) \<and> valid_utf8 (type_APIVersion tm)"

text \<open>What is read back: all but an empty list of servers that is not nil.\<close>

definition read_spec :: "golangappoperator_spec \<Rightarrow> golangappoperator_spec" where
  "read_spec sp = sp\<lparr>DBservers := (if DBservers sp = Some [] then None else DBservers sp)\<rparr>"

definition read_resource :: "'x golangappoperator \<Rightarrow> 'x golangappoperator" where
  "read_resource cr = cr\<lparr>cr_Spec := read_spec (cr_Spec cr)\<rparr>"

definition resource_utf8 :: "('x object_meta \<Rightarrow> bool) \<Rightarrow> 'x golangappoperator \<Rightarrow> bool" where
  "resource_utf8 ok cr \<longleftrightarrow> type_utf8 (cr_TypeMeta cr) \<and> ok (cr_Meta cr) \<and> spec_utf8 (cr_Spec cr) \<and>
     strings_utf8 (Nodes (cr_Status cr))"

definition list_utf8 :: "('x object_meta \<Rightarrow> bool) \<Rightarrow> ('l \<Rightarrow> bool) \<Rightarrow> ('x, 'l) golangappoperator_list \<Rightarrow> bool" where
  "list_utf8 ok lok l \<longleftrightarrow> type_utf8 (list_TypeMeta l) \<and> lok (list_Meta l) \<and>
     (\<forall>items. Items l = Some items \<longrightarrow> list_all (resource_utf8 ok) items)"

section \<open>Lemmas\<close>

lemma map_of_inline:
  "map_of (inline_fields get upd fs) k = map_option (\<lambda>dec. snd (field k dec get upd)) (map_of fs k)"
  by (induction fs) (auto simp: inline_fields_def field_def)

lemma find_field_exact: "map_of fs k = Some dec \<Longrightarrow> find_field fs k = Some dec"
  by (simp add: find_field_def)

text \<open>Members of an inlined struct are decoded as that struct decodes them, then the others.\<close>

lemma dec_inline:
  assumes "\<And>a r. get (upd a r) = a" and "\<And>a b r. upd a (upd b r) = upd a r" and "\<And>r. upd (get r) r = r"
    and "list_all (\<lambda>(k, v). \<exists>d. map_of fs k = Some d) ms" and "dec_members fs ms (get r) = (True, a)"
  shows "dec_members (inline_fields get upd fs @ gs) (ms @ ms') r = dec_members (inline_fields get upd fs @ gs) ms' (upd a r)"
  using assms(4,5)
proof (induction ms arbitrary: r)
  case Nil
  then show ?case using assms(3) [of r] by simp
next
  case (Cons m ms)
  obtain k v dec where m: "m = (k, v)" "map_of fs k = Some dec" using Cons.prems(1) by (cases m) auto
  obtain ok a1 where d: "dec v (get r) = (ok, a1)" by fastforce
  have ok: "ok" and rest: "dec_members fs ms (get (upd a1 r)) = (True, a)"
    using Cons.prems(2) m d assms(1) by (auto simp: find_field_exact split: prod.splits)
  have "find_field (inline_fields get upd fs @ gs) k = Some (snd (field k dec get upd))"
    by (rule find_field_exact) (simp add: map_add_def map_of_inline m(2))
  with Cons.IH [OF _ rest] Cons.prems(1) m d ok assms(2) show ?case by (simp add: field_def split: prod.split)
qed

lemma dec_slice_json:
  assumes "\<And>a. a \<in> set (case s of None \<Rightarrow> [] | Some as \<Rightarrow> as) \<Longrightarrow> dec (enc a) zero = (True, f a)"
  shows "dec_slice dec zero (slice_json enc s) None = (True, map_option (map f) s)"
proof (cases s)
  case (Some as)
  let ?ds = "map (\<lambda>(i, v). dec v zero) (zip [0..<length as] (map enc as))"
  have "?ds = map (\<lambda>a. (True, f a)) as"
  proof (rule nth_equalityI)
    fix i
    assume "i < length ?ds"
    then have "i < length as" by simp
    moreover from this have "dec (enc (as ! i)) zero = (True, f (as ! i))" using assms [of "as ! i"] Some by simp
    ultimately show "?ds ! i = map (\<lambda>a. (True, f a)) as ! i" by simp
  qed simp
  then have "list_all fst ?ds" "map snd ?ds = map f as" by (simp_all only:) (simp_all add: list_all_iff)
  then show ?thesis by (simp add: Some slice_json_def dec_slice_def Let_def)
qed (simp add: slice_json_def dec_slice_def)

lemma inline_member:
  assumes "inline_codec inline tfs" and "(k, v) \<in> set (inline tm)"
  shows "k \<in> {''kind'', ''apiVersion''}" and "v \<in> {JStr (type_Kind tm), JStr (type_APIVersion tm)}"
proof -
  have "list_all (\<lambda>(k, v). k \<in> {''kind'', ''apiVersion''} \<and> v \<in> {JStr (type_Kind tm), JStr (type_APIVersion tm)}) (inline tm)"
    using assms(1) unfolding inline_codec_def by blast
  with assms(2) show "k \<in> {''kind'', ''apiVersion''}" and "v \<in> {JStr (type_Kind tm), JStr (type_APIVersion tm)}"
    unfolding list_all_iff by blast+
qed

lemma inline_members:
  assumes "inline_codec inline tfs"
  shows "list_all (\<lambda>(k, v). \<exists>d. map_of tfs k = Some d) (inline tm)" and "dec_members tfs (inline tm) zero_type_meta = (True, tm)"
    and "map_of tfs ''metadata'' = None" "map_of tfs ''spec'' = None" "map_of tfs ''status'' = None" "map_of tfs ''items'' = None"
proof -
  have "map fst tfs = [''kind'', ''apiVersion'']" using assms unfolding inline_codec_def by (rule conjunct1)
  from arg_cong [OF this, of set] have keys: "fst ` set tfs = {''kind'', ''apiVersion''}" by simp
  then have known: "map_of tfs k \<noteq> None \<longleftrightarrow> k \<in> {''kind'', ''apiVersion''}" for k by (simp add: map_of_eq_None_iff)
  show "list_all (\<lambda>(k, v). \<exists>d. map_of tfs k = Some d) (inline tm)"
    unfolding list_all_iff
  proof (rule ballI, clarify)
    fix k v
    assume "(k, v) \<in> set (inline tm)"
    from inline_member(1) [OF assms this] have "map_of tfs k \<noteq> None" by (simp only: known)
    then show "\<exists>d. map_of tfs k = Some d" by blast
  qed
  from assms show "dec_members tfs (inline tm) zero_type_meta = (True, tm)" by (simp add: inline_codec_def)
  show "map_of tfs ''metadata'' = None" "map_of tfs ''spec'' = None" "map_of tfs ''status'' = None" "map_of tfs ''items'' = None"
    using known [of "''metadata''"] known [of "''spec''"] known [of "''status''"] known [of "''items''"] by simp_all
qed

lemma dec_resource:
  assumes i: "inline_codec inline tfs" and m: "value_codec meta mdec zm ok" and ok: "ok (cr_Meta cr)"
  shows "dec_struct (Golangappoperator_fields tfs mdec) (Golangappoperator_json inline meta cr) (zero_resource zm) =
    (True, read_resource cr)"
proof -
  note members = inline_members [OF i]
  let ?fs = "Golangappoperator_fields tfs mdec"
  have fields: "find_field ?fs ''metadata'' = Some (snd (field ''metadata'' mdec cr_Meta (\<lambda>a. cr_Meta_update (\<lambda>_. a))))"
    "find_field ?fs ''spec'' = Some (snd (field ''spec'' (dec_struct Spec_fields) cr_Spec (\<lambda>a. cr_Spec_update (\<lambda>_. a))))"
    "find_field ?fs ''status'' = Some (snd (field ''status'' (dec_struct Status_fields) cr_Status (\<lambda>a. cr_Status_update (\<lambda>_. a))))"
    by (rule find_field_exact, simp add: Golangappoperator_fields_def map_add_def map_of_inline members field_def)+
  have "dec_struct ?fs (Golangappoperator_json inline meta cr) (zero_resource zm) =
      dec_members ?fs [(''metadata'', meta (cr_Meta cr)), (''spec'', Spec_json (cr_Spec cr)), (''status'', Status_json (cr_Status cr))]
        ((zero_resource zm)\<lparr>cr_TypeMeta := cr_TypeMeta cr\<rparr>)"
    unfolding Golangappoperator_json_def dec_struct_JObj Golangappoperator_fields_def
    by (rule dec_inline) (simp_all add: members zero_resource_def)
  also have "\<dots> = (True, read_resource cr)"
    using m ok by (simp add: fields field_def value_codec_def zero_resource_def dec_spec dec_status read_resource_def read_spec_def)
  finally show ?thesis .
qed

lemma list_items:
  "list_utf8 ok lok l \<Longrightarrow> a \<in> set (case Items l of None \<Rightarrow> [] | Some as \<Rightarrow> as) \<Longrightarrow> resource_utf8 ok a"
  by (cases "Items l") (simp_all add: list_utf8_def list_all_iff)

lemma dec_list:
  assumes i: "inline_codec inline tfs" and m: "value_codec meta mdec zm ok" and l: "value_codec lmeta ldec zl lok"
    and ok: "list_utf8 ok lok l"
  shows "dec_struct (GolangappoperatorList_fields tfs ldec (dec_struct (Golangappoperator_fields tfs mdec)) (zero_resource zm))
      (GolangappoperatorList_json inline meta lmeta l) \<lparr>list_TypeMeta = zero_type_meta, list_Meta = zl, Items = None\<rparr> =
    (True, l\<lparr>Items := map_option (map read_resource) (Items l)\<rparr>)"
proof -
  note members = inline_members [OF i]
  let ?item = "dec_struct (Golangappoperator_fields tfs mdec)"
  let ?fs = "GolangappoperatorList_fields tfs ldec ?item (zero_resource zm)"
  have fields: "find_field ?fs ''metadata'' = Some (snd (field ''metadata'' ldec list_Meta (\<lambda>a. list_Meta_update (\<lambda>_. a))))"
    "find_field ?fs ''items'' = Some (snd (field ''items'' (dec_slice ?item (zero_resource zm)) Items (\<lambda>a. Items_update (\<lambda>_. a))))"
    by (rule find_field_exact, simp add: GolangappoperatorList_fields_def map_add_def map_of_inline members field_def)+
  have items: "dec_slice ?item (zero_resource zm) (slice_json (Golangappoperator_json inline meta) (Items l)) None =
      (True, map_option (map read_resource) (Items l))"
    by (rule dec_slice_json, rule dec_resource [OF i m])
      (use list_items [OF ok] in \<open>simp add: resource_utf8_def\<close>)
  have "dec_struct ?fs (GolangappoperatorList_json inline meta lmeta l)
        \<lparr>list_TypeMeta = zero_type_meta, list_Meta = zl, Items = None\<rparr> =
      dec_members ?fs [(''metadata'', lmeta (list_Meta l)), (''items'', slice_json (Golangappoperator_json inline meta) (Items l))]
        \<lparr>list_TypeMeta = list_TypeMeta l, list_Meta = zl, Items = None\<rparr>"
    unfolding GolangappoperatorList_json_def dec_struct_JObj GolangappoperatorList_fields_def
    by (subst dec_inline) (simp_all add: members)
  also have "\<dots> = (True, l\<lparr>Items := map_option (map read_resource) (Items l)\<rparr>)"
    using l ok by (simp add: fields field_def value_codec_def list_utf8_def items)
  finally show ?thesis .
qed

text \<open>What is written can be parsed: its strings are UTF-8 and it is not too deep.\<close>

lemma depth_JObj: "depth (JObj ms) \<le> Suc n \<longleftrightarrow> (\<forall>(k, v)\<in>set ms. depth v \<le> n)"
  by (auto simp: split_def)

lemma depth_JArr: "depth (JArr vs) \<le> Suc n \<longleftrightarrow> (\<forall>v\<in>set vs. depth v \<le> n)"
  by auto

lemma inline_written:
  assumes "inline_codec inline tfs"
  shows "type_utf8 tm \<Longrightarrow> list_all (\<lambda>(k, v). valid_utf8 k \<and> writable v) (inline tm)"
    and "\<forall>(k, v)\<in>set (inline tm). depth v \<le> n"
proof -
  have keys: "valid_utf8 ''kind''" "valid_utf8 ''apiVersion''" by (simp_all add: ascii_utf8)
  show "list_all (\<lambda>(k, v). valid_utf8 k \<and> writable v) (inline tm)" if "type_utf8 tm"
    unfolding list_all_iff
  proof (rule ballI, clarify)
    fix k v
    assume "(k, v) \<in> set (inline tm)"
    from inline_member [OF assms this] that keys show "valid_utf8 k \<and> writable v" unfolding type_utf8_def by auto
  qed
  show "\<forall>(k, v)\<in>set (inline tm). depth v \<le> n"
  proof (rule ballI, clarify)
    fix k v
    assume "(k, v) \<in> set (inline tm)"
    from inline_member(2) [OF assms this] show "depth v \<le> n" by auto
  qed
qed

lemma resource_writable:
  assumes "inline_codec inline tfs" and "value_codec meta mdec zm ok" and "resource_utf8 ok cr"
  shows "writable (Golangappoperator_json inline meta cr)"
  using assms inline_written(1) [OF assms(1)]
  by (simp add: Golangappoperator_json_def resource_utf8_def value_codec_def Spec_writable Status_json_def strings_writable
      ascii_utf8)

lemma resource_depth:
  assumes "inline_codec inline tfs" and m: "value_codec meta mdec zm ok" and ok: "ok (cr_Meta cr)"
  shows "depth (Golangappoperator_json inline meta cr) + 3 \<le> maxNestingDepth"
proof -
  obtain n where n: "maxNestingDepth = n + 7" by (simp add: maxNestingDepth_def)
  have "depth (meta (cr_Meta cr)) + 4 \<le> maxNestingDepth" using m ok unfolding value_codec_def by blast
  then have "depth (meta (cr_Meta cr)) \<le> n + 3" using n by simp
  moreover have "depth (Spec_json (cr_Spec cr)) \<le> Suc (n + 2)" "depth (Status_json (cr_Status cr)) \<le> Suc (n + 2)"
    unfolding Spec_json_def Status_json_def depth_JObj using depth_strings by (auto simp: int32_json_def intro: le_trans)
  moreover have "\<forall>(k, v)\<in>set (inline (cr_TypeMeta cr)). depth v \<le> n + 3" by (rule inline_written(2) [OF assms(1)])
  ultimately have "depth (Golangappoperator_json inline meta cr) \<le> Suc (n + 3)"
    unfolding Golangappoperator_json_def depth_JObj by auto
  then show ?thesis using n by simp
qed

lemma list_writable:
  assumes "inline_codec inline tfs" and "value_codec meta mdec zm ok" and "value_codec lmeta ldec zl lok" and "list_utf8 ok lok l"
  shows "writable (GolangappoperatorList_json inline meta lmeta l)"
proof -
  have "writable (slice_json (Golangappoperator_json inline meta) (Items l))"
    using list_items [OF assms(4)] resource_writable [OF assms(1,2)]
    by (cases "Items l") (simp_all add: slice_json_def list_all_iff)
  then show ?thesis
    using assms(3,4) inline_written(1) [OF assms(1)]
    by (simp add: GolangappoperatorList_json_def list_utf8_def value_codec_def ascii_utf8)
qed

lemma list_depth:
  assumes "inline_codec inline tfs" and "value_codec meta mdec zm ok" and "value_codec lmeta ldec zl lok" and "list_utf8 ok lok l"
  shows "depth (GolangappoperatorList_json inline meta lmeta l) \<le> maxNestingDepth"
proof -
  obtain n where n: "maxNestingDepth = Suc (Suc (n + 3))" by (simp add: maxNestingDepth_def)
  have "depth (lmeta (list_Meta l)) + 4 \<le> maxNestingDepth"
    using assms(3,4) unfolding value_codec_def list_utf8_def by blast
  then have "depth (lmeta (list_Meta l)) \<le> Suc (n + 3)" using n by simp
  moreover have "depth (slice_json (Golangappoperator_json inline meta) (Items l)) \<le> Suc (n + 3)"
  proof (cases "Items l")
    case (Some items)
    have "depth (Golangappoperator_json inline meta cr) \<le> n + 3" if "cr \<in> set items" for cr
    proof -
      have "resource_utf8 ok cr" using list_items [OF assms(4), of cr] Some that by simp
      then have "ok (cr_Meta cr)" by (simp add: resource_utf8_def)
      from resource_depth [OF assms(1,2) this] n show ?thesis by simp
    qed
    then show ?thesis unfolding Some slice_json_def option.case depth_JArr by auto
  qed (simp add: slice_json_def)
  moreover have "\<forall>(k, v)\<in>set (inline (list_TypeMeta l)). depth v \<le> Suc (n + 3)" by (rule inline_written(2) [OF assms(1)])
  ultimately show ?thesis unfolding GolangappoperatorList_json_def n depth_JObj by auto
qed

lemma Decode_parsed: "writable j \<Longrightarrow> depth j \<le> maxNestingDepth \<Longrightarrow> \<not> is_num j \<Longrightarrow> dec j zero = (True, a) \<Longrightarrow>
    Decode dec zero (print j @ rest) = Inr a"
  by (simp add: Decode_def parse_print)

section \<open>Properties\<close>

text \<open>
  C40: resources and lists of them survive JSON. Given that the codecs of \<^verbatim>\<open>TypeMeta\<close> and of the two metadata types
  read back what they wrote, that the metadata nests at least four levels less deep than the decoder allows, and that every string of
  the object is UTF-8 (\<^verbatim>\<open>json.Marshal\<close> replaces what is not), decoding the text of a resource or of a list, whatever follows it, gives back the
  object with every field of every item, a nil slice as nil and an empty one as empty, but for an
  empty \<^verbatim>\<open>dbservers\<close>, which comes back as nil.
\<close>

theorem resource_roundtrip:
  fixes l :: "('x, 'l) golangappoperator_list"
  assumes "inline_codec inline tfs" and "value_codec meta mdec zm ok" and "value_codec lmeta ldec zl lok"
    and "list_utf8 ok lok l" and "resource_utf8 ok cr"
  shows "Decode (dec_struct (Golangappoperator_fields tfs mdec))
      \<lparr>cr_TypeMeta = zero_type_meta, cr_Meta = zm, cr_Spec = zero_spec, cr_Status = \<lparr>Nodes = None\<rparr>\<rparr>
      (print (Golangappoperator_json inline meta cr) @ rest) = Inr (read_resource cr) \<and>
    Decode (dec_struct (GolangappoperatorList_fields tfs ldec (dec_struct (Golangappoperator_fields tfs mdec)) (zero_resource zm)))
      \<lparr>list_TypeMeta = zero_type_meta, list_Meta = zl, Items = None\<rparr>
      (print (GolangappoperatorList_json inline meta lmeta l) @ rest) = Inr (l\<lparr>Items := map_option (map read_resource) (Items l)\<rparr>)"
proof
  have ok: "ok (cr_Meta cr)" using assms(5) by (simp add: resource_utf8_def)
  have shallow: "depth (Golangappoperator_json inline meta cr) \<le> maxNestingDepth"
    using resource_depth [OF assms(1,2) ok] by (rule add_leD1)
  show "Decode (dec_struct (Golangappoperator_fields tfs mdec))
      \<lparr>cr_TypeMeta = zero_type_meta, cr_Meta = zm, cr_Spec = zero_spec, cr_Status = \<lparr>Nodes = None\<rparr>\<rparr>
      (print (Golangappoperator_json inline meta cr) @ rest) = Inr (read_resource cr)"
    unfolding zero_resource_def [symmetric]
    by (rule Decode_parsed, rule resource_writable [OF assms(1,2,5)], rule shallow, simp add: Golangappoperator_json_def)
      (rule dec_resource [OF assms(1,2) ok])
  show "Decode (dec_struct (GolangappoperatorList_fields tfs ldec (dec_struct (Golangappoperator_fields tfs mdec)) (zero_resource zm)))
      \<lparr>list_TypeMeta = zero_type_meta, list_Meta = zl, Items = None\<rparr>
      (print (GolangappoperatorList_json inline meta lmeta l) @ rest) = Inr (l\<lparr>Items := map_option (map read_resource) (Items l)\<rparr>)"
    by (rule Decode_parsed, rule list_writable [OF assms(1-4)], rule list_depth [OF assms(1-4)],
        simp add: GolangappoperatorList_json_def) (rule dec_list [OF assms(1-4)])
qed

text \<open>For the witness: types as \<^verbatim>\<open>omitempty\<close> writes them, metadata that is a name and a namespace, and none for lists.\<close>

definition sample_inline :: "type_meta \<Rightarrow> (string \<times> json) list" where
  "sample_inline tm = (if type_Kind tm = [] then [] else [(''kind'', JStr (type_Kind tm))]) @
     (if type_APIVersion tm = [] then [] else [(''apiVersion'', JStr (type_APIVersion tm))])"

definition sample_tfs :: "type_meta fields" where
  "sample_tfs = [field ''kind'' dec_string type_Kind (\<lambda>a. type_Kind_update (\<lambda>_. a)),
     field ''apiVersion'' dec_string type_APIVersion (\<lambda>a. type_APIVersion_update (\<lambda>_. a))]"

definition sample_meta_json :: "nat object_meta \<Rightarrow> json" where
  "sample_meta_json m = JObj [(''name'', JStr (meta_Name m)), (''namespace'', JStr (meta_Namespace m))]"

definition sample_meta_fields :: "nat object_meta fields" where
  "sample_meta_fields = [field ''name'' dec_string meta_Name (\<lambda>a. meta_Name_update (\<lambda>_. a)),
     field ''namespace'' dec_string meta_Namespace (\<lambda>a. meta_Namespace_update (\<lambda>_. a))]"

definition sample_meta_ok :: "nat object_meta \<Rightarrow> bool" where
  "sample_meta_ok m \<longleftrightarrow> m = zero_meta\<lparr>meta_Name := meta_Name m, meta_Namespace := meta_Namespace m\<rparr> \<and>
     valid_utf8 (meta_Name m) \<and> valid_utf8 (meta_Namespace m)"

lemma sample_inline_codec: "inline_codec sample_inline sample_tfs"
  by (auto simp: inline_codec_def sample_inline_def sample_tfs_def zero_type_meta_def dec_simps)

lemma sample_meta_codec: "value_codec sample_meta_json (dec_struct sample_meta_fields) zero_meta sample_meta_ok"
  unfolding value_codec_def
proof (intro allI impI conjI)
  fix m
  assume ok: "sample_meta_ok m"
  have "dec_struct sample_meta_fields (sample_meta_json m) zero_meta =
      (True, zero_meta\<lparr>meta_Name := meta_Name m, meta_Namespace := meta_Namespace m\<rparr>)"
    by (simp add: sample_meta_json_def sample_meta_fields_def dec_simps)
  with ok show "dec_struct sample_meta_fields (sample_meta_json m) zero_meta = (True, m)"
    unfolding sample_meta_ok_def by simp
  from ok show "writable (sample_meta_json m)" by (simp add: sample_meta_json_def sample_meta_ok_def ascii_utf8)
qed (simp add: sample_meta_json_def maxNestingDepth_def)

lemma sample_list_codec: "value_codec (\<lambda>_ :: unit. JObj []) (dec_struct []) () (\<lambda>_. True)"
  by (simp add: value_codec_def dec_struct_def maxNestingDepth_def)

theorem resource_roundtrip_witness:
  "Decode (dec_struct (GolangappoperatorList_fields sample_tfs (dec_struct [])
        (dec_struct (Golangappoperator_fields sample_tfs (dec_struct sample_meta_fields))) (zero_resource zero_meta)))
      \<lparr>list_TypeMeta = zero_type_meta, list_Meta = (), Items = None\<rparr>
      (print (GolangappoperatorList_json sample_inline sample_meta_json (\<lambda>_. JObj [])
        \<lparr>list_TypeMeta = zero_type_meta, list_Meta = (), Items = Some [sample_cr]\<rparr>) @ []) =
    Inr \<lparr>list_TypeMeta = zero_type_meta, list_Meta = (), Items = Some [sample_cr]\<rparr>"
proof -
  have cr: "resource_utf8 sample_meta_ok sample_cr"
    by (simp add: resource_utf8_def sample_cr_def type_utf8_def sample_meta_ok_def zero_meta_def spec_utf8_def ascii_utf8)
  then have "list_utf8 sample_meta_ok (\<lambda>_. True) \<lparr>list_TypeMeta = zero_type_meta, list_Meta = (), Items = Some [sample_cr]\<rparr>"
    by (simp add: list_utf8_def type_utf8_def zero_type_meta_def ascii_utf8)
  moreover have "read_resource sample_cr = sample_cr" by (simp add: read_resource_def read_spec_def sample_cr_def)
  ultimately show ?thesis
    using resource_roundtrip [OF sample_inline_codec sample_meta_codec sample_list_codec _ cr,
        of "\<lparr>list_TypeMeta = zero_type_meta, list_Meta = (), Items = Some [sample_cr]\<rparr>" "[]"]
    by auto
qed

end
