(* ===== verification/Operator_Log.thy ===== *)
theory Operator_Log
  imports Manager_Main
begin

text \<open>
  What the operator logs: the entries of \<^verbatim>\<open>Reconcile\<close> and of \<^verbatim>\<open>main\<close>, in order. An entry of \<^verbatim>\<open>logr\<close> is a message with
  names and values; an error entry has the error too. The results of both functions are modelled in \<open>Reconcile\<close>
  and \<open>Manager_Main\<close>; each definition here follows the same code and gives what it logs.
\<close>

section \<open>Definitions\<close>

datatype operator_entry =
    InfoEntry string "(string \<times> string) list"
  | ErrorEntry gotext string "(string \<times> string) list"

definition dep_values :: "'x deployment \<Rightarrow> (string \<times> string) list" where
  "dep_values dep = [(''Deployment.Namespace'', meta_Namespace (dep_Meta dep)), (''Deployment.Name'', meta_Name (dep_Meta dep))]"

definition Reconcile_output :: "('x, 's) client \<Rightarrow> namespaced_name \<Rightarrow> 's \<Rightarrow> operator_entry list" where
  "Reconcile_output c req s =
     (case Get_Golangappoperator c req s of
        (Inl err, s1) \<Rightarrow>
          if IsNotFound c err
          then [InfoEntry ''golangappoperatored resource not found. Ignoring since object must be deleted'' []]
          else [ErrorEntry err ''Failed to get golangappoperatored'' []]
      | (Inr cr, s1) \<Rightarrow>
          (case Get_Deployment c \<lparr>nn_Namespace = meta_Namespace (cr_Meta cr), nn_Name = meta_Name (cr_Meta cr)\<rparr> s1 of
             (Inl err, s2) \<Rightarrow>
               if IsNotFound c err
               then (let dep = deploymentForGolangappoperatored c cr in
                 InfoEntry ''Creating a new Deployment'' (dep_values dep) #
                 (case fst (Create_Deployment c dep s2) of
                    Some e \<Rightarrow> [ErrorEntry e ''Failed to create new Deployment'' (dep_values dep)]
                  | None \<Rightarrow> []))
               else [ErrorEntry err ''Failed to get Deployment'' []]
           | (Inr found, s2) \<Rightarrow>
               (let size = Size (cr_Spec cr) in
                case dep_Replicas (dep_Spec found) of
                  None \<Rightarrow> []
                | Some replicas \<Rightarrow>
                    if replicas \<noteq> size
                    then (let found1 = found\<lparr>dep_Spec := (dep_Spec found)\<lparr>dep_Replicas := Some size\<rparr>\<rparr> in
                      case fst (Update_Deployment c found1 s2) of
                        Some e \<Rightarrow> [ErrorEntry e ''Failed to update Deployment'' (dep_values found1)]
                      | None \<Rightarrow> [])
                    else
                      (case List_Pods c (meta_Namespace (cr_Meta cr))
                              (labelsForGolangappoperator (meta_Name (cr_Meta cr))) s2 of
                         (Inl e, s3) \<Rightarrow> [ErrorEntry e ''Failed to list pods''
                           [(''golangappoperatored.Namespace'', meta_Namespace (cr_Meta cr)),
                            (''golangappoperatored.Name'', meta_Name (cr_Meta cr))]]
                       | (Inr items, s3) \<Rightarrow>
                           (let podNames = getPodNames items in
                            if podNames \<noteq> Nodes (cr_Status cr)
                            then (case fst (Status_Update c
                                      (cr\<lparr>cr_Status := (cr_Status cr)\<lparr>Nodes := podNames\<rparr>\<rparr>) s3) of
                                    Some e \<Rightarrow> [ErrorEntry e ''Failed to update golangappoperatored status'' []]
                                  | None \<Rightarrow> [])
                            else [])))))"

definition operator_main_output ::
  "('cfg, 'mgr, 'sch, 's) runtime_pkgs \<Rightarrow> operator_flags \<Rightarrow> 'sch \<Rightarrow> 's \<Rightarrow> operator_entry list" where
  "operator_main_output rt fl scheme s =
     (case GetConfig rt s of
        (Inl err, s0) \<Rightarrow> []
      | (Inr cfg, s0) \<Rightarrow>
          (case NewManager rt cfg (operator_options fl scheme) s0 of
             (Inl err, s1) \<Rightarrow> [ErrorEntry err ''unable to start manager'' []]
           | (Inr mgr, s1) \<Rightarrow>
               (case SetupWithManager rt mgr s1 of
                  (Some err, s2) \<Rightarrow> [ErrorEntry err ''unable to create controller'' [(''controller'', ''Golangappoperator'')]]
                | (None, s2) \<Rightarrow>
                    (case AddHealthzCheck rt mgr ''healthz'' s2 of
                       (Some err, s3) \<Rightarrow> [ErrorEntry err ''unable to set up health check'' []]
                     | (None, s3) \<Rightarrow>
                         (case AddReadyzCheck rt mgr ''readyz'' s3 of
                            (Some err, s4) \<Rightarrow> [ErrorEntry err ''unable to set up ready check'' []]
                          | (None, s4) \<Rightarrow>
                              InfoEntry ''starting manager'' [] #
                              (case fst (Start rt mgr s4) of
                                 Some err \<Rightarrow> [ErrorEntry err ''problem running manager'' []]
                               | None \<Rightarrow> []))))))"

section \<open>What a call leaves in the log\<close>

text \<open>
  The entries of one call on the API server, from the call and its answer alone. The names of the pods to
  list come from the labels that they are selected by.
\<close>

fun entry_error :: "operator_entry \<Rightarrow> gotext option" where
  "entry_error (InfoEntry m kvs) = None"
| "entry_error (ErrorEntry e m kvs) = Some e"

definition failed :: "string \<Rightarrow> (string \<times> string) list \<Rightarrow> gotext option \<Rightarrow> operator_entry list" where
  "failed m kvs e = (case e of None \<Rightarrow> [] | Some err \<Rightarrow> [ErrorEntry err m kvs])"

fun call_output :: "(gotext \<Rightarrow> bool) \<Rightarrow> 'x event \<Rightarrow> operator_entry list" where
  "call_output missing (EvGetCR k (Inr cr)) = []"
| "call_output missing (EvGetCR k (Inl e)) =
     (if missing e then [InfoEntry ''golangappoperatored resource not found. Ignoring since object must be deleted'' []]
      else [ErrorEntry e ''Failed to get golangappoperatored'' []])"
| "call_output missing (EvGetDep k (Inr d)) = []"
| "call_output missing (EvGetDep k (Inl e)) = (if missing e then [] else [ErrorEntry e ''Failed to get Deployment'' []])"
| "call_output missing (EvCreate d e) =
     InfoEntry ''Creating a new Deployment'' (dep_values d) # failed ''Failed to create new Deployment'' (dep_values d) e"
| "call_output missing (EvUpdate d e) = failed ''Failed to update Deployment'' (dep_values d) e"
| "call_output missing (EvList ns ls r) = failed ''Failed to list pods''
     [(''golangappoperatored.Namespace'', ns), (''golangappoperatored.Name'', gomap_index ls ''golangappoperatored_cr'')]
     (sum_error r)"
| "call_output missing (EvStatus cr e) = failed ''Failed to update golangappoperatored status'' [] e"

lemma listed_name: "gomap_index (labelsForGolangappoperator name) ''golangappoperatored_cr'' = name"
  by (simp add: gomap_index_def labelsForGolangappoperator_def gomap_simps)

lemma Reconcile_output_calls:
  "\<exists>evs. Reconcile (logged c) req (s, l) =
     (fst (Reconcile c req s), snd (Reconcile c req s), l @ evs) \<and>
   Reconcile_output c req s = concat (map (call_output (IsNotFound c)) evs)"
  by (auto simp: Reconcile_def Reconcile_output_def note_call_eq Let_def listed_name failed_def sum_error_def
      split: prod.split sum.split option.split)

lemma protocol_errors:
  assumes "protocol c req evs out"
  shows "List.map_filter entry_error (concat (map (call_output (IsNotFound c)) evs)) =
     (case out of Ok (_, Some e) \<Rightarrow> [e] | _ \<Rightarrow> [])"
  using assms
  by cases (simp_all add: failed_def sum_error_def List.map_filter_def split: option.split)


lemma Reconcile_log:
  assumes "Reconcile (logged c) req (s, []) = (out, s', evs)"
  shows "Reconcile_output c req s = concat (map (call_output (IsNotFound c)) evs)"
    and "List.map_filter entry_error (Reconcile_output c req s) = (case out of Ok (_, Some e) \<Rightarrow> [e] | _ \<Rightarrow> [])"
proof -
  show "Reconcile_output c req s = concat (map (call_output (IsNotFound c)) evs)"
    using Reconcile_output_calls [of c req s "[]"] assms by auto
  with protocol_errors [OF Reconcile_logged(1) [OF assms]]
  show "List.map_filter entry_error (Reconcile_output c req s) = (case out of Ok (_, Some e) \<Rightarrow> [e] | _ \<Rightarrow> [])" by simp
qed

lemma operator_main_log:
  "case operator_main (logged_runtime rt) fl scheme (s, []) of (status, _, calls) \<Rightarrow>
     List.map_filter entry_error (operator_main_output rt fl scheme s) = List.map_filter snd (tl calls) \<and>
     status = length (List.map_filter snd calls) \<and>
     (InfoEntry ''starting manager'' [] \<in> set (operator_main_output rt fl scheme s) \<longleftrightarrow> length calls = 6)"
proof -
  note eval = operator_main_def operator_main_output_def SetupWithManager_def note_call_eq sum_error_def List.map_filter_def
  obtain r0 s0 where 0: "GetConfig rt s = (r0, s0)" by fastforce
  show ?thesis
  proof (cases r0)
    case cfg: (Inr cfg)
    obtain r s1 where 1: "NewManager rt cfg (operator_options fl scheme) s0 = (r, s1)" by fastforce
    show ?thesis
    proof (cases r)
      case (Inr mgr)
      obtain e2 s2 where 2: "NewController rt mgr controller_watches s1 = (e2, s2)" by fastforce
      obtain e3 s3 where 3: "AddHealthzCheck rt mgr ''healthz'' s2 = (e3, s3)" by fastforce
      obtain e4 s4 where 4: "AddReadyzCheck rt mgr ''readyz'' s3 = (e4, s4)" by fastforce
      obtain e5 s5 where 5: "Start rt mgr s4 = (e5, s5)" by fastforce
      note calls = 0 [unfolded cfg] 1 [unfolded Inr] 2 3 4 5
      show ?thesis
        by (cases e2; cases e3; cases e4; cases e5) (simp_all add: eval calls)
    qed (simp add: eval 0 cfg 1)
  qed (simp add: eval 0)
qed

section \<open>Properties\<close>

text \<open>
  C35: the log of the operator says what was done and what failed. What \<^verbatim>\<open>Reconcile\<close> logs is fixed by the calls it makes and their
  answers, call by call in order, so that a resize or a status update that succeeds leaves nothing; and an error is in
  the log exactly if it is returned, once. \<^verbatim>\<open>main\<close> logs the errors of its calls but that of \<^verbatim>\<open>GetConfigOrDie\<close>, which logs it and exits itself; the exit status
  is the number of calls that failed; and \<^verbatim>\<open>starting manager\<close> is logged exactly if it gets as far as starting it.
\<close>

theorem operator_log:
  "(case Reconcile (logged c) req (s, []) of (out, _, evs) \<Rightarrow>
      Reconcile_output c req s = concat (map (call_output (IsNotFound c)) evs) \<and>
      List.map_filter entry_error (Reconcile_output c req s) = (case out of Ok (_, Some e) \<Rightarrow> [e] | _ \<Rightarrow> [])) \<and>
   (case operator_main (logged_runtime rt) fl scheme (u, []) of (status, _, calls) \<Rightarrow>
      List.map_filter entry_error (operator_main_output rt fl scheme u) = List.map_filter snd (tl calls) \<and>
      status = length (List.map_filter snd calls) \<and>
      (InfoEntry ''starting manager'' [] \<in> set (operator_main_output rt fl scheme u) \<longleftrightarrow> length calls = 6))"
proof -
  obtain out s' evs where "Reconcile (logged c) req (s, []) = (out, s', evs)" by (rule prod_cases3)
  from this Reconcile_log [OF this] operator_main_log [of rt fl scheme u] show ?thesis by simp
qed

end
