(* ===== verification/Deep_Copy.thy ===== *)
theory Deep_Copy
  imports Operator_Types
begin

text \<open>
  \<^verbatim>\<open>golang-app-operator/api/v1alpha1/zz_generated.deepcopy.go\<close>: the deep copies of the resource types,
  on a memory in which slices are references. A struct of the API has its slices as \<open>slice\<close> values
  that point into arrays of the memory; what it stands for is a value of the types of
  \<^verbatim>\<open>Operator_Types\<close>, read by \<open>spec_val\<close>, \<open>status_val\<close>, \<open>cr_val\<close> and \<open>list_val\<close>. The copies of
  \<^verbatim>\<open>ObjectMeta\<close> and \<^verbatim>\<open>ListMeta\<close> are of another package: parameters, of which the locale
  \<open>deep_copy\<close> states what a deep copy promises. It is what is proved of the copies of this package:
  the copy reads the same, nothing that was there has changed, and the two share no location.
\<close>

section \<open>Memory\<close>

text \<open>A slice: an array of the memory, an offset and a length. The nil slice is \<open>None\<close>.\<close>

record slice =
  sl_base :: ptr
  sl_off :: nat
  sl_len :: nat

record spec_obj =
  so_Size :: "32 word"
  so_Image :: string
  so_PostgresqlDB :: bool
  so_DBservers :: "slice option"
  so_Database :: string
  so_DBuser :: string
  so_DBpass :: string

record status_obj =
  st_Nodes :: "slice option"

record 'm cr_obj =
  co_TypeMeta :: type_meta
  co_Meta :: 'm
  co_Spec :: spec_obj
  co_Status :: status_obj

record 'l list_obj =
  lo_TypeMeta :: type_meta
  lo_Meta :: 'l
  lo_Items :: "slice option"

datatype ('m, 'l) cell =
    Strings "string list"
  | Objects "'m cr_obj list"
  | SpecCell spec_obj
  | StatusCell status_obj
  | CrCell "'m cr_obj"
  | ListCell "'l list_obj"

text \<open>The elements of a slice of strings, of a slice of resources.\<close>

definition window :: "slice \<Rightarrow> 'a list \<Rightarrow> 'a list option" where
  "window s xs = (if sl_off s + sl_len s \<le> length xs then Some (take (sl_len s) (drop (sl_off s) xs)) else None)"

definition strings_at :: "('m, 'l) cell mem \<Rightarrow> slice \<Rightarrow> string list option" where
  "strings_at m s = (case mem_load m (sl_base s) of Some (Strings xs) \<Rightarrow> window s xs | _ \<Rightarrow> None)"

definition objects_at :: "('m, 'l) cell mem \<Rightarrow> slice \<Rightarrow> 'm cr_obj list option" where
  "objects_at m s = (case mem_load m (sl_base s) of Some (Objects xs) \<Rightarrow> window s xs | _ \<Rightarrow> None)"

text \<open>\<^verbatim>\<open>make([]string, n)\<close>, and \<^verbatim>\<open>copy(dst, src)\<close>, which copies as many elements as the shorter one has.\<close>

definition make_strings :: "nat \<Rightarrow> ('m, 'l) cell mem \<Rightarrow> slice \<times> ('m, 'l) cell mem" where
  "make_strings n m = (case mem_new m (Strings (replicate n '''')) of
     (p, m') \<Rightarrow> (\<lparr>sl_base = p, sl_off = 0, sl_len = n\<rparr>, m'))"

definition overwrite :: "nat \<Rightarrow> 'a list \<Rightarrow> 'a list \<Rightarrow> 'a list" where
  "overwrite i new xs = take i xs @ new @ drop (i + length new) xs"

definition copy_strings :: "slice \<Rightarrow> slice \<Rightarrow> ('m, 'l) cell mem \<Rightarrow> ('m, 'l) cell mem" where
  "copy_strings dst src m =
     (case (mem_load m (sl_base dst), strings_at m src) of
        (Some (Strings xs), Some new) \<Rightarrow>
          mem_store m (sl_base dst) (Strings (overwrite (sl_off dst) (take (sl_len dst) new) xs))
      | _ \<Rightarrow> m)"

section \<open>The copies\<close>

text \<open>
  A \<^verbatim>\<open>DeepCopyInto(out)\<close> takes \<^verbatim>\<open>*in\<close> and gives what it leaves in \<^verbatim>\<open>*out\<close>. \<open>meta_copies\<close> holds the
  zero \<^verbatim>\<open>ObjectMeta\<close> and the copies of the metadata.
\<close>

record ('m, 'l) meta_copies =
  zeroObjectMeta :: 'm
  zeroListMeta :: 'l
  ObjectMeta_DeepCopyInto :: "'m \<Rightarrow> ('m, 'l) cell mem \<Rightarrow> 'm \<times> ('m, 'l) cell mem"
  ListMeta_DeepCopyInto :: "'l \<Rightarrow> ('m, 'l) cell mem \<Rightarrow> 'l \<times> ('m, 'l) cell mem"

definition Spec_DeepCopyInto :: "spec_obj \<Rightarrow> ('m, 'l) cell mem \<Rightarrow> spec_obj \<times> ('m, 'l) cell mem" where
  "Spec_DeepCopyInto src m =
     (case so_DBservers src of
        None \<Rightarrow> (src, m)
      | Some servers \<Rightarrow>
          (case make_strings (sl_len servers) m of
             (s, m1) \<Rightarrow> (src\<lparr>so_DBservers := Some s\<rparr>, copy_strings s servers m1)))"

definition Status_DeepCopyInto :: "status_obj \<Rightarrow> ('m, 'l) cell mem \<Rightarrow> status_obj \<times> ('m, 'l) cell mem" where
  "Status_DeepCopyInto src m =
     (case st_Nodes src of
        None \<Rightarrow> (src, m)
      | Some nodes \<Rightarrow>
          (case make_strings (sl_len nodes) m of
             (s, m1) \<Rightarrow> (src\<lparr>st_Nodes := Some s\<rparr>, copy_strings s nodes m1)))"

definition Golangappoperator_DeepCopyInto ::
  "('m, 'l) meta_copies \<Rightarrow> 'm cr_obj \<Rightarrow> ('m, 'l) cell mem \<Rightarrow> 'm cr_obj \<times> ('m, 'l) cell mem" where
  "Golangappoperator_DeepCopyInto pk src m =
     (case ObjectMeta_DeepCopyInto pk (co_Meta src) m of (meta, m1) \<Rightarrow>
        (case Spec_DeepCopyInto (co_Spec src) m1 of (spec, m2) \<Rightarrow>
           (case Status_DeepCopyInto (co_Status src) m2 of (status, m3) \<Rightarrow>
              (src\<lparr>co_TypeMeta := co_TypeMeta src, co_Meta := meta, co_Spec := spec, co_Status := status\<rparr>, m3))))"

definition zero_spec_obj :: spec_obj where
  "zero_spec_obj = \<lparr>so_Size = 0, so_Image = '''', so_PostgresqlDB = False, so_DBservers = None,
     so_Database = '''', so_DBuser = '''', so_DBpass = ''''\<rparr>"

definition zero_cr_obj :: "('m, 'l) meta_copies \<Rightarrow> 'm cr_obj" where
  "zero_cr_obj pk = \<lparr>co_TypeMeta = \<lparr>type_Kind = '''', type_APIVersion = ''''\<rparr>, co_Meta = zeroObjectMeta pk,
     co_Spec = zero_spec_obj, co_Status = \<lparr>st_Nodes = None\<rparr>\<rparr>"

text \<open>
  The loop over the items: \<^verbatim>\<open>(*in)[i].DeepCopyInto(&(*out)[i])\<close> for each index of \<^verbatim>\<open>*in\<close>, here the
  indices left; \<^verbatim>\<open>*out\<close> is the array at \<open>q\<close>, from its first element on.
\<close>

fun items_loop ::
  "('m, 'l) meta_copies \<Rightarrow> slice \<Rightarrow> ptr \<Rightarrow> nat list \<Rightarrow> ('m, 'l) cell mem \<Rightarrow> ('m, 'l) cell mem" where
  "items_loop pk src q [] m = m"
| "items_loop pk src q (i # is) m =
     (case objects_at m src of
        None \<Rightarrow> m
      | Some xs \<Rightarrow>
          (case Golangappoperator_DeepCopyInto pk (xs ! i) m of (c, m1) \<Rightarrow>
             (case mem_load m1 q of
                Some (Objects ys) \<Rightarrow> items_loop pk src q is (mem_store m1 q (Objects (ys[i := c])))
              | _ \<Rightarrow> m1)))"

definition List_DeepCopyInto ::
  "('m, 'l) meta_copies \<Rightarrow> 'l list_obj \<Rightarrow> ('m, 'l) cell mem \<Rightarrow> 'l list_obj \<times> ('m, 'l) cell mem" where
  "List_DeepCopyInto pk src m =
     (case ListMeta_DeepCopyInto pk (lo_Meta src) m of (meta, m1) \<Rightarrow>
        (let out = src\<lparr>lo_TypeMeta := lo_TypeMeta src, lo_Meta := meta\<rparr> in
         case lo_Items src of
           None \<Rightarrow> (out, m1)
         | Some items \<Rightarrow>
             (case mem_new m1 (Objects (replicate (sl_len items) (zero_cr_obj pk))) of (q, m2) \<Rightarrow>
                (out\<lparr>lo_Items := Some \<lparr>sl_base = q, sl_off = 0, sl_len = sl_len items\<rparr>\<rparr>,
                 items_loop pk items q [0..<sl_len items] m2))))"

text \<open>\<^verbatim>\<open>DeepCopy\<close>: nil for nil, and a new struct otherwise.\<close>

definition copy_cell ::
  "(('m, 'l) cell \<Rightarrow> 'o option) \<Rightarrow> ('o \<Rightarrow> ('m, 'l) cell) \<Rightarrow> 'o \<Rightarrow>
   ('o \<Rightarrow> ('m, 'l) cell mem \<Rightarrow> 'o \<times> ('m, 'l) cell mem) \<Rightarrow>
   ptr option \<Rightarrow> ('m, 'l) cell mem \<Rightarrow> ptr option \<times> ('m, 'l) cell mem" where
  "copy_cell get put zero into ptr_in m =
     (case ptr_in of
        None \<Rightarrow> (None, m)
      | Some p \<Rightarrow>
          (case mem_new m (put zero) of (out, m1) \<Rightarrow>
             (case Option.bind (mem_load m1 p) get of
                None \<Rightarrow> (None, m1)
              | Some src \<Rightarrow> (case into src m1 of (v, m2) \<Rightarrow> (Some out, mem_store m2 out (put v))))))"

fun get_Spec :: "('m, 'l) cell \<Rightarrow> spec_obj option" where
  "get_Spec (SpecCell v) = Some v" | "get_Spec _ = None"

fun get_Status :: "('m, 'l) cell \<Rightarrow> status_obj option" where
  "get_Status (StatusCell v) = Some v" | "get_Status _ = None"

fun get_Cr :: "('m, 'l) cell \<Rightarrow> 'm cr_obj option" where
  "get_Cr (CrCell v) = Some v" | "get_Cr _ = None"

fun get_List :: "('m, 'l) cell \<Rightarrow> 'l list_obj option" where
  "get_List (ListCell v) = Some v" | "get_List _ = None"

definition Spec_DeepCopy :: "ptr option \<Rightarrow> ('m, 'l) cell mem \<Rightarrow> ptr option \<times> ('m, 'l) cell mem" where
  "Spec_DeepCopy = copy_cell get_Spec SpecCell zero_spec_obj Spec_DeepCopyInto"

definition Status_DeepCopy :: "ptr option \<Rightarrow> ('m, 'l) cell mem \<Rightarrow> ptr option \<times> ('m, 'l) cell mem" where
  "Status_DeepCopy = copy_cell get_Status StatusCell \<lparr>st_Nodes = None\<rparr> Status_DeepCopyInto"

definition Golangappoperator_DeepCopy ::
  "('m, 'l) meta_copies \<Rightarrow> ptr option \<Rightarrow> ('m, 'l) cell mem \<Rightarrow> ptr option \<times> ('m, 'l) cell mem" where
  "Golangappoperator_DeepCopy pk = copy_cell get_Cr CrCell (zero_cr_obj pk) (Golangappoperator_DeepCopyInto pk)"

definition List_DeepCopy ::
  "('m, 'l) meta_copies \<Rightarrow> ptr option \<Rightarrow> ('m, 'l) cell mem \<Rightarrow> ptr option \<times> ('m, 'l) cell mem" where
  "List_DeepCopy pk = copy_cell get_List ListCell
     \<lparr>lo_TypeMeta = \<lparr>type_Kind = '''', type_APIVersion = ''''\<rparr>, lo_Meta = zeroListMeta pk, lo_Items = None\<rparr>
     (List_DeepCopyInto pk)"

text \<open>
  \<^verbatim>\<open>DeepCopyObject\<close> wraps the copy in the interface \<^verbatim>\<open>runtime.Object\<close>, whose values carry the dynamic type of
  the pointer; the nil pointer becomes the nil interface.
\<close>

datatype runtime_object = Golangappoperator_obj ptr | GolangappoperatorList_obj ptr

definition Golangappoperator_DeepCopyObject ::
  "('m, 'l) meta_copies \<Rightarrow> ptr option \<Rightarrow> ('m, 'l) cell mem \<Rightarrow> runtime_object option \<times> ('m, 'l) cell mem" where
  "Golangappoperator_DeepCopyObject pk src m =
     (case Golangappoperator_DeepCopy pk src m of
        (Some c, m1) \<Rightarrow> (Some (Golangappoperator_obj c), m1)
      | (None, m1) \<Rightarrow> (None, m1))"

definition List_DeepCopyObject ::
  "('m, 'l) meta_copies \<Rightarrow> ptr option \<Rightarrow> ('m, 'l) cell mem \<Rightarrow> runtime_object option \<times> ('m, 'l) cell mem" where
  "List_DeepCopyObject pk src m =
     (case List_DeepCopy pk src m of
        (Some c, m1) \<Rightarrow> (Some (GolangappoperatorList_obj c), m1)
      | (None, m1) \<Rightarrow> (None, m1))"

section \<open>What a struct stands for, and the memory it uses\<close>

definition opt_strings :: "('m, 'l) cell mem \<Rightarrow> slice option \<Rightarrow> string list option option" where
  "opt_strings m s = (case s of None \<Rightarrow> Some None | Some s \<Rightarrow> map_option Some (strings_at m s))"

definition slice_foot :: "slice option \<Rightarrow> ptr set" where
  "slice_foot s = (case s of None \<Rightarrow> {} | Some s \<Rightarrow> {sl_base s})"

definition spec_val :: "('m, 'l) cell mem \<Rightarrow> spec_obj \<Rightarrow> golangappoperator_spec option" where
  "spec_val m s = map_option (\<lambda>servers. \<lparr>Size = so_Size s, Image = so_Image s, PostgresqlDB = so_PostgresqlDB s,
     DBservers = servers, Database = so_Database s, DBuser = so_DBuser s, DBpass = so_DBpass s\<rparr>)
     (opt_strings m (so_DBservers s))"

definition status_val :: "('m, 'l) cell mem \<Rightarrow> status_obj \<Rightarrow> golangappoperator_status option" where
  "status_val m s = map_option (\<lambda>nodes. \<lparr>Nodes = nodes\<rparr>) (opt_strings m (st_Nodes s))"

definition cr_val ::
  "(('m, 'l) cell mem \<Rightarrow> 'm \<Rightarrow> 'x object_meta option) \<Rightarrow> ('m, 'l) cell mem \<Rightarrow> 'm cr_obj \<Rightarrow>
   'x golangappoperator option" where
  "cr_val mval m c = (case (mval m (co_Meta c), spec_val m (co_Spec c), status_val m (co_Status c)) of
       (Some meta, Some spec, Some status) \<Rightarrow>
         Some \<lparr>cr_TypeMeta = co_TypeMeta c, cr_Meta = meta, cr_Spec = spec, cr_Status = status\<rparr>
     | _ \<Rightarrow> None)"

definition cr_foot :: "(('m, 'l) cell mem \<Rightarrow> 'm \<Rightarrow> ptr set) \<Rightarrow> ('m, 'l) cell mem \<Rightarrow> 'm cr_obj \<Rightarrow> ptr set" where
  "cr_foot mfoot m c = mfoot m (co_Meta c) \<union> slice_foot (so_DBservers (co_Spec c)) \<union> slice_foot (st_Nodes (co_Status c))"

definition items_val ::
  "(('m, 'l) cell mem \<Rightarrow> 'm \<Rightarrow> 'x object_meta option) \<Rightarrow> ('m, 'l) cell mem \<Rightarrow> slice option \<Rightarrow>
   'x golangappoperator list option option" where
  "items_val mval m s = (case s of None \<Rightarrow> Some None
     | Some s \<Rightarrow> (case objects_at m s of None \<Rightarrow> None
        | Some xs \<Rightarrow> map_option Some (those (map (cr_val mval m) xs))))"

definition items_foot :: "(('m, 'l) cell mem \<Rightarrow> 'm \<Rightarrow> ptr set) \<Rightarrow> ('m, 'l) cell mem \<Rightarrow> slice option \<Rightarrow> ptr set" where
  "items_foot mfoot m s = (case s of None \<Rightarrow> {}
     | Some s \<Rightarrow> insert (sl_base s) (case objects_at m s of None \<Rightarrow> {} | Some xs \<Rightarrow> \<Union> (cr_foot mfoot m ` set xs)))"

definition list_val ::
  "(('m, 'l) cell mem \<Rightarrow> 'm \<Rightarrow> 'x object_meta option) \<Rightarrow> (('m, 'l) cell mem \<Rightarrow> 'l \<Rightarrow> 'v option) \<Rightarrow>
   ('m, 'l) cell mem \<Rightarrow> 'l list_obj \<Rightarrow> ('x, 'v) golangappoperator_list option" where
  "list_val mval lval m c = (case (lval m (lo_Meta c), items_val mval m (lo_Items c)) of
       (Some meta, Some items) \<Rightarrow> Some \<lparr>list_TypeMeta = lo_TypeMeta c, list_Meta = meta, Items = items\<rparr>
     | _ \<Rightarrow> None)"

definition list_foot ::
  "(('m, 'l) cell mem \<Rightarrow> 'm \<Rightarrow> ptr set) \<Rightarrow> (('m, 'l) cell mem \<Rightarrow> 'l \<Rightarrow> ptr set) \<Rightarrow>
   ('m, 'l) cell mem \<Rightarrow> 'l list_obj \<Rightarrow> ptr set" where
  "list_foot mfoot lfoot m c = lfoot m (lo_Meta c) \<union> items_foot mfoot m (lo_Items c)"

section \<open>The interface of a deep copy\<close>

definition agree :: "ptr set \<Rightarrow> 'c mem \<Rightarrow> 'c mem \<Rightarrow> bool" where
  "agree S m m' \<longleftrightarrow> (\<forall>p \<in> S. mem_load m' p = mem_load m p)"

definition above :: "nat \<Rightarrow> ptr set" where
  "above n = {p. n \<le> p}"

lemma extends_agree: "mem_extends m m' \<Longrightarrow> S \<subseteq> {..<length m} \<Longrightarrow> agree S m m'"
  by (auto simp: mem_extends_def agree_def mem_load_def)

lemma extends_length: "mem_extends m m' \<Longrightarrow> length m \<le> length m'"
proof (rule ccontr)
  assume "mem_extends m m'" "\<not> length m \<le> length m'"
  then show False using mem_extendsD [of m m' "length m'"] by (simp add: mem_load_def)
qed

lemma store_agree: "p \<notin> S \<Longrightarrow> agree S m (mem_store m p c)"
  unfolding agree_def mem_load_def mem_store_def by (metis length_list_update nth_list_update_neq)

lemma agree_Un [simp]: "agree (S \<union> T) m m' \<longleftrightarrow> agree S m m' \<and> agree T m m'"
  by (auto simp: agree_def)

locale deep_copy =
  fixes copy :: "'o \<Rightarrow> 'c mem \<Rightarrow> 'o \<times> 'c mem"
    and val :: "'c mem \<Rightarrow> 'o \<Rightarrow> 'v option"
    and foot :: "'c mem \<Rightarrow> 'o \<Rightarrow> ptr set"
  assumes foot_allocated: "val m x = Some v \<Longrightarrow> foot m x \<subseteq> {..<length m}"
    and val_local: "val m x = Some v \<Longrightarrow> agree (foot m x) m m' \<Longrightarrow> val m' x = Some v \<and> foot m' x = foot m x"
    and copied: "val m x = Some v \<Longrightarrow> copy x m = (y, m') \<Longrightarrow>
      val m' y = Some v \<and> mem_extends m m' \<and> foot m' y \<subseteq> above (length m)"
begin

lemma val_extends: "val m x = Some v \<Longrightarrow> mem_extends m m' \<Longrightarrow> val m' x = Some v \<and> foot m' x = foot m x"
  by (rule val_local) (auto intro: extends_agree dest: foot_allocated)

lemma val_store: "val m x = Some v \<Longrightarrow> p \<notin> foot m x \<Longrightarrow> val (mem_store m p c) x = Some v \<and> foot (mem_store m p c) x = foot m x"
  by (rule val_local) (auto intro: store_agree)

text \<open>The original is as before, and a write into one of the two leaves what the other stands for.\<close>

lemma independent:
  assumes x: "val m x = Some v" and "copy x m = (y, m')"
  shows "val m' x = Some v" and "foot m' x \<inter> foot m' y = {}"
    and "p \<in> foot m' y \<Longrightarrow> val (mem_store m' p c) x = Some v"
    and "p \<in> foot m' x \<Longrightarrow> val (mem_store m' p c) y = Some v"
proof -
  from copied [OF assms] have y: "val m' y = Some v" "mem_extends m m'" "foot m' y \<subseteq> above (length m)" by auto
  from val_extends [OF x y(2)] foot_allocated [OF x]
  have x': "val m' x = Some v" "foot m' x \<subseteq> {..<length m}" by auto
  show disjoint: "foot m' x \<inter> foot m' y = {}" using x'(2) y(3) by (fastforce simp: above_def)
  show "val m' x = Some v" by (fact x'(1))
  show "p \<in> foot m' y \<Longrightarrow> val (mem_store m' p c) x = Some v" using val_store [OF x'(1)] disjoint by auto
  show "p \<in> foot m' x \<Longrightarrow> val (mem_store m' p c) y = Some v" using val_store [OF y(1)] disjoint by auto
qed

end


section \<open>Slices of strings\<close>

lemma strings_at_local: "mem_load m' (sl_base s) = mem_load m (sl_base s) \<Longrightarrow> strings_at m' s = strings_at m s"
  by (simp add: strings_at_def)

lemma strings_at_allocated: "strings_at m s = Some xs \<Longrightarrow> sl_base s < length m"
  by (auto simp: strings_at_def mem_load_def split: if_splits)

lemma strings_at_length: "strings_at m s = Some xs \<Longrightarrow> length xs = sl_len s"
  by (auto simp: strings_at_def window_def split: option.splits cell.splits if_splits)

text \<open>\<^verbatim>\<open>make\<close> and \<^verbatim>\<open>copy\<close>, as both generated functions use them.\<close>

lemma make_copy:
  assumes s: "strings_at m s = Some xs" and t: "make_strings (sl_len s) m = (t, m1)"
  shows "strings_at (copy_strings t s m1) t = Some xs" and "mem_extends m (copy_strings t s m1)"
    and "sl_base t = length m"
proof -
  from t have t': "t = \<lparr>sl_base = length m, sl_off = 0, sl_len = sl_len s\<rparr>"
    and m1: "mem_new m (Strings (replicate (sl_len s) '''')) = (length m, m1)"
    by (auto simp: make_strings_def mem_new_def)
  have load: "mem_load m1 p = (if p = length m then Some (Strings (replicate (sl_len s) '''')) else mem_load m p)" for p
    using gomem.load_new [of m "Strings (replicate (sl_len s) '''')" p] m1 by simp
  have "strings_at m1 s = Some xs"
    using s strings_at_allocated [OF s] load by (simp add: strings_at_def)
  moreover note strings_at_length [OF s]
  ultimately have m2: "copy_strings t s m1 = mem_store m1 (length m) (Strings xs)"
    using load by (simp add: copy_strings_def t' overwrite_def)
  show "strings_at (copy_strings t s m1) t = Some xs"
    unfolding m2 using gomem.load_store [of m1 "length m"] load strings_at_length [OF s]
    by (simp add: strings_at_def t' window_def)
  show "mem_extends m (copy_strings t s m1)"
    unfolding m2 by (rule mem_update_copy_extends [OF m1])
  show "sl_base t = length m" by (simp add: t')
qed

lemma opt_strings_local:
  "agree (slice_foot s) m m' \<Longrightarrow> opt_strings m' s = opt_strings m s"
  by (auto simp: agree_def slice_foot_def opt_strings_def strings_at_def split: option.splits)

lemma opt_strings_allocated: "opt_strings m s = Some xs \<Longrightarrow> slice_foot s \<subseteq> {..<length m}"
  by (auto simp: opt_strings_def slice_foot_def dest: strings_at_allocated split: option.splits)

interpretation spec_copy: deep_copy Spec_DeepCopyInto spec_val "\<lambda>m s. slice_foot (so_DBservers s)"
proof (unfold_locales, goal_cases)
  case (1 m x v)
  then show ?case by (auto simp: spec_val_def dest: opt_strings_allocated)
next
  case (2 m x v m')
  then show ?case by (simp add: spec_val_def opt_strings_local)
next
  case (3 m x v y m')
  show ?case
  proof (cases "so_DBservers x")
    case None
    with 3 show ?thesis by (simp add: Spec_DeepCopyInto_def spec_val_def opt_strings_def slice_foot_def)
  next
    case (Some s)
    with 3(1) obtain xs where xs: "strings_at m s = Some xs" by (auto simp: spec_val_def opt_strings_def)
    obtain t m1 where t: "make_strings (sl_len s) m = (t, m1)" by fastforce
    with 3(2) Some have "y = x\<lparr>so_DBservers := Some t\<rparr>" "m' = copy_strings t s m1" by (simp_all add: Spec_DeepCopyInto_def)
    with 3(1) Some xs make_copy [OF xs t] show ?thesis
      by (simp add: spec_val_def opt_strings_def slice_foot_def above_def)
  qed
qed

interpretation status_copy: deep_copy Status_DeepCopyInto status_val "\<lambda>m s. slice_foot (st_Nodes s)"
proof (unfold_locales, goal_cases)
  case (1 m x v)
  then show ?case by (auto simp: status_val_def dest: opt_strings_allocated)
next
  case (2 m x v m')
  then show ?case by (simp add: status_val_def opt_strings_local)
next
  case (3 m x v y m')
  show ?case
  proof (cases "st_Nodes x")
    case None
    with 3 show ?thesis by (simp add: Status_DeepCopyInto_def status_val_def opt_strings_def slice_foot_def)
  next
    case (Some s)
    with 3(1) obtain xs where xs: "strings_at m s = Some xs" by (auto simp: status_val_def opt_strings_def)
    obtain t m1 where t: "make_strings (sl_len s) m = (t, m1)" by fastforce
    with 3(2) Some have "y = x\<lparr>st_Nodes := Some t\<rparr>" "m' = copy_strings t s m1" by (simp_all add: Status_DeepCopyInto_def)
    with 3(1) Some xs make_copy [OF xs t] show ?thesis
      by (simp add: status_val_def opt_strings_def slice_foot_def above_def)
  qed
qed


section \<open>Resources and lists of resources\<close>

lemma above_mono: "n \<le> k \<Longrightarrow> S \<subseteq> above k \<Longrightarrow> S \<subseteq> above n"
  by (auto simp: above_def)

lemma cr_val_Some: "cr_val mval m c = Some v \<longleftrightarrow> (\<exists>meta spec status. mval m (co_Meta c) = Some meta \<and>
    spec_val m (co_Spec c) = Some spec \<and> status_val m (co_Status c) = Some status \<and>
    v = \<lparr>cr_TypeMeta = co_TypeMeta c, cr_Meta = meta, cr_Spec = spec, cr_Status = status\<rparr>)"
  by (auto simp: cr_val_def split: option.splits)

lemma cr_deep_copy:
  assumes "deep_copy (ObjectMeta_DeepCopyInto pk) mval mfoot"
  shows "deep_copy (Golangappoperator_DeepCopyInto pk) (cr_val mval) (cr_foot mfoot)"
proof (rule deep_copy.intro, goal_cases)
  case (1 m x v)
  then show ?case using deep_copy.foot_allocated [OF assms] spec_copy.foot_allocated status_copy.foot_allocated
    by (auto simp: cr_val_Some cr_foot_def) blast+
next
  case (2 m x v m')
  then show ?case
    using deep_copy.val_local [OF assms, of m _ _ m'] spec_copy.val_local [of m _ _ m'] status_copy.val_local [of m _ _ m']
    by (auto simp: cr_val_Some cr_foot_def)
next
  case (3 m x v y m')
  from 3(1) obtain meta spec status where v: "mval m (co_Meta x) = Some meta" "spec_val m (co_Spec x) = Some spec"
    "status_val m (co_Status x) = Some status"
    "v = \<lparr>cr_TypeMeta = co_TypeMeta x, cr_Meta = meta, cr_Spec = spec, cr_Status = status\<rparr>"
    by (auto simp: cr_val_Some)
  obtain cm m1 where c1: "ObjectMeta_DeepCopyInto pk (co_Meta x) m = (cm, m1)" by fastforce
  obtain cs m2 where c2: "Spec_DeepCopyInto (co_Spec x) m1 = (cs, m2)" by fastforce
  obtain ct m3 where c3: "Status_DeepCopyInto (co_Status x) m2 = (ct, m3)" by fastforce
  have y: "y = x\<lparr>co_Meta := cm, co_Spec := cs, co_Status := ct\<rparr>" "m' = m3"
    using 3(2) c1 c2 c3 by (simp_all add: Golangappoperator_DeepCopyInto_def)
  from deep_copy.copied [OF assms v(1) c1] have 1: "mval m1 cm = Some meta" "mem_extends m m1" "mfoot m1 cm \<subseteq> above (length m)"
    by auto
  from spec_copy.val_extends [OF v(2) 1(2)] have "spec_val m1 (co_Spec x) = Some spec" by blast
  from spec_copy.copied [OF this c2] have 2: "spec_val m2 cs = Some spec" "mem_extends m1 m2"
    "slice_foot (so_DBservers cs) \<subseteq> above (length m1)" by auto
  from status_copy.val_extends [OF v(3) mem_extends_trans [OF 1(2) 2(2)]]
  have "status_val m2 (co_Status x) = Some status" by blast
  from status_copy.copied [OF this c3] have 3: "status_val m3 ct = Some status" "mem_extends m2 m3"
    "slice_foot (st_Nodes ct) \<subseteq> above (length m2)" by auto
  from deep_copy.val_extends [OF assms 1(1) mem_extends_trans [OF 2(2) 3(2)]] spec_copy.val_extends [OF 2(1) 3(2)]
  have 4: "mval m3 cm = Some meta" "mfoot m3 cm = mfoot m1 cm" "spec_val m3 cs = Some spec" by auto
  have le: "length m \<le> length m1" "length m \<le> length m2"
    using extends_length [OF 1(2)] extends_length [OF 2(2)] by auto
  show ?case
    using 1 2 3 4 v(4) above_mono [OF le(1)] above_mono [OF le(2)] mem_extends_trans [OF 1(2) mem_extends_trans [OF 2(2) 3(2)]]
    by (simp add: y cr_val_Some cr_foot_def)
qed

lemma those_Some: "those (map f xs) = Some ys \<longleftrightarrow> length xs = length ys \<and> (\<forall>i < length xs. f (xs ! i) = Some (ys ! i))"
proof (induction xs arbitrary: ys)
  case (Cons x xs)
  then show ?case by (cases ys) (auto simp: All_less_Suc2 split: option.splits)
qed auto

lemma objects_at_local: "mem_load m' (sl_base s) = mem_load m (sl_base s) \<Longrightarrow> objects_at m' s = objects_at m s"
  by (simp add: objects_at_def)

lemma objects_at_allocated: "objects_at m s = Some xs \<Longrightarrow> sl_base s < length m"
  by (auto simp: objects_at_def mem_load_def split: if_splits)

lemma objects_at_length: "objects_at m s = Some xs \<Longrightarrow> length xs = sl_len s"
  by (auto simp: objects_at_def window_def split: option.splits cell.splits if_splits)

lemma objects_at_extends: "objects_at m s = Some xs \<Longrightarrow> mem_extends m m' \<Longrightarrow> objects_at m' s = Some xs"
  using extends_agree [of m m' "{sl_base s}"] objects_at_allocated [of m s xs] objects_at_local [of m' s m]
  by (simp add: agree_def)

lemma extends_store_new: "mem_extends m m' \<Longrightarrow> length m \<le> q \<Longrightarrow> mem_extends m (mem_store m' q c)"
  by (auto simp: mem_extends_def mem_load_def mem_store_def split: if_splits)


text \<open>
  While the loop runs, \<open>q\<close> holds the new array and the first \<open>i\<close> of its elements are done; their
  memory lies above \<open>q\<close>.
\<close>

definition loop_inv ::
  "(('m, 'l) cell mem \<Rightarrow> 'm \<Rightarrow> 'x object_meta option) \<Rightarrow> (('m, 'l) cell mem \<Rightarrow> 'm \<Rightarrow> ptr set) \<Rightarrow>
   ('m, 'l) cell mem \<Rightarrow> 'x golangappoperator list \<Rightarrow> nat \<Rightarrow> ('m, 'l) cell mem \<Rightarrow> bool" where
  "loop_inv mval mfoot m0 vs i m \<longleftrightarrow> mem_extends m0 m \<and>
     (\<exists>ys. mem_load m (length m0) = Some (Objects ys) \<and> length ys = length vs \<and>
       (\<forall>j < i. cr_val mval m (ys ! j) = Some (vs ! j) \<and> cr_foot mfoot m (ys ! j) \<subseteq> above (Suc (length m0))))"

lemma loop_step:
  assumes meta: "deep_copy (ObjectMeta_DeepCopyInto pk) mval mfoot"
    and inv: "loop_inv mval mfoot m0 vs i m" and i: "i < length vs"
    and xs: "objects_at m0 src = Some xs" and x: "cr_val mval m0 (xs ! i) = Some (vs ! i)"
    and c: "Golangappoperator_DeepCopyInto pk (xs ! i) m = (c, m1)"
  shows "\<exists>ys. mem_load m1 (length m0) = Some (Objects ys) \<and>
    loop_inv mval mfoot m0 vs (Suc i) (mem_store m1 (length m0) (Objects (ys[i := c])))"
proof -
  note cr = cr_deep_copy [OF meta]
  let ?q = "length m0"
  from inv obtain ys where ext: "mem_extends m0 m" and ys: "mem_load m ?q = Some (Objects ys)" "length ys = length vs"
    and old: "\<And>j. j < i \<Longrightarrow> cr_val mval m (ys ! j) = Some (vs ! j) \<and> cr_foot mfoot m (ys ! j) \<subseteq> above (Suc ?q)"
    by (auto simp: loop_inv_def)
  from deep_copy.val_extends [OF cr x ext] deep_copy.copied [OF cr _ c]
  have c': "cr_val mval m1 c = Some (vs ! i)" "mem_extends m m1" "cr_foot mfoot m1 c \<subseteq> above (length m)" by auto
  have q: "?q < length m" using ys(1) by (auto simp: mem_load_def split: if_splits)
  have ys1: "mem_load m1 ?q = Some (Objects ys)" using c'(2) ys(1) by (rule mem_extendsD)
  define m2 where "m2 = mem_store m1 ?q (Objects (ys[i := c]))"
  have keep: "cr_val mval m2 z = Some w \<and> cr_foot mfoot m2 z \<subseteq> above (Suc ?q)"
    if "cr_val mval m1 z = Some w" "cr_foot mfoot m1 z \<subseteq> above (Suc ?q)" for z w
  proof -
    from that(2) have "?q \<notin> cr_foot mfoot m1 z" by (auto simp: above_def)
    from deep_copy.val_store [OF cr that(1) this] that(2) show ?thesis by (simp add: m2_def)
  qed
  have "cr_val mval m2 (ys[i := c] ! j) = Some (vs ! j) \<and> cr_foot mfoot m2 (ys[i := c] ! j) \<subseteq> above (Suc ?q)"
    if "j < Suc i" for j
  proof (cases "j = i")
    case True
    with c' i ys(2) q show ?thesis by (auto intro!: keep above_mono [OF _ c'(3)])
  next
    case False
    with that have "j < i" by simp
    with old [of j] deep_copy.val_extends [OF cr, of m _ _ m1] c'(2) \<open>j < i\<close> show ?thesis by (intro keep) auto
  qed
  moreover have "mem_extends m0 m2"
    unfolding m2_def by (rule extends_store_new [OF mem_extends_trans [OF ext c'(2)]]) simp
  moreover have "mem_load m2 ?q = Some (Objects (ys[i := c]))"
    using gomem.load_store [OF ys1] by (simp add: m2_def)
  ultimately show ?thesis using ys1 ys(2) by (auto simp: loop_inv_def m2_def)
qed

lemma items_loop_inv:
  assumes meta: "deep_copy (ObjectMeta_DeepCopyInto pk) mval mfoot"
    and xs: "objects_at m0 src = Some xs" "length xs = length vs"
    and vals: "\<And>j. j < length vs \<Longrightarrow> cr_val mval m0 (xs ! j) = Some (vs ! j)"
  shows "i \<le> length vs \<Longrightarrow> loop_inv mval mfoot m0 vs i m \<Longrightarrow>
    loop_inv mval mfoot m0 vs (length vs) (items_loop pk src (length m0) [i..<length vs] m)"
proof (induction "length vs - i" arbitrary: i m)
  case (Suc k)
  then have i: "i < length vs" by simp
  have src: "objects_at m src = Some xs"
    using Suc.prems(2) objects_at_extends [OF xs(1)] by (simp add: loop_inv_def)
  obtain c m1 where c: "Golangappoperator_DeepCopyInto pk (xs ! i) m = (c, m1)" by fastforce
  from loop_step [OF meta Suc.prems(2) i xs(1) vals [OF i] c] Suc.hyps(1)[of "Suc i"] Suc.hyps(2) i src c
  show ?case by (auto simp: upt_rec [of i])
qed simp


lemma items_val_Some: "items_val mval m s = Some v \<longleftrightarrow>
    (s = None \<and> v = None) \<or> (\<exists>sl xs vs. s = Some sl \<and> v = Some vs \<and> objects_at m sl = Some xs \<and>
      length xs = length vs \<and> (\<forall>i < length xs. cr_val mval m (xs ! i) = Some (vs ! i)))"
  by (auto simp: items_val_def those_Some split: option.splits)

lemma items_copy:
  assumes meta: "deep_copy (ObjectMeta_DeepCopyInto pk) mval mfoot"
    and v: "items_val mval m (Some s) = Some v"
    and q: "mem_new m (Objects (replicate (sl_len s) (zero_cr_obj pk))) = (q, m1)"
    and m2: "m2 = items_loop pk s q [0..<sl_len s] m1"
  shows "items_val mval m2 (Some \<lparr>sl_base = q, sl_off = 0, sl_len = sl_len s\<rparr>) = Some v \<and> mem_extends m m2 \<and>
    items_foot mfoot m2 (Some \<lparr>sl_base = q, sl_off = 0, sl_len = sl_len s\<rparr>) \<subseteq> above (length m)"
proof -
  from v obtain xs vs where v': "v = Some vs" and xs: "objects_at m s = Some xs" "length xs = length vs"
    and vals: "\<And>j. j < length vs \<Longrightarrow> cr_val mval m (xs ! j) = Some (vs ! j)"
    by (auto simp: items_val_Some)
  with objects_at_length [OF xs(1)] have len: "sl_len s = length vs" by simp
  from q have q': "q = length m" by (simp add: mem_new_def)
  have "loop_inv mval mfoot m vs 0 m1"
    using q gomem.load_new [of m "Objects (replicate (sl_len s) (zero_cr_obj pk))" q] mem_new_extends [OF q]
    by (auto simp: loop_inv_def len q')
  from items_loop_inv [OF meta xs vals _ this] have "loop_inv mval mfoot m vs (length vs) m2"
    by (simp add: m2 len q')
  then obtain ys where ys: "mem_load m2 q = Some (Objects ys)" "length ys = length vs" and ext: "mem_extends m m2"
    and each: "\<forall>j < length vs. cr_val mval m2 (ys ! j) = Some (vs ! j) \<and> cr_foot mfoot m2 (ys ! j) \<subseteq> above (Suc q)"
    by (auto simp: loop_inv_def q')
  have new: "objects_at m2 \<lparr>sl_base = q, sl_off = 0, sl_len = sl_len s\<rparr> = Some ys"
    using ys by (simp add: objects_at_def window_def len)
  have "items_foot mfoot m2 (Some \<lparr>sl_base = q, sl_off = 0, sl_len = sl_len s\<rparr>) \<subseteq> above (length m)"
    using each ys(2) new by (fastforce simp: items_foot_def above_def q' in_set_conv_nth)
  with ext each ys(2) new show ?thesis by (simp add: items_val_Some v')
qed

lemma items_allocated:
  fixes pk :: "('m, 'l) meta_copies"
  assumes "deep_copy (ObjectMeta_DeepCopyInto pk) mval mfoot" and "items_val mval m s = Some v"
  shows "items_foot mfoot m s \<subseteq> {..<length m}"
  using assms(2) deep_copy.foot_allocated [OF cr_deep_copy [OF assms(1)], of m]
  by (auto simp: items_val_Some items_foot_def in_set_conv_nth objects_at_allocated) blast

lemma items_local:
  fixes pk :: "('m, 'l) meta_copies"
  assumes "deep_copy (ObjectMeta_DeepCopyInto pk) mval mfoot" and v: "items_val mval m s = Some v"
    and agree: "agree (items_foot mfoot m s) m m'"
  shows "items_val mval m' s = Some v \<and> items_foot mfoot m' s = items_foot mfoot m s"
proof (cases s)
  case (Some sl)
  with v obtain xs vs where v': "v = Some vs" "objects_at m sl = Some xs" "length xs = length vs"
    and vals: "\<And>i. i < length xs \<Longrightarrow> cr_val mval m (xs ! i) = Some (vs ! i)" by (auto simp: items_val_Some)
  have xs: "objects_at m' sl = Some xs"
    using agree v'(2) objects_at_local [of m' sl m] by (simp add: Some items_foot_def agree_def)
  have each: "cr_val mval m' (xs ! i) = Some (vs ! i) \<and> cr_foot mfoot m' (xs ! i) = cr_foot mfoot m (xs ! i)"
    if i: "i < length xs" for i
    using agree i v'(2) by (intro deep_copy.val_local [OF cr_deep_copy [OF assms(1)]] vals)
      (auto simp: Some items_foot_def agree_def)
  then have "cr_foot mfoot m' x = cr_foot mfoot m x" if "x \<in> set xs" for x
    using that by (auto simp: in_set_conv_nth)
  with xs each v' show ?thesis by (auto simp: Some items_val_Some items_foot_def)
qed (use v in \<open>simp add: items_val_Some items_foot_def\<close>)


lemma list_val_Some: "list_val mval lval m c = Some v \<longleftrightarrow> (\<exists>meta items. lval m (lo_Meta c) = Some meta \<and>
    items_val mval m (lo_Items c) = Some items \<and>
    v = \<lparr>list_TypeMeta = lo_TypeMeta c, list_Meta = meta, Items = items\<rparr>)"
  by (auto simp: list_val_def split: option.splits)

lemma list_deep_copy:
  fixes pk :: "('m, 'l) meta_copies"
  assumes om: "deep_copy (ObjectMeta_DeepCopyInto pk) mval mfoot" and lm: "deep_copy (ListMeta_DeepCopyInto pk) lval lfoot"
  shows "deep_copy (List_DeepCopyInto pk) (list_val mval lval) (list_foot mfoot lfoot)"
proof (rule deep_copy.intro, goal_cases)
  case (1 m x v)
  then show ?case using deep_copy.foot_allocated [OF lm, of m] items_allocated [OF om, of m]
    by (auto simp: list_val_Some list_foot_def) blast+
next
  case (2 m x v m')
  then show ?case using deep_copy.val_local [OF lm, of m _ _ m'] items_local [OF om, of m _ _ m']
    by (auto simp: list_val_Some list_foot_def)
next
  case (3 m x v y m')
  from 3(1) obtain meta items where v: "lval m (lo_Meta x) = Some meta" "items_val mval m (lo_Items x) = Some items"
    "v = \<lparr>list_TypeMeta = lo_TypeMeta x, list_Meta = meta, Items = items\<rparr>" by (auto simp: list_val_Some)
  obtain cm m1 where c1: "ListMeta_DeepCopyInto pk (lo_Meta x) m = (cm, m1)" by fastforce
  from deep_copy.copied [OF lm v(1) c1] have 1: "lval m1 cm = Some meta" "mem_extends m m1" "lfoot m1 cm \<subseteq> above (length m)"
    by auto
  show ?case
  proof (cases "lo_Items x")
    case None
    with 3(2) c1 v 1 show ?thesis
      by (auto simp: List_DeepCopyInto_def list_val_Some items_val_Some list_foot_def items_foot_def)
  next
    case (Some s)
    let ?s = "\<lambda>q. Some \<lparr>sl_base = q, sl_off = 0, sl_len = sl_len s\<rparr>"
    obtain q m2 where q: "mem_new m1 (Objects (replicate (sl_len s) (zero_cr_obj pk))) = (q, m2)" by fastforce
    with 3(2) c1 Some have y: "y = x\<lparr>lo_Meta := cm, lo_Items := ?s q\<rparr>"
      and m': "m' = items_loop pk s q [0..<sl_len s] m2" by (simp_all add: List_DeepCopyInto_def Let_def)
    have "items_val mval m1 (Some s) = Some items"
      using items_local [OF om v(2), of m1] items_allocated [OF om v(2)] extends_agree [OF 1(2)] by (simp add: Some)
    from items_copy [OF om this q m'] have 2: "items_val mval m' (?s q) = Some items" "mem_extends m1 m'"
      "items_foot mfoot m' (?s q) \<subseteq> above (length m1)" by auto
    from deep_copy.val_extends [OF lm 1(1) 2(2)] have "lval m' cm = Some meta" "lfoot m' cm = lfoot m1 cm" by auto
    with 1 2 v(3) above_mono [OF extends_length [OF 1(2)] 2(3)] mem_extends_trans [OF 1(2) 2(2)]
    show ?thesis by (simp add: y list_val_Some list_foot_def)
  qed
qed

section \<open>Copies behind pointers\<close>

text \<open>
  \<open>p\<close> and \<open>q\<close> point to structs that stand for \<open>v\<close>, and no write into the memory of one of them, be it
  the struct or what its slices refer to, is seen through the other.
\<close>

definition independent_structs ::
  "(('m, 'l) cell mem \<Rightarrow> 'o \<Rightarrow> 'v option) \<Rightarrow> (('m, 'l) cell mem \<Rightarrow> 'o \<Rightarrow> ptr set) \<Rightarrow> ('o \<Rightarrow> ('m, 'l) cell) \<Rightarrow>
   ('m, 'l) cell mem \<Rightarrow> ptr \<Rightarrow> ptr \<Rightarrow> 'v \<Rightarrow> bool" where
  "independent_structs val foot put m p q v \<longleftrightarrow>
     (\<exists>x y. mem_load m p = Some (put x) \<and> val m x = Some v \<and> mem_load m q = Some (put y) \<and> val m y = Some v \<and>
        (\<forall>a \<in> insert q (foot m y). \<forall>c. mem_load (mem_store m a c) p = Some (put x) \<and> val (mem_store m a c) x = Some v) \<and>
        (\<forall>a \<in> insert p (foot m x). \<forall>c. mem_load (mem_store m a c) q = Some (put y) \<and> val (mem_store m a c) y = Some v))"

lemma mem_load_store_other: "a \<noteq> p \<Longrightarrow> mem_load (mem_store m a c) p = mem_load m p"
  by (simp add: mem_load_def mem_store_def)

lemma independent_structsI:
  assumes dc: "deep_copy into val foot"
    and p: "mem_load m p = Some (put x)" "val m x = Some v" "insert p (foot m x) \<subseteq> {..<n}"
    and q: "mem_load m q = Some (put y)" "val m y = Some v" "insert q (foot m y) \<subseteq> above n"
  shows "independent_structs val foot put m p q v"
proof -
  have apart: "insert p (foot m x) \<inter> insert q (foot m y) = {}" using p(3) q(3) by (fastforce simp: above_def)
  have "mem_load (mem_store m a c) p = Some (put x) \<and> val (mem_store m a c) x = Some v"
    if "a \<in> insert q (foot m y)" for a c
    using that apart p(1) deep_copy.val_store [OF dc p(2), of a c] mem_load_store_other [of a p m c] by auto
  moreover have "mem_load (mem_store m a c) q = Some (put y) \<and> val (mem_store m a c) y = Some v"
    if "a \<in> insert p (foot m x)" for a c
    using that apart q(1) deep_copy.val_store [OF dc q(2), of a c] mem_load_store_other [of a q m c] by auto
  ultimately show ?thesis unfolding independent_structs_def using p(1,2) q(1,2) by blast
qed

lemma copy_cell_ok:
  assumes dc: "deep_copy into val foot" and get: "\<And>x. get (put x) = Some x"
    and p: "mem_load m p = Some (put x)" and v: "val m x = Some v"
    and run: "copy_cell get put zero into (Some p) m = (r, m')"
  shows "\<exists>q. r = Some q \<and> mem_extends m m' \<and> independent_structs val foot put m' p q v"
proof -
  obtain m1 where new: "mem_new m (put zero) = (length m, m1)" and len: "length m1 = Suc (length m)"
    by (simp add: mem_new_def)
  have ext1: "mem_extends m m1" by (rule mem_new_extends [OF new])
  obtain y m2 where into: "into x m1 = (y, m2)" by fastforce
  from run new mem_extendsD [OF ext1 p] into get have r: "r = Some (length m)" "m' = mem_store m2 (length m) (put y)"
    by (simp_all add: copy_cell_def)
  from deep_copy.val_extends [OF dc v ext1] have "val m1 x = Some v" by blast
  from deep_copy.copied [OF dc this into] have y: "val m2 y = Some v" "mem_extends m1 m2" "foot m2 y \<subseteq> above (Suc (length m))"
    by (simp_all add: len)
  then have "length m \<notin> foot m2 y" by (auto simp: above_def)
  from deep_copy.val_store [OF dc y(1) this] y(3)
  have y': "val m' y = Some v" "foot m' y \<subseteq> above (length m)" by (auto simp: r above_def)
  have ext: "mem_extends m m'" unfolding r by (rule extends_store_new [OF mem_extends_trans [OF ext1 y(2)]]) simp
  have "length m < length m2" using extends_length [OF y(2)] len by simp
  then have q: "mem_load m' (length m) = Some (put y)" by (simp add: r mem_load_def mem_store_def)
  from deep_copy.val_extends [OF dc v ext] deep_copy.foot_allocated [OF dc v] p
  have x: "val m' x = Some v" "insert p (foot m' x) \<subseteq> {..<length m}" by (auto simp: mem_load_def split: if_splits)
  from independent_structsI [where put = put, OF dc mem_extendsD [OF ext p] x q y'(1)] y'(2)
  show ?thesis using ext by (simp add: r above_def)
qed


section \<open>Properties\<close>

text \<open>
  For the witnesses: metadata without references, which a plain assignment copies, and a memory with
  a list of one resource whose database servers are the last two of an array of three.
\<close>

definition plain_metas :: "(nat object_meta, unit) meta_copies" where
  "plain_metas = \<lparr>zeroObjectMeta = zero_meta, zeroListMeta = (),
     ObjectMeta_DeepCopyInto = (\<lambda>x m. (x, m)), ListMeta_DeepCopyInto = (\<lambda>x m. (x, m))\<rparr>"

definition sample_cr_obj :: "nat object_meta cr_obj" where
  "sample_cr_obj = \<lparr>co_TypeMeta = \<lparr>type_Kind = ''Golangappoperator'', type_APIVersion = ''v1alpha1''\<rparr>,
     co_Meta = zero_meta, co_Spec = zero_spec_obj\<lparr>so_DBservers := Some \<lparr>sl_base = 0, sl_off = 1, sl_len = 2\<rparr>\<rparr>,
     co_Status = \<lparr>st_Nodes = None\<rparr>\<rparr>"

definition sample_list_obj :: "unit list_obj" where
  "sample_list_obj = \<lparr>lo_TypeMeta = \<lparr>type_Kind = ''List'', type_APIVersion = ''v1alpha1''\<rparr>, lo_Meta = (),
     lo_Items = Some \<lparr>sl_base = 1, sl_off = 0, sl_len = 1\<rparr>\<rparr>"

definition sample_cells :: "(nat object_meta, unit) cell mem" where
  "sample_cells = [Strings [''a'', ''b'', ''c''], Objects [sample_cr_obj], CrCell sample_cr_obj, ListCell sample_list_obj]"

abbreviation sample_spec_val :: golangappoperator_spec where
  "sample_spec_val \<equiv> \<lparr>Size = 0, Image = '''', PostgresqlDB = False, DBservers = Some [''b'', ''c''],
     Database = '''', DBuser = '''', DBpass = ''''\<rparr>"

abbreviation sample_cr_val :: "nat golangappoperator" where
  "sample_cr_val \<equiv> \<lparr>cr_TypeMeta = \<lparr>type_Kind = ''Golangappoperator'', type_APIVersion = ''v1alpha1''\<rparr>,
     cr_Meta = zero_meta, cr_Spec = sample_spec_val, cr_Status = \<lparr>Nodes = None\<rparr>\<rparr>"

lemma plain_metas_copy:
  "deep_copy (ObjectMeta_DeepCopyInto plain_metas) (\<lambda>m. Some) (\<lambda>m x. {})"
  "deep_copy (ListMeta_DeepCopyInto plain_metas) (\<lambda>m. Some) (\<lambda>m x. {})"
  by (unfold_locales; simp add: plain_metas_def)+

lemma sample_cells_vals:
  "mem_load sample_cells 2 = Some (CrCell sample_cr_obj)" "cr_val (\<lambda>m. Some) sample_cells sample_cr_obj = Some sample_cr_val"
  "mem_load sample_cells 3 = Some (ListCell sample_list_obj)"
  "list_val (\<lambda>m. Some) (\<lambda>m. Some) sample_cells sample_list_obj = Some \<lparr>list_TypeMeta =
     \<lparr>type_Kind = ''List'', type_APIVersion = ''v1alpha1''\<rparr>, list_Meta = (), Items = Some [sample_cr_val]\<rparr>"
  by (simp_all add: sample_cells_def sample_cr_obj_def sample_list_obj_def mem_load_def cr_val_def spec_val_def status_val_def
      opt_strings_def strings_at_def window_def zero_spec_obj_def list_val_def items_val_def objects_at_def)

text \<open>
  C28: \<^verbatim>\<open>(*GolangappoperatorList).DeepCopy\<close> is a deep copy, given that the copies of the metadata are: the new
  list stands for the same value, item by item and with nil and empty slices kept apart, nothing
  in memory has changed, and no write through one of the two lists is seen through the other.
\<close>

theorem List_DeepCopy_ok:
  assumes "deep_copy (ObjectMeta_DeepCopyInto pk) mval mfoot" and "deep_copy (ListMeta_DeepCopyInto pk) lval lfoot"
    and "mem_load m p = Some (ListCell x)" and "list_val mval lval m x = Some v"
    and "List_DeepCopy pk (Some p) m = (r, m')"
  shows "\<exists>q. r = Some q \<and> mem_extends m m' \<and>
    independent_structs (list_val mval lval) (list_foot mfoot lfoot) ListCell m' p q v"
  using assms(5) unfolding List_DeepCopy_def
  by (rule copy_cell_ok [where put = ListCell, OF list_deep_copy [OF assms(1,2)] get_List.simps(1) assms(3,4)])

theorem List_DeepCopy_ok_witness:
  "\<exists>q. fst (List_DeepCopy plain_metas (Some 3) sample_cells) = Some q"
  using List_DeepCopy_ok [OF plain_metas_copy sample_cells_vals(3,4) surjective_pairing] by blast

text \<open>
  \<^verbatim>\<open>(*Golangappoperator).DeepCopyObject\<close> gives an object of the dynamic type \<^verbatim>\<open>*Golangappoperator\<close> whose
  struct is a deep copy, given that the copy of the metadata is.
\<close>

theorem Golangappoperator_DeepCopyObject_ok:
  assumes "deep_copy (ObjectMeta_DeepCopyInto pk) mval mfoot"
    and "mem_load m p = Some (CrCell x)" and "cr_val mval m x = Some v"
    and "Golangappoperator_DeepCopyObject pk (Some p) m = (r, m')"
  shows "\<exists>q. r = Some (Golangappoperator_obj q) \<and> mem_extends m m' \<and>
    independent_structs (cr_val mval) (cr_foot mfoot) CrCell m' p q v"
proof -
  obtain r' m1 where c: "Golangappoperator_DeepCopy pk (Some p) m = (r', m1)" by fastforce
  then have "\<exists>q. r' = Some q \<and> mem_extends m m1 \<and> independent_structs (cr_val mval) (cr_foot mfoot) CrCell m1 p q v"
    unfolding Golangappoperator_DeepCopy_def
    by (rule copy_cell_ok [where put = CrCell, OF cr_deep_copy [OF assms(1)] get_Cr.simps(1) assms(2,3)])
  with assms(4) c show ?thesis by (auto simp: Golangappoperator_DeepCopyObject_def)
qed

theorem Golangappoperator_DeepCopyObject_ok_witness:
  "\<exists>q. fst (Golangappoperator_DeepCopyObject plain_metas (Some 2) sample_cells) = Some (Golangappoperator_obj q)"
  using Golangappoperator_DeepCopyObject_ok [OF plain_metas_copy(1) sample_cells_vals(1,2) surjective_pairing] by blast

text \<open>
  the deep copies of a nil pointer are nil and touch no memory; \<^verbatim>\<open>DeepCopyObject\<close> then
  returns the nil interface, not an interface that holds a nil pointer.
\<close>

theorem DeepCopy_nil:
  "Spec_DeepCopy None m = (None, m) \<and> Status_DeepCopy None m = (None, m) \<and>
   Golangappoperator_DeepCopy pk None m = (None, m) \<and> List_DeepCopy pk None m = (None, m) \<and>
   Golangappoperator_DeepCopyObject pk None m = (None, m) \<and> List_DeepCopyObject pk None m = (None, m)"
  by (simp add: Spec_DeepCopy_def Status_DeepCopy_def Golangappoperator_DeepCopy_def List_DeepCopy_def copy_cell_def
      Golangappoperator_DeepCopyObject_def List_DeepCopyObject_def)

end
