(* ===== verification/Spec2Isabelle.thy ===== *)
theory Spec2Isabelle
  imports Review_Decoding Mutating_Webhook_Log Process_Exit Controller_Cache Operator_Codec Operator_Log Deep_Copy
begin

text \<open>
  \<^bold>\<open>The Go programs of eks-cluster.\<close> The repository holds the Terraform and Helm code of a Kubernetes cluster and
  six small Go programs that run in it. This development models the Go code, all of its functions,
  and states what makes each program correct.

  \<^item> \<^verbatim>\<open>kubewebhook\<close>: an admission webhook with a validating and a mutating endpoint. A request comes in as HTTP
    (\<^verbatim>\<open>server.go\<close>), is decoded to an admission review, handed to an \<^verbatim>\<open>Admitter\<close> (\<^verbatim>\<open>pkg/admission\<close>), which
    asks the validators (\<^verbatim>\<open>pkg/validation\<close>) or the mutators (\<^verbatim>\<open>pkg/mutation\<close>), and goes back as a review with a
    verdict or a JSON patch. \<^verbatim>\<open>cert.go\<close> makes its certificates and \<^verbatim>\<open>main.go\<close> starts its two listeners.
  \<^item> \<^verbatim>\<open>mutatingwebhook\<close>: a smaller webhook that labels new pods, with JSON types of its own.
  \<^item> \<^verbatim>\<open>golang-app-operator\<close>: a controller that keeps a \<^verbatim>\<open>Deployment\<close> at the size its resource asks for and
    lists the pods in the status; generated deep copies; a \<^verbatim>\<open>main\<close> that starts it.
  \<^item> \<^verbatim>\<open>golang-app-v1\<close> and \<^verbatim>\<open>golang-app-v2\<close>: the service the operator runs. \<^verbatim>\<open>goprometheus\<close>: two counted pages.

  \<^bold>\<open>Theories and sources.\<close> Definitions have the names of the Go functions, with a prefix where two packages
  share a name.

  \<^item> \<open>Prelude\<close>: outcomes of a call (a value, an error, a panic, no return), texts made with \<^verbatim>\<open>fmt\<close>, Go maps,
    memory behind pointers; locale \<open>memory\<close>.
  \<^item> \<open>Go_Strings\<close>, \<open>Base64\<close>, \<open>Utf8\<close>, \<open>Json\<close>, \<open>Go_Http\<close>: what the code uses of Go's standard library
    (\<^verbatim>\<open>strings\<close>, \<^verbatim>\<open>strconv\<close>, \<^verbatim>\<open>encoding/base64\<close>, \<^verbatim>\<open>unicode/utf8\<close>, \<^verbatim>\<open>encoding/json\<close>, \<^verbatim>\<open>net/http\<close>); locale \<open>json_codec\<close>.
  \<^item> \<open>Kube_Types\<close>, \<open>Operator_Types\<close>: the parts of the API objects that the code reads or writes, and the
    types of \<^verbatim>\<open>api/v1alpha1\<close>.
  \<^item> \<open>Validation\<close> (\<^verbatim>\<open>pkg/validation\<close>): locale \<open>pod_validator_family\<close> for the interface \<^verbatim>\<open>podValidator\<close>.
  \<^item> \<open>Mutation\<close> (\<^verbatim>\<open>pkg/mutation\<close>): locale \<open>pod_mutator_family\<close> for the interface \<^verbatim>\<open>podMutator\<close>; pods are in
    memory, since a mutator must not write the pod it was given.
  \<^item> \<open>Admission\<close> (\<^verbatim>\<open>pkg/admission\<close>), \<open>Webhook_Server\<close> (\<^verbatim>\<open>server.go\<close>, routes of \<^verbatim>\<open>main.go\<close>),
    \<open>Webhook_Log\<close> (what all of them log and print, function by function, with the names of validators and mutators),
    \<open>Cert\<close> (\<^verbatim>\<open>cert.go\<close>, and \<^verbatim>\<open>certsetup\<close> of \<^verbatim>\<open>mutatingwebhook/main.go\<close>), \<open>Startup\<close> (both \<^verbatim>\<open>main\<close> functions).
  \<^item> \<open>Mutating_Webhook\<close> (\<^verbatim>\<open>mutatingwebhook/types.go\<close>, \<^verbatim>\<open>server.go\<close>): decoding of the body included; \<open>Review_Decoding\<close>
    compares what is decoded with the members of the body by name; \<open>Mutating_Webhook_Log\<close> has what it prints.
  \<^item> \<open>Reconcile\<close> (the controller, one reconciliation against any API server, and what it watches), \<open>Reconcile_Cluster\<close> (many of them
    against a cluster that stores what the schema accepts, interleaved with changes of pods), \<open>Controller\<close> (all resources,
    with the queue of pending keys that its watches fill, users, restarts and an API server that fails but whose reads say what it has; locales \<open>api_server\<close> and
    \<open>cluster\<close>, the second giving the first), \<open>Controller_Cache\<close> (the same with reads from a cache that is behind the
    server, timers and watch events; locale \<open>cached_server\<close>), \<open>Operator_Log\<close> (what the controller and \<^verbatim>\<open>main\<close> log), \<open>Deep_Copy\<close>
    (\<^verbatim>\<open>zz_generated.deepcopy.go\<close>, slices as references to arrays), \<open>Operator_Json\<close> (the JSON tags of the types, and the
    schema of \<^verbatim>\<open>config/crd/bases\<close>), \<open>Operator_Codec\<close> (whole resources and lists of them), \<open>Manager_Main\<close> (\<^verbatim>\<open>main.go\<close> with the ways \<^verbatim>\<open>flag.Parse\<close> and \<^verbatim>\<open>GetConfigOrDie\<close> end it,
    \<^verbatim>\<open>SetupWithManager\<close>, the registration of the types).
  \<^item> \<open>Golang_App\<close> (\<^verbatim>\<open>golang-app-v1\<close>; locale \<open>event_model\<close> for the interface \<^verbatim>\<open>Eventmodel\<close>),
    \<open>Golang_App_V2\<close> (\<^verbatim>\<open>golang-app-v2\<close>, with its own types, and histories of requests to either), \<open>Hello_Metrics\<close> (\<^verbatim>\<open>goprometheus\<close>).
  \<^item> \<open>Process_Exit\<close>: how the programs end when a listener fails, the last lines of their \<^verbatim>\<open>main\<close> functions.
  \<^item> This theory: what holds of programs together.

  \<^bold>\<open>What is shown.\<close>

  \<^item> \<^verbatim>\<open>kubewebhook\<close>: the verdict and the patch from HTTP request to HTTP response, with every status; the pods let in
    and the reason of a refusal; the mutators refine a specification on values, leave the original pod alone, are
    idempotent and may run in any order; bounds on what they add; the last thing logged is what is answered, as an
    error exactly if it is one.
  \<^item> Both webhooks: a chain of trust from \<^verbatim>\<open>certsetup\<close> to what \<^verbatim>\<open>getCA\<close> hands out; what is decoded from any JSON object, other, missing and
    null members included, is what its members say by name; answers are well-formed JSON; what the patch does to a pod.
  \<^item> Operator: every reconciliation makes one of the call sequences of a protocol and stops at the first
    failure; on a cluster that works a few reconciliations bring the deployment and the status to where they should be, under
    interleaved pod changes, unless there are no pods while the status has nodes: the schema refuses the status
    that is then written, and reconciling fails for ever; a reconciliation touches its own resource and deployment only; whatever
    happens to resources and calls, a resource that is not pending has the deployment it asks for, while nobody else
    changes that, if reads say what the server has; the queue drains within three reconciliations per key; what the controller does not
    notice, as it does not watch it; reads from an old cache do no harm, and the deployments and the nodes in the status are right all
    the same if the last reconciliation of a key sees the replicas and the pods that there are, and the deployments may be wrong for
    good if not; the log says what was done and
    what failed; resources and lists of them survive JSON; deep copies share no memory; start-up order; and the pods of the operator are refused by \<^verbatim>\<open>kubewebhook\<close>.
  \<^item> Services: answers under interleaved writes of the shared event; versions 1 and 2 answer every history of requests
    alike but for the greeting; the counter counts the pages served.
  \<^item> All programs: what keeps the process alive, and with which status it ends.

  \<^bold>\<open>Bounds, termination, fuel.\<close> There is no fuel. Every loop is structural recursion or has a measure (the work
  queue has the number of reconciliations that pending keys may still need), but for the loop of
  \<^verbatim>\<open>minLifespanTolerations.Mutate\<close>: it counts a 64-bit integer down to a bound taken from a label, and does not end when
  that is the smallest integer. It is a \<^theory_text>\<open>partial_function\<close>, \<open>None\<close> being a run that never returns, and
  the labels for which it returns are characterised exactly. Integers have the width they have in Go
  (\<open>64 word\<close> for \<^verbatim>\<open>int\<close> on the target, \<open>32 word\<close> for \<^verbatim>\<open>int32\<close>). The JSON scanner stops at 10000 nested
  values, as Go's does; the theorems on texts hold for the values that occur, whose depth is at most 6, and for
  whole resources as long as their metadata stay four levels below the limit.

  \<^bold>\<open>Code outside the repository\<close> is an argument: the fields of the records \<open>mutation_pkgs\<close>,
  \<open>admission_pkgs\<close>, \<open>server_pkgs\<close>, \<open>client\<close>, \<open>crypto\<close>, \<open>runtime_pkgs\<close> and \<open>viper\<close>, the functions
  \<open>render_JSON\<close>, \<open>inc\<close> and \<open>metrics\<close>, the router of chi, the text of an \<^verbatim>\<open>EnvVar\<close> (\<open>show_env\<close>) and of a request (\<open>show_request\<close>), and the state \<open>'s\<close> those work on. The work
  queue of controller-runtime is the step relation \<open>ctrl\<close>: keys are pending, those whose change \<open>controller_watches\<close> asks to be told of, and any may be next. In \<open>loop\<close> the queue, its timers and the
  watch events to come are told apart. What a machine does to listening sockets is a list of errors, \<open>returns\<close>. Where a theorem relies on one (a deep copy
  equals its original, \<^verbatim>\<open>SetControllerReference\<close> leaves the spec alone, the codec of reviews succeeds), that is
  a hypothesis of the theorem, and its witness gives a function for which it holds.

  \<^bold>\<open>Not modelled.\<close> The level at which log entries are shown, the entries at start-up and the lines that
  \<^verbatim>\<open>goprometheus\<close> prints; time, so that a timer or a delay is a step that is taken later; sockets and TLS beyond the addresses,
  certificates and errors of listeners;
  the browser page of a redirect; the wording of JSON errors and of \<^verbatim>\<open>%q\<close>, which are arguments or kept with their
  operand; how \<^verbatim>\<open>flag.Parse\<close> reads arguments, of which only the outcome counts; the capacity of a slice beyond its length, which a decoder
  of a member that is there three times could show; fields of API objects that no code reads, which are one opaque value per object; goroutines other than by
  interleaving of steps; \<^verbatim>\<open>suite_test.go\<close>, which
  starts a test environment and asserts nothing; everything that is not Go but the schema of the resource (Terraform, Helm
  charts, manifests, scripts).
\<close>

section \<open>Mutation, then validation\<close>

lemma meta_mutated [simp]:
  "pod_Meta (add_env v pod) = pod_Meta pod" "pod_Meta (add_tolerations ts pod) = pod_Meta pod"
  by (simp_all add: add_env_def add_tolerations_def)

lemma meta_set_effect: "set_effect M pod = Ok pod' \<Longrightarrow> pod_Meta pod' = pod_Meta pod"
  by (auto simp: set_effect_def Let_def and_then_Ok_iff split: if_splits)

lemma ValidatePod_meta: "pod_Meta pod' = pod_Meta pod \<Longrightarrow> ValidatePod pod' = ValidatePod pod"
proof -
  assume "pod_Meta pod' = pod_Meta pod"
  then have "validator_Validate v pod' = validator_Validate v pod" for v
    by (cases v) (simp_all add: validator_defs)
  then have "run_validations validator_Validate vs pod' = run_validations validator_Validate vs pod" for vs
    by (induction vs) (auto split: prod.split option.split)
  with \<open>pod_Meta pod' = pod_Meta pod\<close> show ?thesis by (simp only: ValidatePod_def)
qed

text \<open>
  C22: mutation does not change the verdict. The API server calls the mutating endpoint first and validates what comes
  out: whatever mutators have run, in whatever order, \<^verbatim>\<open>ValidatePod\<close> gives the pod they return the verdict, the reason
  and the error that it gives the pod they were given.
\<close>

theorem mutation_keeps_verdict:
  assumes "copies pkgs" and "mem_load m p = Some pod"
    and "apply_mutations (mutator_Mutate pkgs) mus m p = Ok (q, m')"
  shows "\<exists>pod'. mem_load m' q = Some pod' \<and> ValidatePod pod' = ValidatePod pod"
proof -
  from pod_outcome_apply [OF assms(1,2), of mus] assms(3) obtain pod'
    where "mem_load m' q = Some pod'" and "set_effect (set mus) pod = Ok pod'"
    by (cases "set_effect (set mus) pod") (auto simp: pod_outcome_def)
  with ValidatePod_meta [OF meta_set_effect] show ?thesis by blast
qed

theorem mutation_keeps_verdict_witness:
  "\<exists>q m' pod'. apply_mutations (mutator_Mutate sample_pkgs) [injectEnv, minLifespanTolerations] [lifespan_pod ''12''] 0 = Ok (q, m') \<and>
    mem_load m' q = Some pod' \<and> ValidatePod pod' = ValidatePod (lifespan_pod ''12'')"
proof -
  have "pod_outcome (apply_mutations (mutator_Mutate sample_pkgs) [injectEnv, minLifespanTolerations] [lifespan_pod ''12''] 0) \<noteq> Panic"
  and "\<exists>pod'. pod_outcome (apply_mutations (mutator_Mutate sample_pkgs) [injectEnv, minLifespanTolerations] [lifespan_pod ''12''] 0) = Ok pod'"
    by (simp_all add: pod_outcome_apply [OF copies_sample lifespan_pod_loaded] set_effect_def wanted_lifespan_pod_12
        del: apply_mutations.simps)
  then obtain q m' where
    r: "apply_mutations (mutator_Mutate sample_pkgs) [injectEnv, minLifespanTolerations] [lifespan_pod ''12''] 0 = Ok (q, m')"
    by (auto simp: pod_outcome_def and_then_Ok_iff simp del: apply_mutations.simps)
  from mutation_keeps_verdict [OF copies_sample lifespan_pod_loaded r] r show ?thesis by blast
qed

section \<open>The operator behind the webhook\<close>

lemma operator_labels:
  assumes "\<And>m d. dep_Spec (fst (SetControllerReference c m d)) = dep_Spec d"
  shows "meta_Labels (tmpl_Meta (dep_Template (dep_Spec (deploymentForGolangappoperatored c cr)))) =
    labelsForGolangappoperator (meta_Name (cr_Meta cr))"
  by (simp add: deploymentForGolangappoperatored_def Let_def assms)

text \<open>
  C23: the operator cannot run where \<^verbatim>\<open>kubewebhook\<close> validates. A pod made from the template of the operator's deployment has
  the labels of that template and what the replica set adds, \<^verbatim>\<open>pod-template-hash\<close>; whatever its name, its spec and
  the resource are, the review that holds it is answered without an error and refuses it with status 403.
\<close>

theorem operator_pods_denied:
  assumes "\<And>m d. dep_Spec (fst (SetControllerReference c m d)) = dep_Spec d"
    and "meta_Labels (tmpl_Meta (dep_Template (dep_Spec (deploymentForGolangappoperatored c cr)))) = Some labels"
    and "pod_Labels pod = Some ((''pod-template-hash'', hash) # labels)"
    and "Admitter_Pod pkgs request = Inr pod"
  shows "ValidatePodReview pkgs request = (reviewResponse (req_UID request) False StatusForbidden (verdict_reason pod), None) \<and>
    verdict_reason pod \<in> {[Lit ''pod name contains '', Quoted ''offensive''], [Lit ''pod labels does not contain managedby label'']}"
proof -
  from assms(2,3) operator_labels [OF assms(1), of cr] have l: "pod_Labels pod = Some [(''pod-template-hash'', hash),
      (''app'', ''golangappoperatored''), (''golangappoperatored_cr'', meta_Name (cr_Meta cr))]"
    by (simp add: labelsForGolangappoperator_def)
  then have "gomap_get (pod_Labels pod) ''managedby'' = None" "gomap_len (pod_Labels pod) \<noteq> 0"
    by (simp_all add: gomap_simps gomap_len_def gomap_entries_def)
  then show ?thesis
    by (simp add: ValidatePodReview_pod [OF assms(4)] pod_admissible_def verdict_reason_def)
qed

definition operator_pod :: "nat pod" where
  "operator_pod = sample_pod ''app-1'' [(''pod-template-hash'', ''7f''), (''app'', ''golangappoperatored''), (''golangappoperatored_cr'', ''app'')]"

theorem operator_pods_denied_witness:
  "ValidatePodReview (sample_server_pkgs\<lparr>UnmarshalPod := (\<lambda>raw. Inr operator_pod)\<rparr>) (sample_request ''raw'') =
    (reviewResponse ''u-1'' False StatusForbidden [Lit ''pod labels does not contain managedby label''], None)"
proof -
  have labels: "meta_Labels (tmpl_Meta (dep_Template (dep_Spec (deploymentForGolangappoperatored (sample_client None) sample_cr)))) =
      Some [(''app'', ''golangappoperatored''), (''golangappoperatored_cr'', ''app'')]"
    by (subst operator_labels) (simp_all add: sample_client_def labelsForGolangappoperator_def sample_cr_def)
  have pod: "pod_Labels operator_pod = Some ((''pod-template-hash'', ''7f'') # [(''app'', ''golangappoperatored''), (''golangappoperatored_cr'', ''app'')])"
    by (simp add: operator_pod_def sample_defs)
  have decoded: "Admitter_Pod (sample_server_pkgs\<lparr>UnmarshalPod := (\<lambda>raw. Inr operator_pod)\<rparr>) (sample_request ''raw'') = Inr operator_pod"
    by (simp add: Admitter_Pod_Inr) (simp add: sample_request_def)
  have "verdict_reason operator_pod \<noteq> [Lit ''pod name contains '', Quoted ''offensive'']"
    by (simp add: verdict_reason_def operator_pod_def sample_defs gomap_simps gomap_len_def gomap_entries_def
        str_contains_sublist [symmetric])
  with operator_pods_denied [OF _ labels pod decoded] show ?thesis
    by (simp add: sample_client_def) (simp add: sample_request_def)
qed

text \<open>
  The port that the operator's deployment declares is the one that the service listens on, whose image the deployment
  names, when it is started without flags.
\<close>

theorem operator_port_served:
  assumes "\<And>m d. dep_Spec (fst (SetControllerReference c m d)) = dep_Spec d"
  shows "\<exists>con port. spec_Containers (tmpl_Spec (dep_Template (dep_Spec (deploymentForGolangappoperatored c cr)))) = [con] \<and>
    con_Ports con = [port] \<and> srv_Addr (main_v1 None) = '':'' @ itoa (ucast (port_ContainerPort port))"
  by (simp add: deploymentForGolangappoperatored_def Let_def assms zero_pod_spec_def zero_container_def main_v1_def app_Addr_def
      default_port_def)

end
